(* ===== verification/ErrState.thy ===== *)
theory ErrState
  imports GoLib
begin

text \<open>
  Stateful Go code that may fail: a function of the state that returns an error (\<open>Inl\<close>) or a
  value (\<open>Inr\<close>) together with the next state. A Go function \<open>func (...) (T, error)\<close> that reads
  or writes shared state is such a function; the state reached before an early return is kept,
  as it is in Go. \<open>valid P m Q E\<close> is a triple: from a state satisfying \<open>P\<close>, a normal return
  establishes \<open>Q\<close> and an error return establishes \<open>E\<close>.
\<close>

named_theorems sm_defs "unfoldings of the error-state operations"
named_theorems valid_intro "rules that derive triples"

type_synonym ('s, 'e, 'a) sm = "'s \<Rightarrow> ('e + 'a) \<times> 's"

definition ret :: "'a \<Rightarrow> ('s, 'e, 'a) sm" where
  [sm_defs]: "ret x = (\<lambda>s. (Inr x, s))"

definition throw :: "'e \<Rightarrow> ('s, 'e, 'a) sm" where
  [sm_defs]: "throw e = (\<lambda>s. (Inl e, s))"

definition bindm :: "('s, 'e, 'a) sm \<Rightarrow> ('a \<Rightarrow> ('s, 'e, 'b) sm) \<Rightarrow> ('s, 'e, 'b) sm" where
  [sm_defs]: "bindm m f =
     (\<lambda>s. case m s of (Inl e, s') \<Rightarrow> (Inl e, s') | (Inr x, s') \<Rightarrow> f x s')"

text \<open>\<open>if err != nil { return f(err) }\<close>: the error is replaced, the state kept.\<close>

definition mapErr :: "('e \<Rightarrow> 'f) \<Rightarrow> ('s, 'e, 'a) sm \<Rightarrow> ('s, 'f, 'a) sm" where
  [sm_defs]: "mapErr f m =
     (\<lambda>s. case m s of (Inl e, s') \<Rightarrow> (Inl (f e), s') | (Inr x, s') \<Rightarrow> (Inr x, s'))"

text \<open>The error as a value, for code that inspects or ignores it and goes on.\<close>

definition attempt :: "('s, 'e, 'a) sm \<Rightarrow> ('s, 'f, 'e + 'a) sm" where
  [sm_defs]: "attempt m = (\<lambda>s. case m s of (r, s') \<Rightarrow> (Inr r, s'))"

definition gets :: "('s \<Rightarrow> 'a) \<Rightarrow> ('s, 'e, 'a) sm" where
  [sm_defs]: "gets f = (\<lambda>s. (Inr (f s), s))"

definition modify :: "('s \<Rightarrow> 's) \<Rightarrow> ('s, 'e, unit) sm" where
  [sm_defs]: "modify f = (\<lambda>s. (Inr (), f s))"

text \<open>Code that runs on one component of a larger state.\<close>

definition within :: "('s \<Rightarrow> 't) \<Rightarrow> ('t \<Rightarrow> 's \<Rightarrow> 's) \<Rightarrow> ('t, 'e, 'a) sm \<Rightarrow> ('s, 'e, 'a) sm" where
  [sm_defs]: "within g p m = (\<lambda>s. case m (g s) of (r, t) \<Rightarrow> (r, p t s))"

text \<open>\<open>for _, x := range xs { ... }\<close> with early error return; \<open>collectM\<close> appends each result.\<close>

fun forEach :: "'a list \<Rightarrow> ('a \<Rightarrow> ('s, 'e, unit) sm) \<Rightarrow> ('s, 'e, unit) sm" where
  "forEach [] f = ret ()"
| "forEach (x # xs) f = bindm (f x) (\<lambda>_. forEach xs f)"

fun collectM :: "'a list \<Rightarrow> ('a \<Rightarrow> ('s, 'e, 'b list) sm) \<Rightarrow> ('s, 'e, 'b list) sm" where
  "collectM [] f = ret []"
| "collectM (x # xs) f = bindm (f x) (\<lambda>ys. bindm (collectM xs f) (\<lambda>zs. ret (ys @ zs)))"

lemma bindm_Inr: "m s = (Inr x, s1) \<Longrightarrow> bindm m f s = f x s1"
  by (simp add: bindm_def)

lemma forEach_map: "forEach (map g xs) f = forEach xs (\<lambda>x. f (g x))"
  by (induction xs) simp_all

section \<open>Triples\<close>

definition valid ::
  "('s \<Rightarrow> bool) \<Rightarrow> ('s, 'e, 'a) sm \<Rightarrow> ('a \<Rightarrow> 's \<Rightarrow> bool) \<Rightarrow> ('e \<Rightarrow> 's \<Rightarrow> bool) \<Rightarrow> bool" where
  "valid P m Q E = (\<forall>s. P s \<longrightarrow> (case m s of (Inl e, s') \<Rightarrow> E e s' | (Inr x, s') \<Rightarrow> Q x s'))"

definition keeps :: "('s \<Rightarrow> bool) \<Rightarrow> ('s, 'e, 'a) sm \<Rightarrow> bool" where
  "keeps I m = (\<forall>s. I s \<longrightarrow> I (snd (m s)))"

lemma validI:
  assumes "\<And>s e s'. P s \<Longrightarrow> m s = (Inl e, s') \<Longrightarrow> E e s'"
    and "\<And>s x s'. P s \<Longrightarrow> m s = (Inr x, s') \<Longrightarrow> Q x s'"
  shows "valid P m Q E"
  using assms by (auto simp: valid_def split: prod.splits sum.splits)

lemma validD_ok: "valid P m Q E \<Longrightarrow> P s \<Longrightarrow> m s = (Inr x, s') \<Longrightarrow> Q x s'"
  unfolding valid_def by (drule spec [of _ s]) simp

lemma validD_err: "valid P m Q E \<Longrightarrow> P s \<Longrightarrow> m s = (Inl e, s') \<Longrightarrow> E e s'"
  unfolding valid_def by (drule spec [of _ s]) simp

lemma keepsD: "keeps I m \<Longrightarrow> I s \<Longrightarrow> m s = (r, s') \<Longrightarrow> I s'"
  by (auto simp: keeps_def)

lemma keeps_snd: "keeps I m \<Longrightarrow> I s \<Longrightarrow> I (snd (m s))"
  by (simp add: keeps_def)

lemma keeps_valid: "keeps I m \<longleftrightarrow> valid I m (\<lambda>_. I) (\<lambda>_. I)"
proof -
  have "I (snd (m s)) = (case m s of (Inl e, s') \<Rightarrow> I s' | (Inr x, s') \<Rightarrow> I s')" for s
    by (simp split: prod.splits sum.splits)
  then show ?thesis by (simp add: keeps_def valid_def)
qed

lemma valid_ret [valid_intro]: "(\<And>s. P s \<Longrightarrow> Q x s) \<Longrightarrow> valid P (ret x) Q E"
  by (simp add: valid_def ret_def)

lemma valid_throw [valid_intro]: "(\<And>s. P s \<Longrightarrow> E e s) \<Longrightarrow> valid P (throw e) Q E"
  by (simp add: valid_def throw_def)

lemma valid_pre: "valid P m Q E \<Longrightarrow> (\<And>s. P' s \<Longrightarrow> P s) \<Longrightarrow> valid P' m Q E"
  by (simp add: valid_def)

lemma valid_err_weaken: "valid P m Q E \<Longrightarrow> (\<And>e s. E e s \<Longrightarrow> E' e s) \<Longrightarrow> valid P m Q E'"
  unfolding valid_def by (fastforce split: prod.splits sum.splits)

lemma valid_bind:
  assumes "valid P m R E" and "\<And>x. valid (R x) (f x) Q E"
  shows "valid P (bindm m f) Q E"
proof (rule validI)
  fix s e s' assume "P s" and "bindm m f s = (Inl e, s')"
  then show "E e s'"
    using assms by (auto simp: bindm_def split: prod.splits sum.splits dest: validD_ok validD_err)
next
  fix s y s' assume "P s" and "bindm m f s = (Inr y, s')"
  then show "Q y s'"
    using assms by (auto simp: bindm_def split: prod.splits sum.splits dest: validD_ok validD_err)
qed

lemma keeps_ret [valid_intro]: "keeps I (ret x)"
  by (simp add: keeps_def ret_def)

lemma keeps_throw [valid_intro]: "keeps I (throw e)"
  by (simp add: keeps_def throw_def)

lemma keeps_bind [valid_intro]: "keeps I m \<Longrightarrow> (\<And>x. keeps I (f x)) \<Longrightarrow> keeps I (bindm m f)"
  by (auto simp: keeps_def bindm_def split: prod.splits sum.splits)

lemma keeps_mapErr [valid_intro]: "keeps I m \<Longrightarrow> keeps I (mapErr f m)"
  by (auto simp: keeps_def mapErr_def split: prod.splits sum.splits)

lemma keeps_attempt [valid_intro]: "keeps I m \<Longrightarrow> keeps I (attempt m)"
  by (auto simp: keeps_def attempt_def split: prod.splits sum.splits)

lemma keeps_gets [valid_intro]: "keeps I (gets f)"
  by (simp add: keeps_def gets_def)

lemma keeps_modify: "(\<And>s. I s \<Longrightarrow> I (f s)) \<Longrightarrow> keeps I (modify f)"
  by (simp add: keeps_def modify_def)

lemma keeps_if [valid_intro]: "(b \<Longrightarrow> keeps I m) \<Longrightarrow> (\<not> b \<Longrightarrow> keeps I n) \<Longrightarrow> keeps I (if b then m else n)"
  by simp

lemma keeps_Let [valid_intro]: "(\<And>x. keeps I (f x)) \<Longrightarrow> keeps I (Let y f)"
  by simp

lemma keeps_case_option [valid_intro]:
  "(x = None \<Longrightarrow> keeps I m) \<Longrightarrow> (\<And>y. x = Some y \<Longrightarrow> keeps I (f y)) \<Longrightarrow>
     keeps I (case x of None \<Rightarrow> m | Some y \<Rightarrow> f y)"
  by (cases x) simp_all

lemma keeps_case_sum [valid_intro]:
  "(\<And>e. keeps I (f e)) \<Longrightarrow> (\<And>y. keeps I (g y)) \<Longrightarrow> keeps I (case x of Inl e \<Rightarrow> f e | Inr y \<Rightarrow> g y)"
  by (cases x) simp_all

lemma keeps_case_prod [valid_intro]:
  "(\<And>a b. keeps I (f a b)) \<Longrightarrow> keeps I (case x of (a, b) \<Rightarrow> f a b)"
  by (cases x) simp

lemma keeps_forEach [valid_intro]: "(\<And>x. x \<in> set xs \<Longrightarrow> keeps I (f x)) \<Longrightarrow> keeps I (forEach xs f)"
  by (induction xs) (auto intro!: valid_intro)

lemma keeps_collectM [valid_intro]: "(\<And>x. x \<in> set xs \<Longrightarrow> keeps I (f x)) \<Longrightarrow> keeps I (collectM xs f)"
  by (induction xs) (auto intro!: valid_intro)

lemma keeps_within:
  assumes "keeps J m" and "\<And>s. I s \<Longrightarrow> J (g s)" and "\<And>s t. I s \<Longrightarrow> J t \<Longrightarrow> I (p t s)"
  shows "keeps I (within g p m)"
  using assms by (auto simp: keeps_def within_def split: prod.splits) (metis snd_conv)

lemma bindm_ok: "bindm m f s = (Inr y, s') \<longleftrightarrow> (\<exists>x t. m s = (Inr x, t) \<and> f x t = (Inr y, s'))"
  by (auto simp: bindm_def split: prod.splits sum.splits)

lemma bindm_err:
  "bindm m f s = (Inl e, s') \<longleftrightarrow>
     m s = (Inl e, s') \<or> (\<exists>x t. m s = (Inr x, t) \<and> f x t = (Inl e, s'))"
  by (auto simp: bindm_def split: prod.splits sum.splits)

lemma mapErr_ok: "mapErr f m s = (Inr x, s') \<longleftrightarrow> m s = (Inr x, s')"
  by (auto simp: mapErr_def split: prod.splits sum.splits)

lemma mapErr_err: "mapErr f m s = (Inl e, s') \<longleftrightarrow> (\<exists>e0. e = f e0 \<and> m s = (Inl e0, s'))"
  by (auto simp: mapErr_def split: prod.splits sum.splits)

lemma ret_ok [simp]: "ret x s = (Inr y, s') \<longleftrightarrow> y = x \<and> s' = s"
  by (auto simp: ret_def)

lemma ret_err [simp]: "\<not> ret x s = (Inl e, s')"
  by (simp add: ret_def)

lemma throw_ok [simp]: "\<not> throw e s = (Inr y, s')"
  by (simp add: throw_def)

lemma throw_err [simp]: "throw e s = (Inl e', s') \<longleftrightarrow> e' = e \<and> s' = s"
  by (auto simp: throw_def)

end
