(* ===== verification/Types.thy ===== *)
theory Types
  imports GoLib
begin

text \<open>
  The domain records of \<open>pkg/types\<close>. Go's string-typed enumerations (\<open>ClusterHealth\<close>, \<open>Role\<close>,
  \<open>AlertStatus\<close> and so on) stay strings, since a request or a row may carry any value; their
  constants are abbreviations of the same name. A field \<open>F\<close> of a struct is a record field with
  the struct's prefix (\<open>c_\<close> for Cluster, \<open>al_\<close> for Alert). A pointer to a time is an option,
  a \<open>map[string]string\<close> a partial map.
\<close>

type_synonym labels = "string \<Rightarrow> string option"

text \<open>A lookup in a Go map of strings yields the empty string for a missing key.\<close>

definition mapGet :: "labels \<Rightarrow> string \<Rightarrow> string" where
  "mapGet m k = (case m k of None \<Rightarrow> '''' | Some v \<Rightarrow> v)"

section \<open>Clusters and snapshots\<close>

type_synonym ClusterHealth = string

abbreviation HealthUnknown :: ClusterHealth where "HealthUnknown \<equiv> ''unknown''"
abbreviation HealthHealthy :: ClusterHealth where "HealthHealthy \<equiv> ''healthy''"
abbreviation HealthDegraded :: ClusterHealth where "HealthDegraded \<equiv> ''degraded''"
abbreviation HealthUnreachable :: ClusterHealth where "HealthUnreachable \<equiv> ''unreachable''"

record Cluster =
  c_ID :: string
  c_TenantID :: string
  c_Name :: string
  c_Health :: ClusterHealth
  c_Version :: string
  c_AgentVersion :: string
  c_NodeCount :: int
  c_PodCount :: int
  c_RegisteredAt :: time
  c_LastHeartbeat :: time
  c_Labels :: labels

record Node =
  n_Name :: string
  n_Status :: string
  n_Roles :: "string list"
  n_Version :: string
  n_CPUCapacity :: string
  n_MemoryCapacity :: string
  n_Ready :: bool

record Pod =
  p_Name :: string
  p_Namespace :: string
  p_Phase :: string
  p_NodeName :: string
  p_RestartCount :: int
  p_Ready :: bool
  p_StartTime :: time
  p_SecurityContextKnown :: bool
  p_Privileged :: bool
  p_RunAsNonRoot :: bool
  p_ReadOnlyRootFilesystem :: bool
  p_AllowsPrivilegeEscalation :: bool
  p_CapabilitiesDroppedAll :: bool
  p_HostNetwork :: bool
  p_HostPID :: bool
  p_HostIPC :: bool

record Event =
  ev_ClusterID :: string
  ev_Namespace :: string
  ev_Reason :: string
  ev_Message :: string
  ev_Type :: string
  ev_Count :: int
  ev_LastTimestamp :: time

record ServicePort =
  sp_Name :: string
  sp_Port :: int
  sp_TargetPort :: int
  sp_Protocol :: string

record Service =
  sv_Name :: string
  sv_Namespace :: string
  sv_Type :: string
  sv_ClusterIP :: string
  sv_ExternalIPs :: "string list"
  sv_Ports :: "ServicePort list"
  sv_Age :: string

record Deployment =
  d_Name :: string
  d_Namespace :: string
  d_ReadyReplicas :: int
  d_DesiredReplicas :: int
  d_UpdatedReplicas :: int
  d_AvailableReplicas :: int
  d_Age :: string
  d_ConfigHash :: string
  d_Images :: "string list"

record Namespace =
  ns_Name :: string
  ns_Labels :: labels

record ClusterSnapshot =
  sn_Nodes :: "Node list"
  sn_Pods :: "Pod list"
  sn_Services :: "Service list"
  sn_Deployments :: "Deployment list"
  sn_Namespaces :: "Namespace list"
  sn_Events :: "Event list"

section \<open>Alerts\<close>

type_synonym AlertSeverity = string
type_synonym AlertStatus = string
type_synonym AlertDeliveryStatus = string

abbreviation AlertSeverityWarning :: AlertSeverity where "AlertSeverityWarning \<equiv> ''warning''"
abbreviation AlertSeverityCritical :: AlertSeverity where "AlertSeverityCritical \<equiv> ''critical''"
abbreviation AlertStatusFiring :: AlertStatus where "AlertStatusFiring \<equiv> ''firing''"
abbreviation AlertStatusAcknowledged :: AlertStatus where "AlertStatusAcknowledged \<equiv> ''acknowledged''"
abbreviation AlertStatusResolved :: AlertStatus where "AlertStatusResolved \<equiv> ''resolved''"
abbreviation AlertDeliveryPending :: AlertDeliveryStatus where "AlertDeliveryPending \<equiv> ''pending''"
abbreviation AlertDeliveryRetrying :: AlertDeliveryStatus where "AlertDeliveryRetrying \<equiv> ''retrying''"
abbreviation AlertDeliveryDelivered :: AlertDeliveryStatus where "AlertDeliveryDelivered \<equiv> ''delivered''"
abbreviation AlertDeliveryDeadLetter :: AlertDeliveryStatus where "AlertDeliveryDeadLetter \<equiv> ''dead_letter''"
abbreviation AlertDeliveryDisabled :: AlertDeliveryStatus where "AlertDeliveryDisabled \<equiv> ''disabled''"

record AlertRule =
  ar_ID :: string
  ar_Name :: string
  ar_Health :: ClusterHealth
  ar_Severity :: AlertSeverity
  ar_CooldownSeconds :: int
  ar_Enabled :: bool
  ar_CreatedAt :: time
  ar_UpdatedAt :: time

record Alert =
  al_ID :: string
  al_TenantID :: string
  al_RuleID :: string
  al_RuleName :: string
  al_ClusterID :: string
  al_ClusterName :: string
  al_DedupeKey :: string
  al_Health :: ClusterHealth
  al_Severity :: AlertSeverity
  al_Summary :: string
  al_Status :: AlertStatus
  al_TriggeredAt :: time
  al_UpdatedAt :: time
  al_AcknowledgedAt :: "time option"
  al_AcknowledgedBy :: string
  al_ResolvedAt :: "time option"
  al_DeliveryStatus :: AlertDeliveryStatus
  al_DeliveryAttempts :: int
  al_NextDeliveryAt :: "time option"
  al_LastDeliveryError :: string
  al_DeliveredAt :: "time option"
  al_DeadLetteredAt :: "time option"

section \<open>Timeline, users and the audit log\<close>

type_synonym OperationalEventKind = string

abbreviation EventClusterRegistered :: OperationalEventKind where "EventClusterRegistered \<equiv> ''cluster_registered''"
abbreviation EventAgentApproved :: OperationalEventKind where "EventAgentApproved \<equiv> ''agent_approved''"
abbreviation EventHeartbeatStateChange :: OperationalEventKind where "EventHeartbeatStateChange \<equiv> ''heartbeat_state_change''"
abbreviation EventVersionChanged :: OperationalEventKind where "EventVersionChanged \<equiv> ''version_changed''"
abbreviation EventAgentReconnected :: OperationalEventKind where "EventAgentReconnected \<equiv> ''agent_reconnected''"
abbreviation EventAgentDisconnected :: OperationalEventKind where "EventAgentDisconnected \<equiv> ''agent_disconnected''"
abbreviation EventPolicyFinding :: OperationalEventKind where "EventPolicyFinding \<equiv> ''policy_finding''"

record OperationalEvent =
  oe_ID :: int
  oe_TenantID :: string
  oe_ClusterID :: string
  oe_Kind :: OperationalEventKind
  oe_Message :: string
  oe_Details :: labels
  oe_OccurredAt :: time
  oe_DedupeKey :: string

type_synonym Role = string

abbreviation RoleReadOnly :: Role where "RoleReadOnly \<equiv> ''read_only''"
abbreviation RoleOperator :: Role where "RoleOperator \<equiv> ''operator''"
abbreviation RoleAdmin :: Role where "RoleAdmin \<equiv> ''admin''"

definition ValidRole :: "Role \<Rightarrow> bool" where
  "ValidRole role = (role = RoleReadOnly \<or> role = RoleOperator \<or> role = RoleAdmin)"

record User =
  u_ID :: string
  u_Username :: string
  u_Email :: string
  u_Role :: Role
  u_Disabled :: bool
  u_CreatedAt :: time
  u_UpdatedAt :: time
  u_PasswordHash :: string

type_synonym AuditOutcome = string

abbreviation AuditSuccess :: AuditOutcome where "AuditSuccess \<equiv> ''success''"
abbreviation AuditFailure :: AuditOutcome where "AuditFailure \<equiv> ''failure''"

record AuditEvent =
  au_ID :: string
  au_OccurredAt :: time
  au_ActorUserID :: string
  au_ActorUsername :: string
  au_ActorRole :: Role
  au_Action :: string
  au_TargetType :: string
  au_TargetID :: string
  au_Outcome :: AuditOutcome
  au_Details :: string
  au_SourceIP :: string

section \<open>Policies\<close>

type_synonym PolicySeverity = string
type_synonym PolicyScope = string
type_synonym PolicyStatus = string

abbreviation SeverityLow :: PolicySeverity where "SeverityLow \<equiv> ''low''"
abbreviation SeverityMedium :: PolicySeverity where "SeverityMedium \<equiv> ''medium''"
abbreviation SeverityHigh :: PolicySeverity where "SeverityHigh \<equiv> ''high''"
abbreviation SeverityCritical :: PolicySeverity where "SeverityCritical \<equiv> ''critical''"
abbreviation ScopeFleet :: PolicyScope where "ScopeFleet \<equiv> ''fleet''"
abbreviation ScopeCluster :: PolicyScope where "ScopeCluster \<equiv> ''cluster''"
abbreviation ScopeNamespace :: PolicyScope where "ScopeNamespace \<equiv> ''namespace''"
abbreviation ScopeWorkload :: PolicyScope where "ScopeWorkload \<equiv> ''workload''"
abbreviation PolicyPass :: PolicyStatus where "PolicyPass \<equiv> ''pass''"
abbreviation PolicyFail :: PolicyStatus where "PolicyFail \<equiv> ''fail''"
abbreviation PolicyUnknown :: PolicyStatus where "PolicyUnknown \<equiv> ''unknown''"
abbreviation PolicyStale :: PolicyStatus where "PolicyStale \<equiv> ''stale''"

record Policy =
  po_ID :: string
  po_Name :: string
  po_Description :: string
  po_Category :: string
  po_Severity :: PolicySeverity
  po_Scope :: PolicyScope

record PolicySubject =
  su_ClusterID :: string
  su_ClusterName :: string
  su_Namespace :: string
  su_Kind :: string
  su_Name :: string

record PolicyResult =
  pr_PolicyID :: string
  pr_PolicyName :: string
  pr_Category :: string
  pr_Severity :: PolicySeverity
  pr_Scope :: PolicyScope
  pr_Status :: PolicyStatus
  pr_Subject :: PolicySubject
  pr_Message :: string
  pr_Expected :: labels
  pr_Actual :: labels
  pr_ObservedAt :: time
  pr_EvaluatedAt :: time

record PolicySummary =
  ps_Total :: int
  ps_ByStatus :: "PolicyStatus \<Rightarrow> int option"
  ps_BySeverity :: "PolicySeverity \<Rightarrow> int option"
  ps_ClusterCount :: int
  ps_EvaluatedAt :: time

end
