(* ===== verification/Db.thy ===== *)
theory Db
  imports ErrState Types
begin

text \<open>
  The SQLite database behind \<open>internal/store\<close>: the tables as lists of rows in insertion order,
  and the statements of the store as functions on them. A \<open>Cluster\<close>, \<open>Alert\<close>, \<open>User\<close>,
  \<open>AlertRule\<close>, \<open>OperationalEvent\<close> or \<open>AuditEvent\<close> row is the record the code scans it into, with
  the tenant normalised (\<open>'default'\<close> for none) and JSON columns decoded. Timestamps compare as
  times, text bytewise. The engine itself is outside the repository: of it the model keeps what
  the SQL text states (constraints, cascades, ordering, limits) and that any statement, any read
  of the affected-row count and any begin or commit of a transaction may fail. Which ones fail is
  the list \<open>db_faults\<close>, one entry consumed per such call (no more failures when it is empty);
  a failed statement changes nothing, a failed or rolled back transaction restores its start.
\<close>

named_theorems db_simps "database operations when no call fails"

section \<open>Tables\<close>

record AgentRow =
  ag_ClusterID :: string
  ag_TokenHash :: string
  ag_Approved :: bool
  ag_IssuedAt :: time
  ag_LastHeartbeat :: "time option"

record SessionRow =
  ss_TokenHash :: string
  ss_UserID :: string
  ss_CreatedAt :: time
  ss_ExpiresAt :: time

record tables =
  t_clusters :: "Cluster list"
  t_agents :: "AgentRow list"
  t_nodes :: "(string \<times> Node) list"
  t_pods :: "(string \<times> Pod) list"
  t_services :: "(string \<times> Service) list"
  t_deployments :: "(string \<times> Deployment) list"
  t_namespaces :: "(string \<times> Namespace) list"
  t_events :: "(string \<times> nat \<times> Event) list"
  t_alert_rules :: "AlertRule list"
  t_alerts :: "Alert list"
  t_op_events :: "OperationalEvent list"
  t_op_seq :: int
  t_users :: "User list"
  t_sessions :: "SessionRow list"
  t_audit :: "AuditEvent list"
  t_settings :: "(string \<times> string) list"

record db =
  db_tables :: tables
  db_faults :: "bool list"

datatype sql_error = SqlUnique | SqlForeignKey | SqlCheck | SqlIO

datatype store_error = ErrNotFound | ErrInvalidState | ErrConflict | ErrLastAdmin
  | ErrWrap string sql_error

type_synonym 'a sqlm = "(db, sql_error, 'a) sm"
type_synonym 'a storem = "(db, store_error, 'a) sm"

definition empty_tables :: tables where
  "empty_tables = \<lparr>t_clusters = [], t_agents = [], t_nodes = [], t_pods = [], t_services = [],
     t_deployments = [], t_namespaces = [], t_events = [], t_alert_rules = [], t_alerts = [],
     t_op_events = [], t_op_seq = 0, t_users = [], t_sessions = [], t_audit = [], t_settings = []\<rparr>"

definition DefaultTenantID :: string where
  "DefaultTenantID = ''default''"

definition normalizeTenantID :: "string \<Rightarrow> string" where
  "normalizeTenantID tenantID = (if tenantID = '''' then DefaultTenantID else tenantID)"

lemma normalizeTenantID_idem [simp]: "normalizeTenantID (normalizeTenantID t) = normalizeTenantID t"
  by (simp add: normalizeTenantID_def DefaultTenantID_def)

lemma normalizeTenantID_nonempty [simp]: "normalizeTenantID t \<noteq> ''''"
  by (simp add: normalizeTenantID_def DefaultTenantID_def)

lemma normalizeTenantID_default [simp]: "normalizeTenantID DefaultTenantID = DefaultTenantID"
  by (simp add: normalizeTenantID_def DefaultTenantID_def)

section \<open>Statements\<close>

definition pop_fault :: "db \<Rightarrow> bool \<times> db" where
  "pop_fault d = (case db_faults d of [] \<Rightarrow> (False, d) | b # bs \<Rightarrow> (b, d\<lparr>db_faults := bs\<rparr>))"

definition stmt :: "(tables \<Rightarrow> sql_error + ('a \<times> tables)) \<Rightarrow> 'a sqlm" where
  "stmt f = (\<lambda>d. case pop_fault d of (b, d') \<Rightarrow>
     if b then (Inl SqlIO, d')
     else (case f (db_tables d') of
             Inl e \<Rightarrow> (Inl e, d')
           | Inr (x, t) \<Rightarrow> (Inr x, d'\<lparr>db_tables := t\<rparr>)))"

definition query :: "(tables \<Rightarrow> 'a) \<Rightarrow> 'a sqlm" where
  "query f = stmt (\<lambda>t. Inr (f t, t))"

definition exec :: "(tables \<Rightarrow> nat \<times> tables) \<Rightarrow> nat sqlm" where
  "exec f = stmt (\<lambda>t. Inr (f t))"

text \<open>An \<open>INSERT\<close> of one row, with the constraint it may violate.\<close>

definition insertRow :: "(tables \<Rightarrow> sql_error option) \<Rightarrow> (tables \<Rightarrow> tables) \<Rightarrow> nat sqlm" where
  "insertRow chk upd =
     stmt (\<lambda>t. case chk t of Some e \<Rightarrow> Inl e | None \<Rightarrow> Inr (1, upd t))"

definition wrapErr :: "string \<Rightarrow> 'a sqlm \<Rightarrow> 'a storem" where
  "wrapErr msg m = mapErr (ErrWrap msg) m"

definition RowsAffected :: "nat \<Rightarrow> nat sqlm" where
  "RowsAffected n = query (\<lambda>_. n)"

definition requireAffectedRow :: "nat \<Rightarrow> unit storem" where
  "requireAffectedRow n =
     bindm (wrapErr ''read affected rows'' (RowsAffected n))
       (\<lambda>affected. if affected = 0 then throw ErrNotFound else ret ())"

text \<open>A call that reads nothing and may fail: \<open>BeginTx\<close>, \<open>Commit\<close>.\<close>

definition noop :: "string \<Rightarrow> unit storem" where
  "noop msg = wrapErr msg (query (\<lambda>_. ()))"

text \<open>
  \<open>BeginTx\<close>, the body, then \<open>Commit\<close>; the deferred \<open>Rollback\<close> restores the tables on every
  error path. The message of a failed commit may depend on the path taken.
\<close>

definition tx :: "string \<Rightarrow> ('a \<Rightarrow> string) \<Rightarrow> 'a storem \<Rightarrow> 'a storem" where
  "tx msgBegin msgCommit body =
     (\<lambda>d. case noop msgBegin d of
            (Inl e, d0) \<Rightarrow> (Inl e, d0)
          | (Inr _, d0) \<Rightarrow>
              (case body d0 of
                 (Inl e, d1) \<Rightarrow> (Inl e, d1\<lparr>db_tables := db_tables d0\<rparr>)
               | (Inr x, d1) \<Rightarrow>
                   (case noop (msgCommit x) d1 of
                      (Inl e, d2) \<Rightarrow> (Inl e, d2\<lparr>db_tables := db_tables d0\<rparr>)
                    | (Inr _, d2) \<Rightarrow> (Inr x, d2))))"

definition updWhere :: "('r \<Rightarrow> bool) \<Rightarrow> ('r \<Rightarrow> 'r) \<Rightarrow> 'r list \<Rightarrow> 'r list" where
  "updWhere P f rows = map (\<lambda>r. if P r then f r else r) rows"

definition cnt :: "('r \<Rightarrow> bool) \<Rightarrow> 'r list \<Rightarrow> nat" where
  "cnt P rows = length (filter P rows)"

lemma cnt_zero [simp]: "cnt P rows = 0 \<longleftrightarrow> (\<forall>r \<in> set rows. \<not> P r)"
  by (auto simp: cnt_def filter_empty_conv)

lemma cnt_pos [simp]: "0 < cnt P rows \<longleftrightarrow> (\<exists>r \<in> set rows. P r)"
  by (auto simp: cnt_def length_greater_0_conv [symmetric] filter_empty_conv simp del: length_greater_0_conv)

lemma map_updWhere: "(\<And>r. P r \<Longrightarrow> k (f r) = k r) \<Longrightarrow> map k (updWhere P f rows) = map k rows"
  by (simp add: updWhere_def)

lemma in_updWhere: "r \<in> set (updWhere P f rows) \<longleftrightarrow>
  (\<exists>r0 \<in> set rows. r = (if P r0 then f r0 else r0))"
  by (auto simp: updWhere_def)

lemma updWhere_none: "(\<And>r. r \<in> set rows \<Longrightarrow> \<not> P r) \<Longrightarrow> updWhere P f rows = rows"
  by (simp add: updWhere_def map_idI)

lemma length_updWhere [simp]: "length (updWhere P f rows) = length rows"
  by (simp add: updWhere_def)

text \<open>A primary key look-up: the first row that satisfies the condition.\<close>

definition selectOne :: "('r \<Rightarrow> bool) \<Rightarrow> 'r list \<Rightarrow> 'r option" where
  "selectOne P rows = find P rows"

lemma selectOne_Some: "selectOne P rows = Some r \<Longrightarrow> r \<in> set rows \<and> P r"
  by (auto simp: selectOne_def find_Some_iff)

lemma selectOne_None [simp]: "selectOne P rows = None \<longleftrightarrow> (\<forall>r \<in> set rows. \<not> P r)"
  by (auto simp: selectOne_def find_None_iff)

lemma selectOne_unique:
  assumes "distinct (map k rows)" and "r \<in> set rows" and "k r = v"
  shows "selectOne (\<lambda>r. k r = v) rows = Some r"
  using assms by (induction rows) (auto simp: selectOne_def)

lemma selectOne_only:
  assumes "x \<in> set rows" and "P x" and "\<And>b. b \<in> set rows \<Longrightarrow> P b \<Longrightarrow> b = x"
  shows "selectOne P rows = Some x"
proof (cases "selectOne P rows")
  case None
  with assms(1,2) show ?thesis unfolding selectOne_None by blast
next
  case (Some y)
  with selectOne_Some [OF Some] assms(3) show ?thesis by blast
qed

section \<open>Reasoning about statements\<close>

abbreviation keepsT :: "(tables \<Rightarrow> bool) \<Rightarrow> (db, 'e, 'a) sm \<Rightarrow> bool" where
  "keepsT I m \<equiv> keeps (\<lambda>d. I (db_tables d)) m"

lemma pop_fault_tables [simp]: "pop_fault d = (b, d') \<Longrightarrow> db_tables d' = db_tables d"
  by (auto simp: pop_fault_def split: list.splits)

lemma stmt_ok:
  "stmt f d = (Inr x, d') \<Longrightarrow>
     \<exists>t. f (db_tables d) = Inr (x, t) \<and> db_tables d' = t"
  by (auto simp: stmt_def split: prod.splits sum.splits if_splits)

lemma stmt_err: "stmt f d = (Inl e, d') \<Longrightarrow> db_tables d' = db_tables d"
  by (auto simp: stmt_def split: prod.splits sum.splits if_splits)

lemma keepsT_stmt:
  assumes "\<And>t x t'. I t \<Longrightarrow> f t = Inr (x, t') \<Longrightarrow> I t'"
  shows "keepsT I (stmt f)"
proof -
  have "I (db_tables d')" if "I (db_tables d)" and "stmt f d = (r, d')" for d r d'
    using that assms stmt_ok [of f d _ d'] stmt_err [of f d _ d'] by (cases r) force+
  then show ?thesis by (simp add: keeps_def prod.split_sel [symmetric]) (metis prod.collapse)
qed

lemma query_tables: "query f d = (r, d') \<Longrightarrow> db_tables d' = db_tables d"
  by (auto simp: query_def stmt_def split: prod.splits sum.splits if_splits)

lemma query_ok: "query f d = (Inr x, d') \<Longrightarrow> x = f (db_tables d) \<and> db_tables d' = db_tables d"
  by (auto simp: query_def stmt_def split: prod.splits sum.splits if_splits)

lemma keepsT_query [valid_intro]: "keepsT I (query f)"
  unfolding query_def by (rule keepsT_stmt) simp

lemma keepsT_exec: "(\<And>t. I t \<Longrightarrow> I (snd (f t))) \<Longrightarrow> keepsT I (exec f)"
  unfolding exec_def by (rule keepsT_stmt) (metis snd_conv sum.inject(2))

lemma keepsT_insertRow:
  "(\<And>t. I t \<Longrightarrow> chk t = None \<Longrightarrow> I (upd t)) \<Longrightarrow> keepsT I (insertRow chk upd)"
  unfolding insertRow_def by (rule keepsT_stmt) (auto split: option.splits)

lemma keepsT_wrapErr [valid_intro]: "keepsT I m \<Longrightarrow> keepsT I (wrapErr msg m)"
  unfolding wrapErr_def by (rule keeps_mapErr)

lemma keepsT_RowsAffected [valid_intro]: "keepsT I (RowsAffected n)"
  unfolding RowsAffected_def by (rule keepsT_query)

lemma keepsT_requireAffectedRow [valid_intro]: "keepsT I (requireAffectedRow n)"
  unfolding requireAffectedRow_def by (intro valid_intro)

lemma wrapErr_ok: "wrapErr msg m d = (Inr x, d') \<longleftrightarrow> m d = (Inr x, d')"
  by (simp add: wrapErr_def mapErr_ok)

lemma wrapErr_err: "wrapErr msg m d = (Inl e, d') \<longleftrightarrow> (\<exists>e0. e = ErrWrap msg e0 \<and> m d = (Inl e0, d'))"
  by (simp add: wrapErr_def mapErr_err)

lemma requireAffectedRow_ok: "requireAffectedRow n d = (Inr x, d') \<Longrightarrow> n \<noteq> 0 \<and> db_tables d' = db_tables d"
  by (auto simp: requireAffectedRow_def bindm_ok wrapErr_ok RowsAffected_def dest!: query_ok split: if_splits)

lemma exec_ok: "exec f d = (Inr n, d') \<Longrightarrow> n = fst (f (db_tables d)) \<and> db_tables d' = snd (f (db_tables d))"
  by (auto simp: exec_def dest!: stmt_ok)

text \<open>A transaction that reports an error leaves every table as it was.\<close>

lemma noop_tables: "noop msg d = (r, d') \<Longrightarrow> db_tables d' = db_tables d"
  by (cases r) (auto simp: noop_def wrapErr_ok wrapErr_err dest: query_tables)

lemma tx_err: "tx b c body d = (Inl e, d') \<Longrightarrow> db_tables d' = db_tables d"
  unfolding tx_def by (auto split: prod.splits sum.splits dest!: noop_tables)

lemma tx_ok:
  assumes "tx b c body d = (Inr x, d')"
  shows "\<exists>d0 d1. db_tables d0 = db_tables d \<and> body d0 = (Inr x, d1) \<and> db_tables d' = db_tables d1"
proof -
  obtain r0 d0 where 0: "noop b d = (r0, d0)" by fastforce
  obtain r1 d1 where 1: "body d0 = (r1, d1)" by fastforce
  from assms 0 1 obtain u v where r: "r1 = Inr x" and 2: "noop (c x) d1 = (Inr u, d')" and "r0 = Inr v"
    by (auto simp: tx_def split: sum.splits prod.splits)
  with 0 1 2 noop_tables show ?thesis by metis
qed

lemma keepsT_tx [valid_intro]:
  assumes "keepsT I body"
  shows "keepsT I (tx b c body)"
proof -
  have "I (db_tables d')" if "I (db_tables d)" and "tx b c body d = (r, d')" for d r d'
  proof (cases r)
    case (Inl e)
    with that tx_err show ?thesis by metis
  next
    case (Inr x)
    with that tx_ok [of b c body d x d'] keepsD [OF assms] show ?thesis by metis
  qed
  then show ?thesis by (simp add: keeps_def) (metis prod.collapse)
qed

subsection \<open>Runs in which no call fails\<close>

lemma stmt_nf [db_simps]:
  "db_faults d = [] \<Longrightarrow>
     stmt f d = (case f (db_tables d) of Inl e \<Rightarrow> (Inl e, d) | Inr (x, t) \<Rightarrow> (Inr x, d\<lparr>db_tables := t\<rparr>))"
  by (simp add: stmt_def pop_fault_def)

lemma query_nf [db_simps]: "db_faults d = [] \<Longrightarrow> query f d = (Inr (f (db_tables d)), d)"
  by (simp add: query_def db_simps)

lemma exec_nf [db_simps]:
  "db_faults d = [] \<Longrightarrow> exec f d = (Inr (fst (f (db_tables d))), d\<lparr>db_tables := snd (f (db_tables d))\<rparr>)"
  by (cases "f (db_tables d)") (simp add: exec_def db_simps)

lemma insertRow_nf [db_simps]:
  "db_faults d = [] \<Longrightarrow> insertRow chk upd d =
     (case chk (db_tables d) of
        Some e \<Rightarrow> (Inl e, d) | None \<Rightarrow> (Inr 1, d\<lparr>db_tables := upd (db_tables d)\<rparr>))"
  by (simp add: insertRow_def db_simps split: option.splits)

lemma requireAffectedRow_nf [db_simps]:
  "db_faults d = [] \<Longrightarrow> requireAffectedRow n d = (if n = 0 then (Inl ErrNotFound, d) else (Inr (), d))"
  by (simp add: requireAffectedRow_def bindm_def wrapErr_def mapErr_def RowsAffected_def db_simps
      throw_def ret_def)

lemma RowsAffected_nf [db_simps]: "db_faults d = [] \<Longrightarrow> RowsAffected n d = (Inr n, d)"
  by (simp add: RowsAffected_def db_simps)

lemma wrapErr_nf [db_simps]:
  "wrapErr msg m d = (case m d of (Inl e, d') \<Rightarrow> (Inl (ErrWrap msg e), d') | (Inr x, d') \<Rightarrow> (Inr x, d'))"
  by (simp add: wrapErr_def mapErr_def)

lemma tx_nf:
  "db_faults d = [] \<Longrightarrow> body d = (r, d') \<Longrightarrow> db_faults d' = [] \<Longrightarrow>
     tx b c body d = (case r of Inl e \<Rightarrow> (Inl e, d'\<lparr>db_tables := db_tables d\<rparr>) | Inr x \<Rightarrow> (Inr x, d'))"
  by (simp add: tx_def noop_def db_simps split: sum.splits)

lemma keeps_nofault:
  "keeps (\<lambda>d. db_faults d = []) (stmt f)"
  by (auto simp: keeps_def db_simps split: sum.splits prod.splits)

end
