(* ===== verification/Schema.thy ===== *)
theory Schema
  imports Db
begin

text \<open>
  The constraints of the \<open>CREATE TABLE\<close> statements of \<open>internal/store\<close>: primary keys, \<open>UNIQUE\<close>
  and \<open>CHECK\<close> clauses and foreign keys, as bool-valued predicates on the tables. \<open>db_wf\<close> is their
  conjunction, the well-formedness invariant that every store operation keeps; the collection
  \<open>wf_intro\<close> holds one rule per kind of change to a table.
\<close>

named_theorems wf_intro "changes of tables that keep the schema constraints"

definition unique_key :: "('r \<Rightarrow> 'k) \<Rightarrow> 'r list \<Rightarrow> bool" where
  "unique_key k rows = distinct (map k rows)"

definition references :: "('r \<Rightarrow> 'k) \<Rightarrow> 'r list \<Rightarrow> ('p \<Rightarrow> 'k) \<Rightarrow> 'p list \<Rightarrow> bool" where
  "references fk rows pk parents = list_all (\<lambda>r. fk r \<in> set (map pk parents)) rows"

definition createClustersTable :: "tables \<Rightarrow> bool" where
  "createClustersTable t \<longleftrightarrow>
     unique_key c_ID (t_clusters t) \<and> unique_key (\<lambda>c. (c_TenantID c, c_Name c)) (t_clusters t)"

definition createAgentsTable :: "tables \<Rightarrow> bool" where
  "createAgentsTable t \<longleftrightarrow>
     unique_key ag_ClusterID (t_agents t) \<and> references ag_ClusterID (t_agents t) c_ID (t_clusters t)"

definition createSnapshotNodesTable :: "tables \<Rightarrow> bool" where
  "createSnapshotNodesTable t \<longleftrightarrow>
     unique_key (\<lambda>(c, n). (c, n_Name n)) (t_nodes t) \<and> references fst (t_nodes t) c_ID (t_clusters t)"

definition createSnapshotPodsTable :: "tables \<Rightarrow> bool" where
  "createSnapshotPodsTable t \<longleftrightarrow>
     unique_key (\<lambda>(c, p). (c, p_Namespace p, p_Name p)) (t_pods t) \<and>
     references fst (t_pods t) c_ID (t_clusters t)"

definition createSnapshotServicesTable :: "tables \<Rightarrow> bool" where
  "createSnapshotServicesTable t \<longleftrightarrow>
     unique_key (\<lambda>(c, s). (c, sv_Namespace s, sv_Name s)) (t_services t) \<and>
     references fst (t_services t) c_ID (t_clusters t)"

definition createSnapshotDeploymentsTable :: "tables \<Rightarrow> bool" where
  "createSnapshotDeploymentsTable t \<longleftrightarrow>
     unique_key (\<lambda>(c, d). (c, d_Namespace d, d_Name d)) (t_deployments t) \<and>
     references fst (t_deployments t) c_ID (t_clusters t)"

definition createSnapshotNamespacesTable :: "tables \<Rightarrow> bool" where
  "createSnapshotNamespacesTable t \<longleftrightarrow>
     unique_key (\<lambda>(c, n). (c, ns_Name n)) (t_namespaces t) \<and>
     references fst (t_namespaces t) c_ID (t_clusters t)"

definition createSnapshotEventsTable :: "tables \<Rightarrow> bool" where
  "createSnapshotEventsTable t \<longleftrightarrow>
     unique_key (\<lambda>(c, i, e). (c, i)) (t_events t) \<and> references fst (t_events t) c_ID (t_clusters t)"

text \<open>A \<open>NULL\<close> dedupe key (the empty string here) never collides. \<open>AUTOINCREMENT\<close> ids only grow.\<close>

definition createOperationalEventsTable :: "tables \<Rightarrow> bool" where
  "createOperationalEventsTable t \<longleftrightarrow>
     unique_key oe_ID (t_op_events t) \<and>
     list_all (\<lambda>e. 0 < oe_ID e \<and> oe_ID e \<le> t_op_seq t) (t_op_events t) \<and> 0 \<le> t_op_seq t \<and>
     unique_key (\<lambda>e. (oe_ClusterID e, oe_Kind e, oe_DedupeKey e))
       (filter (\<lambda>e. oe_DedupeKey e \<noteq> '''') (t_op_events t))"

definition validRoleRow :: "Role \<Rightarrow> bool" where
  "validRoleRow role = (role \<in> set [RoleAdmin, RoleOperator, RoleReadOnly])"

definition createUsersTable :: "tables \<Rightarrow> bool" where
  "createUsersTable t \<longleftrightarrow>
     unique_key u_ID (t_users t) \<and> unique_key u_Username (t_users t) \<and> unique_key u_Email (t_users t) \<and>
     list_all (\<lambda>u. validRoleRow (u_Role u)) (t_users t)"

definition createSessionsTable :: "tables \<Rightarrow> bool" where
  "createSessionsTable t \<longleftrightarrow>
     unique_key ss_TokenHash (t_sessions t) \<and> references ss_UserID (t_sessions t) u_ID (t_users t)"

definition createAuditEventsTable :: "tables \<Rightarrow> bool" where
  "createAuditEventsTable t \<longleftrightarrow> unique_key au_ID (t_audit t)"

definition createSettingsTable :: "tables \<Rightarrow> bool" where
  "createSettingsTable t \<longleftrightarrow> unique_key fst (t_settings t)"

definition createAlertRulesTable :: "tables \<Rightarrow> bool" where
  "createAlertRulesTable t \<longleftrightarrow>
     unique_key ar_ID (t_alert_rules t) \<and> list_all (\<lambda>r. 0 \<le> ar_CooldownSeconds r) (t_alert_rules t)"

definition createAlertsTable :: "tables \<Rightarrow> bool" where
  "createAlertsTable t \<longleftrightarrow>
     unique_key al_ID (t_alerts t) \<and> references al_RuleID (t_alerts t) ar_ID (t_alert_rules t)"

lemmas schema_defs = createClustersTable_def createAgentsTable_def createSnapshotNodesTable_def
  createSnapshotPodsTable_def createSnapshotServicesTable_def createSnapshotDeploymentsTable_def
  createSnapshotNamespacesTable_def createSnapshotEventsTable_def createOperationalEventsTable_def
  createUsersTable_def createSessionsTable_def createAuditEventsTable_def createSettingsTable_def
  createAlertRulesTable_def createAlertsTable_def

definition db_wf :: "tables \<Rightarrow> bool" where
  "db_wf t \<longleftrightarrow>
     createClustersTable t \<and> createAgentsTable t \<and> createSnapshotNodesTable t \<and>
     createSnapshotPodsTable t \<and> createSnapshotServicesTable t \<and> createSnapshotDeploymentsTable t \<and>
     createSnapshotNamespacesTable t \<and> createSnapshotEventsTable t \<and>
     createOperationalEventsTable t \<and> createUsersTable t \<and> createSessionsTable t \<and>
     createAuditEventsTable t \<and> createSettingsTable t \<and> createAlertRulesTable t \<and>
     createAlertsTable t"

lemma db_wf_empty: "db_wf empty_tables"
  by (simp add: db_wf_def schema_defs empty_tables_def unique_key_def references_def)

section \<open>Keys and references under changes of rows\<close>

lemma unique_key_updWhere [simp]:
  "(\<And>r. P r \<Longrightarrow> k (f r) = k r) \<Longrightarrow> unique_key k (updWhere P f rows) = unique_key k rows"
  by (simp add: unique_key_def map_updWhere)

lemma unique_key_filter: "unique_key k rows \<Longrightarrow> unique_key k (filter P rows)"
  by (simp add: unique_key_def GoLib.distinct_map_filter)

lemma unique_key_insert [simp]:
  "unique_key k (rows @ [r]) \<longleftrightarrow> unique_key k rows \<and> k r \<notin> set (map k rows)"
  by (auto simp: unique_key_def)

lemma references_updWhere [simp]:
  "(\<And>r. P r \<Longrightarrow> fk (f r) = fk r) \<Longrightarrow>
     references fk (updWhere P f rows) pk parents = references fk rows pk parents"
proof -
  assume "\<And>r. P r \<Longrightarrow> fk (f r) = fk r"
  then have "map fk (updWhere P f rows) = map fk rows" by (rule map_updWhere)
  moreover have "references fk rs pk parents \<longleftrightarrow> set (map fk rs) \<subseteq> set (map pk parents)" for rs
    by (auto simp: references_def list_all_iff)
  ultimately show ?thesis by (simp only:)
qed

lemma references_updWhere_parent [simp]:
  "(\<And>r. P r \<Longrightarrow> pk (f r) = pk r) \<Longrightarrow>
     references fk rows pk (updWhere P f parents) = references fk rows pk parents"
  by (simp add: references_def map_updWhere)

lemma references_filter: "references fk rows pk parents \<Longrightarrow> references fk (filter P rows) pk parents"
  by (simp add: references_def list_all_iff)

lemma references_insert [simp]:
  "references fk (rows @ [r]) pk parents \<longleftrightarrow>
     references fk rows pk parents \<and> fk r \<in> set (map pk parents)"
  by (auto simp: references_def list_all_iff)

lemma references_parent_insert:
  "references fk rows pk parents \<Longrightarrow> references fk rows pk (parents @ [p])"
  by (auto simp: references_def list_all_iff)

text \<open>\<open>ON DELETE CASCADE\<close>: rows that refer to a deleted parent go with it.\<close>

lemma references_cascade:
  assumes "references fk rows pk parents"
  shows "references fk (filter (\<lambda>r. \<forall>p \<in> set parents. P p \<longrightarrow> pk p \<noteq> fk r) rows) pk
       (filter (\<lambda>p. \<not> P p) parents)"
  unfolding references_def list_all_iff
proof
  fix r assume "r \<in> set (filter (\<lambda>r. \<forall>p \<in> set parents. P p \<longrightarrow> pk p \<noteq> fk r) rows)"
  with assms obtain p where "p \<in> set parents" and "fk r = pk p" and "\<not> P p"
    by (fastforce simp: references_def list_all_iff)
  then show "fk r \<in> set (map pk (filter (\<lambda>p. \<not> P p) parents))" by auto
qed

lemma list_all_filter: "list_all Q rows \<Longrightarrow> list_all Q (filter P rows)"
  by (simp add: list_all_iff)

lemma list_all_updWhere:
  "list_all Q rows \<Longrightarrow> (\<And>r. r \<in> set rows \<Longrightarrow> P r \<Longrightarrow> Q r \<Longrightarrow> Q (f r)) \<Longrightarrow> list_all Q (updWhere P f rows)"
  by (auto simp: list_all_iff in_updWhere)

lemmas schema_change = unique_key_filter references_filter references_parent_insert references_cascade
  list_all_filter

end
