(* ===== verification/StoreClusters.thy ===== *)
theory StoreClusters
  imports Schema
begin

text \<open>
  \<open>internal/store/sqlite.go\<close>: clusters and agent credentials. Each operation issues the
  statements of the Go method in its order; \<open>now\<close> is the value of \<open>time.Now().UTC()\<close> in it.
\<close>

section \<open>Operations\<close>

definition scanCluster :: "Cluster \<Rightarrow> Cluster" where
  "scanCluster row = (if c_TenantID row = DefaultTenantID then row\<lparr>c_TenantID := ''''\<rparr> else row)"

definition CreateCluster :: "Cluster \<Rightarrow> unit storem" where
  "CreateCluster cluster =
     (let row = cluster\<lparr>c_TenantID := normalizeTenantID (c_TenantID cluster)\<rparr> in
      bindm (wrapErr ''create cluster'' (insertRow
        (\<lambda>t. if c_ID row \<in> set (map c_ID (t_clusters t)) \<or>
                (c_TenantID row, c_Name row) \<in> set (map (\<lambda>c. (c_TenantID c, c_Name c)) (t_clusters t))
             then Some SqlUnique else None)
        (\<lambda>t. t\<lparr>t_clusters := t_clusters t @ [row]\<rparr>)))
      (\<lambda>_. ret ()))"

definition foundCluster :: "Cluster option \<Rightarrow> Cluster storem" where
  "foundCluster row = (case row of None \<Rightarrow> throw ErrNotFound | Some c \<Rightarrow> ret (scanCluster c))"

definition GetCluster :: "string \<Rightarrow> Cluster storem" where
  "GetCluster cid =
     bindm (wrapErr ''get cluster'' (query (\<lambda>t. selectOne (\<lambda>c. c_ID c = cid) (t_clusters t))))
       foundCluster"

definition GetClusterForTenant :: "string \<Rightarrow> string \<Rightarrow> Cluster storem" where
  "GetClusterForTenant tenantID cid =
     bindm (wrapErr ''get cluster for tenant''
       (query (\<lambda>t. selectOne (\<lambda>c. c_ID c = cid \<and> c_TenantID c = normalizeTenantID tenantID)
                      (t_clusters t))))
       foundCluster"

definition CountClusters :: "int storem" where
  "CountClusters = wrapErr ''count clusters'' (query (\<lambda>t. int (length (t_clusters t))))"

definition ListClusters :: "Cluster list storem" where
  "ListClusters =
     wrapErr ''list clusters'' (query (\<lambda>t.
       map scanCluster (sort_key (\<lambda>c. (c_RegisteredAt c, c_Name c)) (t_clusters t))))"

definition ListClustersForTenant :: "string \<Rightarrow> Cluster list storem" where
  "ListClustersForTenant tenantID =
     wrapErr ''list clusters for tenant'' (query (\<lambda>t.
       map scanCluster (sort_key (\<lambda>c. (c_RegisteredAt c, c_Name c))
         (filter (\<lambda>c. c_TenantID c = normalizeTenantID tenantID) (t_clusters t)))))"

text \<open>\<open>DELETE FROM clusters\<close> with the cascades of the tables that refer to it.\<close>

definition cascadeClusters :: "(Cluster \<Rightarrow> bool) \<Rightarrow> tables \<Rightarrow> tables" where
  "cascadeClusters P t =
     (let gone = (\<lambda>k. \<exists>c \<in> set (t_clusters t). P c \<and> c_ID c = k) in
      t\<lparr>t_clusters := filter (\<lambda>c. \<not> P c) (t_clusters t),
        t_agents := filter (\<lambda>r. \<not> gone (ag_ClusterID r)) (t_agents t),
        t_nodes := filter (\<lambda>r. \<not> gone (fst r)) (t_nodes t),
        t_pods := filter (\<lambda>r. \<not> gone (fst r)) (t_pods t),
        t_services := filter (\<lambda>r. \<not> gone (fst r)) (t_services t),
        t_deployments := filter (\<lambda>r. \<not> gone (fst r)) (t_deployments t),
        t_namespaces := filter (\<lambda>r. \<not> gone (fst r)) (t_namespaces t),
        t_events := filter (\<lambda>r. \<not> gone (fst r)) (t_events t)\<rparr>)"

definition DeleteCluster :: "string \<Rightarrow> unit storem" where
  "DeleteCluster cid =
     bindm (wrapErr ''delete cluster'' (exec (\<lambda>t.
       (cnt (\<lambda>c. c_ID c = cid) (t_clusters t), cascadeClusters (\<lambda>c. c_ID c = cid) t))))
       requireAffectedRow"

definition updClusters :: "string \<Rightarrow> (Cluster \<Rightarrow> Cluster) \<Rightarrow> tables \<Rightarrow> nat \<times> tables" where
  "updClusters cid f t =
     (cnt (\<lambda>c. c_ID c = cid) (t_clusters t),
      t\<lparr>t_clusters := updWhere (\<lambda>c. c_ID c = cid) f (t_clusters t)\<rparr>)"

definition updAgents :: "string \<Rightarrow> (AgentRow \<Rightarrow> AgentRow) \<Rightarrow> tables \<Rightarrow> nat \<times> tables" where
  "updAgents cid f t =
     (cnt (\<lambda>a. ag_ClusterID a = cid) (t_agents t),
      t\<lparr>t_agents := updWhere (\<lambda>a. ag_ClusterID a = cid) f (t_agents t)\<rparr>)"

definition UpdateHealth :: "string \<Rightarrow> ClusterHealth \<Rightarrow> time \<Rightarrow> unit storem" where
  "UpdateHealth cid health lastHeartbeat =
     bindm (wrapErr ''update cluster health''
       (exec (updClusters cid (\<lambda>c. c\<lparr>c_Health := health, c_LastHeartbeat := lastHeartbeat\<rparr>))))
     (\<lambda>n. bindm (requireAffectedRow n)
     (\<lambda>_. bindm (wrapErr ''update agent heartbeat''
       (exec (updAgents cid (\<lambda>a. a\<lparr>ag_LastHeartbeat := Some lastHeartbeat\<rparr>))))
     (\<lambda>_. ret ())))"

text \<open>
  \<open>INSERT ... SELECT id FROM clusters WHERE id = ? ON CONFLICT(cluster_id) DO UPDATE\<close>: no row
  when the cluster is missing; the approval of an existing agent row is not touched.
\<close>

definition IssueAgentToken :: "string \<Rightarrow> string \<Rightarrow> time \<Rightarrow> unit storem" where
  "IssueAgentToken clusterID tokenHash now =
     bindm (wrapErr ''issue agent token'' (exec (\<lambda>t.
       if cnt (\<lambda>c. c_ID c = clusterID) (t_clusters t) = 0 then (0, t)
       else if clusterID \<in> set (map ag_ClusterID (t_agents t))
       then (1, snd (updAgents clusterID
              (\<lambda>a. a\<lparr>ag_TokenHash := tokenHash, ag_IssuedAt := now, ag_LastHeartbeat := None\<rparr>) t))
       else (1, t\<lparr>t_agents := t_agents t @
              [\<lparr>ag_ClusterID = clusterID, ag_TokenHash = tokenHash, ag_Approved = False,
                ag_IssuedAt = now, ag_LastHeartbeat = None\<rparr>]\<rparr>))))
       requireAffectedRow"

definition ValidateAgentToken :: "string \<Rightarrow> string \<Rightarrow> bool storem" where
  "ValidateAgentToken clusterID tokenHash =
     bindm (wrapErr ''validate agent token'' (query (\<lambda>t.
       selectOne (\<lambda>a. ag_ClusterID a = clusterID \<and> ag_TokenHash a = tokenHash) (t_agents t))))
       (\<lambda>row. case row of None \<Rightarrow> throw ErrNotFound | Some a \<Rightarrow> ret (ag_Approved a))"

definition ApproveAgent :: "string \<Rightarrow> unit storem" where
  "ApproveAgent clusterID =
     bindm (wrapErr ''approve agent'' (exec (updAgents clusterID (\<lambda>a. a\<lparr>ag_Approved := True\<rparr>))))
       requireAffectedRow"

definition pendingRows :: "(Cluster \<Rightarrow> bool) \<Rightarrow> tables \<Rightarrow> Cluster list" where
  "pendingRows P t =
     map (\<lambda>(c, a). scanCluster c)
       (sort_key (\<lambda>(c, a). (ag_IssuedAt a, c_Name c))
         (filter (\<lambda>(c, a). ag_ClusterID a = c_ID c \<and> \<not> ag_Approved a \<and> P c)
           (List.product (t_clusters t) (t_agents t))))"

definition ListPendingAgents :: "Cluster list storem" where
  "ListPendingAgents = wrapErr ''list pending agents'' (query (pendingRows (\<lambda>_. True)))"

definition ListPendingAgentsForTenant :: "string \<Rightarrow> Cluster list storem" where
  "ListPendingAgentsForTenant tenantID =
     wrapErr ''list pending agents for tenant''
       (query (pendingRows (\<lambda>c. c_TenantID c = normalizeTenantID tenantID)))"

definition UpdateSnapshot :: "string \<Rightarrow> int \<Rightarrow> int \<Rightarrow> string \<Rightarrow> unit storem" where
  "UpdateSnapshot cid nodeCount podCount version =
     bindm (wrapErr ''update cluster snapshot'' (exec (updClusters cid
       (\<lambda>c. c\<lparr>c_NodeCount := nodeCount, c_PodCount := podCount, c_Version := version\<rparr>))))
       requireAffectedRow"

lemmas cluster_ops = CreateCluster_def GetCluster_def GetClusterForTenant_def CountClusters_def
  ListClusters_def ListClustersForTenant_def DeleteCluster_def UpdateHealth_def IssueAgentToken_def
  ValidateAgentToken_def ApproveAgent_def ListPendingAgents_def ListPendingAgentsForTenant_def
  UpdateSnapshot_def foundCluster_def

section \<open>Well-formedness\<close>

lemma wf_updClusters [wf_intro]:
  "db_wf t \<Longrightarrow> (\<And>c. c_ID (f c) = c_ID c \<and> c_TenantID (f c) = c_TenantID c \<and> c_Name (f c) = c_Name c) \<Longrightarrow>
     db_wf (snd (updClusters cid f t))"
  by (simp add: updClusters_def db_wf_def schema_defs)

lemma wf_updAgents [wf_intro]:
  "db_wf t \<Longrightarrow> (\<And>a. ag_ClusterID (f a) = ag_ClusterID a) \<Longrightarrow> db_wf (snd (updAgents cid f t))"
  by (simp add: updAgents_def db_wf_def schema_defs)

lemma wf_insert_cluster [wf_intro]:
  "db_wf t \<Longrightarrow> c_ID row \<notin> set (map c_ID (t_clusters t)) \<Longrightarrow>
     (c_TenantID row, c_Name row) \<notin> set (map (\<lambda>c. (c_TenantID c, c_Name c)) (t_clusters t)) \<Longrightarrow>
     db_wf (t\<lparr>t_clusters := t_clusters t @ [row]\<rparr>)"
  by (simp add: db_wf_def schema_defs references_parent_insert)

lemma wf_insert_agent [wf_intro]:
  "db_wf t \<Longrightarrow> ag_ClusterID a \<notin> set (map ag_ClusterID (t_agents t)) \<Longrightarrow>
     ag_ClusterID a \<in> set (map c_ID (t_clusters t)) \<Longrightarrow> db_wf (t\<lparr>t_agents := t_agents t @ [a]\<rparr>)"
  by (simp add: db_wf_def schema_defs)

lemma wf_cascadeClusters [wf_intro]: "db_wf t \<Longrightarrow> db_wf (cascadeClusters P t)"
  by (simp add: db_wf_def schema_defs cascadeClusters_def Let_def schema_change)

lemma CreateCluster_wf [valid_intro]: "keepsT db_wf (CreateCluster cluster)"
  unfolding CreateCluster_def Let_def
  by (intro valid_intro keepsT_insertRow wf_intro) (auto split: if_splits)

lemma DeleteCluster_wf [valid_intro]: "keepsT db_wf (DeleteCluster cid)"
  unfolding DeleteCluster_def by (intro valid_intro keepsT_exec) (simp add: wf_intro)

lemma UpdateHealth_wf [valid_intro]: "keepsT db_wf (UpdateHealth cid health hb)"
  unfolding UpdateHealth_def by (intro valid_intro keepsT_exec wf_intro; simp)

lemma IssueAgentToken_wf [valid_intro]: "keepsT db_wf (IssueAgentToken cid h now)"
  unfolding IssueAgentToken_def
  by (intro valid_intro keepsT_exec) (auto intro!: wf_intro simp: image_iff)

lemma ApproveAgent_wf [valid_intro]: "keepsT db_wf (ApproveAgent cid)"
  unfolding ApproveAgent_def by (intro valid_intro keepsT_exec wf_intro; simp)

lemma UpdateSnapshot_wf [valid_intro]: "keepsT db_wf (UpdateSnapshot cid n p v)"
  unfolding UpdateSnapshot_def by (intro valid_intro keepsT_exec wf_intro; simp)

text \<open>The reads change no table at all.\<close>

lemma foundCluster_keeps [valid_intro]: "keepsT I (foundCluster row)"
  unfolding foundCluster_def by (intro valid_intro)

lemma cluster_reads [valid_intro]:
  "keepsT I (GetCluster cid)" "keepsT I (GetClusterForTenant ten cid)" "keepsT I CountClusters"
  "keepsT I ListClusters" "keepsT I (ListClustersForTenant ten)" "keepsT I (ValidateAgentToken cid h)"
  "keepsT I ListPendingAgents" "keepsT I (ListPendingAgentsForTenant ten)"
  unfolding GetCluster_def GetClusterForTenant_def CountClusters_def ListClusters_def
    ListClustersForTenant_def ValidateAgentToken_def ListPendingAgents_def
    ListPendingAgentsForTenant_def
  by (intro valid_intro)+

end
