(* ===== verification/StoreSnapshot.thy ===== *)
theory StoreSnapshot
  imports StoreClusters
begin

text \<open>
  \<open>internal/store/sqlite.go\<close>: the replaceable cluster snapshot. \<open>ReplaceSnapshot\<close> is one
  transaction that updates the cluster row, clears the six snapshot tables of the cluster and
  inserts the reported objects; \<open>replacedTables\<close> is what it promises. The locale
  \<open>snapshot_table\<close> is what the six tables have in common.
\<close>

section \<open>Operations\<close>

text \<open>The columns a snapshot row is inserted with, keyed by the cluster.\<close>

definition insertSnapshotRow ::
  "string \<Rightarrow> (string \<times> 'r \<Rightarrow> 'k) \<Rightarrow> (tables \<Rightarrow> (string \<times> 'r) list) \<Rightarrow>
   ((string \<times> 'r) list \<Rightarrow> tables \<Rightarrow> tables) \<Rightarrow> string \<Rightarrow> 'r \<Rightarrow> unit storem" where
  "insertSnapshotRow msg key rows put cid r =
     bindm (wrapErr msg (insertRow
       (\<lambda>t. if key (cid, r) \<in> set (map key (rows t)) then Some SqlUnique
            else if cid \<notin> set (map c_ID (t_clusters t)) then Some SqlForeignKey else None)
       (\<lambda>t. put (rows t @ [(cid, r)]) t)))
     (\<lambda>_. ret ())"

definition nodeKey :: "string \<times> Node \<Rightarrow> string \<times> string" where
  "nodeKey = (\<lambda>(c, n). (c, n_Name n))"
definition podKey :: "string \<times> Pod \<Rightarrow> string \<times> string \<times> string" where
  "podKey = (\<lambda>(c, p). (c, p_Namespace p, p_Name p))"
definition serviceKey :: "string \<times> Service \<Rightarrow> string \<times> string \<times> string" where
  "serviceKey = (\<lambda>(c, s). (c, sv_Namespace s, sv_Name s))"
definition deploymentKey :: "string \<times> Deployment \<Rightarrow> string \<times> string \<times> string" where
  "deploymentKey = (\<lambda>(c, d). (c, d_Namespace d, d_Name d))"
definition namespaceKey :: "string \<times> Namespace \<Rightarrow> string \<times> string" where
  "namespaceKey = (\<lambda>(c, n). (c, ns_Name n))"
definition eventKey :: "string \<times> nat \<times> Event \<Rightarrow> string \<times> nat" where
  "eventKey = (\<lambda>(c, i, e). (c, i))"

abbreviation putNodes :: "(string \<times> Node) list \<Rightarrow> tables \<Rightarrow> tables" where
  "putNodes rs t \<equiv> t\<lparr>t_nodes := rs\<rparr>"
abbreviation putPods :: "(string \<times> Pod) list \<Rightarrow> tables \<Rightarrow> tables" where
  "putPods rs t \<equiv> t\<lparr>t_pods := rs\<rparr>"
abbreviation putServices :: "(string \<times> Service) list \<Rightarrow> tables \<Rightarrow> tables" where
  "putServices rs t \<equiv> t\<lparr>t_services := rs\<rparr>"
abbreviation putDeployments :: "(string \<times> Deployment) list \<Rightarrow> tables \<Rightarrow> tables" where
  "putDeployments rs t \<equiv> t\<lparr>t_deployments := rs\<rparr>"
abbreviation putNamespaces :: "(string \<times> Namespace) list \<Rightarrow> tables \<Rightarrow> tables" where
  "putNamespaces rs t \<equiv> t\<lparr>t_namespaces := rs\<rparr>"
abbreviation putEvents :: "(string \<times> nat \<times> Event) list \<Rightarrow> tables \<Rightarrow> tables" where
  "putEvents rs t \<equiv> t\<lparr>t_events := rs\<rparr>"

text \<open>\<open>DELETE FROM <table> WHERE cluster_id = ?\<close>\<close>

definition clearRows ::
  "(tables \<Rightarrow> (string \<times> 'r) list) \<Rightarrow> ((string \<times> 'r) list \<Rightarrow> tables \<Rightarrow> tables) \<Rightarrow>
   string \<Rightarrow> tables \<Rightarrow> nat \<times> tables" where
  "clearRows rows put cid t =
     (cnt (\<lambda>r. fst r = cid) (rows t), put (filter (\<lambda>r. fst r \<noteq> cid) (rows t)) t)"

definition snapshotTables :: "(string \<times> (string \<Rightarrow> tables \<Rightarrow> nat \<times> tables)) list" where
  "snapshotTables =
     [(''snapshot_nodes'', clearRows t_nodes putNodes),
      (''snapshot_pods'', clearRows t_pods putPods),
      (''snapshot_services'', clearRows t_services putServices),
      (''snapshot_deployments'', clearRows t_deployments putDeployments),
      (''snapshot_namespaces'', clearRows t_namespaces putNamespaces),
      (''snapshot_events'', clearRows t_events putEvents)]"

definition clearSnapshot :: "string \<Rightarrow> unit storem" where
  "clearSnapshot cid =
     forEach snapshotTables (\<lambda>(table, del).
       bindm (wrapErr (''clear '' @ table) (exec (del cid))) (\<lambda>_. ret ()))"

definition setSnapshot ::
  "ClusterSnapshot \<Rightarrow> string \<Rightarrow> string \<Rightarrow> ClusterHealth \<Rightarrow> time \<Rightarrow> Cluster \<Rightarrow> Cluster" where
  "setSnapshot snapshot version agentVersion health lastHeartbeat c =
     c\<lparr>c_NodeCount := int (length (sn_Nodes snapshot)), c_PodCount := int (length (sn_Pods snapshot)),
       c_Version := version, c_AgentVersion := agentVersion, c_Health := health,
       c_LastHeartbeat := lastHeartbeat\<rparr>"

definition insertSnapshot :: "string \<Rightarrow> ClusterSnapshot \<Rightarrow> unit storem" where
  "insertSnapshot cid snapshot =
     bindm (forEach (sn_Nodes snapshot)
       (insertSnapshotRow ''insert snapshot node'' nodeKey t_nodes putNodes cid)) (\<lambda>_.
     bindm (forEach (sn_Pods snapshot)
       (insertSnapshotRow ''insert snapshot pod'' podKey t_pods putPods cid)) (\<lambda>_.
     bindm (forEach (sn_Services snapshot)
       (insertSnapshotRow ''insert snapshot service'' serviceKey t_services putServices cid)) (\<lambda>_.
     bindm (forEach (sn_Deployments snapshot)
       (insertSnapshotRow ''insert snapshot deployment'' deploymentKey t_deployments putDeployments cid)) (\<lambda>_.
     bindm (forEach (sn_Namespaces snapshot)
       (insertSnapshotRow ''insert snapshot namespace'' namespaceKey t_namespaces putNamespaces cid)) (\<lambda>_.
     forEach (enumerate 0 (sn_Events snapshot))
       (insertSnapshotRow ''insert snapshot event'' eventKey t_events putEvents cid))))))"

definition ReplaceSnapshot ::
  "string \<Rightarrow> ClusterSnapshot \<Rightarrow> string \<Rightarrow> string \<Rightarrow> ClusterHealth \<Rightarrow> time \<Rightarrow> unit storem" where
  "ReplaceSnapshot cid snapshot version agentVersion health lastHeartbeat =
     tx ''begin snapshot transaction'' (\<lambda>_. ''commit snapshot transaction'')
       (bindm (wrapErr ''update snapshot metadata''
          (exec (updClusters cid (setSnapshot snapshot version agentVersion health lastHeartbeat)))) (\<lambda>n.
        bindm (requireAffectedRow n) (\<lambda>_.
        bindm (wrapErr ''update snapshot heartbeat''
          (exec (updAgents cid (\<lambda>a. a\<lparr>ag_LastHeartbeat := Some lastHeartbeat\<rparr>)))) (\<lambda>_.
        bindm (clearSnapshot cid) (\<lambda>_.
        insertSnapshot cid snapshot)))))"

text \<open>The lists; the optional namespace filter is the empty string for all namespaces.\<close>

definition rowsOf :: "string \<Rightarrow> (string \<times> 'r) list \<Rightarrow> 'r list" where
  "rowsOf cid rows = map snd (filter (\<lambda>r. fst r = cid) rows)"

definition inNamespace :: "string \<Rightarrow> ('r \<Rightarrow> string) \<Rightarrow> 'r list \<Rightarrow> 'r list" where
  "inNamespace namespace f rows = (if namespace = '''' then rows else filter (\<lambda>r. f r = namespace) rows)"

definition ListNodes :: "string \<Rightarrow> Node list storem" where
  "ListNodes clusterID = wrapErr ''list snapshot nodes'' (query (\<lambda>t.
     sort_key n_Name (rowsOf clusterID (t_nodes t))))"

definition ListPods :: "string \<Rightarrow> string \<Rightarrow> Pod list storem" where
  "ListPods clusterID namespace = wrapErr ''list snapshot pods'' (query (\<lambda>t.
     sort_key (\<lambda>p. (p_Namespace p, p_Name p)) (inNamespace namespace p_Namespace (rowsOf clusterID (t_pods t)))))"

definition ListServices :: "string \<Rightarrow> string \<Rightarrow> Service list storem" where
  "ListServices clusterID namespace = wrapErr ''list snapshot services'' (query (\<lambda>t.
     sort_key (\<lambda>s. (sv_Namespace s, sv_Name s)) (inNamespace namespace sv_Namespace (rowsOf clusterID (t_services t)))))"

definition ListDeployments :: "string \<Rightarrow> string \<Rightarrow> Deployment list storem" where
  "ListDeployments clusterID namespace = wrapErr ''list snapshot deployments'' (query (\<lambda>t.
     sort_key (\<lambda>d. (d_Namespace d, d_Name d)) (inNamespace namespace d_Namespace (rowsOf clusterID (t_deployments t)))))"

definition ListEvents :: "string \<Rightarrow> string \<Rightarrow> Event list storem" where
  "ListEvents clusterID namespace = wrapErr ''list snapshot events'' (query (\<lambda>t.
     map (\<lambda>(i, e). e\<lparr>ev_ClusterID := clusterID\<rparr>)
       (sort_key fst (inNamespace namespace (\<lambda>(i, e). ev_Namespace e) (rowsOf clusterID (t_events t))))))"

definition ListNamespaces :: "string \<Rightarrow> string list storem" where
  "ListNamespaces clusterID = wrapErr ''list snapshot namespaces'' (query (\<lambda>t.
     sort (filter (\<lambda>n. n \<noteq> '''') (remdups
       (map ns_Name (rowsOf clusterID (t_namespaces t)) @
        map p_Namespace (rowsOf clusterID (t_pods t)) @
        map sv_Namespace (rowsOf clusterID (t_services t)) @
        map d_Namespace (rowsOf clusterID (t_deployments t)) @
        map (\<lambda>(i, e). ev_Namespace e) (rowsOf clusterID (t_events t)))))))"

definition ListNamespaceConfigs :: "string \<Rightarrow> Namespace list storem" where
  "ListNamespaceConfigs clusterID = wrapErr ''list snapshot namespace configs'' (query (\<lambda>t.
     sort_key ns_Name (rowsOf clusterID (t_namespaces t))))"

section \<open>What a snapshot table does\<close>

locale snapshot_table =
  fixes rows :: "tables \<Rightarrow> (string \<times> 'r) list"
    and put :: "(string \<times> 'r) list \<Rightarrow> tables \<Rightarrow> tables"
    and key :: "string \<times> 'r \<Rightarrow> 'k"
  assumes rows_put [simp]: "rows (put rs t) = rs"
    and put_put [simp]: "put rs (put rs' t) = put rs t"
    and put_rows [simp]: "put (rows t) t = t"
    and clusters_put [simp]: "t_clusters (put rs t) = t_clusters t"
    and wf_unique: "db_wf t \<Longrightarrow> unique_key key (rows t)"
    and wf_put: "db_wf t \<Longrightarrow> unique_key key rs \<Longrightarrow> references fst rs c_ID (t_clusters t) \<Longrightarrow> db_wf (put rs t)"
    and wf_references: "db_wf t \<Longrightarrow> references fst (rows t) c_ID (t_clusters t)"
    and key_cluster: "key (c, r) = key (c', r') \<Longrightarrow> c = c'"
begin

lemma insertRow_ok:
  assumes "insertSnapshotRow msg key rows put cid r d = (Inr x, d')"
  shows "db_tables d' = put (rows (db_tables d) @ [(cid, r)]) (db_tables d)"
    and "key (cid, r) \<notin> set (map key (rows (db_tables d)))"
  using assms by (auto simp: insertSnapshotRow_def bindm_ok wrapErr_ok insertRow_def
      dest!: stmt_ok split: option.splits if_splits)

lemma insertAll_ok:
  "forEach rs (insertSnapshotRow msg key rows put cid) d = (Inr x, d') \<Longrightarrow>
     db_tables d' = put (rows (db_tables d) @ map (Pair cid) rs) (db_tables d) \<and>
     distinct (map (\<lambda>r. key (cid, r)) rs) \<and>
     (\<forall>r \<in> set rs. key (cid, r) \<notin> set (map key (rows (db_tables d))))"
proof (induction rs arbitrary: d)
  case (Cons r rs)
  then obtain u d1 where 1: "insertSnapshotRow msg key rows put cid r d = (Inr u, d1)"
    and 2: "forEach rs (insertSnapshotRow msg key rows put cid) d1 = (Inr x, d')"
    by (auto simp: bindm_ok)
  note t1 = insertRow_ok [OF 1]
  from Cons.IH [OF 2] show ?case
    unfolding t1(1) using t1(2) by auto
qed simp

lemma insertAll_nf:
  "db_faults d = [] \<Longrightarrow> cid \<in> set (map c_ID (t_clusters (db_tables d))) \<Longrightarrow>
     distinct (map (\<lambda>r. key (cid, r)) rs) \<Longrightarrow>
     (\<forall>r \<in> set rs. key (cid, r) \<notin> set (map key (rows (db_tables d)))) \<Longrightarrow>
     forEach rs (insertSnapshotRow msg key rows put cid) d =
       (Inr (), d\<lparr>db_tables := put (rows (db_tables d) @ map (Pair cid) rs) (db_tables d)\<rparr>)"
proof (induction rs arbitrary: d)
  case Nil
  then show ?case by (simp add: ret_def)
next
  case (Cons r rs)
  let ?d1 = "d\<lparr>db_tables := put (rows (db_tables d) @ [(cid, r)]) (db_tables d)\<rparr>"
  have 1: "insertSnapshotRow msg key rows put cid r d = (Inr (), ?d1)"
    using Cons.prems by (auto simp: insertSnapshotRow_def bindm_def db_simps ret_def)
  have "forEach rs (insertSnapshotRow msg key rows put cid) ?d1 =
      (Inr (), ?d1\<lparr>db_tables := put (rows (db_tables ?d1) @ map (Pair cid) rs) (db_tables ?d1)\<rparr>)"
    using Cons.prems by (intro Cons.IH) (auto, metis image_eqI)
  with 1 show ?case by (simp add: bindm_def)
qed

lemma insertAll_wf: "keepsT db_wf (forEach rs (insertSnapshotRow msg key rows put cid))"
proof (intro valid_intro)
  fix r
  show "keepsT db_wf (insertSnapshotRow msg key rows put cid r)"
    unfolding insertSnapshotRow_def
  proof (intro valid_intro keepsT_insertRow)
    fix t
    assume wf: "db_wf t"
      and chk: "(if key (cid, r) \<in> set (map key (rows t)) then Some SqlUnique
        else if cid \<notin> set (map c_ID (t_clusters t)) then Some SqlForeignKey else None) = None"
    show "db_wf (put (rows t @ [(cid, r)]) t)"
      using wf chk wf_unique [OF wf] wf_references [OF wf]
      by (intro wf_put) (auto split: if_splits)
  qed
qed

lemma clear_wf: "db_wf t \<Longrightarrow> db_wf (snd (clearRows rows put cid t))"
  unfolding clearRows_def snd_conv
  by (rule wf_put) (simp_all add: wf_unique unique_key_filter wf_references references_filter)

lemma cleared_keys:
  "r \<in> set (filter (\<lambda>r. fst r \<noteq> cid) (rows t)) \<Longrightarrow> key (cid, x) \<noteq> key r"
  using key_cluster by (cases r) auto

end

interpretation nodes: snapshot_table t_nodes putNodes nodeKey
  by unfold_locales (auto simp: db_wf_def schema_defs nodeKey_def)
interpretation pods: snapshot_table t_pods putPods podKey
  by unfold_locales (auto simp: db_wf_def schema_defs podKey_def)
interpretation services: snapshot_table t_services putServices serviceKey
  by unfold_locales (auto simp: db_wf_def schema_defs serviceKey_def)
interpretation deployments: snapshot_table t_deployments putDeployments deploymentKey
  by unfold_locales (auto simp: db_wf_def schema_defs deploymentKey_def)
interpretation namespaces: snapshot_table t_namespaces putNamespaces namespaceKey
  by unfold_locales (auto simp: db_wf_def schema_defs namespaceKey_def)
interpretation events: snapshot_table t_events putEvents eventKey
  by unfold_locales (auto simp: db_wf_def schema_defs eventKey_def)

section \<open>Replacement\<close>

text \<open>What the transaction promises: the rows of this cluster are the reported ones, in order.\<close>

definition replaceRows :: "string \<Rightarrow> 'r list \<Rightarrow> (string \<times> 'r) list \<Rightarrow> (string \<times> 'r) list" where
  "replaceRows cid rs rows = filter (\<lambda>r. fst r \<noteq> cid) rows @ map (Pair cid) rs"

definition replacedTables ::
  "string \<Rightarrow> ClusterSnapshot \<Rightarrow> string \<Rightarrow> string \<Rightarrow> ClusterHealth \<Rightarrow> time \<Rightarrow> tables \<Rightarrow> tables" where
  "replacedTables cid sn version agentVersion health hb t =
     t\<lparr>t_clusters := updWhere (\<lambda>c. c_ID c = cid) (setSnapshot sn version agentVersion health hb) (t_clusters t),
       t_agents := updWhere (\<lambda>a. ag_ClusterID a = cid) (\<lambda>a. a\<lparr>ag_LastHeartbeat := Some hb\<rparr>) (t_agents t),
       t_nodes := replaceRows cid (sn_Nodes sn) (t_nodes t),
       t_pods := replaceRows cid (sn_Pods sn) (t_pods t),
       t_services := replaceRows cid (sn_Services sn) (t_services t),
       t_deployments := replaceRows cid (sn_Deployments sn) (t_deployments t),
       t_namespaces := replaceRows cid (sn_Namespaces sn) (t_namespaces t),
       t_events := replaceRows cid (enumerate 0 (sn_Events sn)) (t_events t)\<rparr>"

text \<open>A snapshot without two objects of a kind under the same name.\<close>

definition distinctSnapshot :: "ClusterSnapshot \<Rightarrow> bool" where
  "distinctSnapshot sn \<longleftrightarrow>
     distinct (map n_Name (sn_Nodes sn)) \<and>
     distinct (map (\<lambda>p. (p_Namespace p, p_Name p)) (sn_Pods sn)) \<and>
     distinct (map (\<lambda>s. (sv_Namespace s, sv_Name s)) (sn_Services sn)) \<and>
     distinct (map (\<lambda>d. (d_Namespace d, d_Name d)) (sn_Deployments sn)) \<and>
     distinct (map ns_Name (sn_Namespaces sn))"

lemma rowsOf_replaceRows [simp]: "rowsOf cid (replaceRows cid rs rows) = rs"
  by (simp add: rowsOf_def replaceRows_def filter_map comp_def)

lemma rowsOf_replaceRows_other [simp]:
  "cid' \<noteq> cid \<Longrightarrow> rowsOf cid' (replaceRows cid rs rows) = rowsOf cid' rows"
  by (auto simp: rowsOf_def replaceRows_def filter_map comp_def intro!: arg_cong [where f = "map snd"] filter_cong)

lemma insertSnapshot_ok:
  assumes "insertSnapshot cid sn d = (Inr x, d')"
  shows "db_tables d' = (db_tables d)
      \<lparr>t_nodes := t_nodes (db_tables d) @ map (Pair cid) (sn_Nodes sn),
       t_pods := t_pods (db_tables d) @ map (Pair cid) (sn_Pods sn),
       t_services := t_services (db_tables d) @ map (Pair cid) (sn_Services sn),
       t_deployments := t_deployments (db_tables d) @ map (Pair cid) (sn_Deployments sn),
       t_namespaces := t_namespaces (db_tables d) @ map (Pair cid) (sn_Namespaces sn),
       t_events := t_events (db_tables d) @ map (Pair cid) (enumerate 0 (sn_Events sn))\<rparr>"
    and "distinctSnapshot sn"
proof -
  obtain u1 d1 u2 d2 u3 d3 u4 d4 u5 d5 where
    n: "forEach (sn_Nodes sn) (insertSnapshotRow ''insert snapshot node'' nodeKey t_nodes putNodes cid) d = (Inr u1, d1)"
    and p: "forEach (sn_Pods sn) (insertSnapshotRow ''insert snapshot pod'' podKey t_pods putPods cid) d1 = (Inr u2, d2)"
    and s: "forEach (sn_Services sn) (insertSnapshotRow ''insert snapshot service'' serviceKey t_services putServices cid) d2
      = (Inr u3, d3)"
    and dp: "forEach (sn_Deployments sn)
      (insertSnapshotRow ''insert snapshot deployment'' deploymentKey t_deployments putDeployments cid) d3 = (Inr u4, d4)"
    and ns: "forEach (sn_Namespaces sn)
      (insertSnapshotRow ''insert snapshot namespace'' namespaceKey t_namespaces putNamespaces cid) d4 = (Inr u5, d5)"
    and ev: "forEach (enumerate 0 (sn_Events sn))
      (insertSnapshotRow ''insert snapshot event'' eventKey t_events putEvents cid) d5 = (Inr x, d')"
    using assms unfolding insertSnapshot_def bindm_ok by blast
  note ok = nodes.insertAll_ok [OF n] pods.insertAll_ok [OF p] services.insertAll_ok [OF s]
    deployments.insertAll_ok [OF dp] namespaces.insertAll_ok [OF ns] events.insertAll_ok [OF ev]
  show "db_tables d' = (db_tables d)
      \<lparr>t_nodes := t_nodes (db_tables d) @ map (Pair cid) (sn_Nodes sn),
       t_pods := t_pods (db_tables d) @ map (Pair cid) (sn_Pods sn),
       t_services := t_services (db_tables d) @ map (Pair cid) (sn_Services sn),
       t_deployments := t_deployments (db_tables d) @ map (Pair cid) (sn_Deployments sn),
       t_namespaces := t_namespaces (db_tables d) @ map (Pair cid) (sn_Namespaces sn),
       t_events := t_events (db_tables d) @ map (Pair cid) (enumerate 0 (sn_Events sn))\<rparr>"
    using ok by simp
  show "distinctSnapshot sn"
    using ok by (simp add: distinctSnapshot_def nodeKey_def podKey_def serviceKey_def
        deploymentKey_def namespaceKey_def distinct_map inj_on_def)
qed

text \<open>Conversely, such a snapshot is inserted, into tables that hold no row of the cluster.\<close>

definition noRows :: "string \<Rightarrow> tables \<Rightarrow> bool" where
  "noRows cid t \<longleftrightarrow> rowsOf cid (t_nodes t) = [] \<and> rowsOf cid (t_pods t) = [] \<and>
     rowsOf cid (t_services t) = [] \<and> rowsOf cid (t_deployments t) = [] \<and>
     rowsOf cid (t_namespaces t) = [] \<and> rowsOf cid (t_events t) = []"

lemma rowsOf_Nil_key: "rowsOf cid rs = [] \<Longrightarrow> (\<And>c x c' x'. key (c, x) = key (c', x') \<Longrightarrow> c = c') \<Longrightarrow>
    \<forall>r \<in> set xs. key (cid, r) \<notin> set (map key rs)"
  by (fastforce simp: rowsOf_def filter_empty_conv)

lemma insertSnapshot_nf:
  assumes nf: "db_faults d = []" and c: "cid \<in> set (map c_ID (t_clusters (db_tables d)))"
    and dist: "distinctSnapshot sn" and none: "noRows cid (db_tables d)"
  shows "insertSnapshot cid sn d = (Inr (), d\<lparr>db_tables := (db_tables d)
      \<lparr>t_nodes := t_nodes (db_tables d) @ map (Pair cid) (sn_Nodes sn),
       t_pods := t_pods (db_tables d) @ map (Pair cid) (sn_Pods sn),
       t_services := t_services (db_tables d) @ map (Pair cid) (sn_Services sn),
       t_deployments := t_deployments (db_tables d) @ map (Pair cid) (sn_Deployments sn),
       t_namespaces := t_namespaces (db_tables d) @ map (Pair cid) (sn_Namespaces sn),
       t_events := t_events (db_tables d) @ map (Pair cid) (enumerate 0 (sn_Events sn))\<rparr>\<rparr>)"
proof -
  have k: "distinct (map (\<lambda>r. nodeKey (cid, r)) (sn_Nodes sn))"
    "distinct (map (\<lambda>r. podKey (cid, r)) (sn_Pods sn))"
    "distinct (map (\<lambda>r. serviceKey (cid, r)) (sn_Services sn))"
    "distinct (map (\<lambda>r. deploymentKey (cid, r)) (sn_Deployments sn))"
    "distinct (map (\<lambda>r. namespaceKey (cid, r)) (sn_Namespaces sn))"
    using dist by (simp_all add: distinctSnapshot_def nodeKey_def podKey_def serviceKey_def
        deploymentKey_def namespaceKey_def distinct_map inj_on_def)
  have "distinct (map (\<lambda>r. eventKey (cid, r)) (enumerate 0 (sn_Events sn)))"
    by (auto simp: eventKey_def distinct_map inj_on_def in_set_enumerate_eq split: prod.splits)
  note k = k this
  note rk = rowsOf_Nil_key [OF _ nodes.key_cluster] rowsOf_Nil_key [OF _ pods.key_cluster]
    rowsOf_Nil_key [OF _ services.key_cluster] rowsOf_Nil_key [OF _ deployments.key_cluster]
    rowsOf_Nil_key [OF _ namespaces.key_cluster] rowsOf_Nil_key [OF _ events.key_cluster]
  show ?thesis
    using nf c none k unfolding insertSnapshot_def noRows_def
    by (simp add: bindm_def nodes.insertAll_nf pods.insertAll_nf services.insertAll_nf
        deployments.insertAll_nf namespaces.insertAll_nf events.insertAll_nf rk [simplified])
qed

lemma updClusters_eq: "updClusters cid f t =
    (cnt (\<lambda>c. c_ID c = cid) (t_clusters t),
     t\<lparr>t_clusters := updWhere (\<lambda>c. c_ID c = cid) f (t_clusters t)\<rparr>)"
  by (simp add: updClusters_def)

text \<open>The six deletes leave the rows of the other clusters.\<close>

definition clearedTables :: "string \<Rightarrow> tables \<Rightarrow> tables" where
  "clearedTables cid t =
    t\<lparr>t_nodes := filter (\<lambda>r. fst r \<noteq> cid) (t_nodes t), t_pods := filter (\<lambda>r. fst r \<noteq> cid) (t_pods t),
      t_services := filter (\<lambda>r. fst r \<noteq> cid) (t_services t),
      t_deployments := filter (\<lambda>r. fst r \<noteq> cid) (t_deployments t),
      t_namespaces := filter (\<lambda>r. fst r \<noteq> cid) (t_namespaces t),
      t_events := filter (\<lambda>r. fst r \<noteq> cid) (t_events t)\<rparr>"

lemma clearSnapshot_ok: "clearSnapshot cid d = (Inr x, d') \<Longrightarrow> db_tables d' = clearedTables cid (db_tables d)"
  by (auto simp: clearSnapshot_def snapshotTables_def clearRows_def clearedTables_def
      bindm_ok wrapErr_ok dest!: exec_ok)

lemma clearSnapshot_nf:
  "db_faults d = [] \<Longrightarrow> clearSnapshot cid d = (Inr (), d\<lparr>db_tables := clearedTables cid (db_tables d)\<rparr>)"
  by (simp add: clearSnapshot_def snapshotTables_def clearRows_def clearedTables_def bindm_def db_simps ret_def)

lemma clearSnapshot_wf: "keepsT db_wf (clearSnapshot cid)"
proof -
  have "db_wf (snd (snd td cid t))" if "td \<in> set snapshotTables" and "db_wf t" for td t
    using that by (auto simp: snapshotTables_def nodes.clear_wf pods.clear_wf services.clear_wf
        deployments.clear_wf namespaces.clear_wf events.clear_wf)
  then show ?thesis
    unfolding clearSnapshot_def case_prod_beta by (intro valid_intro keepsT_exec) blast
qed

lemma noRows_cleared: "noRows cid (clearedTables cid t)"
  by (simp add: clearedTables_def noRows_def rowsOf_def)

lemma ReplaceSnapshot_ok:
  assumes "ReplaceSnapshot cid sn version agentVersion health hb d = (Inr x, d')"
  shows "db_tables d' = replacedTables cid sn version agentVersion health hb (db_tables d) \<and>
    distinctSnapshot sn \<and> cid \<in> set (map c_ID (t_clusters (db_tables d)))"
proof -
  let ?t = "db_tables d"
  obtain d0 d1 where 0: "db_tables d0 = ?t" and 1: "db_tables d' = db_tables d1"
    and body: "bindm (wrapErr ''update snapshot metadata''
          (exec (updClusters cid (setSnapshot sn version agentVersion health hb)))) (\<lambda>n.
        bindm (requireAffectedRow n) (\<lambda>_.
        bindm (wrapErr ''update snapshot heartbeat''
          (exec (updAgents cid (\<lambda>a. a\<lparr>ag_LastHeartbeat := Some hb\<rparr>)))) (\<lambda>_.
        bindm (clearSnapshot cid) (\<lambda>_.
        insertSnapshot cid sn)))) d0 = (Inr x, d1)"
    using tx_ok [OF assms [unfolded ReplaceSnapshot_def]] by blast
  from body obtain n a u m b w c where
    s1: "exec (updClusters cid (setSnapshot sn version agentVersion health hb)) d0 = (Inr n, a)"
    and s2: "requireAffectedRow n a = (Inr u, b)"
    and s3: "exec (updAgents cid (\<lambda>a. a\<lparr>ag_LastHeartbeat := Some hb\<rparr>)) b = (Inr m, c)"
    and s4: "\<exists>e. clearSnapshot cid c = (Inr w, e) \<and>
        insertSnapshot cid sn e = (Inr x, d1)"
    unfolding bindm_ok wrapErr_ok by blast
  from s4 obtain e where s5: "clearSnapshot cid c = (Inr w, e)"
    and s6: "insertSnapshot cid sn e = (Inr x, d1)" by blast
  note ts = exec_ok [OF s1] requireAffectedRow_ok [OF s2] exec_ok [OF s3]
    clearSnapshot_ok [OF s5, unfolded clearedTables_def] insertSnapshot_ok [OF s6]
  have "cid \<in> set (map c_ID (t_clusters ?t))"
    using ts 0 by (force simp: updClusters_def)
  moreover have "db_tables d' = replacedTables cid sn version agentVersion health hb ?t"
    using ts 0 1 by (simp add: updClusters_def updAgents_def replacedTables_def replaceRows_def)
  ultimately show ?thesis using ts by blast
qed

lemma ReplaceSnapshot_err:
  "ReplaceSnapshot cid sn version agentVersion health hb d = (Inl e, d') \<Longrightarrow> db_tables d' = db_tables d"
  unfolding ReplaceSnapshot_def by (rule tx_err)

lemma ReplaceSnapshot_nf:
  assumes nf: "db_faults d = []" and c: "cid \<in> set (map c_ID (t_clusters (db_tables d)))"
    and dist: "distinctSnapshot sn"
  shows "ReplaceSnapshot cid sn version agentVersion health hb d =
    (Inr (), d\<lparr>db_tables := replacedTables cid sn version agentVersion health hb (db_tables d)\<rparr>)"
proof -
  let ?t1 = "snd (updAgents cid (\<lambda>a. a\<lparr>ag_LastHeartbeat := Some hb\<rparr>)
    (snd (updClusters cid (setSnapshot sn version agentVersion health hb) (db_tables d))))"
  let ?t2 = "clearedTables cid ?t1"
  have "map c_ID (t_clusters ?t2) = map c_ID (t_clusters (db_tables d))"
    unfolding clearedTables_def
    by (simp add: updAgents_def updClusters_def map_updWhere setSnapshot_def)
  with c have "cid \<in> set (map c_ID (t_clusters ?t2))" by simp
  then have ins: "insertSnapshot cid sn (d\<lparr>db_tables := ?t2\<rparr>) =
      (Inr (), d\<lparr>db_tables := replacedTables cid sn version agentVersion health hb (db_tables d)\<rparr>)"
    using nf dist noRows_cleared [of cid ?t1]
    by (subst insertSnapshot_nf)
      (simp_all add: clearedTables_def updAgents_def updClusters_def replacedTables_def replaceRows_def)
  have "0 < fst (updClusters cid (setSnapshot sn version agentVersion health hb) (db_tables d))"
    using c by (auto simp: updClusters_def)
  then show ?thesis
    unfolding ReplaceSnapshot_def
    by (subst tx_nf [OF nf, where r = "Inr ()"
          and d' = "d\<lparr>db_tables := replacedTables cid sn version agentVersion health hb (db_tables d)\<rparr>"])
      (simp_all add: bindm_def db_simps nf clearSnapshot_nf ins)
qed

lemma ReplaceSnapshot_wf [valid_intro]:
  "keepsT db_wf (ReplaceSnapshot cid sn version agentVersion health hb)"
proof -
  have "keepsT db_wf (insertSnapshot cid sn)"
    unfolding insertSnapshot_def
    by (intro valid_intro nodes.insertAll_wf pods.insertAll_wf services.insertAll_wf
        deployments.insertAll_wf namespaces.insertAll_wf events.insertAll_wf)
  with clearSnapshot_wf show ?thesis
    unfolding ReplaceSnapshot_def
    by (intro valid_intro keepsT_exec wf_intro; simp add: setSnapshot_def)
qed

lemma snapshot_reads [valid_intro]:
  "keepsT I (ListNodes cid)" "keepsT I (ListPods cid ns)" "keepsT I (ListServices cid ns)"
  "keepsT I (ListDeployments cid ns)" "keepsT I (ListEvents cid ns)" "keepsT I (ListNamespaces cid)"
  "keepsT I (ListNamespaceConfigs cid)"
  unfolding ListNodes_def ListPods_def ListServices_def ListDeployments_def ListEvents_def
    ListNamespaces_def ListNamespaceConfigs_def
  by (intro valid_intro)+

end
