(* ===== verification/BatchDelete.thy ===== *)
theory BatchDelete
  imports Schema
begin

text \<open>
  The bounded deletes of the retention pruners (\<open>pruneBatchSize\<close>): a statement
  \<open>DELETE ... WHERE key IN (SELECT key ... WHERE P LIMIT n)\<close> and the loop that repeats it until
  a batch comes back short. The locale \<open>batched_delete\<close> is the contract the two loops of the
  store share: what they leave, what they count, and that they end.
\<close>

definition pruneBatchSize :: nat where
  "pruneBatchSize = 500"

fun deleteBatch :: "nat \<Rightarrow> ('r \<Rightarrow> bool) \<Rightarrow> 'r list \<Rightarrow> nat \<times> 'r list" where
  "deleteBatch k P [] = (0, [])"
| "deleteBatch k P (r # rs) =
     (if P r \<and> 0 < k
      then (case deleteBatch (k - 1) P rs of (n, rs') \<Rightarrow> (Suc n, rs'))
      else (case deleteBatch k P rs of (n, rs') \<Rightarrow> (n, r # rs')))"

lemma deleteBatch_count: "fst (deleteBatch k P rs) = min k (cnt P rs)"
  by (induction k P rs rule: deleteBatch.induct) (auto simp: cnt_def split: prod.splits)

lemma deleteBatch_length: "length (snd (deleteBatch k P rs)) + fst (deleteBatch k P rs) = length rs"
  by (induction k P rs rule: deleteBatch.induct) (auto split: prod.splits)

lemma deleteBatch_keeps: "filter (\<lambda>r. \<not> P r) (snd (deleteBatch k P rs)) = filter (\<lambda>r. \<not> P r) rs"
  by (induction k P rs rule: deleteBatch.induct) (auto split: prod.splits)

lemma deleteBatch_rest: "cnt P (snd (deleteBatch k P rs)) + fst (deleteBatch k P rs) = cnt P rs"
  by (induction k P rs rule: deleteBatch.induct) (auto simp: cnt_def split: prod.splits)

lemma deleteBatch_short:
  "fst (deleteBatch k P rs) < k \<Longrightarrow> snd (deleteBatch k P rs) = filter (\<lambda>r. \<not> P r) rs"
  by (induction k P rs rule: deleteBatch.induct) (auto split: prod.splits if_splits)

lemma deleteBatch_subseq: "subseq (snd (deleteBatch k P rs)) rs"
  by (induction k P rs rule: deleteBatch.induct) (auto split: prod.splits)

lemma unique_key_subseq: "unique_key key ys \<Longrightarrow> subseq xs ys \<Longrightarrow> unique_key key xs"
  unfolding unique_key_def by (metis subseq_map subseq_conv_nths distinct_nthsI)

lemma deleteBatch_unique_key: "unique_key key rs \<Longrightarrow> unique_key key (snd (deleteBatch k P rs))"
  using deleteBatch_subseq unique_key_subseq by metis

lemma subseq_set: "subseq xs ys \<Longrightarrow> set xs \<subseteq> set ys"
  by (metis subseq_conv_nths set_nths_subset)

lemma deleteBatch_subset: "set (snd (deleteBatch k P rs)) \<subseteq> set rs"
  by (rule subseq_set) (rule deleteBatch_subseq)

text \<open>One round: the delete and the read of its affected-row count.\<close>

definition pruneBatch ::
  "string \<Rightarrow> (tables \<Rightarrow> 'r list) \<Rightarrow> ('r list \<Rightarrow> tables \<Rightarrow> tables) \<Rightarrow> ('r \<Rightarrow> bool) \<Rightarrow> nat storem" where
  "pruneBatch msg rows put P =
     bindm (wrapErr msg (exec (\<lambda>t.
       case deleteBatch pruneBatchSize P (rows t) of (n, rs) \<Rightarrow> (n, put rs t))))
     (\<lambda>n. wrapErr ''read affected rows'' (RowsAffected n))"

lemma pruneBatch_result:
  assumes "pruneBatch msg rows put P d = (r, d')"
  shows "db_tables d' = db_tables d \<or>
    db_tables d' = put (snd (deleteBatch pruneBatchSize P (rows (db_tables d)))) (db_tables d)"
    and "r = Inr n \<Longrightarrow> n = fst (deleteBatch pruneBatchSize P (rows (db_tables d))) \<and>
      db_tables d' = put (snd (deleteBatch pruneBatchSize P (rows (db_tables d)))) (db_tables d)"
  using assms
  by (cases r; auto simp: pruneBatch_def bindm_ok bindm_err wrapErr_ok wrapErr_err exec_def
      RowsAffected_def split: prod.splits dest!: stmt_ok stmt_err query_ok dest: query_tables)+

locale batched_delete =
  fixes msg :: string
    and rows :: "tables \<Rightarrow> 'r list"
    and put :: "'r list \<Rightarrow> tables \<Rightarrow> tables"
    and P :: "'a \<Rightarrow> 'r \<Rightarrow> bool"
    and fin :: "nat \<Rightarrow> 'b"
    and loop :: "'a \<Rightarrow> nat \<Rightarrow> 'b storem"
  assumes rows_put [simp]: "rows (put rs t) = rs"
    and put_put [simp]: "put rs (put rs' t) = put rs t"
    and put_rows [simp]: "put (rows t) t = t"
    and loop_unfold: "loop a acc d =
      (case pruneBatch msg rows put (P a) d of
         (Inl e, d') \<Rightarrow> (Inl e, d')
       | (Inr n, d') \<Rightarrow>
           if n < pruneBatchSize then (Inr (fin (acc + n)), d') else loop a (acc + n) d')"
begin

text \<open>A loop that returns has removed exactly the rows that satisfy \<open>P\<close>, and counted them.\<close>

lemma loop_ok:
  "loop a acc d = (Inr x, d') \<Longrightarrow>
     db_tables d' = put (filter (\<lambda>r. \<not> P a r) (rows (db_tables d))) (db_tables d) \<and>
     x = fin (acc + cnt (P a) (rows (db_tables d)))"
proof (induction "length (rows (db_tables d))" arbitrary: acc d rule: less_induct)
  case less
  let ?b = "deleteBatch pruneBatchSize (P a) (rows (db_tables d))"
  from less.prems obtain n d1 where b: "pruneBatch msg rows put (P a) d = (Inr n, d1)"
    by (subst (asm) loop_unfold) (auto split: prod.splits sum.splits)
  then have n: "n = fst ?b" and t1: "db_tables d1 = put (snd ?b) (db_tables d)"
    by (auto dest: pruneBatch_result(2))
  show ?case
  proof (cases "n < pruneBatchSize")
    case True
    with less.prems b n t1 show ?thesis
      using deleteBatch_short [of pruneBatchSize "P a" "rows (db_tables d)"]
        deleteBatch_count [of pruneBatchSize "P a" "rows (db_tables d)"]
      by (subst (asm) loop_unfold) (auto simp: min_def split: if_splits)
  next
    case False
    with less.prems b have l: "loop a (acc + n) d1 = (Inr x, d')"
      by (subst (asm) loop_unfold) simp
    have "0 < n" using False by (simp add: pruneBatchSize_def)
    then have "length (rows (db_tables d1)) < length (rows (db_tables d))"
      using deleteBatch_length [of pruneBatchSize "P a" "rows (db_tables d)"] n t1 by simp
    from less.hyps [OF this l] show ?thesis
      using n t1 deleteBatch_keeps [of "P a" pruneBatchSize "rows (db_tables d)"]
        deleteBatch_rest [of "P a" pruneBatchSize "rows (db_tables d)"] by (simp add: ac_simps)
  qed
qed

text \<open>Whatever the outcome, no row outside \<open>P\<close> and no other table is touched.\<close>

lemma loop_safe:
  "loop a acc d = (r, d') \<Longrightarrow>
     \<exists>rs. db_tables d' = put rs (db_tables d) \<and>
       filter (\<lambda>r. \<not> P a r) rs = filter (\<lambda>r. \<not> P a r) (rows (db_tables d))"
proof (induction "length (rows (db_tables d))" arbitrary: acc d rule: less_induct)
  case less
  let ?b = "deleteBatch pruneBatchSize (P a) (rows (db_tables d))"
  obtain r1 d1 where b: "pruneBatch msg rows put (P a) d = (r1, d1)" by fastforce
  have t1: "\<exists>rs. db_tables d1 = put rs (db_tables d) \<and>
      filter (\<lambda>r. \<not> P a r) rs = filter (\<lambda>r. \<not> P a r) (rows (db_tables d))"
    using pruneBatch_result(1) [OF b] deleteBatch_keeps [of "P a" pruneBatchSize] put_rows by metis
  show ?case
  proof (cases "\<exists>n. r1 = Inr n \<and> \<not> n < pruneBatchSize")
    case False
    with less.prems b t1 show ?thesis
      by (subst (asm) loop_unfold) (auto split: sum.splits if_splits)
  next
    case True
    then obtain n where n: "r1 = Inr n" "\<not> n < pruneBatchSize" by blast
    with less.prems b have l: "loop a (acc + n) d1 = (r, d')"
      by (subst (asm) loop_unfold) simp
    have e: "n = fst ?b" and t: "db_tables d1 = put (snd ?b) (db_tables d)"
      using pruneBatch_result(2) [OF b n(1)] by auto
    then have "length (rows (db_tables d1)) < length (rows (db_tables d))"
      using deleteBatch_length [of pruneBatchSize "P a" "rows (db_tables d)"] n(2)
      by (simp add: pruneBatchSize_def)
    from less.hyps [OF this l] t1 show ?thesis by auto
  qed
qed

text \<open>Without database failures it returns.\<close>

lemma loop_nf:
  "db_faults d = [] \<Longrightarrow>
     loop a acc d = (Inr (fin (acc + cnt (P a) (rows (db_tables d)))),
       d\<lparr>db_tables := put (filter (\<lambda>r. \<not> P a r) (rows (db_tables d))) (db_tables d)\<rparr>)"
proof (induction "length (rows (db_tables d))" arbitrary: acc d rule: less_induct)
  case less
  let ?b = "deleteBatch pruneBatchSize (P a) (rows (db_tables d))"
  let ?d1 = "d\<lparr>db_tables := put (snd ?b) (db_tables d)\<rparr>"
  have b: "pruneBatch msg rows put (P a) d = (Inr (fst ?b), ?d1)"
    using less.prems by (simp add: pruneBatch_def bindm_def db_simps split: prod.splits)
  show ?case
  proof (cases "fst ?b < pruneBatchSize")
    case True
    then have "fst ?b = cnt (P a) (rows (db_tables d))"
      by (simp add: deleteBatch_count)
    with True b show ?thesis by (subst loop_unfold) (simp add: deleteBatch_short)
  next
    case False
    then have "length (rows (db_tables ?d1)) < length (rows (db_tables d))"
      using deleteBatch_length [of pruneBatchSize "P a" "rows (db_tables d)"]
      by (simp add: pruneBatchSize_def)
    from less.hyps [OF this, of "acc + fst ?b"] less.prems b False show ?thesis
      using deleteBatch_rest [of "P a" pruneBatchSize "rows (db_tables d)"]
      by (subst loop_unfold) (simp add: deleteBatch_keeps ac_simps)
  qed
qed

text \<open>An invariant that one bounded delete keeps is kept by the loop.\<close>

lemma loop_keeps:
  assumes step: "\<And>t k. I t \<Longrightarrow> I (put (snd (deleteBatch k (P a) (rows t))) t)"
  shows "keepsT I (loop a acc)"
proof -
  have "I (db_tables d')" if "I (db_tables d)" and "loop a acc d = (r, d')" for d r d'
    using that
  proof (induction "length (rows (db_tables d))" arbitrary: acc d rule: less_induct)
    case less
    obtain r1 d1 where b: "pruneBatch msg rows put (P a) d = (r1, d1)" by fastforce
    have I1: "I (db_tables d1)"
      using pruneBatch_result(1) [OF b] less.prems(1) step by metis
    show ?case
    proof (cases "\<exists>n. r1 = Inr n \<and> \<not> n < pruneBatchSize")
      case False
      with less.prems b I1 show ?thesis
        by (subst (asm) loop_unfold) (auto split: sum.splits if_splits)
    next
      case True
      then obtain n where n: "r1 = Inr n" "\<not> n < pruneBatchSize" by blast
      with less.prems b have l: "loop a (acc + n) d1 = (r, d')"
        by (subst (asm) loop_unfold) simp
      have "length (rows (db_tables d1)) < length (rows (db_tables d))"
        using pruneBatch_result(2) [OF b n(1)] n(2)
          deleteBatch_length [of pruneBatchSize "P a" "rows (db_tables d)"]
        by (simp add: pruneBatchSize_def)
      from less.hyps [OF this I1 l] show ?thesis .
    qed
  qed
  then show ?thesis by (simp add: keeps_def) (metis prod.collapse)
qed

end

end
