(* ===== verification/StoreUsers.thy ===== *)
theory StoreUsers
  imports BatchDelete
begin

text \<open>
  \<open>internal/store/sqlite.go\<close>: user accounts with the last-admin guard, sessions, the append-only
  audit log and the settings. The guard's transaction is the refinement point: whatever sequence
  of store calls runs, an enabled administrator remains (\<open>has_admin\<close>).
\<close>

section \<open>Users\<close>

definition isUniqueViolation :: "sql_error \<Rightarrow> bool" where
  "isUniqueViolation e = (e = SqlUnique)"

definition CreateUser :: "User \<Rightarrow> unit storem" where
  "CreateUser user =
     mapErr (\<lambda>e. if isUniqueViolation e then ErrConflict else ErrWrap ''create user'' e)
       (bindm (insertRow
          (\<lambda>t. if \<not> validRoleRow (u_Role user) then Some SqlCheck
               else if u_ID user \<in> set (map u_ID (t_users t)) \<or>
                       u_Username user \<in> set (map u_Username (t_users t)) \<or>
                       u_Email user \<in> set (map u_Email (t_users t))
               then Some SqlUnique else None)
          (\<lambda>t. t\<lparr>t_users := t_users t @ [user]\<rparr>))
        (\<lambda>_. ret ()))"

definition scanUser :: "User option \<Rightarrow> User storem" where
  "scanUser row = (case row of None \<Rightarrow> throw ErrNotFound | Some u \<Rightarrow> ret u)"

definition GetUserByID :: "string \<Rightarrow> User storem" where
  "GetUserByID uid =
     bindm (wrapErr '''' (query (\<lambda>t. selectOne (\<lambda>u. u_ID u = uid) (t_users t)))) scanUser"

definition GetUserByUsername :: "string \<Rightarrow> User storem" where
  "GetUserByUsername username =
     bindm (wrapErr '''' (query (\<lambda>t. selectOne (\<lambda>u. u_Username u = username) (t_users t)))) scanUser"

definition ListUsers :: "User list storem" where
  "ListUsers = wrapErr ''list users''
     (query (\<lambda>t. sort_key (\<lambda>u. (u_CreatedAt u, u_Username u)) (t_users t)))"

definition enabledAdmin :: "User \<Rightarrow> bool" where
  "enabledAdmin u \<longleftrightarrow> u_Role u = RoleAdmin \<and> \<not> u_Disabled u"

text \<open>
  The guard reads the user's role, counts the enabled admins when the change would demote one,
  and runs the mutation, all in one transaction.
\<close>

definition withLastAdminGuard :: "string \<Rightarrow> Role \<Rightarrow> bool \<Rightarrow> unit storem \<Rightarrow> unit storem" where
  "withLastAdminGuard uid newRole newDisabled mutate =
     tx ''begin transaction'' (\<lambda>_. ''commit transaction'')
       (bindm (wrapErr ''look up user for last-admin guard''
          (query (\<lambda>t. selectOne (\<lambda>u. u_ID u = uid) (t_users t))))
        (\<lambda>row. case row of
           None \<Rightarrow> throw ErrNotFound
         | Some u \<Rightarrow>
             let wasEnabledAdmin = (u_Role u = RoleAdmin \<and> \<not> u_Disabled u);
                 staysEnabledAdmin = (newRole = RoleAdmin \<and> \<not> newDisabled)
             in bindm
                  (if wasEnabledAdmin \<and> \<not> staysEnabledAdmin
                   then bindm (wrapErr ''count enabled admins''
                          (query (\<lambda>t. cnt (\<lambda>u. u_Role u = RoleAdmin \<and> \<not> u_Disabled u) (t_users t))))
                        (\<lambda>enabledAdmins. if enabledAdmins \<le> 1 then throw ErrLastAdmin else ret ())
                   else ret ())
                (\<lambda>_. mutate)))"

definition updUsers :: "string \<Rightarrow> (User \<Rightarrow> User) \<Rightarrow> tables \<Rightarrow> nat \<times> tables" where
  "updUsers uid f t =
     (cnt (\<lambda>u. u_ID u = uid) (t_users t),
      t\<lparr>t_users := updWhere (\<lambda>u. u_ID u = uid) f (t_users t)\<rparr>)"

definition setRole :: "Role \<Rightarrow> bool \<Rightarrow> time \<Rightarrow> User \<Rightarrow> User" where
  "setRole role disabled now u = u\<lparr>u_Role := role, u_Disabled := disabled, u_UpdatedAt := now\<rparr>"

definition UpdateUser :: "string \<Rightarrow> Role \<Rightarrow> bool \<Rightarrow> time \<Rightarrow> unit storem" where
  "UpdateUser uid role disabled now =
     withLastAdminGuard uid role disabled
       (bindm (wrapErr ''update user'' (stmt (\<lambda>t.
          if \<not> validRoleRow role \<and> cnt (\<lambda>u. u_ID u = uid) (t_users t) \<noteq> 0 then Inl SqlCheck
          else Inr (updUsers uid (setRole role disabled now) t))))
        requireAffectedRow)"

definition deleteUsers :: "string \<Rightarrow> tables \<Rightarrow> nat \<times> tables" where
  "deleteUsers uid t =
     (cnt (\<lambda>u. u_ID u = uid) (t_users t),
      t\<lparr>t_users := filter (\<lambda>u. u_ID u \<noteq> uid) (t_users t),
        t_sessions := filter (\<lambda>s. \<forall>u \<in> set (t_users t). u_ID u = uid \<longrightarrow> u_ID u \<noteq> ss_UserID s) (t_sessions t)\<rparr>)"

definition DeleteUser :: "string \<Rightarrow> unit storem" where
  "DeleteUser uid =
     withLastAdminGuard uid '''' True
       (bindm (wrapErr ''delete user'' (exec (deleteUsers uid))) requireAffectedRow)"

definition ResetUserPassword :: "string \<Rightarrow> string \<Rightarrow> time \<Rightarrow> unit storem" where
  "ResetUserPassword uid passwordHash now =
     tx ''begin transaction'' (\<lambda>_. ''commit transaction'')
       (bindm (wrapErr ''update user password''
          (exec (updUsers uid (\<lambda>u. u\<lparr>u_PasswordHash := passwordHash, u_UpdatedAt := now\<rparr>))))
        (\<lambda>n. bindm (requireAffectedRow n)
        (\<lambda>_. bindm (wrapErr ''delete sessions for user''
          (exec (\<lambda>t. (cnt (\<lambda>s. ss_UserID s = uid) (t_sessions t),
             t\<lparr>t_sessions := filter (\<lambda>s. ss_UserID s \<noteq> uid) (t_sessions t)\<rparr>))))
        (\<lambda>_. ret ()))))"

section \<open>Sessions\<close>

definition CreateSession :: "string \<Rightarrow> string \<Rightarrow> time \<Rightarrow> time \<Rightarrow> unit storem" where
  "CreateSession tokenHash userID expiresAt now =
     bindm (wrapErr ''create session'' (insertRow
       (\<lambda>t. if tokenHash \<in> set (map ss_TokenHash (t_sessions t)) then Some SqlUnique
            else if userID \<notin> set (map u_ID (t_users t)) then Some SqlForeignKey else None)
       (\<lambda>t. t\<lparr>t_sessions := t_sessions t @
              [\<lparr>ss_TokenHash = tokenHash, ss_UserID = userID, ss_CreatedAt = now, ss_ExpiresAt = expiresAt\<rparr>]\<rparr>)))
     (\<lambda>_. ret ())"

definition sessionUser :: "string \<Rightarrow> time \<Rightarrow> tables \<Rightarrow> User option" where
  "sessionUser tokenHash now t =
     (case selectOne (\<lambda>(s, u). u_ID u = ss_UserID s \<and> ss_TokenHash s = tokenHash \<and> now < ss_ExpiresAt s)
             (List.product (t_sessions t) (t_users t)) of
        None \<Rightarrow> None | Some (s, u) \<Rightarrow> Some u)"

definition GetSessionUser :: "string \<Rightarrow> time \<Rightarrow> User storem" where
  "GetSessionUser tokenHash now =
     bindm (wrapErr ''get session user'' (query (sessionUser tokenHash now))) scanUser"

definition DeleteSession :: "string \<Rightarrow> unit storem" where
  "DeleteSession tokenHash =
     bindm (wrapErr ''delete session'' (exec (\<lambda>t.
       (cnt (\<lambda>s. ss_TokenHash s = tokenHash) (t_sessions t),
        t\<lparr>t_sessions := filter (\<lambda>s. ss_TokenHash s \<noteq> tokenHash) (t_sessions t)\<rparr>))))
     (\<lambda>_. ret ())"

abbreviation putSessions :: "SessionRow list \<Rightarrow> tables \<Rightarrow> tables" where
  "putSessions rs t \<equiv> t\<lparr>t_sessions := rs\<rparr>"

definition expiredAt :: "time \<Rightarrow> SessionRow \<Rightarrow> bool" where
  "expiredAt now s = (ss_ExpiresAt s \<le> now)"

function DeleteExpiredSessions :: "time \<Rightarrow> db \<Rightarrow> (store_error + unit) \<times> db" where
  "DeleteExpiredSessions now d =
     (case pruneBatch ''delete expired sessions'' t_sessions putSessions (expiredAt now) d of
        (Inl e, d') \<Rightarrow> (Inl e, d')
      | (Inr removed, d') \<Rightarrow>
          if removed < pruneBatchSize then (Inr (), d') else DeleteExpiredSessions now d')"
  by pat_completeness auto
termination
proof (relation "measure (\<lambda>(now, d). length (t_sessions (db_tables d)))", goal_cases)
  case 1
  show ?case by simp
next
  case (2 now d r d' removed)
  then have "pruneBatch ''delete expired sessions'' t_sessions putSessions (expiredAt now) d = (Inr removed, d')"
    by simp
  from pruneBatch_result(2) [OF this refl] 2(3)
    deleteBatch_length [of pruneBatchSize "expiredAt now" "t_sessions (db_tables d)"]
  show ?case by (simp add: pruneBatchSize_def)
qed

declare DeleteExpiredSessions.simps [simp del]

interpretation session_prune: batched_delete "''delete expired sessions''" t_sessions putSessions expiredAt
    "\<lambda>_. ()" "\<lambda>now _. DeleteExpiredSessions now"
proof unfold_locales
  fix a :: time and acc :: nat and d :: db
  show "DeleteExpiredSessions a d =
      (case pruneBatch ''delete expired sessions'' t_sessions putSessions (expiredAt a) d of
         (Inl e, d') \<Rightarrow> (Inl e, d')
       | (Inr n, d') \<Rightarrow> if n < pruneBatchSize then (Inr (), d') else DeleteExpiredSessions a d')"
    by (rule DeleteExpiredSessions.simps)
qed simp_all

section \<open>Audit log and settings\<close>

definition RecordAuditEvent :: "AuditEvent \<Rightarrow> unit storem" where
  "RecordAuditEvent event =
     bindm (wrapErr ''record audit event'' (insertRow
       (\<lambda>t. if au_ID event \<in> set (map au_ID (t_audit t)) then Some SqlUnique else None)
       (\<lambda>t. t\<lparr>t_audit := t_audit t @ [event]\<rparr>)))
     (\<lambda>_. ret ())"

definition ListAuditEvents :: "int \<Rightarrow> AuditEvent list storem" where
  "ListAuditEvents limit =
     (let limit = (if limit \<le> 0 then 100 else limit) in
      wrapErr ''list audit events'' (query (\<lambda>t.
        take (nat limit) (sort_desc (\<lambda>e. (au_OccurredAt e, au_ID e)) (t_audit t)))))"

definition GetSetting :: "string \<Rightarrow> (string \<times> bool) storem" where
  "GetSetting key =
     bindm (wrapErr ''get setting'' (query (\<lambda>t. selectOne (\<lambda>kv. fst kv = key) (t_settings t))))
       (\<lambda>row. case row of None \<Rightarrow> ret ('''', False) | Some (k, v) \<Rightarrow> ret (v, True))"

definition SetSetting :: "string \<Rightarrow> string \<Rightarrow> unit storem" where
  "SetSetting key val =
     bindm (wrapErr ''set setting'' (exec (\<lambda>t.
       (1, if key \<in> set (map fst (t_settings t))
           then t\<lparr>t_settings := updWhere (\<lambda>kv. fst kv = key) (\<lambda>kv. (fst kv, val)) (t_settings t)\<rparr>
           else t\<lparr>t_settings := t_settings t @ [(key, val)]\<rparr>))))
     (\<lambda>_. ret ())"

section \<open>Well-formedness\<close>

lemma wf_updUsers [wf_intro]:
  "db_wf t \<Longrightarrow>
     (\<And>u. u_ID (f u) = u_ID u \<and> u_Username (f u) = u_Username u \<and> u_Email (f u) = u_Email u \<and>
       (validRoleRow (u_Role u) \<longrightarrow> validRoleRow (u_Role (f u)))) \<Longrightarrow>
     db_wf (snd (updUsers uid f t))"
  by (simp add: updUsers_def db_wf_def schema_defs list_all_updWhere)

lemma wf_insert_user [wf_intro]:
  "db_wf t \<Longrightarrow> validRoleRow (u_Role u) \<Longrightarrow> u_ID u \<notin> set (map u_ID (t_users t)) \<Longrightarrow>
     u_Username u \<notin> set (map u_Username (t_users t)) \<Longrightarrow> u_Email u \<notin> set (map u_Email (t_users t)) \<Longrightarrow>
     db_wf (t\<lparr>t_users := t_users t @ [u]\<rparr>)"
  by (simp add: db_wf_def schema_defs references_parent_insert)

lemma wf_sessions [wf_intro]:
  "db_wf t \<Longrightarrow> unique_key ss_TokenHash rs \<Longrightarrow> set rs \<subseteq> set (t_sessions t) \<Longrightarrow>
     db_wf (t\<lparr>t_sessions := rs\<rparr>)"
  by (auto simp: db_wf_def schema_defs references_def list_all_iff)

lemma wf_filter_sessions [wf_intro]: "db_wf t \<Longrightarrow> db_wf (t\<lparr>t_sessions := filter P (t_sessions t)\<rparr>)"
  by (rule wf_sessions) (auto simp: db_wf_def schema_defs unique_key_filter)

lemma wf_deleteUsers [wf_intro]: "db_wf t \<Longrightarrow> db_wf (snd (deleteUsers uid t))"
  using references_cascade [of ss_UserID "t_sessions t" u_ID "t_users t" "\<lambda>u. u_ID u = uid"]
  by (simp add: deleteUsers_def db_wf_def schema_defs schema_change)

lemma CreateUser_wf [valid_intro]: "keepsT db_wf (CreateUser user)"
  unfolding CreateUser_def
  by (intro valid_intro keepsT_insertRow wf_intro) (auto split: if_splits)

lemma scanUser_keeps [valid_intro]: "keepsT I (scanUser row)"
  unfolding scanUser_def by (intro valid_intro)

lemma withLastAdminGuard_keeps [valid_intro]:
  "keepsT I mutate \<Longrightarrow> keepsT I (withLastAdminGuard uid r b mutate)"
  unfolding withLastAdminGuard_def by (intro valid_intro)

lemma UpdateUser_wf [valid_intro]: "keepsT db_wf (UpdateUser uid role disabled now)"
  unfolding UpdateUser_def
proof (intro valid_intro keepsT_stmt)
  fix t x t'
  assume wf: "db_wf t" and ok: "(if \<not> validRoleRow role \<and> cnt (\<lambda>u. u_ID u = uid) (t_users t) \<noteq> 0
      then Inl SqlCheck else Inr (updUsers uid (setRole role disabled now) t)) = Inr (x, t')"
  show "db_wf t'"
  proof (cases "validRoleRow role")
    case True
    have "db_wf (snd (updUsers uid (setRole role disabled now) t))"
      using wf True by (intro wf_intro) (simp_all add: setRole_def)
    with ok True show ?thesis by auto
  next
    case False
    with ok have "t' = snd (updUsers uid (setRole role disabled now) t)"
      and "\<forall>u \<in> set (t_users t). u_ID u \<noteq> uid" by (auto split: if_splits)
    then have "t' = t" by (simp add: updUsers_def updWhere_none)
    with wf show ?thesis by simp
  qed
qed

lemma DeleteUser_wf [valid_intro]: "keepsT db_wf (DeleteUser uid)"
  unfolding DeleteUser_def by (intro valid_intro keepsT_exec wf_intro)

lemma ResetUserPassword_wf [valid_intro]: "keepsT db_wf (ResetUserPassword uid h now)"
  unfolding ResetUserPassword_def
  by (intro valid_intro keepsT_exec) (auto intro!: wf_intro)

lemma CreateSession_wf [valid_intro]: "keepsT db_wf (CreateSession h uid ex now)"
  unfolding CreateSession_def
  by (intro valid_intro keepsT_insertRow) (auto simp: db_wf_def schema_defs split: if_splits)

lemma DeleteSession_wf [valid_intro]: "keepsT db_wf (DeleteSession h)"
  unfolding DeleteSession_def by (intro valid_intro keepsT_exec) (auto intro: wf_intro)

lemma DeleteExpiredSessions_wf [valid_intro]: "keepsT db_wf (DeleteExpiredSessions now)"
proof (rule session_prune.loop_keeps)
  fix t k assume wf: "db_wf t"
  then have "unique_key ss_TokenHash (t_sessions t)" by (simp add: db_wf_def schema_defs)
  then show "db_wf (t\<lparr>t_sessions := snd (deleteBatch k (expiredAt now) (t_sessions t))\<rparr>)"
    using wf by (intro wf_sessions deleteBatch_unique_key deleteBatch_subset)
qed

lemma RecordAuditEvent_wf [valid_intro]: "keepsT db_wf (RecordAuditEvent event)"
  unfolding RecordAuditEvent_def
  by (intro valid_intro keepsT_insertRow) (auto simp: db_wf_def schema_defs split: if_splits)

lemma SetSetting_wf [valid_intro]: "keepsT db_wf (SetSetting key val)"
  unfolding SetSetting_def
  by (intro valid_intro keepsT_exec) (auto simp: db_wf_def schema_defs)

lemma user_reads [valid_intro]:
  "keepsT I (GetUserByID uid)" "keepsT I (GetUserByUsername n)" "keepsT I ListUsers"
  "keepsT I (GetSessionUser h now)" "keepsT I (ListAuditEvents limit)" "keepsT I (GetSetting key)"
  unfolding GetUserByID_def GetUserByUsername_def ListUsers_def GetSessionUser_def
    ListAuditEvents_def GetSetting_def
  by (intro valid_intro)+

end
