(* ===== verification/StoreEvents.thy ===== *)
theory StoreEvents
  imports BatchDelete
begin

text \<open>
  \<open>internal/store/sqlite.go\<close>: the operational timeline. Appending deduplicates on
  (cluster, kind, dedupe key); listing pages backwards from a cursor; pruning removes what is
  older than the retention cutoff, in bounded batches.
\<close>

section \<open>Operations\<close>

text \<open>\<open>EventFilter\<close> and \<open>EventPage\<close>.\<close>

record EventFilter =
  ef_TenantID :: string
  ef_ClusterID :: string
  ef_Since :: "time option"
  ef_Until :: "time option"
  ef_Before :: int
  ef_Limit :: int

record EventPage =
  ep_Events :: "OperationalEvent list"
  ep_NextCursor :: int

definition defaultEventPageLimit :: int where "defaultEventPageLimit = 50"
definition maxEventPageLimit :: int where "maxEventPageLimit = 500"

text \<open>\<open>INSERT ... ON CONFLICT DO NOTHING\<close>: the id is the next of the sequence, the dedupe key \<open>NULL\<close> when empty.\<close>

definition AppendEvent :: "OperationalEvent \<Rightarrow> bool storem" where
  "AppendEvent event =
     bindm (wrapErr ''append event'' (exec (\<lambda>t.
       if oe_DedupeKey event \<noteq> '''' \<and>
          (oe_ClusterID event, oe_Kind event, oe_DedupeKey event) \<in>
             set (map (\<lambda>e. (oe_ClusterID e, oe_Kind e, oe_DedupeKey e)) (t_op_events t))
       then (0, t)
       else (1, t\<lparr>t_op_seq := t_op_seq t + 1,
                  t_op_events := t_op_events t @
                    [event\<lparr>oe_ID := t_op_seq t + 1, oe_TenantID := normalizeTenantID (oe_TenantID event)\<rparr>]\<rparr>))))
     (\<lambda>n. bindm (wrapErr ''read affected rows'' (RowsAffected n)) (\<lambda>affected. ret (0 < affected)))"

definition scanTimelineEvent :: "OperationalEvent \<Rightarrow> OperationalEvent" where
  "scanTimelineEvent row = row\<lparr>oe_DedupeKey := ''''\<rparr>"

definition pageLimit :: "int \<Rightarrow> int" where
  "pageLimit l = (let l = (if l \<le> 0 then defaultEventPageLimit else l) in
     if l > maxEventPageLimit then maxEventPageLimit else l)"

definition filterMatch :: "EventFilter \<Rightarrow> OperationalEvent \<Rightarrow> bool" where
  "filterMatch f e \<longleftrightarrow>
     (ef_TenantID f \<noteq> '''' \<longrightarrow> oe_TenantID e = normalizeTenantID (ef_TenantID f)) \<and>
     (ef_ClusterID f \<noteq> '''' \<longrightarrow> oe_ClusterID e = ef_ClusterID f) \<and>
     (case ef_Since f of None \<Rightarrow> True | Some since \<Rightarrow> since \<le> oe_OccurredAt e) \<and>
     (case ef_Until f of None \<Rightarrow> True | Some til \<Rightarrow> oe_OccurredAt e < til)"

definition beforeCursor :: "time \<Rightarrow> int \<Rightarrow> OperationalEvent \<Rightarrow> bool" where
  "beforeCursor ct cid e \<longleftrightarrow> oe_OccurredAt e < ct \<or> (oe_OccurredAt e = ct \<and> oe_ID e < cid)"

definition eventOrder :: "OperationalEvent \<Rightarrow> time \<times> int" where
  "eventOrder e = (oe_OccurredAt e, oe_ID e)"

definition pageOf :: "nat \<Rightarrow> OperationalEvent list \<Rightarrow> EventPage" where
  "pageOf limit events =
     (if length events > limit
      then \<lparr>ep_Events = take limit events, ep_NextCursor = oe_ID (events ! (limit - 1))\<rparr>
      else \<lparr>ep_Events = events, ep_NextCursor = 0\<rparr>)"

definition selectPage :: "EventFilter \<Rightarrow> (OperationalEvent \<Rightarrow> bool) \<Rightarrow> tables \<Rightarrow> OperationalEvent list" where
  "selectPage f cursor t =
     map scanTimelineEvent
       (take (nat (pageLimit (ef_Limit f) + 1))
         (sort_desc eventOrder (filter (\<lambda>e. filterMatch f e \<and> cursor e) (t_op_events t))))"

definition ListTimelineEvents :: "EventFilter \<Rightarrow> EventPage storem" where
  "ListTimelineEvents f =
     (let limit = nat (pageLimit (ef_Limit f));
          page = (\<lambda>cursor. bindm (wrapErr ''list timeline events'' (query (selectPage f cursor)))
                    (\<lambda>events. ret (pageOf limit events)))
      in if 0 < ef_Before f
         then bindm (wrapErr ''resolve timeline cursor'' (query (\<lambda>t.
                selectOne (\<lambda>e. oe_ID e = ef_Before f \<and>
                  (ef_TenantID f \<noteq> '''' \<longrightarrow> oe_TenantID e = normalizeTenantID (ef_TenantID f))) (t_op_events t))))
              (\<lambda>row. case row of
                 None \<Rightarrow> ret \<lparr>ep_Events = [], ep_NextCursor = 0\<rparr>
               | Some e \<Rightarrow> page (beforeCursor (oe_OccurredAt e) (ef_Before f)))
         else page (\<lambda>_. True))"

abbreviation putOpEvents :: "OperationalEvent list \<Rightarrow> tables \<Rightarrow> tables" where
  "putOpEvents rs t \<equiv> t\<lparr>t_op_events := rs\<rparr>"

definition olderThan :: "time \<Rightarrow> OperationalEvent \<Rightarrow> bool" where
  "olderThan cutoff e = (oe_OccurredAt e < cutoff)"

text \<open>The loop of \<open>PruneEventsBefore\<close> with its running count \<open>removed\<close>.\<close>

function pruneEventsLoop :: "time \<Rightarrow> nat \<Rightarrow> db \<Rightarrow> (store_error + nat) \<times> db" where
  "pruneEventsLoop cutoff removed d =
     (case pruneBatch ''prune events'' t_op_events putOpEvents (olderThan cutoff) d of
        (Inl e, d') \<Rightarrow> (Inl e, d')
      | (Inr batch, d') \<Rightarrow>
          if batch < pruneBatchSize then (Inr (removed + batch), d')
          else pruneEventsLoop cutoff (removed + batch) d')"
  by pat_completeness auto
termination
proof (relation "measure (\<lambda>(cutoff, removed, d). length (t_op_events (db_tables d)))", goal_cases)
  case 1
  show ?case by simp
next
  case (2 cutoff removed d r d' batch)
  then have "pruneBatch ''prune events'' t_op_events putOpEvents (olderThan cutoff) d = (Inr batch, d')"
    by simp
  from pruneBatch_result(2) [OF this refl] 2(3)
    deleteBatch_length [of pruneBatchSize "olderThan cutoff" "t_op_events (db_tables d)"]
  show ?case by (simp add: pruneBatchSize_def)
qed

declare pruneEventsLoop.simps [simp del]

definition PruneEventsBefore :: "time \<Rightarrow> nat storem" where
  "PruneEventsBefore cutoff = pruneEventsLoop cutoff 0"

interpretation event_prune: batched_delete "''prune events''" t_op_events putOpEvents olderThan
    "\<lambda>n. n" pruneEventsLoop
proof unfold_locales
  fix a :: time and acc :: nat and d :: db
  show "pruneEventsLoop a acc d =
      (case pruneBatch ''prune events'' t_op_events putOpEvents (olderThan a) d of
         (Inl e, d') \<Rightarrow> (Inl e, d')
       | (Inr n, d') \<Rightarrow> if n < pruneBatchSize then (Inr (acc + n), d') else pruneEventsLoop a (acc + n) d')"
    by (rule pruneEventsLoop.simps)
qed simp_all

section \<open>Well-formedness\<close>

lemma AppendEvent_wf [valid_intro]: "keepsT db_wf (AppendEvent event)"
proof -
  have "db_wf (t\<lparr>t_op_seq := t_op_seq t + 1, t_op_events := t_op_events t @ [e]\<rparr>)"
    if "db_wf t" and "oe_ID e = t_op_seq t + 1"
      and "oe_DedupeKey e \<noteq> '''' \<longrightarrow> (oe_ClusterID e, oe_Kind e, oe_DedupeKey e) \<notin>
             set (map (\<lambda>e. (oe_ClusterID e, oe_Kind e, oe_DedupeKey e)) (t_op_events t))" for t e
    using that by (fastforce simp: db_wf_def schema_defs list_all_iff)
  then show ?thesis
    unfolding AppendEvent_def by (intro valid_intro keepsT_exec) auto
qed

lemma ListTimelineEvents_keeps [valid_intro]: "keepsT I (ListTimelineEvents f)"
  unfolding ListTimelineEvents_def Let_def by (intro valid_intro)

lemma wf_op_events [wf_intro]:
  assumes wf: "db_wf t" and sub: "subseq rs (t_op_events t)"
  shows "db_wf (t\<lparr>t_op_events := rs\<rparr>)"
proof -
  have oe: "createOperationalEventsTable t" using wf by (simp add: db_wf_def)
  have "unique_key oe_ID rs"
    using oe sub unique_key_subseq unfolding createOperationalEventsTable_def by metis
  moreover have "unique_key (\<lambda>e. (oe_ClusterID e, oe_Kind e, oe_DedupeKey e))
      (filter (\<lambda>e. oe_DedupeKey e \<noteq> '''') rs)"
    by (rule unique_key_subseq [OF _ subseq_filter [OF sub]])
      (use oe in \<open>simp add: createOperationalEventsTable_def\<close>)
  moreover have "list_all Q rs" if "list_all Q (t_op_events t)" for Q
    using that subseq_set [OF sub] by (auto simp: list_all_iff)
  ultimately have "createOperationalEventsTable (t\<lparr>t_op_events := rs\<rparr>)"
    using oe by (simp add: createOperationalEventsTable_def)
  with wf show ?thesis by (simp add: db_wf_def schema_defs)
qed

lemma PruneEventsBefore_wf [valid_intro]: "keepsT db_wf (PruneEventsBefore cutoff)"
  unfolding PruneEventsBefore_def
  by (rule event_prune.loop_keeps) (rule wf_op_events, assumption, rule deleteBatch_subseq)

end
