(* ===== verification/StoreAlerts.thy ===== *)
theory StoreAlerts
  imports Schema
begin

text \<open>
  \<open>internal/store/alerts.go\<close>: alert rules, the alert history with its cooldown, acknowledgement
  and resolution, and the delivery queue. Of a stored alert only the columns that
  \<open>CreateAlertIfDue\<close> inserts come from the argument; the others start as their defaults.
\<close>

section \<open>Rules\<close>

definition defaultAlertRules :: "time \<Rightarrow> AlertRule list" where
  "defaultAlertRules now =
     [\<lparr>ar_ID = ''fleet-health-degraded'', ar_Name = ''Cluster health degraded'',
       ar_Health = HealthDegraded, ar_Severity = AlertSeverityWarning,
       ar_CooldownSeconds = (15 * Minute) div Second, ar_Enabled = True,
       ar_CreatedAt = now, ar_UpdatedAt = now\<rparr>,
      \<lparr>ar_ID = ''fleet-health-unreachable'', ar_Name = ''Cluster unreachable'',
       ar_Health = HealthUnreachable, ar_Severity = AlertSeverityCritical,
       ar_CooldownSeconds = (15 * Minute) div Second, ar_Enabled = True,
       ar_CreatedAt = now, ar_UpdatedAt = now\<rparr>]"

text \<open>\<open>INSERT OR IGNORE\<close>: a rule whose id exists is left as it is.\<close>

definition seedDefaultAlertRules :: "time \<Rightarrow> unit storem" where
  "seedDefaultAlertRules now =
     forEach (defaultAlertRules now) (\<lambda>rule.
       bindm (wrapErr (''insert '' @ ar_ID rule) (exec (\<lambda>t.
         if ar_ID rule \<in> set (map ar_ID (t_alert_rules t)) then (0, t)
         else (1, t\<lparr>t_alert_rules := t_alert_rules t @ [rule]\<rparr>)))) (\<lambda>_. ret ()))"

text \<open>\<open>ORDER BY severity DESC, name\<close>\<close>

definition ListAlertRules :: "AlertRule list storem" where
  "ListAlertRules = wrapErr ''list alert rules'' (query (\<lambda>t.
     rev (sort_key ar_Severity (rev (sort_key ar_Name (t_alert_rules t))))))"

definition UpsertAlertRule :: "AlertRule \<Rightarrow> time \<Rightarrow> unit storem" where
  "UpsertAlertRule rule clock =
     (let now = (if IsZero (ar_UpdatedAt rule) then clock else ar_UpdatedAt rule);
          createdAt = (if IsZero (ar_CreatedAt rule) then now else ar_CreatedAt rule);
          row = rule\<lparr>ar_CreatedAt := createdAt, ar_UpdatedAt := now\<rparr>
      in bindm (wrapErr ''upsert alert rule'' (insertRow
           (\<lambda>t. if ar_CooldownSeconds rule < 0 then Some SqlCheck else None)
           (\<lambda>t. if ar_ID rule \<in> set (map ar_ID (t_alert_rules t))
                then t\<lparr>t_alert_rules := updWhere (\<lambda>r. ar_ID r = ar_ID rule)
                       (\<lambda>r. row\<lparr>ar_ID := ar_ID r, ar_CreatedAt := ar_CreatedAt r\<rparr>) (t_alert_rules t)\<rparr>
                else t\<lparr>t_alert_rules := t_alert_rules t @ [row]\<rparr>)))
         (\<lambda>_. ret ()))"

section \<open>Alerts\<close>

definition alertKey :: "Alert \<Rightarrow> string \<times> string" where
  "alertKey a = (al_TenantID a, al_DedupeKey a)"

text \<open>The most recent trigger time under a tenant and dedupe key.\<close>

definition lastTriggered :: "string \<times> string \<Rightarrow> tables \<Rightarrow> time option" where
  "lastTriggered k t =
     (case sort_desc al_TriggeredAt (filter (\<lambda>a. alertKey a = k) (t_alerts t)) of
        [] \<Rightarrow> None | a # _ \<Rightarrow> Some (al_TriggeredAt a))"

definition alertRow :: "Alert \<Rightarrow> Alert" where
  "alertRow alert = alert
     \<lparr>al_TenantID := normalizeTenantID (al_TenantID alert), al_AcknowledgedAt := None,
      al_AcknowledgedBy := '''', al_ResolvedAt := None, al_LastDeliveryError := '''',
      al_DeliveredAt := None, al_DeadLetteredAt := None\<rparr>"

definition CreateAlertIfDue :: "Alert \<Rightarrow> duration \<Rightarrow> bool storem" where
  "CreateAlertIfDue alert cooldown =
     tx ''begin create alert transaction''
       (\<lambda>created. if created then ''commit alert'' else ''commit alert cooldown check'')
       (bindm (wrapErr ''read alert cooldown''
          (query (lastTriggered (normalizeTenantID (al_TenantID alert), al_DedupeKey alert))))
        (\<lambda>last. if (case last of None \<Rightarrow> False
                    | Some l \<Rightarrow> time_Before (al_TriggeredAt alert) (time_Add l cooldown))
                 then ret False
                 else bindm (wrapErr ''create alert'' (insertRow
                        (\<lambda>t. if al_ID alert \<in> set (map al_ID (t_alerts t)) then Some SqlUnique
                             else if al_RuleID alert \<notin> set (map ar_ID (t_alert_rules t)) then Some SqlForeignKey
                             else None)
                        (\<lambda>t. t\<lparr>t_alerts := t_alerts t @ [alertRow alert]\<rparr>)))
                      (\<lambda>_. ret True)))"

definition updAlerts :: "(Alert \<Rightarrow> bool) \<Rightarrow> (Alert \<Rightarrow> Alert) \<Rightarrow> tables \<Rightarrow> nat \<times> tables" where
  "updAlerts P f t = (cnt P (t_alerts t), t\<lparr>t_alerts := updWhere P f (t_alerts t)\<rparr>)"

definition ResolveClusterAlerts :: "string \<Rightarrow> ClusterHealth \<Rightarrow> time \<Rightarrow> unit storem" where
  "ResolveClusterAlerts clusterID health resolvedAt =
     bindm (wrapErr ''resolve cluster alerts'' (exec (updAlerts
       (\<lambda>a. al_ClusterID a = clusterID \<and> al_Health a \<noteq> health \<and>
            al_Status a \<in> set [AlertStatusFiring, AlertStatusAcknowledged])
       (\<lambda>a. a\<lparr>al_Status := AlertStatusResolved, al_ResolvedAt := Some resolvedAt, al_UpdatedAt := resolvedAt\<rparr>))))
     (\<lambda>_. ret ())"

definition listAlerts :: "string \<Rightarrow> AlertStatus \<Rightarrow> int \<Rightarrow> Alert list storem" where
  "listAlerts tenantID status limit =
     (let limit = (if limit \<le> 0 \<or> limit > 500 then 100 else limit) in
      wrapErr ''list alerts'' (query (\<lambda>t.
        take (nat limit) (sort_desc (\<lambda>a. (al_TriggeredAt a, al_ID a))
          (filter (\<lambda>a. (tenantID \<noteq> '''' \<longrightarrow> al_TenantID a = tenantID) \<and>
                       (status \<noteq> '''' \<longrightarrow> al_Status a = status)) (t_alerts t))))))"

definition ListAlerts :: "AlertStatus \<Rightarrow> int \<Rightarrow> Alert list storem" where
  "ListAlerts status limit = listAlerts '''' status limit"

definition ListAlertsForTenant :: "string \<Rightarrow> AlertStatus \<Rightarrow> int \<Rightarrow> Alert list storem" where
  "ListAlertsForTenant tenantID status limit = listAlerts (normalizeTenantID tenantID) status limit"

definition readAlert :: "Alert option \<Rightarrow> Alert storem" where
  "readAlert row = (case row of None \<Rightarrow> throw ErrNotFound | Some a \<Rightarrow> ret a)"

definition GetAlert :: "string \<Rightarrow> Alert storem" where
  "GetAlert aid =
     bindm (wrapErr ''get alert'' (query (\<lambda>t. selectOne (\<lambda>a. al_ID a = aid) (t_alerts t)))) readAlert"

definition GetAlertForTenant :: "string \<Rightarrow> string \<Rightarrow> Alert storem" where
  "GetAlertForTenant tenantID aid =
     bindm (wrapErr ''get alert'' (query (\<lambda>t.
       selectOne (\<lambda>a. al_TenantID a = normalizeTenantID tenantID \<and> al_ID a = aid) (t_alerts t)))) readAlert"

definition acknowledgeAlert :: "string \<Rightarrow> string \<Rightarrow> string \<Rightarrow> time \<Rightarrow> unit storem" where
  "acknowledgeAlert tenantID aid acknowledgedBy acknowledgedAt =
     bindm (wrapErr ''acknowledge alert'' (exec (updAlerts
       (\<lambda>a. al_ID a = aid \<and> al_Status a = AlertStatusFiring \<and> (tenantID \<noteq> '''' \<longrightarrow> al_TenantID a = tenantID))
       (\<lambda>a. a\<lparr>al_Status := AlertStatusAcknowledged, al_AcknowledgedAt := Some acknowledgedAt,
              al_AcknowledgedBy := acknowledgedBy, al_UpdatedAt := acknowledgedAt\<rparr>)))) (\<lambda>n.
     bindm (wrapErr ''read acknowledge result'' (RowsAffected n)) (\<lambda>affected.
     if affected = 1 then ret ()
     else bindm (if tenantID = '''' then GetAlert aid else GetAlertForTenant tenantID aid)
            (\<lambda>_. throw ErrInvalidState)))"

definition AcknowledgeAlert :: "string \<Rightarrow> string \<Rightarrow> time \<Rightarrow> unit storem" where
  "AcknowledgeAlert aid acknowledgedBy acknowledgedAt = acknowledgeAlert '''' aid acknowledgedBy acknowledgedAt"

definition AcknowledgeAlertForTenant :: "string \<Rightarrow> string \<Rightarrow> string \<Rightarrow> time \<Rightarrow> unit storem" where
  "AcknowledgeAlertForTenant tenantID aid acknowledgedBy acknowledgedAt =
     acknowledgeAlert (normalizeTenantID tenantID) aid acknowledgedBy acknowledgedAt"

section \<open>Delivery\<close>

definition CountDeadLetteredAlerts :: "int storem" where
  "CountDeadLetteredAlerts = wrapErr ''count dead-lettered alerts''
     (query (\<lambda>t. int (cnt (\<lambda>a. al_DeliveryStatus a = AlertDeliveryDeadLetter) (t_alerts t))))"

definition dueAt :: "time \<Rightarrow> Alert \<Rightarrow> bool" where
  "dueAt now a \<longleftrightarrow> al_DeliveryStatus a \<in> set [AlertDeliveryPending, AlertDeliveryRetrying] \<and>
     (case al_NextDeliveryAt a of None \<Rightarrow> False | Some next \<Rightarrow> next \<le> now)"

definition ListDueAlertDeliveries :: "time \<Rightarrow> int \<Rightarrow> Alert list storem" where
  "ListDueAlertDeliveries now limit =
     (let limit = (if limit \<le> 0 \<or> limit > 100 then 25 else limit) in
      wrapErr ''list due alert deliveries'' (query (\<lambda>t.
        take (nat limit) (sort_key (\<lambda>a. (the (al_NextDeliveryAt a), al_TriggeredAt a))
          (filter (dueAt now) (t_alerts t))))))"

definition RecordAlertDelivered :: "string \<Rightarrow> int \<Rightarrow> time \<Rightarrow> unit storem" where
  "RecordAlertDelivered aid attempts deliveredAt =
     bindm (wrapErr ''record alert delivered'' (exec (updAlerts (\<lambda>a. al_ID a = aid)
       (\<lambda>a. a\<lparr>al_DeliveryStatus := AlertDeliveryDelivered, al_DeliveryAttempts := attempts,
              al_NextDeliveryAt := None, al_LastDeliveryError := '''',
              al_DeliveredAt := Some deliveredAt, al_UpdatedAt := deliveredAt\<rparr>))))
     requireAffectedRow"

definition RecordAlertDeliveryFailure ::
  "string \<Rightarrow> int \<Rightarrow> time option \<Rightarrow> string \<Rightarrow> time \<Rightarrow> unit storem" where
  "RecordAlertDeliveryFailure aid attempts nextAttemptAt deliveryError failedAt =
     (let status = (case nextAttemptAt of None \<Rightarrow> AlertDeliveryDeadLetter | Some _ \<Rightarrow> AlertDeliveryRetrying);
          deadLetteredAt = (case nextAttemptAt of None \<Rightarrow> Some failedAt | Some _ \<Rightarrow> None)
      in bindm (wrapErr ''record alert delivery failure'' (exec (updAlerts (\<lambda>a. al_ID a = aid)
           (\<lambda>a. a\<lparr>al_DeliveryStatus := status, al_DeliveryAttempts := attempts,
                  al_NextDeliveryAt := nextAttemptAt, al_LastDeliveryError := deliveryError,
                  al_DeadLetteredAt := deadLetteredAt, al_UpdatedAt := failedAt\<rparr>))))
         requireAffectedRow)"

section \<open>Well-formedness\<close>

lemma wf_updAlerts [wf_intro]:
  "db_wf t \<Longrightarrow> (\<And>a. al_ID (f a) = al_ID a \<and> al_RuleID (f a) = al_RuleID a) \<Longrightarrow> db_wf (snd (updAlerts P f t))"
  by (simp add: updAlerts_def db_wf_def schema_defs)

lemma wf_insert_alert [wf_intro]:
  "db_wf t \<Longrightarrow> al_ID a \<notin> set (map al_ID (t_alerts t)) \<Longrightarrow>
     al_RuleID a \<in> set (map ar_ID (t_alert_rules t)) \<Longrightarrow> db_wf (t\<lparr>t_alerts := t_alerts t @ [a]\<rparr>)"
  by (simp add: db_wf_def schema_defs)

lemma wf_insert_rule [wf_intro]:
  "db_wf t \<Longrightarrow> ar_ID r \<notin> set (map ar_ID (t_alert_rules t)) \<Longrightarrow> 0 \<le> ar_CooldownSeconds r \<Longrightarrow>
     db_wf (t\<lparr>t_alert_rules := t_alert_rules t @ [r]\<rparr>)"
  by (simp add: db_wf_def schema_defs references_parent_insert)

lemma wf_update_rule [wf_intro]:
  "db_wf t \<Longrightarrow> (\<And>r. ar_ID (f r) = ar_ID r \<and> 0 \<le> ar_CooldownSeconds (f r)) \<Longrightarrow>
     db_wf (t\<lparr>t_alert_rules := updWhere P f (t_alert_rules t)\<rparr>)"
  by (simp add: db_wf_def schema_defs list_all_updWhere)

lemma seedDefaultAlertRules_wf [valid_intro]: "keepsT db_wf (seedDefaultAlertRules now)"
proof -
  have "0 \<le> ar_CooldownSeconds r" if "r \<in> set (defaultAlertRules now)" for r
    using that by (auto simp: defaultAlertRules_def Minute_def Second_def)
  then show ?thesis
    unfolding seedDefaultAlertRules_def
    by (intro valid_intro keepsT_exec) (auto intro!: wf_insert_rule)
qed

lemma UpsertAlertRule_wf [valid_intro]: "keepsT db_wf (UpsertAlertRule rule clock)"
  unfolding UpsertAlertRule_def Let_def
  by (intro valid_intro keepsT_insertRow)
    (auto intro!: wf_insert_rule wf_update_rule split: if_splits)

lemma CreateAlertIfDue_wf [valid_intro]: "keepsT db_wf (CreateAlertIfDue alert cooldown)"
  unfolding CreateAlertIfDue_def
  by (intro valid_intro keepsT_insertRow wf_insert_alert) (auto simp: alertRow_def split: if_splits)

lemma readAlert_keeps [valid_intro]: "keepsT I (readAlert row)"
  unfolding readAlert_def by (intro valid_intro)

lemma alert_reads [valid_intro]:
  "keepsT I ListAlertRules" "keepsT I (listAlerts ten status limit)" "keepsT I (GetAlert aid)"
  "keepsT I (GetAlertForTenant ten aid)" "keepsT I CountDeadLetteredAlerts"
  "keepsT I (ListDueAlertDeliveries now limit)" "keepsT I (ListAlerts status limit)"
  "keepsT I (ListAlertsForTenant ten status limit)"
  unfolding ListAlertRules_def listAlerts_def GetAlert_def GetAlertForTenant_def
    CountDeadLetteredAlerts_def ListDueAlertDeliveries_def ListAlerts_def ListAlertsForTenant_def Let_def
  by (intro valid_intro)+

lemma ResolveClusterAlerts_wf [valid_intro]: "keepsT db_wf (ResolveClusterAlerts cid h now)"
  unfolding ResolveClusterAlerts_def by (intro valid_intro keepsT_exec wf_intro; simp)

lemma acknowledgeAlert_wf [valid_intro]: "keepsT db_wf (acknowledgeAlert ten aid by now)"
  unfolding acknowledgeAlert_def by (intro valid_intro keepsT_exec wf_intro; simp)

lemma AcknowledgeAlert_wf [valid_intro]:
  "keepsT db_wf (AcknowledgeAlert aid u now)" "keepsT db_wf (AcknowledgeAlertForTenant ten aid u now)"
  unfolding AcknowledgeAlert_def AcknowledgeAlertForTenant_def by (intro valid_intro)+

lemma RecordAlertDelivered_wf [valid_intro]: "keepsT db_wf (RecordAlertDelivered aid n now)"
  unfolding RecordAlertDelivered_def by (intro valid_intro keepsT_exec wf_intro; simp)

lemma RecordAlertDeliveryFailure_wf [valid_intro]:
  "keepsT db_wf (RecordAlertDeliveryFailure aid n next msg now)"
  unfolding RecordAlertDeliveryFailure_def Let_def by (intro valid_intro keepsT_exec wf_intro; simp)

end
