(* ===== verification/StoreInvariant.thy ===== *)
theory StoreInvariant
  imports StoreSnapshot StoreUsers StoreEvents StoreAlerts
begin

text \<open>
  What the code above the store may rely on: a property of the tables that every writing operation
  of the store keeps. The alert manager, the handlers and the monitors only reach the tables
  through these operations, so what they keep is proved once, inside the locales below, for every
  such property. \<open>fleet_invariant\<close> lists the operations of the agent, cluster, alert, event and
  policy parts; \<open>store_invariant\<close> adds those on users, sessions and settings. Both are interpreted
  here on the store: well-formedness, the enabled administrator, the append-only audit log, and
  the user tables, which the fleet operations do not touch.
\<close>

section \<open>The interfaces\<close>

locale recording_invariant =
  fixes I :: "tables \<Rightarrow> bool"
  assumes I_AppendEvent: "keepsT I (AppendEvent event)"
    and I_CreateAlertIfDue: "keepsT I (CreateAlertIfDue alert cooldown)"
    and I_ResolveClusterAlerts: "keepsT I (ResolveClusterAlerts cid health now)"
    and I_RecordAlertDelivered: "keepsT I (RecordAlertDelivered aid n now)"
    and I_RecordAlertDeliveryFailure: "keepsT I (RecordAlertDeliveryFailure aid n nextAt msg now)"
    and I_RecordAuditEvent: "keepsT I (RecordAuditEvent audit)"
begin

lemmas recording_writes [valid_intro] = I_AppendEvent I_CreateAlertIfDue I_ResolveClusterAlerts
  I_RecordAlertDelivered I_RecordAlertDeliveryFailure I_RecordAuditEvent

end

text \<open>What the whole API outside user administration writes.\<close>

locale fleet_invariant = recording_invariant +
  assumes I_CreateCluster: "keepsT I (CreateCluster cluster)"
    and I_DeleteCluster: "keepsT I (DeleteCluster cid)"
    and I_UpdateHealth: "keepsT I (UpdateHealth cid health hb)"
    and I_IssueAgentToken: "keepsT I (IssueAgentToken cid h now)"
    and I_ApproveAgent: "keepsT I (ApproveAgent cid)"
    and I_UpdateSnapshot: "keepsT I (UpdateSnapshot cid nodes pods version)"
    and I_ReplaceSnapshot: "keepsT I (ReplaceSnapshot cid sn version agentVersion health hb)"
    and I_PruneEventsBefore: "keepsT I (PruneEventsBefore cutoff)"
    and I_seedDefaultAlertRules: "keepsT I (seedDefaultAlertRules now)"
    and I_UpsertAlertRule: "keepsT I (UpsertAlertRule rule clock)"
    and I_acknowledgeAlert: "keepsT I (acknowledgeAlert ten aid by now)"
begin

lemmas fleet_writes [valid_intro] = I_CreateCluster I_DeleteCluster I_UpdateHealth I_IssueAgentToken
  I_ApproveAgent I_UpdateSnapshot I_ReplaceSnapshot I_PruneEventsBefore I_seedDefaultAlertRules
  I_UpsertAlertRule I_acknowledgeAlert

lemma I_AcknowledgeAlert [valid_intro]:
  "keepsT I (AcknowledgeAlert aid u now)" "keepsT I (AcknowledgeAlertForTenant ten aid u now)"
  unfolding AcknowledgeAlert_def AcknowledgeAlertForTenant_def by (intro valid_intro)+

end

locale store_invariant = fleet_invariant +
  assumes I_CreateUser: "keepsT I (CreateUser user)"
    and I_UpdateUser: "keepsT I (UpdateUser uid role disabled now)"
    and I_DeleteUser: "keepsT I (DeleteUser uid)"
    and I_ResetUserPassword: "keepsT I (ResetUserPassword uid pw now)"
    and I_CreateSession: "keepsT I (CreateSession h uid expires now)"
    and I_DeleteSession: "keepsT I (DeleteSession h)"
    and I_DeleteExpiredSessions: "keepsT I (DeleteExpiredSessions now)"
    and I_SetSetting: "keepsT I (SetSetting key val)"
begin

lemmas user_writes [valid_intro] = I_CreateUser I_UpdateUser I_DeleteUser I_ResetUserPassword
  I_CreateSession I_DeleteSession I_DeleteExpiredSessions I_SetSetting

end

section \<open>Well-formedness\<close>

interpretation wf: store_invariant db_wf
  by unfold_locales (intro valid_intro)+

section \<open>Tables an operation does not touch\<close>

text \<open>The tables of users, sessions and settings.\<close>

definition userTables :: "tables \<Rightarrow> User list \<times> SessionRow list \<times> (string \<times> string) list" where
  "userTables t = (t_users t, t_sessions t, t_settings t)"

lemma userTables_simps [simp]:
  "userTables (t\<lparr>t_clusters := a\<rparr>) = userTables t" "userTables (t\<lparr>t_agents := b\<rparr>) = userTables t"
  "userTables (t\<lparr>t_alerts := c\<rparr>) = userTables t" "userTables (t\<lparr>t_alert_rules := d\<rparr>) = userTables t"
  "userTables (t\<lparr>t_audit := e\<rparr>) = userTables t" "userTables (t\<lparr>t_op_events := f\<rparr>) = userTables t"
  "userTables (t\<lparr>t_op_seq := g\<rparr>) = userTables t"
  "userTables (snd (updClusters cid k t)) = userTables t" "userTables (snd (updAgents cid l t)) = userTables t"
  "userTables (snd (updAlerts P m t)) = userTables t" "userTables (cascadeClusters Q t) = userTables t"
  by (simp_all add: userTables_def updClusters_def updAgents_def updAlerts_def cascadeClusters_def Let_def)

lemma userTables_snapshot [simp]:
  "userTables (replacedTables cid sn v av h hb t) = userTables t" "t_audit (replacedTables cid sn v av h hb t) = t_audit t"
  by (simp_all add: userTables_def replacedTables_def)

lemma keepsT_ReplaceSnapshot:
  assumes "\<And>t. I t \<Longrightarrow> I (replacedTables cid sn v av h hb t)"
  shows "keepsT I (ReplaceSnapshot cid sn v av h hb)"
proof -
  have "I (db_tables d')" if I: "I (db_tables d)" and r: "ReplaceSnapshot cid sn v av h hb d = (r, d')" for d r d'
  proof (cases r)
    case (Inl e)
    with r I ReplaceSnapshot_err show ?thesis by metis
  next
    case (Inr x)
    with r I assms ReplaceSnapshot_ok show ?thesis by metis
  qed
  then show ?thesis by (simp add: keeps_def) (metis prod.collapse)
qed

lemmas fleet_op_defs = CreateCluster_def DeleteCluster_def UpdateHealth_def IssueAgentToken_def ApproveAgent_def UpdateSnapshot_def
  AppendEvent_def seedDefaultAlertRules_def UpsertAlertRule_def CreateAlertIfDue_def ResolveClusterAlerts_def acknowledgeAlert_def
  RecordAlertDelivered_def RecordAlertDeliveryFailure_def RecordAuditEvent_def

interpretation users_fixed: fleet_invariant "\<lambda>t. userTables t = v" for v
proof unfold_locales
  show "keepsT (\<lambda>t. userTables t = v) (PruneEventsBefore cutoff)" for cutoff
    unfolding PruneEventsBefore_def by (rule event_prune.loop_keeps) simp
  show "keepsT (\<lambda>t. userTables t = v) (ReplaceSnapshot cid sn ver av h hb)" for cid sn ver av h hb
    by (rule keepsT_ReplaceSnapshot) simp
qed (unfold fleet_op_defs Let_def, (intro valid_intro keepsT_exec keepsT_insertRow; simp split: if_splits)+)

section \<open>The audit log\<close>

text \<open>No operation changes or removes an audit event; they are only appended.\<close>

lemma audit_simps [simp]:
  "t_audit (snd (updClusters cid k t)) = t_audit t" "t_audit (snd (updAgents cid l t)) = t_audit t"
  "t_audit (snd (updAlerts P m t)) = t_audit t" "t_audit (cascadeClusters Q t) = t_audit t"
  "t_audit (snd (updUsers uid f t)) = t_audit t" "t_audit (snd (deleteUsers uid t)) = t_audit t"
  by (simp_all add: updClusters_def updAgents_def updAlerts_def cascadeClusters_def updUsers_def deleteUsers_def Let_def)

lemmas user_op_defs = CreateUser_def UpdateUser_def DeleteUser_def ResetUserPassword_def CreateSession_def
  DeleteSession_def SetSetting_def

interpretation audit_log: store_invariant "\<lambda>t. prefix log (t_audit t)" for log
proof unfold_locales
  show "keepsT (\<lambda>t. prefix log (t_audit t)) (PruneEventsBefore cutoff)" for cutoff
    unfolding PruneEventsBefore_def by (rule event_prune.loop_keeps) simp
  show "keepsT (\<lambda>t. prefix log (t_audit t)) (DeleteExpiredSessions now)" for now
    by (rule session_prune.loop_keeps) simp
  show "keepsT (\<lambda>t. prefix log (t_audit t)) (ReplaceSnapshot cid sn ver av h hb)" for cid sn ver av h hb
    by (rule keepsT_ReplaceSnapshot) simp
  show "keepsT (\<lambda>t. prefix log (t_audit t)) (UpdateUser uid role disabled now)" for uid role disabled now
    unfolding UpdateUser_def
    by (intro valid_intro keepsT_stmt) (auto simp: updUsers_def split: if_splits)
qed (unfold fleet_op_defs user_op_defs Let_def, (intro valid_intro keepsT_exec keepsT_insertRow; simp split: if_splits)+)

section \<open>The last administrator\<close>

text \<open>Some user is an enabled administrator.\<close>

definition hasEnabledAdmin :: "tables \<Rightarrow> bool" where
  "hasEnabledAdmin t = list_ex (\<lambda>u. u_Role u = RoleAdmin \<and> \<not> u_Disabled u) (t_users t)"

lemma hasEnabledAdmin_users: "userTables t' = userTables t \<Longrightarrow> hasEnabledAdmin t' = hasEnabledAdmin t"
  by (simp add: hasEnabledAdmin_def userTables_def)

lemma fleet_keeps_users:
  assumes "\<And>v. keepsT (\<lambda>t. userTables t = v) m"
  shows "keepsT hasEnabledAdmin m"
  using assms hasEnabledAdmin_users unfolding keeps_def by metis

abbreviation othersOf :: "string \<Rightarrow> tables \<Rightarrow> User list" where
  "othersOf uid t \<equiv> filter (\<lambda>u. u_ID u \<noteq> uid) (t_users t)"

lemma enabledAdmin_count:
  assumes "unique_key u_ID us" and "\<not> cnt P us \<le> 1"
  shows "\<exists>u \<in> set us. P u \<and> u_ID u \<noteq> uid"
proof (rule ccontr)
  assume "\<not> ?thesis"
  then have "set (map u_ID (filter P us)) \<subseteq> {uid}" by auto
  moreover have "distinct (map u_ID (filter P us))"
    using assms(1) by (simp add: unique_key_def GoLib.distinct_map_filter)
  ultimately have "length (map u_ID (filter P us)) \<le> card {uid}"
    using card_mono [of "{uid}" "set (map u_ID (filter P us))"] distinct_card by fastforce
  with assms(2) show False by (simp add: cnt_def)
qed

text \<open>A mutation under the guard that changes one user only leaves an enabled administrator.\<close>

lemma withLastAdminGuard_admin:
  assumes others: "\<And>d x d'. mutate d = (Inr x, d') \<Longrightarrow> othersOf uid (db_tables d') = othersOf uid (db_tables d)"
    and stays: "\<And>d x d'. mutate d = (Inr x, d') \<Longrightarrow> newRole = RoleAdmin \<and> \<not> newDisabled \<Longrightarrow> hasEnabledAdmin (db_tables d')"
    and key: "unique_key u_ID (t_users (db_tables d))" and admin: "hasEnabledAdmin (db_tables d)"
    and run: "withLastAdminGuard uid newRole newDisabled mutate d = (r, d')"
  shows "hasEnabledAdmin (db_tables d')"
proof (cases r)
  case (Inl e)
  from tx_err [OF run [unfolded withLastAdminGuard_def Inl]] admin show ?thesis by simp
next
  case (Inr x)
  let ?P = "\<lambda>u. u_Role u = RoleAdmin \<and> \<not> u_Disabled u"
  let ?demotes = "\<lambda>u. ?P u \<and> \<not> (newRole = RoleAdmin \<and> \<not> newDisabled)"
  let ?check = "bindm (wrapErr ''count enabled admins'' (query (\<lambda>t. cnt ?P (t_users t))))
      (\<lambda>n. if n \<le> 1 then throw ErrLastAdmin else ret ())"
  obtain d0 d1 where
    0: "db_tables d0 = db_tables d" "db_tables d' = db_tables d1" and
    body: "bindm (wrapErr ''look up user for last-admin guard'' (query (\<lambda>t. selectOne (\<lambda>u. u_ID u = uid) (t_users t))))
        (\<lambda>row. case row of None \<Rightarrow> throw ErrNotFound
          | Some u \<Rightarrow> bindm (if ?demotes u then ?check else ret ()) (\<lambda>_. mutate)) d0 = (Inr x, d1)"
    using tx_ok [OF run [unfolded withLastAdminGuard_def Inr Let_def]]
    by (elim exE conjE) (rule that; assumption)
  from body obtain row da where q: "query (\<lambda>t. selectOne (\<lambda>u. u_ID u = uid) (t_users t)) d0 = (Inr row, da)"
    and k: "(case row of None \<Rightarrow> throw ErrNotFound
          | Some u \<Rightarrow> bindm (if ?demotes u then ?check else ret ()) (\<lambda>_. mutate)) da = (Inr x, d1)"
    unfolding bindm_ok wrapErr_ok by blast
  obtain u where row: "row = Some u" using k by (cases row) auto
  with k obtain v d2 where c: "(if ?demotes u then ?check else ret ()) da = (Inr v, d2)"
    and m: "mutate d2 = (Inr x, d1)" by (auto simp only: bindm_ok option.case)
  have u: "selectOne (\<lambda>u. u_ID u = uid) (t_users (db_tables d)) = Some u" and da: "db_tables da = db_tables d"
    using query_ok [OF q] row 0 by auto
  have g: "?demotes u \<longrightarrow> \<not> cnt ?P (t_users (db_tables d)) \<le> 1" and d2: "db_tables d2 = db_tables d"
    using c da by (auto simp: bindm_ok wrapErr_ok dest!: query_ok split: if_splits)
  show ?thesis
  proof (cases "newRole = RoleAdmin \<and> \<not> newDisabled")
    case True
    with stays m 0 show ?thesis by simp
  next
    case False
    have "\<exists>v \<in> set (t_users (db_tables d)). ?P v \<and> u_ID v \<noteq> uid"
    proof (cases "?P u")
      case True
      with g False enabledAdmin_count [OF key] show ?thesis by blast
    next
      case nu: False
      from admin obtain v where v: "v \<in> set (t_users (db_tables d))" "?P v"
        by (auto simp: hasEnabledAdmin_def list_ex_iff)
      have "u_ID v \<noteq> uid"
        using selectOne_unique [OF key [unfolded unique_key_def] v(1)] u nu v(2) by (metis option.inject)
      with v show ?thesis by blast
    qed
    then have "\<exists>v \<in> set (othersOf uid (db_tables d)). ?P v" by auto
    then have "\<exists>v \<in> set (othersOf uid (db_tables d1)). ?P v" using others [OF m] d2 by simp
    then show ?thesis using 0 by (auto simp: hasEnabledAdmin_def list_ex_iff)
  qed
qed

lemma UpdateUser_admin:
  assumes "unique_key u_ID (t_users (db_tables d))" and "hasEnabledAdmin (db_tables d)"
    and "UpdateUser uid role disabled now d = (r, d')"
  shows "hasEnabledAdmin (db_tables d')"
proof (rule withLastAdminGuard_admin [OF _ _ assms(1,2) assms(3) [unfolded UpdateUser_def]])
  let ?m = "bindm (wrapErr ''update user'' (stmt (\<lambda>t.
          if \<not> validRoleRow role \<and> cnt (\<lambda>u. u_ID u = uid) (t_users t) \<noteq> 0 then Inl SqlCheck
          else Inr (updUsers uid (setRole role disabled now) t)))) requireAffectedRow"
  have m: "db_tables d2 = snd (updUsers uid (setRole role disabled now) (db_tables d1)) \<and>
      (\<exists>u \<in> set (t_users (db_tables d1)). u_ID u = uid)"
    if "?m d1 = (Inr x, d2)" for d1 x d2
    using that by (auto simp: bindm_ok wrapErr_ok updUsers_def dest!: stmt_ok requireAffectedRow_ok split: if_splits)
  show "othersOf uid (db_tables d2) = othersOf uid (db_tables d1)" if "?m d1 = (Inr x, d2)" for d1 x d2
    using m [OF that] by (simp add: updUsers_def updWhere_def setRole_def filter_map comp_def) (auto intro!: map_idI simp: filter_map)
  show "hasEnabledAdmin (db_tables d2)" if "?m d1 = (Inr x, d2)" and "role = RoleAdmin \<and> \<not> disabled" for d1 x d2
    using m [OF that(1)] that(2) by (auto simp: hasEnabledAdmin_def list_ex_iff updUsers_def in_updWhere setRole_def intro!: bexI)
qed

lemma DeleteUser_admin:
  assumes "unique_key u_ID (t_users (db_tables d))" and "hasEnabledAdmin (db_tables d)"
    and "DeleteUser uid d = (r, d')"
  shows "hasEnabledAdmin (db_tables d')"
  by (rule withLastAdminGuard_admin [OF _ _ assms(1,2) assms(3) [unfolded DeleteUser_def]])
    (auto simp: bindm_ok wrapErr_ok deleteUsers_def dest!: exec_ok requireAffectedRow_ok)

lemma keepsT_conj: "keepsT I m \<Longrightarrow> keepsT J m \<Longrightarrow> keepsT (\<lambda>t. I t \<and> J t) m"
  by (simp add: keeps_def)

abbreviation adminInv :: "tables \<Rightarrow> bool" where
  "adminInv t \<equiv> db_wf t \<and> hasEnabledAdmin t"

lemma adminInv_users:
  assumes "\<And>d r d'. unique_key u_ID (t_users (db_tables d)) \<Longrightarrow> hasEnabledAdmin (db_tables d) \<Longrightarrow>
      m d = (r, d') \<Longrightarrow> hasEnabledAdmin (db_tables d')"
    and "keepsT db_wf m"
  shows "keepsT adminInv m"
proof -
  have "unique_key u_ID (t_users t)" if "db_wf t" for t using that by (simp add: db_wf_def schema_defs)
  then show ?thesis
    using assms unfolding keeps_def by (metis prod.collapse)
qed

lemma hasEnabledAdmin_simps [simp]:
  "hasEnabledAdmin (t\<lparr>t_sessions := s\<rparr>) = hasEnabledAdmin t" "hasEnabledAdmin (t\<lparr>t_settings := g\<rparr>) = hasEnabledAdmin t"
  "hasEnabledAdmin t \<Longrightarrow> hasEnabledAdmin (t\<lparr>t_users := t_users t @ us\<rparr>)"
  by (auto simp: hasEnabledAdmin_def list_ex_iff)

lemma hasEnabledAdmin_updUsers [simp]:
  assumes "\<And>u. u_Role (f u) = u_Role u \<and> u_Disabled (f u) = u_Disabled u"
  shows "hasEnabledAdmin (snd (updUsers uid f t)) = hasEnabledAdmin t"
proof -
  have "list_ex (\<lambda>u. u_Role u = RoleAdmin \<and> \<not> u_Disabled u) (updWhere P f us) =
      list_ex (\<lambda>u. u_Role u = RoleAdmin \<and> \<not> u_Disabled u) us" for P us
    by (induction us) (auto simp: updWhere_def assms)
  then show ?thesis by (simp add: hasEnabledAdmin_def updUsers_def)
qed

interpretation admin: store_invariant adminInv
proof unfold_locales
  show "keepsT adminInv (UpdateUser uid role disabled now)" for uid role disabled now
    by (rule adminInv_users, erule (2) UpdateUser_admin, intro valid_intro)
  show "keepsT adminInv (DeleteUser uid)" for uid
    by (rule adminInv_users, erule (2) DeleteUser_admin, intro valid_intro)
  show "keepsT adminInv (DeleteExpiredSessions now)" for now
    by (intro keepsT_conj valid_intro session_prune.loop_keeps) simp
  show "keepsT adminInv (CreateUser user)" for user
    by (rule keepsT_conj [OF wf.I_CreateUser], unfold CreateUser_def) (intro valid_intro keepsT_insertRow; simp)
  show "keepsT adminInv (ResetUserPassword uid pw now)" for uid pw now
    by (rule keepsT_conj [OF wf.I_ResetUserPassword], unfold ResetUserPassword_def) (intro valid_intro keepsT_exec; simp)
  show "keepsT adminInv (CreateSession h uid e now)" for h uid e now
    by (rule keepsT_conj [OF wf.I_CreateSession], unfold CreateSession_def) (intro valid_intro keepsT_insertRow; simp)
  show "keepsT adminInv (DeleteSession h)" for h
    by (rule keepsT_conj [OF wf.I_DeleteSession], unfold DeleteSession_def) (intro valid_intro keepsT_exec; simp)
  show "keepsT adminInv (SetSetting key val)" for key val
    by (rule keepsT_conj [OF wf.I_SetSetting], unfold SetSetting_def) (intro valid_intro keepsT_exec; simp)
qed (intro keepsT_conj valid_intro fleet_keeps_users users_fixed.fleet_writes)+

end
