(* ===== verification/AlertManager.thy ===== *)
theory AlertManager
  imports StoreInvariant
begin

text \<open>
  \<open>internal/alerts/manager.go\<close>: evaluation of the alert rules against a cluster and delivery of
  due alerts to the webhook. The HTTP client is a field of the manager; JSON encoding of the
  payload and HMAC-SHA256 (hex) are parameters, as are the identifiers \<open>uuid.NewString\<close> returns.
  Logging is left out; an error that the code only logs ends the branch as it does there.
\<close>

section \<open>Configuration\<close>

definition EventType :: string where "EventType = ''fleet.health.alert''"
definition maxResponseBodyBytes :: nat where "maxResponseBodyBytes = 1024"
definition maxRetryDelay :: duration where "maxRetryDelay = Hour"

record WebhookRequest =
  wr_URL :: string
  wr_Headers :: "(string \<times> string) list"
  wr_Body :: string

text \<open>The client's answer: a transport error, or a status with the body or an error reading it.\<close>

type_synonym WebhookClient = "WebhookRequest \<Rightarrow> string + (int \<times> (string + string))"

record AlertConfig =
  cf_WebhookURL :: string
  cf_Secret :: string
  cf_MaxAttempts :: int
  cf_RetryBase :: duration
  cf_PollInterval :: duration

record Manager =
  m_webhookURL :: string
  m_secret :: string
  m_maxAttempts :: int
  m_retryBase :: duration
  m_pollInterval :: duration
  m_client :: WebhookClient

definition NewManager :: "AlertConfig \<Rightarrow> WebhookClient \<Rightarrow> Manager" where
  "NewManager cfg client =
     \<lparr>m_webhookURL = cf_WebhookURL cfg, m_secret = cf_Secret cfg,
      m_maxAttempts = (if cf_MaxAttempts cfg \<le> 0 then 5 else cf_MaxAttempts cfg),
      m_retryBase = (if cf_RetryBase cfg \<le> 0 then 5 * Second else cf_RetryBase cfg),
      m_pollInterval = (if cf_PollInterval cfg \<le> 0 then Second else cf_PollInterval cfg),
      m_client = client\<rparr>"

section \<open>Evaluation\<close>

definition ruleAlert :: "Manager \<Rightarrow> time \<Rightarrow> string \<Rightarrow> Cluster \<Rightarrow> AlertRule \<Rightarrow> Alert" where
  "ruleAlert m now aid cluster rule =
     \<lparr>al_ID = aid, al_TenantID = c_TenantID cluster, al_RuleID = ar_ID rule, al_RuleName = ar_Name rule,
      al_ClusterID = c_ID cluster, al_ClusterName = c_Name cluster,
      al_DedupeKey = ar_ID rule @ '':'' @ c_ID cluster @ '':'' @ c_Health cluster,
      al_Health = c_Health cluster, al_Severity = ar_Severity rule,
      al_Summary = c_Name cluster @ '' is '' @ c_Health cluster,
      al_Status = AlertStatusFiring, al_TriggeredAt = now, al_UpdatedAt = now,
      al_AcknowledgedAt = None, al_AcknowledgedBy = '''', al_ResolvedAt = None,
      al_DeliveryStatus = (if m_webhookURL m \<noteq> '''' then AlertDeliveryPending else AlertDeliveryDisabled),
      al_DeliveryAttempts = 0,
      al_NextDeliveryAt = (if m_webhookURL m \<noteq> '''' then Some now else None),
      al_LastDeliveryError = '''', al_DeliveredAt = None, al_DeadLetteredAt = None\<rparr>"

definition Evaluate :: "Manager \<Rightarrow> time \<Rightarrow> (AlertRule \<Rightarrow> string) \<Rightarrow> Cluster \<Rightarrow> unit storem" where
  "Evaluate m now uuid cluster =
     bindm (attempt (ResolveClusterAlerts (c_ID cluster) (c_Health cluster) now)) (\<lambda>r. case r of
       Inl _ \<Rightarrow> ret ()
     | Inr _ \<Rightarrow> bindm (attempt ListAlertRules) (\<lambda>r. case r of
         Inl _ \<Rightarrow> ret ()
       | Inr rules \<Rightarrow> forEach rules (\<lambda>rule.
           if \<not> ar_Enabled rule \<or> ar_Health rule \<noteq> c_Health cluster then ret ()
           else bindm (attempt (CreateAlertIfDue (ruleAlert m now (uuid rule) cluster rule)
                        (wrap64 (ar_CooldownSeconds rule * Second))))
                  (\<lambda>_. ret ()))))"

section \<open>Delivery\<close>

record WebhookPayload =
  wp_ID :: string
  wp_Event :: string
  wp_OccurredAt :: time
  wp_RuleID :: string
  wp_RuleName :: string
  wp_ClusterID :: string
  wp_ClusterName :: string
  wp_ClusterHealth :: ClusterHealth
  wp_Severity :: AlertSeverity
  wp_Summary :: string

definition Signature :: "(string \<Rightarrow> string \<Rightarrow> string) \<Rightarrow> string \<Rightarrow> string \<Rightarrow> string \<Rightarrow> string" where
  "Signature hmac secret timestamp body = ''v1='' @ hmac secret (timestamp @ ''.'' @ body)"

definition webhookPayload :: "Alert \<Rightarrow> WebhookPayload" where
  "webhookPayload alert =
     \<lparr>wp_ID = al_ID alert, wp_Event = EventType, wp_OccurredAt = al_TriggeredAt alert,
      wp_RuleID = al_RuleID alert, wp_RuleName = al_RuleName alert,
      wp_ClusterID = al_ClusterID alert, wp_ClusterName = al_ClusterName alert,
      wp_ClusterHealth = al_Health alert, wp_Severity = al_Severity alert, wp_Summary = al_Summary alert\<rparr>"

text \<open>Seconds since 1970, rounded down.\<close>

definition Unix :: "time \<Rightarrow> int" where
  "Unix t = (t - 62135596800 * Second) div Second"

text \<open>The outcome is the error text, if any.\<close>

definition send ::
  "Manager \<Rightarrow> (WebhookPayload \<Rightarrow> string) \<Rightarrow> (string \<Rightarrow> string \<Rightarrow> string) \<Rightarrow> Alert \<Rightarrow> time \<Rightarrow> string option" where
  "send m encode hmac alert sentAt =
     (let body = encode (webhookPayload alert);
          timestamp = Itoa (Unix sentAt);
          req = \<lparr>wr_URL = m_webhookURL m,
                 wr_Headers = [(''Content-Type'', ''application/json''), (''User-Agent'', ''kfleet-alerts/1''),
                   (''X-Kfleet-Event'', EventType), (''X-Kfleet-Delivery'', al_ID alert),
                   (''X-Kfleet-Timestamp'', timestamp),
                   (''X-Kfleet-Signature'', Signature hmac (m_secret m) timestamp body)],
                 wr_Body = body\<rparr>
      in case m_client m req of
           Inl err \<Rightarrow> Some (''send webhook: '' @ err)
         | Inr (status, Inl err) \<Rightarrow> Some (''read webhook response: '' @ err)
         | Inr (status, Inr response) \<Rightarrow>
             if status < 200 \<or> 300 \<le> status
             then let detail = TrimSpace (take maxResponseBodyBytes response);
                      detail = (if detail = '''' then StatusText status else detail)
                  in Some (''webhook returned '' @ Itoa status @ '': '' @ detail)
             else None)"

fun doubleDelay :: "nat \<Rightarrow> duration \<Rightarrow> duration" where
  "doubleDelay 0 delay = (if delay > maxRetryDelay then maxRetryDelay else delay)"
| "doubleDelay (Suc n) delay =
     (if go_div maxRetryDelay 2 \<le> delay then maxRetryDelay else doubleDelay n (wrap64 (delay * 2)))"

definition retryDelay :: "Manager \<Rightarrow> int \<Rightarrow> duration" where
  "retryDelay m attempts = doubleDelay (nat (attempts - 1)) (m_retryBase m)"

definition truncateError :: "string \<Rightarrow> nat \<Rightarrow> string" where
  "truncateError v limit = (if length v \<le> limit then v else take limit v)"

definition deliver ::
  "Manager \<Rightarrow> (WebhookPayload \<Rightarrow> string) \<Rightarrow> (string \<Rightarrow> string \<Rightarrow> string) \<Rightarrow> time \<Rightarrow> Alert \<Rightarrow> unit storem" where
  "deliver m encode hmac now alert =
     (let attempts = al_DeliveryAttempts alert + 1 in
      case send m encode hmac alert now of
        None \<Rightarrow> bindm (attempt (RecordAlertDelivered (al_ID alert) attempts now)) (\<lambda>_. ret ())
      | Some err \<Rightarrow>
          let nextAttemptAt = (if attempts < m_maxAttempts m
                               then Some (time_Add now (retryDelay m attempts)) else None)
          in bindm (attempt (RecordAlertDeliveryFailure (al_ID alert) attempts nextAttemptAt
                      (truncateError err 512) now)) (\<lambda>_. ret ()))"

text \<open>
  \<open>cancelled a\<close> is whether the context is done when the loop reaches \<open>a\<close>; \<open>clock a\<close> is the time
  at its delivery.
\<close>

fun deliverEach ::
  "Manager \<Rightarrow> (WebhookPayload \<Rightarrow> string) \<Rightarrow> (string \<Rightarrow> string \<Rightarrow> string) \<Rightarrow> (Alert \<Rightarrow> bool) \<Rightarrow> (Alert \<Rightarrow> time) \<Rightarrow>
   Alert list \<Rightarrow> unit storem" where
  "deliverEach m encode hmac cancelled clock [] = ret ()"
| "deliverEach m encode hmac cancelled clock (alert # due) =
     (if cancelled alert then ret ()
      else bindm (deliver m encode hmac (clock alert) alert)
             (\<lambda>_. deliverEach m encode hmac cancelled clock due))"

definition ProcessDue ::
  "Manager \<Rightarrow> (WebhookPayload \<Rightarrow> string) \<Rightarrow> (string \<Rightarrow> string \<Rightarrow> string) \<Rightarrow> time \<Rightarrow> (Alert \<Rightarrow> bool) \<Rightarrow>
   (Alert \<Rightarrow> time) \<Rightarrow> unit storem" where
  "ProcessDue m encode hmac now cancelled clock =
     (if m_webhookURL m = '''' then ret ()
      else bindm (attempt (ListDueAlertDeliveries now 25)) (\<lambda>r. case r of
             Inl _ \<Rightarrow> ret ()
           | Inr due \<Rightarrow> deliverEach m encode hmac cancelled clock due))"

section \<open>Retry delays\<close>

text \<open>Doubling from the base, capped at one hour; the product never leaves the \<open>int64\<close> range.\<close>

lemma doubleDelay_min: "0 < delay \<Longrightarrow> doubleDelay n delay = min (delay * 2 ^ n) maxRetryDelay"
proof (induction n arbitrary: delay)
  case 0
  then show ?case by simp
next
  case (Suc n)
  show ?case
  proof (cases "go_div maxRetryDelay 2 \<le> delay")
    case True
    have "delay * 2 \<le> delay * 2 ^ Suc n"
      using Suc.prems by (intro mult_left_mono) simp_all
    moreover have "maxRetryDelay \<le> delay * 2"
      using True by (simp add: maxRetryDelay_def go_time)
    ultimately show ?thesis using True by simp
  next
    case False
    then have "wrap64 (delay * 2) = delay * 2"
      using Suc.prems by (intro wrap64_id) (simp_all add: maxRetryDelay_def go_time)
    with False Suc show ?thesis by (simp add: mult.assoc)
  qed
qed

section \<open>Delivery bounds\<close>

text \<open>The delivery columns of a row: the state machine of one delivery.\<close>

definition deliveryOK :: "int \<Rightarrow> Alert \<Rightarrow> bool" where
  "deliveryOK maxA a \<longleftrightarrow>
     0 \<le> al_DeliveryAttempts a \<and> al_DeliveryAttempts a \<le> maxA \<and>
     (al_DeliveryStatus a \<in> set [AlertDeliveryPending, AlertDeliveryRetrying] \<longrightarrow> al_DeliveryAttempts a < maxA) \<and>
     (al_DeliveryStatus a = AlertDeliveryDeadLetter \<longrightarrow>
        al_DeliveryAttempts a = maxA \<and> al_NextDeliveryAt a = None \<and> al_DeadLetteredAt a \<noteq> None)"

definition deliveries_ok :: "int \<Rightarrow> tables \<Rightarrow> bool" where
  "deliveries_ok maxA t = list_all (deliveryOK maxA) (t_alerts t)"

lemma deliveries_updAlerts:
  "deliveries_ok maxA t \<Longrightarrow> (\<And>a. deliveryOK maxA a \<Longrightarrow> P a \<Longrightarrow> deliveryOK maxA (f a)) \<Longrightarrow>
     deliveries_ok maxA (snd (updAlerts P f t))"
  by (simp add: deliveries_ok_def updAlerts_def list_all_updWhere)

lemma ResolveClusterAlerts_deliveries: "keepsT (deliveries_ok maxA) (ResolveClusterAlerts cid h now)"
  unfolding ResolveClusterAlerts_def
  by (intro valid_intro keepsT_exec deliveries_updAlerts) (auto simp: deliveryOK_def)

lemma CreateAlertIfDue_deliveries:
  "deliveryOK maxA (alertRow alert) \<Longrightarrow> keepsT (deliveries_ok maxA) (CreateAlertIfDue alert cooldown)"
  unfolding CreateAlertIfDue_def
  by (intro valid_intro keepsT_insertRow) (auto simp: deliveries_ok_def)

lemma acknowledgeAlert_deliveries: "keepsT (deliveries_ok maxA) (acknowledgeAlert ten aid u now)"
  unfolding acknowledgeAlert_def
  by (intro valid_intro keepsT_exec deliveries_updAlerts) (auto simp: deliveryOK_def)

lemma ruleAlert_deliveryOK: "0 < maxA \<Longrightarrow> deliveryOK maxA (alertRow (ruleAlert m now aid cluster rule))"
  by (simp add: deliveryOK_def alertRow_def ruleAlert_def)

lemma Evaluate_deliveries: "0 < maxA \<Longrightarrow> keepsT (deliveries_ok maxA) (Evaluate m now uuid cluster)"
  unfolding Evaluate_def
  by (intro valid_intro ResolveClusterAlerts_deliveries CreateAlertIfDue_deliveries ruleAlert_deliveryOK)

lemma deliver_deliveries:
  assumes "0 \<le> al_DeliveryAttempts alert" and "al_DeliveryAttempts alert < m_maxAttempts m"
  shows "keepsT (deliveries_ok (m_maxAttempts m)) (deliver m encode hmac now alert)"
  unfolding deliver_def Let_def RecordAlertDelivered_def RecordAlertDeliveryFailure_def
  using assms
  by (intro valid_intro keepsT_exec deliveries_updAlerts) (auto simp: deliveryOK_def)

lemma deliverEach_deliveries:
  "(\<forall>a \<in> set due. 0 \<le> al_DeliveryAttempts a \<and> al_DeliveryAttempts a < m_maxAttempts m) \<Longrightarrow>
     keepsT (deliveries_ok (m_maxAttempts m)) (deliverEach m encode hmac cancelled clock due)"
  by (induction due) (auto intro!: valid_intro deliver_deliveries)

lemma ListDueAlertDeliveries_rows:
  "ListDueAlertDeliveries now limit d = (Inr due, d') \<Longrightarrow>
     set due \<subseteq> {a \<in> set (t_alerts (db_tables d)). dueAt now a}"
  by (auto simp: ListDueAlertDeliveries_def Let_def wrapErr_ok dest!: query_ok in_set_takeD split: if_splits)

lemma attempt_ok: "attempt m s = (r, s') \<Longrightarrow> \<exists>x. r = Inr x \<and> m s = (x, s')"
  by (auto simp: attempt_def split: prod.splits)

lemma ProcessDue_deliveries:
  "keepsT (deliveries_ok (m_maxAttempts m)) (ProcessDue m encode hmac now cancelled clock)"
proof -
  let ?I = "\<lambda>d. deliveries_ok (m_maxAttempts m) (db_tables d)"
  let ?k = "\<lambda>r. case r of Inl _ \<Rightarrow> ret () | Inr due \<Rightarrow> deliverEach m encode hmac cancelled clock due"
  have "?I (snd (bindm (attempt (ListDueAlertDeliveries now 25)) ?k d))" if I: "?I d" for d
  proof -
    obtain r d1 where l: "ListDueAlertDeliveries now 25 d = (r, d1)" by fastforce
    then have I1: "?I d1" using keepsD alert_reads(6) I by metis
    have b: "bindm (attempt (ListDueAlertDeliveries now 25)) ?k d = ?k r d1"
      using l by (simp add: bindm_def attempt_def)
    show ?thesis
    proof (cases r)
      case (Inl e)
      with b I1 show ?thesis by (simp add: ret_def)
    next
      case (Inr due)
      then have "\<forall>a \<in> set due. 0 \<le> al_DeliveryAttempts a \<and> al_DeliveryAttempts a < m_maxAttempts m"
        using ListDueAlertDeliveries_rows l I
        by (fastforce simp: deliveries_ok_def list_all_iff deliveryOK_def dueAt_def)
      with b I1 Inr show ?thesis by (simp add: keeps_snd [OF deliverEach_deliveries])
    qed
  qed
  then have "keeps ?I (bindm (attempt (ListDueAlertDeliveries now 25)) ?k)" by (simp only: keeps_def) blast
  then show ?thesis unfolding ProcessDue_def by (intro keeps_if keeps_ret)
qed

section \<open>Invariants of the store\<close>

context recording_invariant begin

lemma AlertManager_keeps [valid_intro]:
  "keepsT I (Evaluate m now uuid cluster)"
  "keepsT I (ProcessDue m encode hmac now cancelled clock)"
proof -
  show "keepsT I (Evaluate m now uuid cluster)"
    unfolding Evaluate_def by (intro valid_intro)
  have d: "keepsT I (deliver m encode hmac n a)" for n a
    unfolding deliver_def Let_def by (intro valid_intro)
  have "keepsT I (deliverEach m encode hmac cancelled clock due)" for due
    by (induction due) (auto intro!: valid_intro d)
  then show "keepsT I (ProcessDue m encode hmac now cancelled clock)"
    unfolding ProcessDue_def by (intro valid_intro)
qed

end

end
