(* ===== verification/Policy.thy ===== *)
theory Policy
  imports StoreSnapshot
begin

text \<open>
  \<open>internal/policy/engine.go\<close>: the built-in fleet policies. The snapshot reader is an interface
  of the code, so it is a record of operations here; the locale \<open>tenant_reader\<close> states what the
  engine relies on, and the store's operations interpret it. Errors of the reader are wrapped as
  the code wraps them; \<open>now\<close> is the evaluation time.
\<close>

section \<open>Catalog\<close>

definition KubernetesVersionPolicyID :: string where "KubernetesVersionPolicyID = ''kubernetes-version-consistency''"
definition RequiredLabelsPolicyID :: string where "RequiredLabelsPolicyID = ''required-cluster-labels''"
definition NamespaceDriftPolicyID :: string where "NamespaceDriftPolicyID = ''namespace-consistency''"
definition WorkloadDriftPolicyID :: string where "WorkloadDriftPolicyID = ''workload-configuration-consistency''"
definition WorkloadHealthPolicyID :: string where "WorkloadHealthPolicyID = ''workload-availability''"
definition PodSecurityPolicyID :: string where "PodSecurityPolicyID = ''pod-security-baseline''"
definition NamespaceSecurityPolicyID :: string where "NamespaceSecurityPolicyID = ''namespace-pod-security''"

lemmas policy_ids = KubernetesVersionPolicyID_def RequiredLabelsPolicyID_def NamespaceDriftPolicyID_def
  WorkloadDriftPolicyID_def WorkloadHealthPolicyID_def PodSecurityPolicyID_def NamespaceSecurityPolicyID_def

definition catalog :: "Policy list" where
  "catalog =
    [\<lparr>po_ID = KubernetesVersionPolicyID, po_Name = ''Kubernetes version consistency'',
      po_Description = ''Clusters should run the fleet'' @ [CHR 0x27] @ ''s most common Kubernetes major and minor version.'',
      po_Category = ''Kubernetes'', po_Severity = SeverityHigh, po_Scope = ScopeFleet\<rparr>,
     \<lparr>po_ID = RequiredLabelsPolicyID, po_Name = ''Required cluster labels'',
      po_Description = ''Clusters should declare environment, owner, and region labels.'',
      po_Category = ''Governance'', po_Severity = SeverityMedium, po_Scope = ScopeCluster\<rparr>,
     \<lparr>po_ID = NamespaceDriftPolicyID, po_Name = ''Namespace consistency'',
      po_Description = ''Each cluster should have the tenant fleet'' @ [CHR 0x27] @ ''s common namespace set.'',
      po_Category = ''Namespaces'', po_Severity = SeverityMedium, po_Scope = ScopeNamespace\<rparr>,
     \<lparr>po_ID = WorkloadDriftPolicyID, po_Name = ''Workload configuration consistency'',
      po_Description = ''Matching deployments should have the same desired configuration across clusters.'',
      po_Category = ''Workloads'', po_Severity = SeverityHigh, po_Scope = ScopeWorkload\<rparr>,
     \<lparr>po_ID = WorkloadHealthPolicyID, po_Name = ''Workload availability'',
      po_Description = ''Deployments should have all desired replicas updated and available.'',
      po_Category = ''Workloads'', po_Severity = SeverityHigh, po_Scope = ScopeWorkload\<rparr>,
     \<lparr>po_ID = PodSecurityPolicyID, po_Name = ''Pod security baseline'',
      po_Description = ''Pods should run as non-root with restricted privileges, a read-only root filesystem, and all capabilities dropped.'',
      po_Category = ''Security'', po_Severity = SeverityCritical, po_Scope = ScopeWorkload\<rparr>,
     \<lparr>po_ID = NamespaceSecurityPolicyID, po_Name = ''Namespace pod security'',
      po_Description = ''Application namespaces should enforce the Kubernetes baseline or restricted Pod Security Standard.'',
      po_Category = ''Security'', po_Severity = SeverityHigh, po_Scope = ScopeNamespace\<rparr>]"

definition requiredClusterLabels :: "string list" where
  "requiredClusterLabels = [''environment'', ''owner'', ''region'']"

definition Catalog :: "Policy list" where
  "Catalog = catalog"

text \<open>\<open>None\<close> is the panic of the code; it is reached for no identifier above.\<close>

definition policyByID :: "string \<Rightarrow> Policy option" where
  "policyByID pid = find (\<lambda>p. po_ID p = pid) catalog"

section \<open>Interface and configuration\<close>

record ('s, 'e) Reader =
  rd_ListClustersForTenant :: "string \<Rightarrow> ('s, 'e, Cluster list) sm"
  rd_ListPods :: "string \<Rightarrow> string \<Rightarrow> ('s, 'e, Pod list) sm"
  rd_ListDeployments :: "string \<Rightarrow> string \<Rightarrow> ('s, 'e, Deployment list) sm"
  rd_ListNamespaces :: "string \<Rightarrow> ('s, 'e, string list) sm"
  rd_ListNamespaceConfigs :: "string \<Rightarrow> ('s, 'e, Namespace list) sm"

record ('s, 'e) Engine =
  en_reader :: "('s, 'e) Reader"
  en_staleAfter :: duration

datatype 'e policy_error = PolicyErr string 'e

type_synonym ('s, 'e, 'a) pm = "('s, 'e policy_error, 'a) sm"

definition NewEngine :: "('s, 'e) Reader \<Rightarrow> duration \<Rightarrow> ('s, 'e) Engine" where
  "NewEngine reader staleAfter =
     \<lparr>en_reader = reader, en_staleAfter = (if staleAfter \<le> 0 then 5 * Minute else staleAfter)\<rparr>"

section \<open>Helpers\<close>

definition isStale :: "duration \<Rightarrow> Cluster \<Rightarrow> time \<Rightarrow> bool" where
  "isStale staleAfter cluster now \<longleftrightarrow>
     IsZero (c_LastHeartbeat cluster) \<or> time_Sub now (c_LastHeartbeat cluster) > staleAfter"

definition newResultWithSubject :: "Policy \<Rightarrow> PolicySubject \<Rightarrow> time \<Rightarrow> time \<Rightarrow> PolicyResult" where
  "newResultWithSubject policy subject observedAt now =
     \<lparr>pr_PolicyID = po_ID policy, pr_PolicyName = po_Name policy, pr_Category = po_Category policy,
      pr_Severity = po_Severity policy, pr_Scope = po_Scope policy, pr_Status = '''',
      pr_Subject = subject, pr_Message = '''', pr_Expected = Map.empty, pr_Actual = Map.empty,
      pr_ObservedAt = observedAt, pr_EvaluatedAt = now\<rparr>"

definition newResult :: "Policy \<Rightarrow> Cluster \<Rightarrow> time \<Rightarrow> PolicyResult" where
  "newResult policy cluster now =
     newResultWithSubject policy
       \<lparr>su_ClusterID = c_ID cluster, su_ClusterName = c_Name cluster, su_Namespace = '''', su_Kind = '''', su_Name = ''''\<rparr>
       (c_LastHeartbeat cluster) now"

definition setStale :: "PolicyResult \<Rightarrow> duration \<Rightarrow> PolicyResult" where
  "setStale result staleAfter = result\<lparr>pr_Status := PolicyStale,
     pr_Message := ''Cluster snapshot is older than the freshness threshold'',
     pr_Expected := [''freshWithin'' \<mapsto> Duration_String staleAfter]\<rparr>"

definition workloadSubject :: "Cluster \<Rightarrow> string \<Rightarrow> string \<Rightarrow> string \<Rightarrow> PolicySubject" where
  "workloadSubject cluster kind namespace name =
     \<lparr>su_ClusterID = c_ID cluster, su_ClusterName = c_Name cluster, su_Namespace = namespace,
      su_Kind = kind, su_Name = name\<rparr>"

definition versionLine :: "string \<Rightarrow> string" where
  "versionLine version =
     (let parts = SplitC (CHR ''.'') (TrimPrefix (TrimSpace version) ''v'')
      in if length parts < 2 \<or> parts ! 0 = '''' \<or> parts ! 1 = '''' then ''''
         else parts ! 0 @ ''.'' @ parts ! 1)"

text \<open>The loop of \<open>mode\<close>: counts so far, best value and its count.\<close>

fun modeLoop :: "(string \<Rightarrow> nat) \<Rightarrow> string \<Rightarrow> nat \<Rightarrow> string list \<Rightarrow> string" where
  "modeLoop counts best bestCount [] = best"
| "modeLoop counts best bestCount (v # vs) =
     (if v = '''' then modeLoop counts best bestCount vs
      else let counts = counts(v := counts v + 1)
           in if counts v > bestCount \<or> (counts v = bestCount \<and> v < best)
              then modeLoop counts v (counts v) vs
              else modeLoop counts best bestCount vs)"

definition mode :: "string list \<Rightarrow> string" where
  "mode values = modeLoop (\<lambda>_. 0) '''' 0 values"

definition splitSignature :: "string \<Rightarrow> string list" where
  "splitSignature signature = (if signature = '''' then [] else SplitC (CHR 0x00) signature)"

definition setDifference :: "string list \<Rightarrow> string list \<Rightarrow> string list" where
  "setDifference left right = filter (\<lambda>v. v \<notin> set right) left"

definition podSecurityViolations :: "Pod \<Rightarrow> string list" where
  "podSecurityViolations pod =
     (if p_Privileged pod then [''privileged''] else []) @
     (if \<not> p_RunAsNonRoot pod then [''runAsNonRoot''] else []) @
     (if \<not> p_ReadOnlyRootFilesystem pod then [''readOnlyRootFilesystem''] else []) @
     (if p_AllowsPrivilegeEscalation pod then [''allowPrivilegeEscalation''] else []) @
     (if \<not> p_CapabilitiesDroppedAll pod then [''dropAllCapabilities''] else []) @
     (if p_HostNetwork pod then [''hostNetwork''] else []) @
     (if p_HostPID pod then [''hostPID''] else []) @
     (if p_HostIPC pod then [''hostIPC''] else [])"

definition isSystemNamespace :: "string \<Rightarrow> bool" where
  "isSystemNamespace namespace \<longleftrightarrow>
     namespace = ''kube-system'' \<or> namespace = ''kube-public'' \<or> namespace = ''kube-node-lease'' \<or>
     namespace = ''kfleet-system''"

section \<open>Policies over the cluster list\<close>

definition evaluateVersions :: "duration \<Rightarrow> Cluster list \<Rightarrow> time \<Rightarrow> PolicyResult list" where
  "evaluateVersions staleAfter clusters now =
     (let policy = the (policyByID KubernetesVersionPolicyID);
          freshVersions = map (\<lambda>c. versionLine (c_Version c))
            (filter (\<lambda>c. \<not> isStale staleAfter c now \<and> versionLine (c_Version c) \<noteq> '''') clusters);
          expected = mode freshVersions
      in map (\<lambda>cluster.
           let result = newResult policy cluster now;
               actual = versionLine (c_Version cluster);
               exp = [''majorMinor'' \<mapsto> expected];
               act = [''majorMinor'' \<mapsto> actual, ''version'' \<mapsto> c_Version cluster]
           in if isStale staleAfter cluster now then setStale result staleAfter
              else if actual = '''' then result\<lparr>pr_Status := PolicyUnknown,
                pr_Message := ''Kubernetes version was not reported''\<rparr>
              else if expected = '''' then result\<lparr>pr_Status := PolicyUnknown,
                pr_Message := ''No fresh fleet version baseline is available''\<rparr>
              else if actual = expected then result\<lparr>pr_Status := PolicyPass,
                pr_Message := ''Kubernetes version matches the fleet baseline'', pr_Expected := exp, pr_Actual := act\<rparr>
              else result\<lparr>pr_Status := PolicyFail,
                pr_Message := ''Kubernetes version differs from the fleet baseline'', pr_Expected := exp, pr_Actual := act\<rparr>)
         clusters)"

definition evaluateLabels :: "duration \<Rightarrow> Cluster list \<Rightarrow> time \<Rightarrow> PolicyResult list" where
  "evaluateLabels staleAfter clusters now =
     (let policy = the (policyByID RequiredLabelsPolicyID)
      in map (\<lambda>cluster.
           let result = newResult policy cluster now
           in if isStale staleAfter cluster now then setStale result staleAfter
              else let missing = filter (\<lambda>label. TrimSpace (mapGet (c_Labels cluster) label) = '''') requiredClusterLabels;
                       result = result\<lparr>pr_Expected := [''labels'' \<mapsto> Join '','' requiredClusterLabels]\<rparr>
                   in if missing = []
                      then result\<lparr>pr_Status := PolicyPass, pr_Message := ''All required cluster labels are present''\<rparr>
                      else result\<lparr>pr_Status := PolicyFail, pr_Message := ''Required cluster labels are missing'',
                             pr_Actual := [''missing'' \<mapsto> Join '','' missing]\<rparr>)
         clusters)"

section \<open>Policies that read snapshots\<close>

text \<open>The map \<open>sets\<close> of the code is built from these entries; a later entry wins.\<close>

definition setsOf :: "(string \<times> string list) list \<Rightarrow> string \<Rightarrow> string list" where
  "setsOf entries cid = (case map_of (rev entries) cid of None \<Rightarrow> [] | Some ns \<Rightarrow> ns)"

definition namespaceResult ::
  "duration \<Rightarrow> time \<Rightarrow> (string \<Rightarrow> string list) \<Rightarrow> string \<Rightarrow> Cluster \<Rightarrow> PolicyResult" where
  "namespaceResult staleAfter now sets baselineSignature cluster =
     (let baseline = splitSignature baselineSignature;
          result = newResult (the (policyByID NamespaceDriftPolicyID)) cluster now;
          own = sets (c_ID cluster)
      in if isStale staleAfter cluster now then setStale result staleAfter
         else if own = [] \<or> baselineSignature = '''' then result\<lparr>pr_Status := PolicyUnknown,
           pr_Message := ''No namespace inventory is available''\<rparr>
         else let missing = setDifference baseline own;
                  extra = setDifference own baseline;
                  result = result\<lparr>pr_Expected := [''namespaces'' \<mapsto> Join '','' baseline],
                                  pr_Actual := [''namespaces'' \<mapsto> Join '','' own]\<rparr>
              in if missing = [] \<and> extra = []
                 then result\<lparr>pr_Status := PolicyPass,
                        pr_Message := ''Namespace inventory matches the fleet baseline''\<rparr>
                 else result\<lparr>pr_Status := PolicyFail,
                        pr_Message := ''Namespace inventory differs from the fleet baseline'',
                        pr_Actual := (pr_Actual result)(''missing'' \<mapsto> Join '','' missing, ''extra'' \<mapsto> Join '','' extra)\<rparr>)"

definition evaluateNamespaces ::
  "('s, 'e) Engine \<Rightarrow> Cluster list \<Rightarrow> time \<Rightarrow> ('s, 'e, PolicyResult list) pm" where
  "evaluateNamespaces e clusters now =
     bindm (collectM clusters (\<lambda>cluster.
        if isStale (en_staleAfter e) cluster now then ret []
        else bindm (mapErr (PolicyErr (''list namespaces for '' @ c_ID cluster))
                     (rd_ListNamespaces (en_reader e) (c_ID cluster)))
               (\<lambda>namespaces. ret [(c_ID cluster, sort namespaces)])))
     (\<lambda>entries.
        let signatures = map (Join [CHR 0x00]) (filter (\<lambda>ns. ns \<noteq> []) (map snd entries))
        in ret (map (namespaceResult (en_staleAfter e) now (setsOf entries) (mode signatures)) clusters))"

definition deploymentKeyOf :: "Deployment \<Rightarrow> string" where
  "deploymentKeyOf d = d_Namespace d @ [CHR 0x00] @ d_Name d"

definition hashesOf :: "Deployment list \<Rightarrow> string \<Rightarrow> string list" where
  "hashesOf deployments key =
     map d_ConfigHash (filter (\<lambda>d. d_ConfigHash d \<noteq> '''' \<and> deploymentKeyOf d = key) deployments)"

definition driftResult :: "time \<Rightarrow> (string \<Rightarrow> string list) \<Rightarrow> Cluster \<Rightarrow> Deployment \<Rightarrow> PolicyResult" where
  "driftResult now hashes cluster d =
     (let subject = workloadSubject cluster ''Deployment'' (d_Namespace d) (d_Name d);
          drift = newResultWithSubject (the (policyByID WorkloadDriftPolicyID)) subject (c_LastHeartbeat cluster) now;
          peers = hashes (deploymentKeyOf d);
          baseline = mode peers;
          exp = [''configHash'' \<mapsto> baseline];
          act = [''configHash'' \<mapsto> d_ConfigHash d, ''images'' \<mapsto> Join '','' (d_Images d)]
      in if d_ConfigHash d = '''' then drift\<lparr>pr_Status := PolicyUnknown,
           pr_Message := ''Deployment configuration hash was not reported''\<rparr>
         else if length peers < 2 then drift\<lparr>pr_Status := PolicyUnknown,
           pr_Message := ''No peer deployment is available for drift comparison'',
           pr_Actual := [''configHash'' \<mapsto> d_ConfigHash d]\<rparr>
         else if d_ConfigHash d = baseline then drift\<lparr>pr_Status := PolicyPass,
           pr_Message := ''Deployment configuration matches its fleet peers'', pr_Expected := exp, pr_Actual := act\<rparr>
         else drift\<lparr>pr_Status := PolicyFail,
           pr_Message := ''Deployment configuration differs from its fleet peers'', pr_Expected := exp, pr_Actual := act\<rparr>)"

definition healthResult :: "time \<Rightarrow> Cluster \<Rightarrow> Deployment \<Rightarrow> PolicyResult" where
  "healthResult now cluster d =
     (let subject = workloadSubject cluster ''Deployment'' (d_Namespace d) (d_Name d);
          health = (newResultWithSubject (the (policyByID WorkloadHealthPolicyID)) subject (c_LastHeartbeat cluster) now)
            \<lparr>pr_Expected := [''updatedReplicas'' \<mapsto> Itoa (d_DesiredReplicas d),
                             ''availableReplicas'' \<mapsto> Itoa (d_DesiredReplicas d)],
             pr_Actual := [''desiredReplicas'' \<mapsto> Itoa (d_DesiredReplicas d),
                           ''updatedReplicas'' \<mapsto> Itoa (d_UpdatedReplicas d),
                           ''availableReplicas'' \<mapsto> Itoa (d_AvailableReplicas d)]\<rparr>
      in if d_DesiredReplicas d = d_UpdatedReplicas d \<and> d_DesiredReplicas d = d_AvailableReplicas d
         then health\<lparr>pr_Status := PolicyPass,
                pr_Message := ''All desired deployment replicas are updated and available''\<rparr>
         else health\<lparr>pr_Status := PolicyFail,
                pr_Message := ''Deployment replicas are not fully updated and available''\<rparr>)"

definition workloadResults ::
  "duration \<Rightarrow> time \<Rightarrow> (string \<Rightarrow> string list) \<Rightarrow> Cluster \<times> Deployment list \<Rightarrow> PolicyResult list" where
  "workloadResults staleAfter now hashes item =
     (case item of (cluster, deployments) \<Rightarrow>
        let drift = newResult (the (policyByID WorkloadDriftPolicyID)) cluster now;
            health = newResult (the (policyByID WorkloadHealthPolicyID)) cluster now
        in if isStale staleAfter cluster now then [setStale drift staleAfter, setStale health staleAfter]
           else if deployments = [] then
             [drift\<lparr>pr_Status := PolicyUnknown, pr_Message := ''No deployment configuration was reported''\<rparr>,
              health\<lparr>pr_Status := PolicyUnknown, pr_Message := ''No deployments were reported''\<rparr>]
           else concat (map (\<lambda>d. [driftResult now hashes cluster d, healthResult now cluster d]) deployments))"

definition evaluateWorkloads ::
  "('s, 'e) Engine \<Rightarrow> Cluster list \<Rightarrow> time \<Rightarrow> ('s, 'e, PolicyResult list) pm" where
  "evaluateWorkloads e clusters now =
     bindm (collectM clusters (\<lambda>cluster.
        if isStale (en_staleAfter e) cluster now then ret [(cluster, [])]
        else bindm (mapErr (PolicyErr (''list deployments for '' @ c_ID cluster))
                     (rd_ListDeployments (en_reader e) (c_ID cluster) ''''))
               (\<lambda>deployments. ret [(cluster, deployments)])))
     (\<lambda>all. let hashes = hashesOf (concat (map snd all))
            in ret (concat (map (workloadResults (en_staleAfter e) now hashes) all)))"

definition podResult :: "time \<Rightarrow> Cluster \<Rightarrow> Pod \<Rightarrow> PolicyResult" where
  "podResult now cluster pod =
     (let result = newResultWithSubject (the (policyByID PodSecurityPolicyID))
            (workloadSubject cluster ''Pod'' (p_Namespace pod) (p_Name pod)) (c_LastHeartbeat cluster) now
      in if \<not> p_SecurityContextKnown pod then result\<lparr>pr_Status := PolicyUnknown,
           pr_Message := ''Pod security context was not reported by the agent''\<rparr>
         else let violations = podSecurityViolations pod;
                  result = result\<lparr>pr_Expected := [''profile'' \<mapsto> ''restricted'']\<rparr>
              in if violations = [] then result\<lparr>pr_Status := PolicyPass,
                   pr_Message := ''Pod meets the built-in restricted security profile''\<rparr>
                 else result\<lparr>pr_Status := PolicyFail,
                   pr_Message := ''Pod violates the built-in restricted security profile'',
                   pr_Actual := [''violations'' \<mapsto> Join '','' violations]\<rparr>)"

definition namespaceSecurityResult :: "time \<Rightarrow> Cluster \<Rightarrow> Namespace \<Rightarrow> PolicyResult" where
  "namespaceSecurityResult now cluster namespace =
     (let subject = \<lparr>su_ClusterID = c_ID cluster, su_ClusterName = c_Name cluster,
            su_Namespace = ns_Name namespace, su_Kind = ''Namespace'', su_Name = ns_Name namespace\<rparr>;
          enforce = mapGet (ns_Labels namespace) ''pod-security.kubernetes.io/enforce'';
          result = (newResultWithSubject (the (policyByID NamespaceSecurityPolicyID)) subject (c_LastHeartbeat cluster) now)
            \<lparr>pr_Expected := [''pod-security.kubernetes.io/enforce'' \<mapsto> ''baseline|restricted''],
             pr_Actual := [''pod-security.kubernetes.io/enforce'' \<mapsto> enforce]\<rparr>
      in if enforce = ''baseline'' \<or> enforce = ''restricted''
         then result\<lparr>pr_Status := PolicyPass, pr_Message := ''Namespace enforces a supported Pod Security Standard''\<rparr>
         else result\<lparr>pr_Status := PolicyFail,
                pr_Message := ''Namespace does not enforce the baseline or restricted Pod Security Standard''\<rparr>)"

definition podResults :: "time \<Rightarrow> Cluster \<Rightarrow> Pod list \<Rightarrow> PolicyResult list" where
  "podResults now cluster pods =
     (let applicationPods = filter (\<lambda>p. \<not> isSystemNamespace (p_Namespace p)) pods
      in (if applicationPods = []
          then [(newResult (the (policyByID PodSecurityPolicyID)) cluster now)
            \<lparr>pr_Status := PolicyUnknown, pr_Message := ''No pod security evidence was reported''\<rparr>]
          else []) @ map (podResult now cluster) applicationPods)"

definition namespaceSecurityResults :: "time \<Rightarrow> Cluster \<Rightarrow> Namespace list \<Rightarrow> PolicyResult list" where
  "namespaceSecurityResults now cluster namespaces =
     (let applicationNamespaces = filter (\<lambda>n. \<not> isSystemNamespace (ns_Name n)) namespaces
      in (if applicationNamespaces = []
          then [(newResult (the (policyByID NamespaceSecurityPolicyID)) cluster now)
            \<lparr>pr_Status := PolicyUnknown,
             pr_Message := ''No application namespace label evidence was reported''\<rparr>]
          else []) @ map (namespaceSecurityResult now cluster) applicationNamespaces)"

definition evaluateSecurity ::
  "('s, 'e) Engine \<Rightarrow> Cluster list \<Rightarrow> time \<Rightarrow> ('s, 'e, PolicyResult list) pm" where
  "evaluateSecurity e clusters now =
     collectM clusters (\<lambda>cluster.
       if isStale (en_staleAfter e) cluster now
       then ret (map (\<lambda>policy. setStale (newResult policy cluster now) (en_staleAfter e))
                  [the (policyByID PodSecurityPolicyID), the (policyByID NamespaceSecurityPolicyID)])
       else bindm (mapErr (PolicyErr (''list pods for '' @ c_ID cluster))
                    (rd_ListPods (en_reader e) (c_ID cluster) '''')) (\<lambda>pods.
            bindm (mapErr (PolicyErr (''list namespace configs for '' @ c_ID cluster))
                    (rd_ListNamespaceConfigs (en_reader e) (c_ID cluster))) (\<lambda>namespaces.
            ret (podResults now cluster pods @ namespaceSecurityResults now cluster namespaces))))"

section \<open>Evaluation and summary\<close>

definition resultOrder :: "PolicyResult \<Rightarrow> string \<times> string \<times> string \<times> string \<times> string" where
  "resultOrder r = (pr_PolicyID r, su_ClusterName (pr_Subject r), su_Namespace (pr_Subject r),
     su_Kind (pr_Subject r), su_Name (pr_Subject r))"

definition EvaluatePolicies :: "('s, 'e) Engine \<Rightarrow> string \<Rightarrow> time \<Rightarrow> ('s, 'e, PolicyResult list) pm" where
  "EvaluatePolicies e tenantID now =
     bindm (mapErr (PolicyErr ''list tenant clusters'') (rd_ListClustersForTenant (en_reader e) tenantID)) (\<lambda>clusters.
     bindm (evaluateNamespaces e clusters now) (\<lambda>namespaceResults.
     bindm (evaluateWorkloads e clusters now) (\<lambda>workloadResults.
     bindm (evaluateSecurity e clusters now) (\<lambda>securityResults.
     ret (sort_key resultOrder
       (evaluateVersions (en_staleAfter e) clusters now @ evaluateLabels (en_staleAfter e) clusters now @
        namespaceResults @ workloadResults @ securityResults))))))"

text \<open>A Go map of counters: \<open>m[k]++\<close> creates a missing key.\<close>

definition countUp :: "(string \<Rightarrow> int option) \<Rightarrow> string \<Rightarrow> (string \<Rightarrow> int option)" where
  "countUp m k = m(k \<mapsto> (case m k of None \<Rightarrow> 1 | Some n \<Rightarrow> n + 1))"

definition Summarize :: "PolicyResult list \<Rightarrow> int \<Rightarrow> time \<Rightarrow> PolicySummary" where
  "Summarize results clusterCount evaluatedAt =
     \<lparr>ps_Total = int (length results),
      ps_ByStatus = foldl (\<lambda>m r. countUp m (pr_Status r))
        [PolicyPass \<mapsto> 0, PolicyFail \<mapsto> 0, PolicyUnknown \<mapsto> 0, PolicyStale \<mapsto> 0] results,
      ps_BySeverity = foldl (\<lambda>m r. countUp m (pr_Severity r))
        [SeverityLow \<mapsto> 0, SeverityMedium \<mapsto> 0, SeverityHigh \<mapsto> 0, SeverityCritical \<mapsto> 0] results,
      ps_ClusterCount = clusterCount, ps_EvaluatedAt = evaluatedAt\<rparr>"

end
