(* ===== verification/PolicyFacts.thy ===== *)
theory PolicyFacts
  imports Policy "HOL-Library.Multiset"
begin

text \<open>
  What the policy engine guarantees: the baseline chosen by \<open>mode\<close> depends only on the multiset of
  values; a result is stale exactly when its cluster is; every cluster of the tenant, and no other,
  is reported under every policy; the reader's state is left as it was.
\<close>

section \<open>The most common value\<close>

definition isMode :: "string list \<Rightarrow> string \<Rightarrow> bool" where
  "isMode vs m \<longleftrightarrow>
     (if filter (\<lambda>v. v \<noteq> '''') vs = [] then m = ''''
      else m \<noteq> '''' \<and> m \<in> set vs \<and>
        (\<forall>v \<in> set vs. v \<noteq> '''' \<longrightarrow>
           count_list vs v < count_list vs m \<or> (count_list vs v = count_list vs m \<and> m \<le> v)))"

definition modeInv :: "string list \<Rightarrow> string \<Rightarrow> nat \<Rightarrow> bool" where
  "modeInv ps best bestCount \<longleftrightarrow>
     (if ps = [] then best = '''' \<and> bestCount = 0
      else best \<in> set ps \<and> bestCount = count_list ps best \<and>
        (\<forall>v \<in> set ps. count_list ps v < bestCount \<or> (count_list ps v = bestCount \<and> best \<le> v)))"

lemma count_list_snoc: "count_list (xs @ [x]) y = count_list xs y + (if x = y then 1 else 0)"
  by (induction xs) auto

lemma modeInv_take:
  assumes "modeInv ps best n" and "count_list ps v + 1 > n \<or> (count_list ps v + 1 = n \<and> v < best)"
  shows "modeInv (ps @ [v]) v (count_list ps v + 1)"
proof -
  have "count_list (ps @ [v]) w < count_list ps v + 1 \<or> (count_list (ps @ [v]) w = count_list ps v + 1 \<and> v \<le> w)"
    if "w \<in> set ps" and "w \<noteq> v" for w
    using assms that by (fastforce simp: modeInv_def count_list_snoc split: if_splits)
  then show ?thesis by (auto simp: modeInv_def count_list_snoc)
qed

lemma modeInv_skip:
  assumes "modeInv ps best n" and "\<not> (count_list ps v + 1 > n \<or> (count_list ps v + 1 = n \<and> v < best))"
  shows "modeInv (ps @ [v]) best n"
proof (cases "ps = []")
  case True
  with assms show ?thesis by (simp add: modeInv_def)
next
  case False
  with assms have b: "best \<in> set ps" "n = count_list ps best" by (auto simp: modeInv_def)
  then have "v \<noteq> best" using assms(2) by auto
  with assms b False show ?thesis by (fastforce simp: modeInv_def count_list_snoc split: if_splits)
qed

lemma modeLoop_correct:
  "counts = count_list ps \<Longrightarrow> modeInv ps best n \<Longrightarrow>
     \<exists>m. modeInv (ps @ filter (\<lambda>v. v \<noteq> '''') vs) (modeLoop counts best n vs) m"
proof (induction vs arbitrary: counts ps best n)
  case Nil
  then show ?case by auto
next
  case (Cons v vs)
  have counts': "counts(v := counts v + 1) = count_list (ps @ [v])"
    using Cons.prems(1) by (auto simp: count_list_snoc)
  show ?case
  proof (cases "v = ''''")
    case True
    with Cons show ?thesis by simp
  next
    case v: False
    then have app: "(ps @ [v]) @ filter (\<lambda>v. v \<noteq> '''') vs = ps @ filter (\<lambda>v. v \<noteq> '''') (v # vs)" by simp
    show ?thesis
    proof (cases "count_list ps v + 1 > n \<or> (count_list ps v + 1 = n \<and> v < best)")
      case True
      then have "modeLoop counts best n (v # vs) =
          modeLoop (counts(v := counts v + 1)) v (count_list ps v + 1) vs"
        using v Cons.prems(1) by auto
      with Cons.IH [OF counts' modeInv_take [OF Cons.prems(2) True]] app show ?thesis by metis
    next
      case False
      then have "modeLoop counts best n (v # vs) = modeLoop (counts(v := counts v + 1)) best n vs"
        using v Cons.prems(1) by auto
      with Cons.IH [OF counts' modeInv_skip [OF Cons.prems(2) False]] app show ?thesis by metis
    qed
  qed
qed

lemma count_list_filter: "P v \<Longrightarrow> count_list (filter P vs) v = count_list vs v"
  by (induction vs) auto

lemma mode_isMode: "isMode vs (mode vs)"
proof -
  have "modeInv [] '''' 0" by (simp add: modeInv_def)
  moreover have "(\<lambda>_. 0) = count_list ([] :: string list)" by auto
  ultimately obtain m where "modeInv (filter (\<lambda>v. v \<noteq> '''') vs) (mode vs) m"
    using modeLoop_correct [of _ "[]"] unfolding mode_def by fastforce
  then show ?thesis by (auto simp: modeInv_def isMode_def count_list_filter split: if_splits)
qed

lemma isMode_mset:
  assumes "mset vs = mset ws" and "isMode vs m" and "isMode ws m'"
  shows "m = m'"
proof -
  have c: "count_list vs = count_list ws"
    using assms(1) by (intro ext) (metis count_mset)
  have s: "set vs = set ws" using assms(1) by (rule mset_eq_setD)
  then have f: "filter (\<lambda>v. v \<noteq> '''') vs = [] \<longleftrightarrow> filter (\<lambda>v. v \<noteq> '''') ws = []"
    by (simp add: filter_empty_conv)
  show ?thesis
  proof (cases "filter (\<lambda>v. v \<noteq> '''') vs = []")
    case True
    with assms f show ?thesis by (simp add: isMode_def)
  next
    case False
    with assms f s have "m \<in> set vs" "m \<noteq> ''''" "m' \<in> set vs" "m' \<noteq> ''''" by (simp_all add: isMode_def)
    with assms False f have
      "count_list vs m' < count_list vs m \<or> (count_list vs m' = count_list vs m \<and> m \<le> m')"
      "count_list ws m < count_list ws m' \<or> (count_list ws m = count_list ws m' \<and> m' \<le> m)"
      using s by (simp_all add: isMode_def)
    with c show ?thesis by auto
  qed
qed

section \<open>Results and their cluster\<close>

lemma policy_lookup [simp]:
  "po_ID (the (policyByID KubernetesVersionPolicyID)) = KubernetesVersionPolicyID"
  "po_ID (the (policyByID RequiredLabelsPolicyID)) = RequiredLabelsPolicyID"
  "po_ID (the (policyByID NamespaceDriftPolicyID)) = NamespaceDriftPolicyID"
  "po_ID (the (policyByID WorkloadDriftPolicyID)) = WorkloadDriftPolicyID"
  "po_ID (the (policyByID WorkloadHealthPolicyID)) = WorkloadHealthPolicyID"
  "po_ID (the (policyByID PodSecurityPolicyID)) = PodSecurityPolicyID"
  "po_ID (the (policyByID NamespaceSecurityPolicyID)) = NamespaceSecurityPolicyID"
  by (simp_all add: policyByID_def catalog_def policy_ids)

lemma catalog_ids: "map po_ID catalog =
    [KubernetesVersionPolicyID, RequiredLabelsPolicyID, NamespaceDriftPolicyID, WorkloadDriftPolicyID,
     WorkloadHealthPolicyID, PodSecurityPolicyID, NamespaceSecurityPolicyID]"
  by (simp add: catalog_def)

lemma catalog_distinct: "distinct (map po_ID catalog)"
  unfolding catalog_ids by (simp add: policy_ids)

text \<open>\<open>reports sa now cluster r\<close>: the result is about the cluster and stale exactly when the cluster is.\<close>

definition reports :: "duration \<Rightarrow> time \<Rightarrow> Cluster \<Rightarrow> PolicyResult \<Rightarrow> bool" where
  "reports staleAfter now cluster r \<longleftrightarrow>
     su_ClusterID (pr_Subject r) = c_ID cluster \<and> su_ClusterName (pr_Subject r) = c_Name cluster \<and>
     pr_ObservedAt r = c_LastHeartbeat cluster \<and> pr_EvaluatedAt r = now \<and>
     (if isStale staleAfter cluster now then pr_Status r = PolicyStale
      else pr_Status r \<in> {PolicyPass, PolicyFail, PolicyUnknown})"

lemmas result_defs = newResult_def newResultWithSubject_def setStale_def workloadSubject_def Let_def

lemma reports_versions: "list_all2 (reports sa now) clusters (evaluateVersions sa clusters now)"
  by (simp add: evaluateVersions_def reports_def result_defs list_all2_conv_all_nth)

lemma reports_labels: "list_all2 (reports sa now) clusters (evaluateLabels sa clusters now)"
  by (simp add: evaluateLabels_def reports_def result_defs list_all2_conv_all_nth)

lemma reports_namespace: "reports sa now c (namespaceResult sa now sets bs c)"
  by (simp add: namespaceResult_def reports_def result_defs)

lemma reports_drift: "\<not> isStale sa c now \<Longrightarrow> reports sa now c (driftResult now hashes c d)"
  by (simp add: driftResult_def reports_def result_defs)

lemma reports_health: "\<not> isStale sa c now \<Longrightarrow> reports sa now c (healthResult now c d)"
  by (simp add: healthResult_def reports_def result_defs)

lemma reports_workload: "r \<in> set (workloadResults sa now hashes (c, ds)) \<Longrightarrow> reports sa now c r"
proof (cases "isStale sa c now")
  case True
  then show "r \<in> set (workloadResults sa now hashes (c, ds)) \<Longrightarrow> ?thesis"
    by (auto simp: workloadResults_def reports_def result_defs)
next
  case False
  then show "r \<in> set (workloadResults sa now hashes (c, ds)) \<Longrightarrow> ?thesis"
    by (cases "ds = []") (auto simp: workloadResults_def reports_drift reports_health,
      auto simp: reports_def result_defs)
qed

lemma reports_pods:
  assumes "\<not> isStale sa c now" and "r \<in> set (podResults now c pods @ namespaceSecurityResults now c ns)"
  shows "reports sa now c r"
proof -
  have "reports sa now c (podResult now c p)" for p
    using assms(1) by (simp add: podResult_def reports_def result_defs)
  moreover have "reports sa now c (namespaceSecurityResult now c n)" for n
    using assms(1) by (simp add: namespaceSecurityResult_def reports_def result_defs)
  moreover have "reports sa now c ((newResult p c now)\<lparr>pr_Status := PolicyUnknown, pr_Message := msg\<rparr>)" for p msg
    using assms(1) by (simp add: reports_def result_defs)
  ultimately show ?thesis
    using assms(2) by (auto simp: podResults_def namespaceSecurityResults_def Let_def split: if_splits)
qed

lemma collectM_elem:
  "collectM xs f s = (Inr ys, s') \<Longrightarrow>
     (\<And>x t zs t'. x \<in> set xs \<Longrightarrow> f x t = (Inr zs, t') \<Longrightarrow> \<forall>z \<in> set zs. Q x z) \<Longrightarrow>
     y \<in> set ys \<Longrightarrow> \<exists>x \<in> set xs. Q x y"
proof (induction xs arbitrary: s ys)
  case (Cons x xs)
  then obtain zs t ws where "f x s = (Inr zs, t)" and "collectM xs f t = (Inr ws, s')" and "ys = zs @ ws"
    by (auto simp: bindm_ok)
  with Cons show ?case by (fastforce simp: ball_Un)
qed simp

lemma collectM_covers:
  "collectM xs f s = (Inr ys, s') \<Longrightarrow> x \<in> set xs \<Longrightarrow>
     \<exists>t zs t'. f x t = (Inr zs, t') \<and> set zs \<subseteq> set ys"
proof (induction xs arbitrary: s ys)
  case (Cons a xs)
  then obtain zs t ws where a: "f a s = (Inr zs, t)" "collectM xs f t = (Inr ws, s')" "ys = zs @ ws"
    by (auto simp: bindm_ok)
  show ?case
  proof (cases "x = a")
    case True
    with a show ?thesis by fastforce
  next
    case False
    with Cons.IH [OF a(2)] Cons.prems(2) a(3) show ?thesis by fastforce
  qed
qed simp

section \<open>Coverage\<close>

text \<open>\<open>answers pids c rs\<close>: each of the policies has a result about the cluster.\<close>

definition answers :: "string list \<Rightarrow> Cluster \<Rightarrow> PolicyResult list \<Rightarrow> bool" where
  "answers pids c rs \<longleftrightarrow>
     (\<forall>p \<in> set pids. \<exists>r \<in> set rs. pr_PolicyID r = p \<and> su_ClusterID (pr_Subject r) = c_ID c)"

lemma answers_mono: "answers pids c rs \<Longrightarrow> set rs \<subseteq> set rs' \<Longrightarrow> answers pids c rs'"
  unfolding answers_def by blast

lemma answers_map:
  assumes "map (\<lambda>r. (pr_PolicyID r, su_ClusterID (pr_Subject r))) rs = map (\<lambda>c. (p, c_ID c)) clusters"
    and "c \<in> set clusters"
  shows "answers [p] c rs"
proof -
  have "(p, c_ID c) \<in> set (map (\<lambda>c. (p, c_ID c)) clusters)" using assms(2) by auto
  then have "(p, c_ID c) \<in> set (map (\<lambda>r. (pr_PolicyID r, su_ClusterID (pr_Subject r))) rs)"
    unfolding assms(1) .
  then show ?thesis by (auto simp: answers_def)
qed

lemma answers_versions:
  "c \<in> set clusters \<Longrightarrow> answers [KubernetesVersionPolicyID] c (evaluateVersions sa clusters now)"
  by (rule answers_map) (simp_all add: evaluateVersions_def result_defs)

lemma answers_labels:
  "c \<in> set clusters \<Longrightarrow> answers [RequiredLabelsPolicyID] c (evaluateLabels sa clusters now)"
  by (rule answers_map) (simp_all add: evaluateLabels_def result_defs)

lemma answers_namespaces:
  "c \<in> set clusters \<Longrightarrow> answers [NamespaceDriftPolicyID] c (map (namespaceResult sa now sets bs) clusters)"
  by (rule answers_map) (simp_all add: namespaceResult_def result_defs)

lemma answers_workloads:
  "answers [WorkloadDriftPolicyID, WorkloadHealthPolicyID] c (workloadResults sa now hashes (c, ds))"
proof (cases ds)
  case Nil
  then show ?thesis by (simp add: answers_def workloadResults_def result_defs)
next
  case (Cons d ds')
  then have "driftResult now hashes c d \<in> set (workloadResults sa now hashes (c, ds))
      \<and> healthResult now c d \<in> set (workloadResults sa now hashes (c, ds)) \<or> isStale sa c now"
    by (simp add: workloadResults_def Let_def)
  moreover have "pr_PolicyID (driftResult now hashes c d) = WorkloadDriftPolicyID \<and>
      su_ClusterID (pr_Subject (driftResult now hashes c d)) = c_ID c"
    by (simp add: driftResult_def result_defs)
  moreover have "pr_PolicyID (healthResult now c d) = WorkloadHealthPolicyID \<and>
      su_ClusterID (pr_Subject (healthResult now c d)) = c_ID c"
    by (simp add: healthResult_def result_defs)
  moreover have ?thesis if "isStale sa c now"
    using that by (simp add: answers_def workloadResults_def result_defs)
  ultimately show ?thesis unfolding answers_def by auto
qed

lemma answers_pods: "answers [PodSecurityPolicyID] c (podResults now c pods)"
proof (cases "filter (\<lambda>p. \<not> isSystemNamespace (p_Namespace p)) pods")
  case Nil
  then show ?thesis by (simp add: answers_def podResults_def result_defs)
next
  case (Cons p ps)
  then have "podResult now c p \<in> set (podResults now c pods)" by (simp add: podResults_def)
  moreover have "pr_PolicyID (podResult now c p) = PodSecurityPolicyID \<and>
      su_ClusterID (pr_Subject (podResult now c p)) = c_ID c"
    by (simp add: podResult_def result_defs)
  ultimately show ?thesis unfolding answers_def by auto
qed

lemma answers_namespaceSecurity:
  "answers [NamespaceSecurityPolicyID] c (namespaceSecurityResults now c nss)"
proof (cases "filter (\<lambda>n. \<not> isSystemNamespace (ns_Name n)) nss")
  case Nil
  then show ?thesis by (simp add: answers_def namespaceSecurityResults_def result_defs)
next
  case (Cons n ns)
  then have "namespaceSecurityResult now c n \<in> set (namespaceSecurityResults now c nss)"
    by (simp add: namespaceSecurityResults_def)
  moreover have "pr_PolicyID (namespaceSecurityResult now c n) = NamespaceSecurityPolicyID \<and>
      su_ClusterID (pr_Subject (namespaceSecurityResult now c n)) = c_ID c"
    by (simp add: namespaceSecurityResult_def result_defs)
  ultimately show ?thesis unfolding answers_def by auto
qed

section \<open>The snapshot-reading policies\<close>

lemma evaluateNamespaces_ok:
  assumes "evaluateNamespaces e clusters now s = (Inr rs, s')"
  shows "\<exists>sets bs. rs = map (namespaceResult (en_staleAfter e) now sets bs) clusters"
  using assms by (auto simp: evaluateNamespaces_def bindm_ok Let_def)

lemma collectM_pairs:
  "collectM clusters f s = (Inr all, s') \<Longrightarrow>
     (\<And>c t zs t'. f c t = (Inr zs, t') \<Longrightarrow> \<exists>ds. zs = [(c, ds)]) \<Longrightarrow> map fst all = clusters"
proof (induction clusters arbitrary: s all)
  case (Cons c cs)
  then obtain zs t ws where f: "f c s = (Inr zs, t)" and r: "collectM cs f t = (Inr ws, s')" and a: "all = zs @ ws"
    by (auto simp: bindm_ok)
  moreover obtain ds where "zs = [(c, ds)]" using Cons.prems(2) [OF f] by blast
  moreover have "map fst ws = cs" using Cons.IH [OF r] Cons.prems(2) by blast
  ultimately show ?case by simp
qed simp

lemma evaluateWorkloads_ok:
  assumes "evaluateWorkloads e clusters now s = (Inr rs, s')"
  shows "\<exists>all. map fst all = clusters \<and>
    rs = concat (map (workloadResults (en_staleAfter e) now (hashesOf (concat (map snd all)))) all)"
proof -
  let ?f = "\<lambda>cluster. if isStale (en_staleAfter e) cluster now then ret [(cluster, [])]
        else bindm (mapErr (PolicyErr (''list deployments for '' @ c_ID cluster))
                     (rd_ListDeployments (en_reader e) (c_ID cluster) ''''))
               (\<lambda>deployments. ret [(cluster, deployments)])"
  from assms obtain all t where a: "collectM clusters ?f s = (Inr all, t)"
    and r: "rs = concat (map (workloadResults (en_staleAfter e) now (hashesOf (concat (map snd all)))) all)"
    by (auto simp: evaluateWorkloads_def bindm_ok Let_def)
  have "map fst all = clusters"
    using a by (rule collectM_pairs) (auto simp: bindm_ok split: if_splits)
  with r show ?thesis by blast
qed

lemma evaluateSecurity_elem:
  assumes "evaluateSecurity e clusters now s = (Inr rs, s')" and "r \<in> set rs"
  shows "\<exists>c \<in> set clusters. reports (en_staleAfter e) now c r"
  using assms(1) unfolding evaluateSecurity_def
proof (rule collectM_elem [OF _ _ assms(2)], goal_cases)
  case (1 c t zs t')
  show ?case
  proof (cases "isStale (en_staleAfter e) c now")
    case True
    with 1 show ?thesis by (auto simp: reports_def result_defs)
  next
    case False
    with 1 show ?thesis by (auto simp: bindm_ok dest: reports_pods)
  qed
qed

lemma evaluateSecurity_covers:
  assumes "evaluateSecurity e clusters now s = (Inr rs, s')" and "c \<in> set clusters"
  shows "answers [PodSecurityPolicyID, NamespaceSecurityPolicyID] c rs"
proof -
  from collectM_covers [OF assms(1) [unfolded evaluateSecurity_def] assms(2)]
  obtain t zs t' where z: "set zs \<subseteq> set rs"
    and f: "(if isStale (en_staleAfter e) c now
       then ret (map (\<lambda>policy. setStale (newResult policy c now) (en_staleAfter e))
                  [the (policyByID PodSecurityPolicyID), the (policyByID NamespaceSecurityPolicyID)])
       else bindm (mapErr (PolicyErr (''list pods for '' @ c_ID c))
                    (rd_ListPods (en_reader e) (c_ID c) '''')) (\<lambda>pods.
            bindm (mapErr (PolicyErr (''list namespace configs for '' @ c_ID c))
                    (rd_ListNamespaceConfigs (en_reader e) (c_ID c))) (\<lambda>namespaces.
            ret (podResults now c pods @ namespaceSecurityResults now c namespaces)))) t = (Inr zs, t')"
    by blast
  have "(\<exists>pods nss. zs = podResults now c pods @ namespaceSecurityResults now c nss) \<or>
      zs = map (\<lambda>policy. setStale (newResult policy c now) (en_staleAfter e))
        [the (policyByID PodSecurityPolicyID), the (policyByID NamespaceSecurityPolicyID)]"
    using f by (cases "isStale (en_staleAfter e) c now") (simp, auto simp: bindm_ok)
  moreover have "answers [PodSecurityPolicyID, NamespaceSecurityPolicyID] c (podResults now c pods @ namespaceSecurityResults now c nss)"
    for pods nss
    using answers_pods [of c now pods] answers_namespaceSecurity [of c now nss] by (auto simp: answers_def)
  ultimately have "answers [PodSecurityPolicyID, NamespaceSecurityPolicyID] c zs"
    by (auto simp: answers_def result_defs)
  with z show ?thesis by (rule answers_mono [rotated])
qed

lemma list_all2_elem: "list_all2 P xs ys \<Longrightarrow> y \<in> set ys \<Longrightarrow> \<exists>x \<in> set xs. P x y"
  by (auto simp: list_all2_conv_all_nth in_set_conv_nth) (metis nth_mem)

lemma EvaluatePolicies_ok:
  assumes "EvaluatePolicies e tenantID now s = (Inr rs, s')"
  shows "\<exists>clusters s1. rd_ListClustersForTenant (en_reader e) tenantID s = (Inr clusters, s1) \<and>
    (\<forall>r \<in> set rs. \<exists>c \<in> set clusters. reports (en_staleAfter e) now c r) \<and>
    (\<forall>c \<in> set clusters. answers (map po_ID catalog) c rs) \<and> sorted (map resultOrder rs)"
proof -
  let ?sa = "en_staleAfter e"
  from assms obtain clusters s1 s2 s3 n w x where c: "rd_ListClustersForTenant (en_reader e) tenantID s = (Inr clusters, s1)"
    and n: "evaluateNamespaces e clusters now s1 = (Inr n, s2)"
    and w: "evaluateWorkloads e clusters now s2 = (Inr w, s3)"
    and x: "evaluateSecurity e clusters now s3 = (Inr x, s')"
    and rs: "rs = sort_key resultOrder (evaluateVersions ?sa clusters now @ evaluateLabels ?sa clusters now @ n @ w @ x)"
    by (auto simp: EvaluatePolicies_def bindm_ok mapErr_ok)
  obtain sets bs where n': "n = map (namespaceResult ?sa now sets bs) clusters"
    using evaluateNamespaces_ok [OF n] by blast
  obtain all where all: "map fst all = clusters"
    and w': "w = concat (map (workloadResults ?sa now (hashesOf (concat (map snd all)))) all)"
    using evaluateWorkloads_ok [OF w] by blast
  have fst_in: "a \<in> set clusters \<longleftrightarrow> (\<exists>b. (a, b) \<in> set all)" for a
    using all by force
  have "\<exists>c \<in> set clusters. reports ?sa now c r" if "r \<in> set rs" for r
  proof -
    consider "r \<in> set (evaluateVersions ?sa clusters now)" | "r \<in> set (evaluateLabels ?sa clusters now)"
      | "r \<in> set n" | "r \<in> set w" | "r \<in> set x" using \<open>r \<in> set rs\<close> rs by auto
    then show ?thesis
    proof cases
      case 1 then show ?thesis by (rule list_all2_elem [OF reports_versions])
    next
      case 2 then show ?thesis by (rule list_all2_elem [OF reports_labels])
    next
      case 3
      with n' reports_namespace show ?thesis by fastforce
    next
      case 4
      with w' obtain p where "p \<in> set all" and "r \<in> set (workloadResults ?sa now (hashesOf (concat (map snd all))) p)"
        by auto
      then show ?thesis using reports_workload fst_in by (metis prod.collapse)
    next
      case 5
      with evaluateSecurity_elem [OF x] show ?thesis by blast
    qed
  qed
  moreover have "answers (map po_ID catalog) c rs" if c: "c \<in> set clusters" for c
  proof -
    obtain ds where "(c, ds) \<in> set all" using c fst_in by blast
    then have "set (workloadResults ?sa now (hashesOf (concat (map snd all))) (c, ds)) \<subseteq> set rs"
      unfolding rs w' by auto
    with answers_workloads have "answers [WorkloadDriftPolicyID, WorkloadHealthPolicyID] c rs"
      by (rule answers_mono)
    moreover have "answers [KubernetesVersionPolicyID] c rs"
      using answers_versions [OF c] by (rule answers_mono) (auto simp: rs)
    moreover have "answers [RequiredLabelsPolicyID] c rs"
      using answers_labels [OF c] by (rule answers_mono) (auto simp: rs)
    moreover have "answers [NamespaceDriftPolicyID] c rs"
      using answers_namespaces [OF c] by (rule answers_mono) (auto simp: rs n')
    moreover have "answers [PodSecurityPolicyID, NamespaceSecurityPolicyID] c rs"
      using evaluateSecurity_covers [OF x c] by (rule answers_mono) (auto simp: rs)
    ultimately show ?thesis unfolding catalog_ids by (auto simp: answers_def)
  qed
  moreover have "sorted (map resultOrder rs)" unfolding rs by (rule sorted_sort_key)
  ultimately show ?thesis using c by blast
qed

section \<open>The reader interface\<close>

text \<open>
  What the engine relies on: reads leave the observed state as it is, and the list of a tenant's
  clusters holds clusters of that tenant only.
\<close>

locale tenant_reader =
  fixes reader :: "('s, 'e) Reader"
    and inTenant :: "'s \<Rightarrow> string \<Rightarrow> Cluster \<Rightarrow> bool"
    and obs :: "'s \<Rightarrow> 't"
  assumes list_tenant:
      "rd_ListClustersForTenant reader ten s = (Inr cs, s') \<Longrightarrow> c \<in> set cs \<Longrightarrow> inTenant s ten c"
    and read_obs: "keeps (\<lambda>s. obs s = v) (rd_ListClustersForTenant reader ten)"
      "keeps (\<lambda>s. obs s = v) (rd_ListPods reader cid ns)"
      "keeps (\<lambda>s. obs s = v) (rd_ListDeployments reader cid ns)"
      "keeps (\<lambda>s. obs s = v) (rd_ListNamespaces reader cid)"
      "keeps (\<lambda>s. obs s = v) (rd_ListNamespaceConfigs reader cid)"
begin

lemma Evaluate_keeps: "keeps (\<lambda>s. obs s = v) (EvaluatePolicies (NewEngine reader sa) ten now)"
  unfolding EvaluatePolicies_def evaluateNamespaces_def evaluateWorkloads_def evaluateSecurity_def
    NewEngine_def Engine.simps Let_def by (intro valid_intro read_obs)

lemma Evaluate_read_only: "EvaluatePolicies (NewEngine reader sa) ten now s = (r, s') \<Longrightarrow> obs s' = obs s"
  using keepsD [OF Evaluate_keeps] by blast

lemma Evaluate_isolated:
  assumes "EvaluatePolicies (NewEngine reader sa) ten now s = (Inr rs, s')" and "r \<in> set rs"
  shows "\<exists>c. inTenant s ten c \<and> su_ClusterID (pr_Subject r) = c_ID c"
  using EvaluatePolicies_ok [OF assms(1)] assms(2) list_tenant
  by (fastforce simp: NewEngine_def reports_def)

end

text \<open>The store as a reader.\<close>

definition storeReader :: "(db, store_error) Reader" where
  "storeReader =
     \<lparr>rd_ListClustersForTenant = ListClustersForTenant, rd_ListPods = ListPods,
      rd_ListDeployments = ListDeployments, rd_ListNamespaces = ListNamespaces,
      rd_ListNamespaceConfigs = ListNamespaceConfigs\<rparr>"

definition clusterInTenant :: "db \<Rightarrow> string \<Rightarrow> Cluster \<Rightarrow> bool" where
  "clusterInTenant d ten c \<longleftrightarrow>
     list_ex (\<lambda>row. c_TenantID row = normalizeTenantID ten \<and> scanCluster row = c) (t_clusters (db_tables d))"

interpretation store_reader: tenant_reader storeReader clusterInTenant db_tables
proof unfold_locales
  fix ten s cs s' c
  assume "rd_ListClustersForTenant storeReader ten s = (Inr cs, s')" and "c \<in> set cs"
  then show "clusterInTenant s ten c"
    by (auto simp: storeReader_def ListClustersForTenant_def wrapErr_ok clusterInTenant_def
        list_ex_iff dest!: query_ok)
qed (unfold storeReader_def Reader.simps, (rule cluster_reads snapshot_reads)+)

section \<open>Counters\<close>

lemma countUp_fold:
  "foldl (\<lambda>m r. countUp m (f r)) m rs k =
     (if k \<in> dom m \<or> k \<in> set (map f rs)
      then Some ((case m k of None \<Rightarrow> 0 | Some n \<Rightarrow> n) + int (length (filter (\<lambda>r. f r = k) rs))) else None)"
  by (induction rs arbitrary: m) (auto simp: countUp_def dom_def split: option.splits)

end
