(* ===== verification/Hub.thy ===== *)
theory Hub
  imports StoreInvariant AlertManager PolicyFacts
begin

text \<open>
  What the handlers of \<open>internal/server\<close> share: the hub's state, the request and the response, the
  helpers that read credentials and the tenant, and the recorders of the timeline and the audit
  log. A handler is a state function whose early \<open>WriteError\<close> and return is the error case, so
  whatever it changed before stays changed. \<open>time.Now\<close>, \<open>uuid.NewString\<close> and \<open>crypto/rand\<close> are
  streams indexed by a counter in the state; SHA-256, bcrypt, \<open>%q\<close> quoting and RFC 3339
  formatting are fields of the server record.
\<close>

section \<open>State\<close>

record ClusterUpdate =
  cu_Type :: string
  cu_Cluster :: Cluster

record cachedCount =
  cc_value :: int
  cc_valid :: bool
  cc_expiresAt :: time

record SetCookie =
  ck_Name :: string
  ck_Value :: string
  ck_Path :: string
  ck_Expires :: "time option"
  ck_MaxAge :: int
  ck_HttpOnly :: bool
  ck_Secure :: bool
  ck_SameSiteStrict :: bool

record hub =
  h_db :: db
  h_broadcast :: "ClusterUpdate list"
  h_agents :: cachedCount
  h_deadLettered :: cachedCount
  h_header :: "(string \<times> string) list"
  h_cookies :: "SetCookie list"
  h_tick :: nat
  h_clock :: "nat \<Rightarrow> time"
  h_uuid :: "nat \<Rightarrow> string"
  h_ruleUUID :: "nat \<Rightarrow> AlertRule \<Rightarrow> string"
  h_rand :: "nat \<Rightarrow> string option"

record Server =
  srv_DemoMode :: bool
  srv_HeartbeatInterval :: duration
  srv_EventRetention :: duration
  srv_SessionDuration :: duration
  srv_SessionCookieSecure :: bool
  srv_RegistrationToken :: string
  srv_MetricsDisabled :: bool
  srv_alerts :: Manager
  srv_hash :: "string \<Rightarrow> string"
  srv_bcrypt :: "nat \<Rightarrow> string \<Rightarrow> string option"
  srv_bcryptMatches :: "string \<Rightarrow> string \<Rightarrow> bool"
  srv_quote :: "string \<Rightarrow> string"
  srv_formatTime :: "time \<Rightarrow> string"
  srv_parseTime :: "string \<Rightarrow> time option"

record Request =
  rq_Method :: string
  rq_Path :: string
  rq_PathValue :: "string \<Rightarrow> string"
  rq_Header :: "string \<Rightarrow> string list"
  rq_Query :: "string \<Rightarrow> string"
  rq_Cookie :: "string \<Rightarrow> string option"
  rq_RemoteAddr :: string
  rq_User :: "User option"

text \<open>Response bodies: the JSON documents by type.\<close>

record UserResponse =
  ur_ID :: string
  ur_Username :: string
  ur_Email :: string
  ur_Role :: Role
  ur_Disabled :: bool
  ur_CreatedAt :: time
  ur_UpdatedAt :: time

datatype body = NoBody | ErrorBody string | TokenBody string string | StatusBody string bool
  | ClusterBody Cluster | ClustersBody "Cluster list" | ClusterStatusBody Cluster "Node list"
  | PodsBody "Pod list" | ServicesBody "Service list" | DeploymentsBody "Deployment list"
  | NamespacesBody "string list" | EventsBody "Event list" | AlertsBody "Alert list" | AlertBody Alert
  | RulesBody "AlertRule list" | RuleBody AlertRule | PoliciesBody "Policy list"
  | PolicyResultsBody "PolicyResult list" PolicySummary | TimelineBody "OperationalEvent list" int
  | UserBody UserResponse | UsersBody "UserResponse list" | AuditBody "AuditEvent list" | RotatedBody string

record response =
  rs_Status :: int
  rs_Body :: body

type_synonym 'a handlerm = "(hub, response, 'a) sm"
type_synonym handler = "response handlerm"

section \<open>Primitives\<close>

definition onStore :: "'a storem \<Rightarrow> (hub, store_error, 'a) sm" where
  "onStore = within h_db (\<lambda>d h. h\<lparr>h_db := d\<rparr>)"

definition WriteError :: "int \<Rightarrow> string \<Rightarrow> 'a handlerm" where
  "WriteError status msg = throw \<lparr>rs_Status = status, rs_Body = ErrorBody msg\<rparr>"

definition WriteJSON :: "int \<Rightarrow> body \<Rightarrow> handler" where
  "WriteJSON status b = ret \<lparr>rs_Status = status, rs_Body = b\<rparr>"

definition addHeader :: "string \<Rightarrow> string \<Rightarrow> (hub, 'e, unit) sm" where
  "addHeader k v = modify (\<lambda>h. h\<lparr>h_header := h_header h @ [(k, v)]\<rparr>)"

definition timeNow :: "(hub, 'e, time) sm" where
  "timeNow = (\<lambda>h. (Inr (h_clock h (h_tick h)), h\<lparr>h_tick := h_tick h + 1\<rparr>))"

definition newUUID :: "(hub, 'e, string) sm" where
  "newUUID = (\<lambda>h. (Inr (h_uuid h (h_tick h)), h\<lparr>h_tick := h_tick h + 1\<rparr>))"

text \<open>32 random bytes in hexadecimal, or a failure of the entropy source.\<close>

definition randToken :: "(hub, 'e, string option) sm" where
  "randToken = (\<lambda>h. (Inr (h_rand h (h_tick h)), h\<lparr>h_tick := h_tick h + 1\<rparr>))"

definition HashPassword :: "Server \<Rightarrow> string \<Rightarrow> (hub, 'e, string option) sm" where
  "HashPassword srv password = (\<lambda>h. (Inr (srv_bcrypt srv (h_tick h) password), h\<lparr>h_tick := h_tick h + 1\<rparr>))"

definition HashToken :: "Server \<Rightarrow> string \<Rightarrow> string" where
  "HashToken srv raw = srv_hash srv raw"

definition VerifyPassword :: "Server \<Rightarrow> string \<Rightarrow> string \<Rightarrow> bool" where
  "VerifyPassword srv hash password = srv_bcryptMatches srv hash password"

definition HeaderGet :: "Request \<Rightarrow> string \<Rightarrow> string" where
  "HeaderGet r k = (case rq_Header r k of [] \<Rightarrow> '''' | v # _ \<Rightarrow> v)"

section \<open>Roles\<close>

definition rolePriority :: "Role \<Rightarrow> nat option" where
  "rolePriority = [RoleReadOnly \<mapsto> 0, RoleOperator \<mapsto> 1, RoleAdmin \<mapsto> 2]"

definition HasAtLeast :: "Role \<Rightarrow> Role \<Rightarrow> bool" where
  "HasAtLeast role minimum =
     (case rolePriority role of None \<Rightarrow> False
      | Some p \<Rightarrow> (case rolePriority minimum of None \<Rightarrow> False | Some q \<Rightarrow> q \<le> p))"

section \<open>Credentials and tenant of a request\<close>

definition bearerToken :: "string \<Rightarrow> string option" where
  "bearerToken authorization =
     (case CutC (CHR '' '') (TrimSpace authorization) of
        None \<Rightarrow> None
      | Some (scheme, token) \<Rightarrow>
          if \<not> EqualFold scheme ''Bearer'' \<or> TrimSpace token = '''' then None
          else Some (TrimSpace token))"

definition tenantHeader :: string where "tenantHeader = ''X-Kfleet-Tenant-ID''"

definition tenantFirst :: "char \<Rightarrow> bool" where
  "tenantFirst c \<longleftrightarrow> (CHR ''a'' \<le> c \<and> c \<le> CHR ''z'') \<or> (CHR ''0'' \<le> c \<and> c \<le> CHR ''9'')"

definition tenantRest :: "char \<Rightarrow> bool" where
  "tenantRest c \<longleftrightarrow> tenantFirst c \<or> c = CHR ''.'' \<or> c = CHR ''_'' \<or> c = CHR ''-''"

text \<open>The expression \<open>^[a-z0-9][a-z0-9._-]{0,62}$\<close>.\<close>

definition tenantIDPattern :: "string \<Rightarrow> bool" where
  "tenantIDPattern s =
     (case s of [] \<Rightarrow> False | c # cs \<Rightarrow> tenantFirst c \<and> list_all tenantRest cs \<and> length cs \<le> 62)"

definition tenantIDFromRequest :: "Request \<Rightarrow> string handlerm" where
  "tenantIDFromRequest r =
     bindm (addHeader ''Vary'' tenantHeader) (\<lambda>_.
     let vals = rq_Header r tenantHeader in
     if vals = [] \<or> TrimSpace (hd vals) = '''' then ret DefaultTenantID
     else if length vals \<noteq> 1 then WriteError 400 ''invalid tenant ID''
     else let tenantID = TrimSpace (hd vals) in
          if CHR '','' \<in> set tenantID \<or> \<not> tenantIDPattern tenantID then WriteError 400 ''invalid tenant ID''
          else ret tenantID)"

text \<open>\<open>net.SplitHostPort\<close>, host part; \<open>None\<close> is its error.\<close>

definition SplitHostPort :: "string \<Rightarrow> (string \<times> string) option" where
  "SplitHostPort hostport =
     (if CHR '':'' \<notin> set hostport then None
      else let i = length hostport - 1 - length (takeWhile (\<lambda>c. c \<noteq> CHR '':'') (rev hostport));
               port = drop (i + 1) hostport
           in if hd hostport = CHR ''[''
              then if CHR '']'' \<notin> set hostport then None
                   else let e = length (takeWhile (\<lambda>c. c \<noteq> CHR '']'') hostport)
                        in if e + 1 \<noteq> i then None
                           else if CHR ''['' \<in> set (drop 1 hostport) \<or> CHR '']'' \<in> set (drop (e + 1) hostport)
                           then None
                           else Some (take (e - 1) (drop 1 hostport), port)
              else let host = take i hostport
                   in if CHR '':'' \<in> set host \<or> CHR ''['' \<in> set hostport \<or> CHR '']'' \<in> set hostport then None
                      else Some (host, port))"

definition clientAddr :: "Request \<Rightarrow> string" where
  "clientAddr r = (case SplitHostPort (rq_RemoteAddr r) of None \<Rightarrow> rq_RemoteAddr r | Some (host, _) \<Rightarrow> host)"

definition mutationRequest :: "Request \<Rightarrow> bool" where
  "mutationRequest r = (rq_Method r \<notin> set [''GET'', ''HEAD'', ''OPTIONS''])"

section \<open>Broadcasts, alerts, timeline and audit log\<close>

definition broadcastQueueSize :: nat where "broadcastQueueSize = 64"

definition Broadcast :: "ClusterUpdate \<Rightarrow> (hub, 'e, unit) sm" where
  "Broadcast update = modify (\<lambda>h.
     if length (h_broadcast h) < broadcastQueueSize
     then h\<lparr>h_broadcast := h_broadcast h @ [update]\<rparr> else h)"

definition evaluateAlerts :: "Server \<Rightarrow> Cluster \<Rightarrow> (hub, 'e, unit) sm" where
  "evaluateAlerts srv cluster =
     bindm (gets h_ruleUUID) (\<lambda>ruleUUID. bindm (gets h_tick) (\<lambda>n. bindm timeNow (\<lambda>now.
     bindm (attempt (onStore (Evaluate (srv_alerts srv) now (ruleUUID n) cluster))) (\<lambda>_. ret ()))))"

definition recordEvent :: "OperationalEvent \<Rightarrow> (hub, 'e, unit) sm" where
  "recordEvent event = bindm (attempt (onStore (AppendEvent event))) (\<lambda>_. ret ())"

definition timelineEvent ::
  "Cluster \<Rightarrow> OperationalEventKind \<Rightarrow> string \<Rightarrow> labels \<Rightarrow> time \<Rightarrow> string \<Rightarrow> OperationalEvent" where
  "timelineEvent cluster kind message details occurredAt dedupe =
     \<lparr>oe_ID = 0, oe_TenantID = c_TenantID cluster, oe_ClusterID = c_ID cluster, oe_Kind = kind,
      oe_Message = message, oe_Details = details, oe_OccurredAt = occurredAt, oe_DedupeKey = dedupe\<rparr>"

definition UnixNano :: "time \<Rightarrow> int" where
  "UnixNano t = wrap64 (t - 62135596800 * Second)"

definition recordClusterRegistered :: "Server \<Rightarrow> Cluster \<Rightarrow> (hub, 'e, unit) sm" where
  "recordClusterRegistered srv cluster =
     recordEvent (timelineEvent cluster EventClusterRegistered
       (''cluster '' @ srv_quote srv (c_Name cluster) @ '' registered'') Map.empty (c_RegisteredAt cluster) ''registered'')"

definition recordAgentApproved :: "Server \<Rightarrow> Cluster \<Rightarrow> time \<Rightarrow> (hub, 'e, unit) sm" where
  "recordAgentApproved srv cluster occurredAt =
     recordEvent (timelineEvent cluster EventAgentApproved
       (''agent for cluster '' @ srv_quote srv (c_Name cluster) @ '' approved'') Map.empty occurredAt ''approved'')"

definition recordHeartbeatTransition ::
  "Server \<Rightarrow> Cluster \<Rightarrow> ClusterHealth \<Rightarrow> ClusterHealth \<Rightarrow> time \<Rightarrow> (hub, 'e, unit) sm" where
  "recordHeartbeatTransition srv cluster oldHealth newHealth occurredAt =
     (if oldHealth = newHealth then ret ()
      else let reconnect = (oldHealth = HealthUnreachable \<and> newHealth \<noteq> HealthUnreachable);
               kind = (if reconnect then EventAgentReconnected else EventHeartbeatStateChange);
               message = (if reconnect
                 then ''cluster '' @ srv_quote srv (c_Name cluster) @ '' reconnected (now '' @ newHealth @ '')''
                 else ''cluster '' @ srv_quote srv (c_Name cluster) @ '' health changed from '' @ oldHealth @ '' to '' @ newHealth)
           in recordEvent (timelineEvent cluster kind message
                [''from'' \<mapsto> oldHealth, ''to'' \<mapsto> newHealth] occurredAt
                (oldHealth @ ''->'' @ newHealth @ '':'' @ Itoa (UnixNano occurredAt))))"

definition recordAgentDisconnected :: "Server \<Rightarrow> Cluster \<Rightarrow> string \<Rightarrow> time \<Rightarrow> (hub, 'e, unit) sm" where
  "recordAgentDisconnected srv cluster reason occurredAt =
     (let details = (if IsZero (c_LastHeartbeat cluster) then [''reason'' \<mapsto> reason]
            else [''reason'' \<mapsto> reason, ''lastHeartbeat'' \<mapsto> srv_formatTime srv (c_LastHeartbeat cluster)]);
          message = (if reason = ''heartbeat_timeout''
            then ''agent for cluster '' @ srv_quote srv (c_Name cluster) @ '' became stale after missing heartbeats''
            else ''agent for cluster '' @ srv_quote srv (c_Name cluster) @ '' disconnected'')
      in recordEvent (timelineEvent cluster EventAgentDisconnected message details occurredAt
           (reason @ '':'' @ Itoa (UnixNano occurredAt))))"

definition recordVersionChanged ::
  "Server \<Rightarrow> Cluster \<Rightarrow> string \<Rightarrow> string \<Rightarrow> time \<Rightarrow> (hub, 'e, unit) sm" where
  "recordVersionChanged srv cluster oldVersion newVersion occurredAt =
     (if oldVersion = '''' \<or> newVersion = '''' \<or> oldVersion = newVersion then ret ()
      else recordEvent (timelineEvent cluster EventVersionChanged
             (''cluster '' @ srv_quote srv (c_Name cluster) @ '' version changed from '' @ oldVersion @ '' to '' @ newVersion)
             [''from'' \<mapsto> oldVersion, ''to'' \<mapsto> newVersion] occurredAt
             (oldVersion @ ''->'' @ newVersion @ '':'' @ Itoa (UnixNano occurredAt))))"

record auditActor =
  aa_UserID :: string
  aa_Username :: string
  aa_Role :: Role

definition auditActorFromUser :: "User \<Rightarrow> auditActor" where
  "auditActorFromUser user = \<lparr>aa_UserID = u_ID user, aa_Username = u_Username user, aa_Role = u_Role user\<rparr>"

definition recordAudit ::
  "Request \<Rightarrow> auditActor \<Rightarrow> string \<Rightarrow> string \<Rightarrow> string \<Rightarrow> AuditOutcome \<Rightarrow> string \<Rightarrow> (hub, 'e, unit) sm" where
  "recordAudit r actor action targetType targetID outcome details =
     bindm newUUID (\<lambda>eid. bindm timeNow (\<lambda>now.
     bindm (attempt (onStore (RecordAuditEvent
       \<lparr>au_ID = eid, au_OccurredAt = now, au_ActorUserID = aa_UserID actor,
        au_ActorUsername = aa_Username actor, au_ActorRole = aa_Role actor, au_Action = action,
        au_TargetType = targetType, au_TargetID = targetID, au_Outcome = outcome, au_Details = details,
        au_SourceIP = clientAddr r\<rparr>))) (\<lambda>_. ret ())))"

text \<open>\<open>authenticatedUser\<close>; handlers that ignore its flag see the zero user.\<close>

definition zeroUser :: User where
  "zeroUser = \<lparr>u_ID = '''', u_Username = '''', u_Email = '''', u_Role = '''', u_Disabled = False,
     u_CreatedAt = 0, u_UpdatedAt = 0, u_PasswordHash = ''''\<rparr>"

definition authenticatedUser :: "Request \<Rightarrow> User" where
  "authenticatedUser r = (case rq_User r of None \<Rightarrow> zeroUser | Some u \<Rightarrow> u)"

section \<open>Reasoning about handlers\<close>

abbreviation keepsH :: "(tables \<Rightarrow> bool) \<Rightarrow> (hub, 'e, 'a) sm \<Rightarrow> bool" where
  "keepsH I m \<equiv> keeps (\<lambda>h. I (db_tables (h_db h))) m"

lemma keepsH_onStore [valid_intro]: "keepsT I m \<Longrightarrow> keepsH I (onStore m)"
  unfolding onStore_def by (rule keeps_within) simp_all

lemma keepsH_primitives [valid_intro]:
  "keepsH I (WriteError n msg)" "keepsH I (WriteJSON n b)" "keepsH I (addHeader k v)"
  "keepsH I timeNow" "keepsH I newUUID" "keepsH I randToken" "keepsH I (HashPassword srv p)"
  "keepsH I (Broadcast u)"
  by (simp_all add: keeps_def WriteError_def WriteJSON_def addHeader_def timeNow_def newUUID_def
      randToken_def HashPassword_def Broadcast_def modify_def throw_def ret_def)

lemma keepsH_tenant [valid_intro]: "keepsH I (tenantIDFromRequest r)"
  unfolding tenantIDFromRequest_def by (intro valid_intro)

context recording_invariant begin

lemma evaluateAlerts_keep [valid_intro]: "keepsH I (evaluateAlerts srv cluster)"
  unfolding evaluateAlerts_def by (intro valid_intro)

lemma recordEvent_keep [valid_intro]: "keepsH I (recordEvent e)"
  unfolding recordEvent_def by (intro valid_intro)

lemma recorders_keep [valid_intro]:
  "keepsH I (recordClusterRegistered srv c)" "keepsH I (recordAgentApproved srv c t)"
  "keepsH I (recordHeartbeatTransition srv c a b t)" "keepsH I (recordAgentDisconnected srv c s t)"
  "keepsH I (recordVersionChanged srv c a b t)" "keepsH I (recordAudit r actor act tt ti oc dt)"
  unfolding recordClusterRegistered_def recordAgentApproved_def recordHeartbeatTransition_def
    recordAgentDisconnected_def recordVersionChanged_def recordAudit_def Let_def
  by (intro valid_intro)+

end

lemma HasAtLeast_iff: "HasAtLeast role m \<longleftrightarrow>
    (role = RoleAdmin \<and> ValidRole m) \<or> (role = RoleOperator \<and> m \<in> {RoleOperator, RoleReadOnly}) \<or>
    (role = RoleReadOnly \<and> m = RoleReadOnly)"
  by (auto simp: HasAtLeast_def rolePriority_def ValidRole_def)

lemma bearerToken_trimmed: "bearerToken a = Some t \<Longrightarrow> t \<noteq> '''' \<and> TrimSpace t = t"
  by (auto simp: bearerToken_def split: option.splits if_splits)

end
