(* ===== verification/ServerUsers.thy ===== *)
theory ServerUsers
  imports Hub
begin

text \<open>
  \<open>internal/server\<close>: sessions and accounts. The middleware \<open>requireAuth\<close> and \<open>requireRole\<close>
  (\<open>middleware_auth.go\<close>), login and logout (\<open>handlers_auth.go\<close>), user administration
  (\<open>handlers_users.go\<close>), the audit list, the rotation of the registration token and the bootstrap
  of the first administrator. A handler takes the decoded body, \<open>None\<close> for a body that does not
  decode.
\<close>

section \<open>Session cookies\<close>

definition sessionCookieName :: string where "sessionCookieName = ''kfleet_session''"
definition csrfHeaderName :: string where "csrfHeaderName = ''X-Kfleet-CSRF''"

definition setSessionCookie :: "Server \<Rightarrow> string \<Rightarrow> time \<Rightarrow> (hub, 'e, unit) sm" where
  "setSessionCookie srv rawToken expiresAt =
     bindm timeNow (\<lambda>now.
       let maxAge = go_div (time_Sub expiresAt now) Second;
           maxAge = (if maxAge < 1 then 1 else maxAge)
       in modify (\<lambda>h. h\<lparr>h_cookies := h_cookies h @
            [\<lparr>ck_Name = sessionCookieName, ck_Value = rawToken, ck_Path = ''/'', ck_Expires = Some expiresAt,
              ck_MaxAge = maxAge, ck_HttpOnly = True, ck_Secure = srv_SessionCookieSecure srv,
              ck_SameSiteStrict = True\<rparr>]\<rparr>))"

definition clearSessionCookie :: "Server \<Rightarrow> (hub, 'e, unit) sm" where
  "clearSessionCookie srv =
     modify (\<lambda>h. h\<lparr>h_cookies := h_cookies h @
       [\<lparr>ck_Name = sessionCookieName, ck_Value = '''', ck_Path = ''/'', ck_Expires = None, ck_MaxAge = -1,
         ck_HttpOnly = True, ck_Secure = srv_SessionCookieSecure srv, ck_SameSiteStrict = True\<rparr>]\<rparr>)"

section \<open>Middleware\<close>

definition demoUser :: User where
  "demoUser = zeroUser\<lparr>u_ID := ''demo-read-only'', u_Username := ''public-demo'',
     u_Email := ''public-demo@invalid'', u_Role := RoleReadOnly\<rparr>"

definition requireAuth :: "Server \<Rightarrow> (Request \<Rightarrow> handler) \<Rightarrow> Request \<Rightarrow> handler" where
  "requireAuth srv next r =
     (if srv_DemoMode srv \<and> \<not> mutationRequest r then next (r\<lparr>rq_User := Some demoUser\<rparr>)
      else case rq_Cookie r sessionCookieName of
        None \<Rightarrow> WriteError 401 ''authentication required''
      | Some token \<Rightarrow>
          if token = '''' then WriteError 401 ''authentication required''
          else bindm timeNow (\<lambda>now.
            bindm (attempt (onStore (GetSessionUser (HashToken srv token) now))) (\<lambda>res. case res of
              Inl _ \<Rightarrow> bindm (clearSessionCookie srv) (\<lambda>_. WriteError 401 ''session is invalid or has expired'')
            | Inr user \<Rightarrow>
                if u_Disabled user
                then bindm (clearSessionCookie srv) (\<lambda>_. WriteError 401 ''account is disabled'')
                else if mutationRequest r \<and> HeaderGet r csrfHeaderName \<noteq> ''1''
                then bindm (recordAudit r (auditActorFromUser user) ''authorization.csrf_denied'' ''http_route''
                       (rq_Method r @ '' '' @ rq_Path r) AuditFailure ''missing or invalid CSRF header'')
                       (\<lambda>_. WriteError 403 ''CSRF validation failed'')
                else next (r\<lparr>rq_User := Some user\<rparr>))))"

definition requireRole :: "Server \<Rightarrow> Role \<Rightarrow> (Request \<Rightarrow> handler) \<Rightarrow> Request \<Rightarrow> handler" where
  "requireRole srv minimum next =
     requireAuth srv (\<lambda>r. case rq_User r of
       None \<Rightarrow> WriteError 403 (''this action requires the '' @ minimum @ '' role'')
     | Some user \<Rightarrow>
         if \<not> HasAtLeast (u_Role user) minimum
         then bindm (recordAudit r (auditActorFromUser user) ''authorization.role_denied'' ''http_route''
                (rq_Method r @ '' '' @ rq_Path r) AuditFailure (''required_role='' @ minimum))
                (\<lambda>_. WriteError 403 (''this action requires the '' @ minimum @ '' role''))
         else next r)"

section \<open>Login\<close>

record LoginRequest =
  lr_Username :: string
  lr_Password :: string

definition toUserResponse :: "User \<Rightarrow> UserResponse" where
  "toUserResponse user = \<lparr>ur_ID = u_ID user, ur_Username = u_Username user, ur_Email = u_Email user,
     ur_Role = u_Role user, ur_Disabled = u_Disabled user, ur_CreatedAt = u_CreatedAt user,
     ur_UpdatedAt = u_UpdatedAt user\<rparr>"

definition sessionDuration :: "Server \<Rightarrow> duration" where
  "sessionDuration srv = (if srv_SessionDuration srv > 0 then srv_SessionDuration srv else 24 * Hour)"

definition handleLogin :: "Server \<Rightarrow> LoginRequest option \<Rightarrow> Request \<Rightarrow> handler" where
  "handleLogin srv req r =
     (case req of None \<Rightarrow> WriteError 400 ''invalid request body''
      | Some request \<Rightarrow>
        let username = TrimSpace (lr_Username request) in
        if username = '''' \<or> lr_Password request = '''' then WriteError 400 ''username and password are required''
        else bindm (attempt (onStore (GetUserByUsername username))) (\<lambda>res. case res of
          Inl _ \<Rightarrow> bindm (recordAudit r \<lparr>aa_UserID = '''', aa_Username = username, aa_Role = ''''\<rparr> ''login'' ''user''
                     username AuditFailure ''user not found'')
                     (\<lambda>_. WriteError 401 ''invalid username or password'')
        | Inr user \<Rightarrow>
            if u_Disabled user
            then bindm (recordAudit r (auditActorFromUser user) ''login'' ''user'' (u_ID user) AuditFailure ''account disabled'')
                   (\<lambda>_. WriteError 401 ''invalid username or password'')
            else if \<not> VerifyPassword srv (u_PasswordHash user) (lr_Password request)
            then bindm (recordAudit r (auditActorFromUser user) ''login'' ''user'' (u_ID user) AuditFailure ''incorrect password'')
                   (\<lambda>_. WriteError 401 ''invalid username or password'')
            else bindm randToken (\<lambda>raw. case raw of
              None \<Rightarrow> WriteError 500 ''failed to start session''
            | Some rawToken \<Rightarrow>
                bindm timeNow (\<lambda>now. let expiresAt = time_Add now (sessionDuration srv) in
                bindm timeNow (\<lambda>createdAt.
                bindm (attempt (onStore (CreateSession (HashToken srv rawToken) (u_ID user) expiresAt createdAt))) (\<lambda>res.
                  case res of
                    Inl _ \<Rightarrow> WriteError 500 ''failed to start session''
                  | Inr _ \<Rightarrow>
                      bindm (setSessionCookie srv rawToken expiresAt) (\<lambda>_.
                      bindm (recordAudit r (auditActorFromUser user) ''login'' ''user'' (u_ID user) AuditSuccess '''') (\<lambda>_.
                      WriteJSON 200 (UserBody (toUserResponse user))))))))))"

definition handleLogout :: "Server \<Rightarrow> Request \<Rightarrow> handler" where
  "handleLogout srv r =
     (let user = authenticatedUser r in
      bindm (case rq_Cookie r sessionCookieName of
               None \<Rightarrow> ret ()
             | Some token \<Rightarrow> if token = '''' then ret ()
                 else bindm (attempt (onStore (DeleteSession (HashToken srv token)))) (\<lambda>_. ret ())) (\<lambda>_.
      bindm (clearSessionCookie srv) (\<lambda>_.
      bindm (recordAudit r (auditActorFromUser user) ''logout'' ''user'' (u_ID user) AuditSuccess '''') (\<lambda>_.
      ret \<lparr>rs_Status = 204, rs_Body = NoBody\<rparr>))))"

definition handleMe :: "Request \<Rightarrow> handler" where
  "handleMe r = (case rq_User r of None \<Rightarrow> WriteError 401 ''authentication required''
     | Some user \<Rightarrow> WriteJSON 200 (UserBody (toUserResponse user)))"

section \<open>User administration\<close>

definition minBootstrapPasswordLength :: nat where "minBootstrapPasswordLength = 12"
definition maxPasswordLength :: nat where "maxPasswordLength = 72"

definition badPasswordLength :: "string \<Rightarrow> bool" where
  "badPasswordLength p \<longleftrightarrow> length p < minBootstrapPasswordLength \<or> length p > maxPasswordLength"

record CreateUserRequest =
  cu_Username :: string
  cu_Email :: string
  cu_Password :: string
  cu_Role :: Role

record UpdateUserRequest =
  uu_Role :: Role
  uu_Disabled :: bool

record UpdateUserPasswordRequest =
  up_CurrentPassword :: string
  up_NewPassword :: string

definition handleListUsers :: "Request \<Rightarrow> handler" where
  "handleListUsers r =
     bindm (attempt (onStore ListUsers)) (\<lambda>res. case res of
       Inl _ \<Rightarrow> WriteError 500 ''failed to list users''
     | Inr users \<Rightarrow> WriteJSON 200 (UsersBody (map toUserResponse users)))"

definition handleCreateUser :: "Server \<Rightarrow> CreateUserRequest option \<Rightarrow> Request \<Rightarrow> handler" where
  "handleCreateUser srv req r =
     (let actor = authenticatedUser r in
      case req of None \<Rightarrow> WriteError 400 ''invalid request body''
      | Some request \<Rightarrow>
        let username = TrimSpace (cu_Username request); email = TrimSpace (cu_Email request) in
        if username = '''' \<or> email = '''' \<or> cu_Password request = ''''
        then WriteError 400 ''username, email, and password are required''
        else if badPasswordLength (cu_Password request)
        then WriteError 400 ''password must be between 12 and 72 bytes''
        else if \<not> ValidRole (cu_Role request)
        then WriteError 400 ''role must be admin, operator, or read_only''
        else bindm (HashPassword srv (cu_Password request)) (\<lambda>hashed. case hashed of
          None \<Rightarrow> WriteError 500 ''failed to create user''
        | Some passwordHash \<Rightarrow>
            bindm timeNow (\<lambda>now. bindm newUUID (\<lambda>uid.
            let user = \<lparr>u_ID = uid, u_Username = username, u_Email = email, u_Role = cu_Role request,
                  u_Disabled = False, u_CreatedAt = now, u_UpdatedAt = now, u_PasswordHash = passwordHash\<rparr> in
            bindm (attempt (onStore (CreateUser user))) (\<lambda>res. case res of
              Inl e \<Rightarrow> if e = ErrConflict then WriteError 409 ''username or email is already in use''
                       else WriteError 500 ''failed to create user''
            | Inr _ \<Rightarrow>
                bindm (recordAudit r (auditActorFromUser actor) ''user.create'' ''user'' uid AuditSuccess
                  (''role='' @ u_Role user)) (\<lambda>_.
                WriteJSON 201 (UserBody (toUserResponse user))))))))"

definition handleUpdateUser :: "Server \<Rightarrow> UpdateUserRequest option \<Rightarrow> Request \<Rightarrow> handler" where
  "handleUpdateUser srv req r =
     (let actor = authenticatedUser r; targetID = rq_PathValue r ''id'' in
      case req of None \<Rightarrow> WriteError 400 ''invalid request body''
      | Some request \<Rightarrow>
        if \<not> ValidRole (uu_Role request) then WriteError 400 ''role must be admin, operator, or read_only''
        else bindm timeNow (\<lambda>now.
          bindm (attempt (onStore (UpdateUser targetID (uu_Role request) (uu_Disabled request) now))) (\<lambda>res. case res of
            Inl e \<Rightarrow> if e = ErrNotFound then WriteError 404 ''user not found''
                     else if e = ErrLastAdmin then WriteError 409 ''at least one enabled admin is required''
                     else WriteError 500 ''failed to update user''
          | Inr _ \<Rightarrow>
              bindm (attempt (onStore (GetUserByID targetID))) (\<lambda>res. case res of
                Inl _ \<Rightarrow> WriteError 500 ''failed to update user''
              | Inr updated \<Rightarrow>
                  bindm (recordAudit r (auditActorFromUser actor) ''user.update'' ''user'' targetID AuditSuccess
                    (''role='' @ uu_Role request)) (\<lambda>_.
                  WriteJSON 200 (UserBody (toUserResponse updated)))))))"

definition handleUpdateUserPassword :: "Server \<Rightarrow> UpdateUserPasswordRequest option \<Rightarrow> Request \<Rightarrow> handler" where
  "handleUpdateUserPassword srv req r =
     (let actor = authenticatedUser r; targetID = rq_PathValue r ''id'';
          selfChange = (targetID = u_ID actor);
          isAdmin = HasAtLeast (u_Role actor) RoleAdmin;
          audit = recordAudit r (auditActorFromUser actor) ''user.password_update'' ''user'' targetID in
      case req of None \<Rightarrow> WriteError 400 ''invalid request body''
      | Some request \<Rightarrow>
        if \<not> selfChange \<and> \<not> isAdmin
        then bindm (audit AuditFailure (''not permitted to change another user'' @ [CHR 0x27] @ ''s password''))
               (\<lambda>_. WriteError 403 ''you can only change your own password'')
        else if badPasswordLength (up_NewPassword request)
        then WriteError 400 ''password must be between 12 and 72 bytes''
        else if selfChange \<and> up_CurrentPassword request = '''' then WriteError 400 ''current password is required''
        else bindm (attempt (onStore (GetUserByID targetID))) (\<lambda>res. case res of
          Inl e \<Rightarrow> if e = ErrNotFound then WriteError 404 ''user not found''
                   else WriteError 500 ''failed to update password''
        | Inr target \<Rightarrow>
            if selfChange \<and> \<not> VerifyPassword srv (u_PasswordHash target) (up_CurrentPassword request)
            then bindm (audit AuditFailure ''incorrect current password'')
                   (\<lambda>_. WriteError 401 ''current password is incorrect'')
            else bindm (HashPassword srv (up_NewPassword request)) (\<lambda>hashed. case hashed of
              None \<Rightarrow> WriteError 500 ''failed to update password''
            | Some passwordHash \<Rightarrow>
                bindm timeNow (\<lambda>now.
                bindm (attempt (onStore (ResetUserPassword targetID passwordHash now))) (\<lambda>res. case res of
                  Inl e \<Rightarrow> if e = ErrNotFound then WriteError 404 ''user not found''
                           else WriteError 500 ''failed to update password''
                | Inr _ \<Rightarrow>
                    bindm (audit AuditSuccess (if selfChange then ''self'' else ''reset_by_admin'')) (\<lambda>_.
                    ret \<lparr>rs_Status = 204, rs_Body = NoBody\<rparr>))))))"

definition handleDeleteUser :: "Request \<Rightarrow> handler" where
  "handleDeleteUser r =
     (let actor = authenticatedUser r; targetID = rq_PathValue r ''id'' in
      if targetID = u_ID actor then WriteError 409 ''you cannot delete your own account''
      else bindm (attempt (onStore (DeleteUser targetID))) (\<lambda>res. case res of
        Inl e \<Rightarrow> if e = ErrNotFound then WriteError 404 ''user not found''
                 else if e = ErrLastAdmin then WriteError 409 ''at least one enabled admin is required''
                 else WriteError 500 ''failed to delete user''
      | Inr _ \<Rightarrow>
          bindm (recordAudit r (auditActorFromUser actor) ''user.delete'' ''user'' targetID AuditSuccess '''') (\<lambda>_.
          ret \<lparr>rs_Status = 204, rs_Body = NoBody\<rparr>)))"

section \<open>Audit list, registration token, bootstrap\<close>

definition defaultAuditEventLimit :: int where "defaultAuditEventLimit = 100"

definition handleListAuditEvents :: "Request \<Rightarrow> handler" where
  "handleListAuditEvents r =
     (let raw = rq_Query r ''limit'';
          limit = (if raw = '''' then Some defaultAuditEventLimit
                   else case ParseInt 64 raw of None \<Rightarrow> None
                        | Some parsed \<Rightarrow> if parsed \<le> 0 \<or> parsed > 1000 then None else Some parsed)
      in case limit of
           None \<Rightarrow> WriteError 400 ''limit must be a positive integer no greater than 1000''
         | Some limit \<Rightarrow>
             bindm (attempt (onStore (ListAuditEvents limit))) (\<lambda>res. case res of
               Inl _ \<Rightarrow> WriteError 500 ''failed to list audit events''
             | Inr events \<Rightarrow> WriteJSON 200 (AuditBody events)))"

definition settingRegistrationTokenHash :: string where
  "settingRegistrationTokenHash = ''registration_token_hash''"

definition handleRotateRegistrationToken :: "Server \<Rightarrow> Request \<Rightarrow> handler" where
  "handleRotateRegistrationToken srv r =
     (let actor = authenticatedUser r in
      bindm randToken (\<lambda>raw. case raw of
        None \<Rightarrow> WriteError 500 ''failed to rotate registration token''
      | Some rawToken \<Rightarrow>
          bindm (attempt (onStore (SetSetting settingRegistrationTokenHash (HashToken srv rawToken)))) (\<lambda>res. case res of
            Inl _ \<Rightarrow> WriteError 500 ''failed to rotate registration token''
          | Inr _ \<Rightarrow>
              bindm (recordAudit r (auditActorFromUser actor) ''config.registration_token_rotate''
                ''registration_token'' '''' AuditSuccess '''') (\<lambda>_.
              WriteJSON 200 (RotatedBody rawToken)))))"

text \<open>\<open>BootstrapAdmin\<close>: errors by message, wrapping the store's.\<close>

datatype boot_error = BootErr string | BootWrap string store_error

definition BootstrapAdmin :: "Server \<Rightarrow> string \<Rightarrow> string \<Rightarrow> string \<Rightarrow> (hub, boot_error, unit) sm" where
  "BootstrapAdmin srv cfgUsername cfgEmail password =
     bindm (mapErr (BootWrap ''list users'') (onStore ListUsers)) (\<lambda>users.
     if users \<noteq> [] then ret ()
     else let username = TrimSpace cfgUsername; email = TrimSpace cfgEmail in
       if username = '''' \<and> email = '''' \<and> password = '''' then ret ()
       else if username = '''' \<or> email = '''' \<or> password = ''''
       then throw (BootErr ''KFLEET_BOOTSTRAP_ADMIN_USERNAME, KFLEET_BOOTSTRAP_ADMIN_EMAIL, and KFLEET_BOOTSTRAP_ADMIN_PASSWORD must all be set together'')
       else if length password < minBootstrapPasswordLength
       then throw (BootErr ''KFLEET_BOOTSTRAP_ADMIN_PASSWORD must be at least 12 characters'')
       else if length password > maxPasswordLength
       then throw (BootErr ''KFLEET_BOOTSTRAP_ADMIN_PASSWORD must be no more than 72 bytes'')
       else bindm (HashPassword srv password) (\<lambda>hashed. case hashed of
         None \<Rightarrow> throw (BootErr ''hash bootstrap admin password'')
       | Some passwordHash \<Rightarrow>
           bindm timeNow (\<lambda>now. bindm newUUID (\<lambda>uid.
           bindm (mapErr (BootWrap ''create bootstrap admin'') (onStore (CreateUser
             \<lparr>u_ID = uid, u_Username = username, u_Email = email, u_Role = RoleAdmin, u_Disabled = False,
              u_CreatedAt = now, u_UpdatedAt = now, u_PasswordHash = passwordHash\<rparr>))) (\<lambda>_.
           bindm newUUID (\<lambda>aid.
           bindm (mapErr (BootWrap ''audit bootstrap admin creation'') (onStore (RecordAuditEvent
             \<lparr>au_ID = aid, au_OccurredAt = now, au_ActorUserID = '''', au_ActorUsername = ''system'', au_ActorRole = '''',
              au_Action = ''user.bootstrap'', au_TargetType = ''user'', au_TargetID = uid, au_Outcome = AuditSuccess,
              au_Details = ''role=admin'', au_SourceIP = ''''\<rparr>))) (\<lambda>_. ret ())))))))"

section \<open>Invariants of the store\<close>

lemma cookies_keep [valid_intro]: "keepsH I (setSessionCookie srv t e)" "keepsH I (clearSessionCookie srv)"
  unfolding setSessionCookie_def clearSessionCookie_def Let_def
  by (intro valid_intro keeps_modify; simp)+

text \<open>The wrappers only append to the audit log.\<close>

context fleet_invariant begin

lemma requireAuth_keeps:
  assumes "\<And>r. keepsH I (next r)"
  shows "keepsH I (requireAuth srv next r)"
  unfolding requireAuth_def by (intro valid_intro assms)

lemma requireRole_keeps:
  assumes "\<And>r. keepsH I (next r)"
  shows "keepsH I (requireRole srv m next r)"
  unfolding requireRole_def by (intro requireAuth_keeps valid_intro assms)

end

context store_invariant begin

lemma user_handlers_keep [valid_intro]:
  "keepsH I (handleLogin srv lreq r)" "keepsH I (handleLogout srv r)" "keepsH I (handleMe r)"
  "keepsH I (handleListUsers r)" "keepsH I (handleCreateUser srv creq r)"
  "keepsH I (handleUpdateUser srv ureq r)" "keepsH I (handleUpdateUserPassword srv preq r)"
  "keepsH I (handleDeleteUser r)" "keepsH I (handleListAuditEvents r)"
  "keepsH I (handleRotateRegistrationToken srv r)" "keepsH I (BootstrapAdmin srv un em pw)"
  unfolding handleLogin_def handleLogout_def handleMe_def handleListUsers_def handleCreateUser_def
    handleUpdateUser_def handleUpdateUserPassword_def handleDeleteUser_def handleListAuditEvents_def
    handleRotateRegistrationToken_def BootstrapAdmin_def Let_def
  by (intro valid_intro)+

end

end
