(* ===== verification/ServerAgents.thy ===== *)
theory ServerAgents
  imports ServerUsers
begin

text \<open>
  \<open>internal/server\<close>: the agent-facing handlers (\<open>handlers_agents.go\<close>: registration, approval,
  heartbeats, deregistration), cluster inventory and snapshot ingestion (\<open>handlers_clusters.go\<close>)
  and the staleness monitor of \<open>server.go\<close>. \<open>storeOr404\<close> is \<open>handleStoreError\<close> with its return.
\<close>

section \<open>Store errors as responses\<close>

definition handleStoreError :: "store_error \<Rightarrow> response" where
  "handleStoreError err =
     (if err = ErrNotFound then \<lparr>rs_Status = 404, rs_Body = ErrorBody ''cluster not found''\<rparr>
      else \<lparr>rs_Status = 500, rs_Body = ErrorBody ''internal server error''\<rparr>)"

definition handleHeartbeatStoreError :: "store_error \<Rightarrow> response" where
  "handleHeartbeatStoreError err =
     (if err = ErrNotFound then \<lparr>rs_Status = 401, rs_Body = ErrorBody ''invalid agent token''\<rparr>
      else \<lparr>rs_Status = 500, rs_Body = ErrorBody ''failed to update heartbeat''\<rparr>)"

definition serverError :: "string \<Rightarrow> 'e \<Rightarrow> response" where
  "serverError msg err = \<lparr>rs_Status = 500, rs_Body = ErrorBody msg\<rparr>"

definition storeOr404 :: "'a storem \<Rightarrow> 'a handlerm" where
  "storeOr404 m = mapErr handleStoreError (onStore m)"

section \<open>Agent credentials\<close>

definition findClusterByName :: "Request \<Rightarrow> string \<Rightarrow> (hub, store_error, Cluster) sm" where
  "findClusterByName r name =
     (let vals = rq_Header r tenantHeader;
          tenantID = (if length vals = 1 \<and> tenantIDPattern (TrimSpace (hd vals))
                      then TrimSpace (hd vals) else DefaultTenantID)
      in bindm (onStore (ListClustersForTenant tenantID)) (\<lambda>clusters.
           case find (\<lambda>c. c_Name c = name) clusters of None \<Rightarrow> throw ErrNotFound | Some c \<Rightarrow> ret c))"

definition clusterByIDOrName :: "Request \<Rightarrow> string \<Rightarrow> (hub, store_error, Cluster) sm" where
  "clusterByIDOrName r idOrName =
     bindm (attempt (onStore (GetCluster idOrName))) (\<lambda>res. case res of
       Inr cluster \<Rightarrow> ret cluster
     | Inl err \<Rightarrow> if err \<noteq> ErrNotFound then throw err else findClusterByName r idOrName)"

definition authenticateAgentPath :: "Server \<Rightarrow> Request \<Rightarrow> (Cluster \<times> bool) handlerm" where
  "authenticateAgentPath srv r =
     bindm (attempt (clusterByIDOrName r (rq_PathValue r ''id''))) (\<lambda>res. case res of
       Inl _ \<Rightarrow> WriteError 401 ''invalid agent token''
     | Inr cluster \<Rightarrow>
         (case bearerToken (HeaderGet r ''Authorization'') of
            None \<Rightarrow> WriteError 401 ''invalid agent token''
          | Some token \<Rightarrow>
              bindm (attempt (onStore (ValidateAgentToken (c_ID cluster) (HashToken srv token)))) (\<lambda>res. case res of
                Inl _ \<Rightarrow> WriteError 401 ''invalid agent token''
              | Inr approved \<Rightarrow> ret (cluster, approved))))"

definition handleAgentLiveness :: "Server \<Rightarrow> Request \<Rightarrow> handler" where
  "handleAgentLiveness srv r =
     bindm (authenticateAgentPath srv r) (\<lambda>(cluster, approved).
     bindm timeNow (\<lambda>now.
     bindm (mapErr handleHeartbeatStoreError (onStore (UpdateHealth (c_ID cluster) (c_Health cluster) now))) (\<lambda>_.
     WriteJSON 200 (StatusBody (c_ID cluster) approved))))"

definition handleAgentDeregister :: "Server \<Rightarrow> Request \<Rightarrow> handler" where
  "handleAgentDeregister srv r =
     bindm (authenticateAgentPath srv r) (\<lambda>(cluster, _).
     bindm timeNow (\<lambda>now.
     bindm (mapErr handleHeartbeatStoreError (onStore (UpdateHealth (c_ID cluster) HealthUnreachable now))) (\<lambda>_.
     let previousHealth = c_Health cluster;
         cluster = cluster\<lparr>c_Health := HealthUnreachable, c_LastHeartbeat := now\<rparr> in
     bindm (evaluateAlerts srv cluster) (\<lambda>_.
     bindm (Broadcast \<lparr>cu_Type = ''health_changed'', cu_Cluster = cluster\<rparr>) (\<lambda>_.
     bindm (if previousHealth \<noteq> HealthUnreachable
            then bindm (recordAgentDisconnected srv cluster ''deregistered'' now)
                   (\<lambda>_. recordHeartbeatTransition srv cluster previousHealth HealthUnreachable now)
            else ret ()) (\<lambda>_.
     ret \<lparr>rs_Status = 200, rs_Body = NoBody\<rparr>))))))"

section \<open>Registration\<close>

record RegisterClusterRequest =
  rc_Name :: string
  rc_ClusterName :: string
  rc_Labels :: labels
  rc_AgentVersion :: string
  rc_K8sVersion :: string
  rc_ExistingAgentToken :: string

datatype registrationAuth = registrationDisabled | registrationBadToken | registrationStoreError | registrationOK

definition checkRegistrationAuth :: "Server \<Rightarrow> string \<Rightarrow> (hub, 'e, registrationAuth) sm" where
  "checkRegistrationAuth srv authorization =
     bindm (attempt (onStore (GetSetting settingRegistrationTokenHash))) (\<lambda>res. case res of
       Inl _ \<Rightarrow> ret registrationStoreError
     | Inr (rotatedHash, ok) \<Rightarrow>
         if ok then
           (case bearerToken authorization of None \<Rightarrow> ret registrationBadToken
            | Some token \<Rightarrow> if HashToken srv token = rotatedHash then ret registrationOK else ret registrationBadToken)
         else if srv_RegistrationToken srv = '''' then ret registrationDisabled
         else (case bearerToken authorization of None \<Rightarrow> ret registrationBadToken
               | Some token \<Rightarrow>
                   if length token \<noteq> length (srv_RegistrationToken srv) then ret registrationBadToken
                   else if token \<noteq> srv_RegistrationToken srv then ret registrationBadToken
                   else ret registrationOK))"

definition RegistrationDisabled :: "Server \<Rightarrow> (hub, store_error, bool) sm" where
  "RegistrationDisabled srv =
     (if srv_RegistrationToken srv \<noteq> '''' then ret False
      else bindm (onStore (GetSetting settingRegistrationTokenHash)) (\<lambda>(_, ok). ret (\<not> ok)))"

definition validExistingAgentToken :: "Server \<Rightarrow> string \<Rightarrow> string \<Rightarrow> (hub, store_error, bool) sm" where
  "validExistingAgentToken srv clusterID existingToken =
     (let existingToken = TrimSpace existingToken in
      if existingToken = '''' then ret False
      else bindm (attempt (onStore (ValidateAgentToken clusterID (HashToken srv existingToken)))) (\<lambda>res. case res of
        Inr _ \<Rightarrow> ret True
      | Inl err \<Rightarrow> if err \<noteq> ErrNotFound then throw err else ret False))"

text \<open>The new cluster, or the existing one after the proof of its current token; with whether it is new.\<close>

definition registeredCluster ::
  "Server \<Rightarrow> RegisterClusterRequest \<Rightarrow> Request \<Rightarrow> string \<Rightarrow> string \<Rightarrow> (Cluster \<times> bool) handlerm" where
  "registeredCluster srv request r name tenantID =
     bindm (attempt (findClusterByName r name)) (\<lambda>res. case res of
       Inl err \<Rightarrow>
         if err = ErrNotFound
         then bindm newUUID (\<lambda>cid. bindm timeNow (\<lambda>now.
           let cluster = \<lparr>c_ID = cid, c_TenantID = tenantID, c_Name = name, c_Health = HealthUnknown,
                 c_Version = rc_K8sVersion request, c_AgentVersion = rc_AgentVersion request,
                 c_NodeCount = 0, c_PodCount = 0, c_RegisteredAt = now, c_LastHeartbeat = 0,
                 c_Labels = rc_Labels request\<rparr> in
           bindm (mapErr (serverError ''failed to register agent'') (onStore (CreateCluster cluster)))
             (\<lambda>_. ret (cluster, True))))
         else WriteError 500 ''failed to register agent''
     | Inr cluster \<Rightarrow>
         bindm (mapErr (serverError ''failed to register agent'')
           (validExistingAgentToken srv (c_ID cluster) (rc_ExistingAgentToken request))) (\<lambda>valid.
         if valid then ret (cluster, False)
         else WriteError 409 ''cluster already registered; provide the current agent token or remove the cluster first''))"

definition issueCredential :: "Server \<Rightarrow> Cluster \<Rightarrow> bool \<Rightarrow> handler" where
  "issueCredential srv cluster newlyRegistered =
     bindm randToken (\<lambda>raw. case raw of None \<Rightarrow> WriteError 500 ''failed to register agent''
     | Some rawToken \<Rightarrow>
       if rawToken = '''' then WriteError 500 ''failed to register agent''
       else let tokenHash = HashToken srv rawToken in
         bindm timeNow (\<lambda>now.
         bindm (mapErr (serverError ''failed to register agent'')
           (onStore (IssueAgentToken (c_ID cluster) tokenHash now))) (\<lambda>_.
         bindm (Broadcast \<lparr>cu_Type = ''registered'', cu_Cluster = cluster\<rparr>) (\<lambda>_.
         bindm (if newlyRegistered then recordClusterRegistered srv cluster else ret ()) (\<lambda>_.
         bindm (mapErr (serverError ''failed to register agent'')
           (onStore (ValidateAgentToken (c_ID cluster) tokenHash))) (\<lambda>approved.
         WriteJSON (if approved then 200 else 201) (TokenBody (c_ID cluster) rawToken)))))))"

definition handleAgentRegister :: "Server \<Rightarrow> RegisterClusterRequest option \<Rightarrow> Request \<Rightarrow> handler" where
  "handleAgentRegister srv req r =
     bindm (checkRegistrationAuth srv (HeaderGet r ''Authorization'')) (\<lambda>auth. case auth of
       registrationDisabled \<Rightarrow> WriteError 403 ''agent registration is disabled on this hub''
     | registrationBadToken \<Rightarrow> WriteError 401 ''invalid registration token''
     | registrationStoreError \<Rightarrow> WriteError 500 ''failed to register agent''
     | registrationOK \<Rightarrow>
       (case req of None \<Rightarrow> WriteError 400 ''invalid request body''
        | Some request \<Rightarrow>
          let name = (if TrimSpace (rc_Name request) = '''' then TrimSpace (rc_ClusterName request)
                      else TrimSpace (rc_Name request)) in
          if name = '''' then WriteError 400 ''cluster name is required''
          else bindm (tenantIDFromRequest r) (\<lambda>tenantID.
            bindm (registeredCluster srv request r name tenantID) (\<lambda>(cluster, newlyRegistered).
            issueCredential srv cluster newlyRegistered))))"

section \<open>Approval\<close>

definition agentNotFound :: "string \<Rightarrow> store_error \<Rightarrow> response" where
  "agentNotFound msg err =
     (if err = ErrNotFound then \<lparr>rs_Status = 404, rs_Body = ErrorBody ''agent not found''\<rparr>
      else \<lparr>rs_Status = 500, rs_Body = ErrorBody msg\<rparr>)"

definition handleAgentApprove :: "Server \<Rightarrow> Request \<Rightarrow> handler" where
  "handleAgentApprove srv r =
     (let actor = authenticatedUser r; clusterID = rq_PathValue r ''id'' in
      bindm (tenantIDFromRequest r) (\<lambda>tenantID.
      bindm (mapErr (agentNotFound ''failed to approve agent'') (onStore (GetClusterForTenant tenantID clusterID))) (\<lambda>_.
      bindm (mapErr (agentNotFound ''failed to approve agent'') (onStore (ApproveAgent clusterID))) (\<lambda>_.
      bindm (mapErr (serverError ''failed to approve agent'') (onStore (GetCluster clusterID))) (\<lambda>cluster.
      bindm timeNow (\<lambda>now.
      bindm (recordAgentApproved srv cluster now) (\<lambda>_.
      bindm (recordAudit r (auditActorFromUser actor) ''agent.approve'' ''cluster'' (c_ID cluster) AuditSuccess
        (''name='' @ c_Name cluster)) (\<lambda>_.
      WriteJSON 200 (ClusterBody cluster)))))))))"

definition handleListPendingAgents :: "Request \<Rightarrow> handler" where
  "handleListPendingAgents r =
     bindm (tenantIDFromRequest r) (\<lambda>tenantID.
     bindm (mapErr (serverError ''failed to list pending agents'') (onStore (ListPendingAgentsForTenant tenantID)))
       (\<lambda>clusters. WriteJSON 200 (ClustersBody clusters)))"

section \<open>Heartbeats\<close>

record HeartbeatRequest =
  hb_ClusterID :: string
  hb_NodeCount :: int
  hb_PodCount :: int
  hb_HealthyNodes :: int
  hb_Version :: string

text \<open>Validation of the presented token, shared by \<open>handleHeartbeat\<close> and \<open>handleClusterSnapshot\<close>.\<close>

definition requireApprovedAgent :: "Server \<Rightarrow> Request \<Rightarrow> string \<Rightarrow> unit handlerm" where
  "requireApprovedAgent srv r clusterID =
     (case bearerToken (HeaderGet r ''Authorization'') of
        None \<Rightarrow> WriteError 401 ''invalid agent token''
      | Some token \<Rightarrow>
          bindm (attempt (onStore (ValidateAgentToken clusterID (HashToken srv token)))) (\<lambda>res. case res of
            Inl _ \<Rightarrow> WriteError 401 ''invalid agent token''
          | Inr approved \<Rightarrow> if \<not> approved then WriteError 403 ''agent is pending approval'' else ret ()))"

definition handleHeartbeat :: "Server \<Rightarrow> HeartbeatRequest option \<Rightarrow> Request \<Rightarrow> handler" where
  "handleHeartbeat srv req r =
     (case req of None \<Rightarrow> WriteError 400 ''invalid request body''
      | Some request \<Rightarrow>
        let clusterID = TrimSpace (hb_ClusterID request) in
        if clusterID = '''' then WriteError 400 ''clusterId is required''
        else bindm (requireApprovedAgent srv r clusterID) (\<lambda>_.
          bindm (mapErr handleHeartbeatStoreError (onStore (GetCluster clusterID))) (\<lambda>previous.
          let health = (if 0 < hb_NodeCount request \<and> hb_HealthyNodes request = hb_NodeCount request
                        then HealthHealthy else HealthDegraded) in
          bindm timeNow (\<lambda>now.
          bindm (mapErr handleHeartbeatStoreError
            (onStore (UpdateSnapshot clusterID (hb_NodeCount request) (hb_PodCount request) (hb_Version request)))) (\<lambda>_.
          bindm (mapErr handleHeartbeatStoreError (onStore (UpdateHealth clusterID health now))) (\<lambda>_.
          bindm (mapErr handleHeartbeatStoreError (onStore (GetCluster clusterID))) (\<lambda>cluster.
          bindm (evaluateAlerts srv cluster) (\<lambda>_.
          bindm (Broadcast \<lparr>cu_Type = ''health_changed'', cu_Cluster = cluster\<rparr>) (\<lambda>_.
          bindm (Broadcast \<lparr>cu_Type = ''snapshot'', cu_Cluster = cluster\<rparr>) (\<lambda>_.
          bindm (recordHeartbeatTransition srv cluster (c_Health previous) (c_Health cluster) now) (\<lambda>_.
          bindm (recordVersionChanged srv cluster (c_Version previous) (c_Version cluster) now) (\<lambda>_.
          WriteJSON 200 (ClusterBody cluster)))))))))))))"

section \<open>Cluster inventory\<close>

definition handleListClusters :: "Request \<Rightarrow> handler" where
  "handleListClusters r =
     bindm (tenantIDFromRequest r) (\<lambda>tenantID.
     bindm (mapErr (serverError ''failed to list clusters'') (onStore (ListClustersForTenant tenantID)))
       (\<lambda>clusters. WriteJSON 200 (ClustersBody clusters)))"

definition resourceCluster :: "Request \<Rightarrow> Cluster handlerm" where
  "resourceCluster r =
     bindm (tenantIDFromRequest r) (\<lambda>tenantID. storeOr404 (GetClusterForTenant tenantID (rq_PathValue r ''id'')))"

definition handleGetCluster :: "Request \<Rightarrow> handler" where
  "handleGetCluster r =
     bindm (tenantIDFromRequest r) (\<lambda>tenantID.
     bindm (storeOr404 (GetClusterForTenant tenantID (rq_PathValue r ''id''))) (\<lambda>cluster.
     WriteJSON 200 (ClusterBody cluster)))"

definition handleRegisterCluster :: "Server \<Rightarrow> RegisterClusterRequest option \<Rightarrow> Request \<Rightarrow> handler" where
  "handleRegisterCluster srv req r =
     (let actor = authenticatedUser r in
      case req of None \<Rightarrow> WriteError 400 ''invalid request body''
      | Some request \<Rightarrow>
        let name = TrimSpace (rc_Name request) in
        if name = '''' then WriteError 400 ''cluster name is required''
        else bindm (tenantIDFromRequest r) (\<lambda>tenantID.
          bindm newUUID (\<lambda>cid. bindm timeNow (\<lambda>registeredAt.
          let cluster = \<lparr>c_ID = cid, c_TenantID = tenantID, c_Name = name, c_Health = HealthUnknown,
                c_Version = '''', c_AgentVersion = '''', c_NodeCount = 0, c_PodCount = 0,
                c_RegisteredAt = registeredAt, c_LastHeartbeat = 0, c_Labels = rc_Labels request\<rparr> in
          bindm (mapErr (serverError ''failed to register cluster'') (onStore (CreateCluster cluster))) (\<lambda>_.
          bindm randToken (\<lambda>raw. case raw of None \<Rightarrow> WriteError 500 ''failed to register cluster''
          | Some rawToken \<Rightarrow>
            if rawToken = '''' then WriteError 500 ''failed to register cluster''
            else bindm timeNow (\<lambda>now.
              bindm (mapErr (serverError ''failed to register cluster'')
                (onStore (IssueAgentToken cid (HashToken srv rawToken) now))) (\<lambda>_.
              bindm (mapErr (serverError ''failed to register cluster'') (onStore (ApproveAgent cid))) (\<lambda>_.
              bindm (Broadcast \<lparr>cu_Type = ''registered'', cu_Cluster = cluster\<rparr>) (\<lambda>_.
              bindm (recordClusterRegistered srv cluster) (\<lambda>_.
              bindm (recordAudit r (auditActorFromUser actor) ''cluster.register'' ''cluster'' cid AuditSuccess
                (''name='' @ name)) (\<lambda>_.
              WriteJSON 201 (TokenBody cid rawToken)))))))))))))"

definition handleDeleteCluster :: "Request \<Rightarrow> handler" where
  "handleDeleteCluster r =
     (let actor = authenticatedUser r in
      bindm (tenantIDFromRequest r) (\<lambda>tenantID.
      bindm (storeOr404 (GetClusterForTenant tenantID (rq_PathValue r ''id''))) (\<lambda>cluster.
      bindm (storeOr404 (DeleteCluster (c_ID cluster))) (\<lambda>_.
      bindm (Broadcast \<lparr>cu_Type = ''deleted'', cu_Cluster = cluster\<rparr>) (\<lambda>_.
      bindm (recordAudit r (auditActorFromUser actor) ''cluster.delete'' ''cluster'' (c_ID cluster) AuditSuccess
        (''name='' @ c_Name cluster)) (\<lambda>_.
      ret \<lparr>rs_Status = 204, rs_Body = NoBody\<rparr>))))))"

definition handleClusterStatus :: "Request \<Rightarrow> handler" where
  "handleClusterStatus r =
     bindm (tenantIDFromRequest r) (\<lambda>tenantID.
     bindm (storeOr404 (GetClusterForTenant tenantID (rq_PathValue r ''id''))) (\<lambda>cluster.
     bindm (storeOr404 (ListNodes (c_ID cluster))) (\<lambda>nodes.
     WriteJSON 200 (ClusterStatusBody cluster nodes))))"

definition queryNamespace :: "Request \<Rightarrow> string" where
  "queryNamespace r = TrimSpace (rq_Query r ''namespace'')"

definition handleClusterPods :: "Request \<Rightarrow> handler" where
  "handleClusterPods r =
     bindm (resourceCluster r) (\<lambda>cluster.
     bindm (storeOr404 (ListPods (c_ID cluster) (queryNamespace r))) (\<lambda>pods. WriteJSON 200 (PodsBody pods)))"

definition handleClusterServices :: "Request \<Rightarrow> handler" where
  "handleClusterServices r =
     bindm (resourceCluster r) (\<lambda>cluster.
     bindm (storeOr404 (ListServices (c_ID cluster) (queryNamespace r))) (\<lambda>svcs. WriteJSON 200 (ServicesBody svcs)))"

definition handleClusterDeployments :: "Request \<Rightarrow> handler" where
  "handleClusterDeployments r =
     bindm (resourceCluster r) (\<lambda>cluster.
     bindm (storeOr404 (ListDeployments (c_ID cluster) (queryNamespace r))) (\<lambda>ds. WriteJSON 200 (DeploymentsBody ds)))"

definition handleClusterNamespaces :: "Request \<Rightarrow> handler" where
  "handleClusterNamespaces r =
     bindm (resourceCluster r) (\<lambda>cluster.
     bindm (storeOr404 (ListNamespaces (c_ID cluster))) (\<lambda>ns. WriteJSON 200 (NamespacesBody ns)))"

definition handleClusterEvents :: "Request \<Rightarrow> handler" where
  "handleClusterEvents r =
     bindm (resourceCluster r) (\<lambda>cluster.
     bindm (storeOr404 (ListEvents (c_ID cluster) (queryNamespace r))) (\<lambda>evs. WriteJSON 200 (EventsBody evs)))"

section \<open>Snapshots\<close>

record SnapshotNode =
  xn_Name :: string
  xn_Status :: string
  xn_K8sVersion :: string
  xn_Roles :: "string list"
  xn_CPUCapacity :: string
  xn_MemoryCapacity :: string

record SnapshotPod =
  xp_Namespace :: string
  xp_Name :: string
  xp_Phase :: string
  xp_Restarts :: int
  xp_Node :: string
  xp_Ready :: bool
  xp_StartTime :: time
  xp_SecurityContextKnown :: bool
  xp_Privileged :: bool
  xp_RunAsNonRoot :: bool
  xp_ReadOnlyRootFilesystem :: bool
  xp_AllowsPrivilegeEscalation :: bool
  xp_CapabilitiesDroppedAll :: bool
  xp_HostNetwork :: bool
  xp_HostPID :: bool
  xp_HostIPC :: bool

record SnapshotService =
  xs_Namespace :: string
  xs_Name :: string
  xs_Type :: string
  xs_ClusterIP :: string
  xs_ExternalIPs :: "string list"
  xs_Ports :: "string list"
  xs_Age :: string

record SnapshotDeployment =
  xd_Namespace :: string
  xd_Name :: string
  xd_DesiredReplicas :: int
  xd_ReadyReplicas :: int
  xd_AvailableReplicas :: int
  xd_UpdatedReplicas :: int
  xd_Age :: string
  xd_ConfigHash :: string
  xd_Images :: "string list"

record SnapshotEvent =
  xe_Namespace :: string
  xe_Name :: string
  xe_Type :: string
  xe_Reason :: string
  xe_Message :: string
  xe_InvolvedObject :: string
  xe_Count :: int
  xe_LastTimestamp :: time

text \<open>\<open>SnapshotNamespace\<close> has the shape of \<open>Namespace\<close>.\<close>

record ClusterSnapshotRequest =
  sq_Nodes :: "SnapshotNode list"
  sq_Pods :: "SnapshotPod list"
  sq_Services :: "SnapshotService list"
  sq_Deployments :: "SnapshotDeployment list"
  sq_Namespaces :: "Namespace list"
  sq_Events :: "SnapshotEvent list"
  sq_NodeCount :: int
  sq_PodCount :: int
  sq_K8sVersion :: string
  sq_CollectedAt :: time
  sq_AgentVersion :: string

definition parseServicePort :: "string \<Rightarrow> ServicePort" where
  "parseServicePort v =
     (let (portAndProtocol, protocol) =
            (case CutC (CHR ''/'') v of None \<Rightarrow> (v, '''') | Some (before, after) \<Rightarrow> (before, after));
          (name, portValue) =
            (case CutC (CHR '':'') portAndProtocol of None \<Rightarrow> ('''', portAndProtocol) | Some (before, after) \<Rightarrow> (before, after));
          port = (case ParseInt 32 portValue of None \<Rightarrow> 0 | Some p \<Rightarrow> p)
      in \<lparr>sp_Name = name, sp_Port = port, sp_TargetPort = port, sp_Protocol = protocol\<rparr>)"

definition normalizeSnapshot :: "string \<Rightarrow> ClusterSnapshotRequest \<Rightarrow> ClusterSnapshot" where
  "normalizeSnapshot clusterID request =
     \<lparr>sn_Nodes = map (\<lambda>n. \<lparr>n_Name = xn_Name n, n_Status = xn_Status n, n_Roles = xn_Roles n,
         n_Version = xn_K8sVersion n, n_CPUCapacity = xn_CPUCapacity n, n_MemoryCapacity = xn_MemoryCapacity n,
         n_Ready = EqualFold (xn_Status n) ''Ready''\<rparr>) (sq_Nodes request),
      sn_Pods = map (\<lambda>p. \<lparr>p_Name = xp_Name p, p_Namespace = xp_Namespace p, p_Phase = xp_Phase p,
         p_NodeName = xp_Node p, p_RestartCount = xp_Restarts p, p_Ready = xp_Ready p, p_StartTime = xp_StartTime p,
         p_SecurityContextKnown = xp_SecurityContextKnown p, p_Privileged = xp_Privileged p,
         p_RunAsNonRoot = xp_RunAsNonRoot p, p_ReadOnlyRootFilesystem = xp_ReadOnlyRootFilesystem p,
         p_AllowsPrivilegeEscalation = xp_AllowsPrivilegeEscalation p,
         p_CapabilitiesDroppedAll = xp_CapabilitiesDroppedAll p, p_HostNetwork = xp_HostNetwork p,
         p_HostPID = xp_HostPID p, p_HostIPC = xp_HostIPC p\<rparr>) (sq_Pods request),
      sn_Services = map (\<lambda>s. \<lparr>sv_Name = xs_Name s, sv_Namespace = xs_Namespace s, sv_Type = xs_Type s,
         sv_ClusterIP = xs_ClusterIP s, sv_ExternalIPs = xs_ExternalIPs s,
         sv_Ports = map parseServicePort (xs_Ports s), sv_Age = xs_Age s\<rparr>) (sq_Services request),
      sn_Deployments = map (\<lambda>d. \<lparr>d_Name = xd_Name d, d_Namespace = xd_Namespace d,
         d_ReadyReplicas = xd_ReadyReplicas d, d_DesiredReplicas = xd_DesiredReplicas d,
         d_UpdatedReplicas = xd_UpdatedReplicas d, d_AvailableReplicas = xd_AvailableReplicas d,
         d_Age = xd_Age d, d_ConfigHash = xd_ConfigHash d, d_Images = xd_Images d\<rparr>) (sq_Deployments request),
      sn_Namespaces = map (\<lambda>n. \<lparr>ns_Name = ns_Name n, ns_Labels = ns_Labels n\<rparr>) (sq_Namespaces request),
      sn_Events = map (\<lambda>e. \<lparr>ev_ClusterID = clusterID, ev_Namespace = xe_Namespace e, ev_Reason = xe_Reason e,
         ev_Message = xe_Message e, ev_Type = xe_Type e, ev_Count = xe_Count e,
         ev_LastTimestamp = xe_LastTimestamp e\<rparr>) (sq_Events request)\<rparr>"

definition snapshotHealth :: "Node list \<Rightarrow> ClusterHealth" where
  "snapshotHealth nodes =
     (if nodes = [] then HealthDegraded
      else if list_ex (\<lambda>n. \<not> n_Ready n) nodes then HealthDegraded else HealthHealthy)"

text \<open>
  What the decoder finds: an error, or a request and what follows it (\<open>None\<close> is the end of the
  body, \<open>Some (Inr ())\<close> another value).
\<close>

datatype decode_error = TooLarge | Malformed

type_synonym snapshot_body = "decode_error + (ClusterSnapshotRequest \<times> (decode_error + unit) option)"

definition writeSnapshotDecodeError :: "decode_error \<Rightarrow> 'a handlerm" where
  "writeSnapshotDecodeError err =
     (case err of TooLarge \<Rightarrow> WriteError 413 ''request body too large''
      | Malformed \<Rightarrow> WriteError 400 ''invalid request body'')"

definition handleClusterSnapshot :: "Server \<Rightarrow> snapshot_body \<Rightarrow> Request \<Rightarrow> handler" where
  "handleClusterSnapshot srv req r =
     bindm (mapErr handleStoreError (clusterByIDOrName r (rq_PathValue r ''id''))) (\<lambda>cluster.
     bindm (requireApprovedAgent srv r (c_ID cluster)) (\<lambda>_.
     case req of
       Inl err \<Rightarrow> writeSnapshotDecodeError err
     | Inr (request, trailing) \<Rightarrow>
        (case trailing of
           Some (Inr _) \<Rightarrow> WriteError 400 ''invalid request body''
         | Some (Inl err) \<Rightarrow> writeSnapshotDecodeError err
         | None \<Rightarrow>
            let snapshot = normalizeSnapshot (c_ID cluster) request; health = snapshotHealth (sn_Nodes snapshot) in
            bindm timeNow (\<lambda>now.
            bindm (storeOr404 (ReplaceSnapshot (c_ID cluster) snapshot (sq_K8sVersion request)
              (sq_AgentVersion request) health now)) (\<lambda>_.
            bindm (storeOr404 (GetCluster (c_ID cluster))) (\<lambda>updated.
            bindm (if c_Health cluster \<noteq> c_Health updated
                   then Broadcast \<lparr>cu_Type = ''health_changed'', cu_Cluster = updated\<rparr> else ret ()) (\<lambda>_.
            bindm (evaluateAlerts srv updated) (\<lambda>_.
            bindm (Broadcast \<lparr>cu_Type = ''snapshot'', cu_Cluster = updated\<rparr>) (\<lambda>_.
            bindm (recordHeartbeatTransition srv updated (c_Health cluster) (c_Health updated) now) (\<lambda>_.
            bindm (recordVersionChanged srv updated (c_Version cluster) (c_Version updated) now) (\<lambda>_.
            WriteJSON 200 (ClusterBody updated))))))))))))"

section \<open>Staleness and retention\<close>

definition heartbeatInterval :: "Server \<Rightarrow> duration" where
  "heartbeatInterval srv = (if srv_HeartbeatInterval srv > 0 then srv_HeartbeatInterval srv else 30 * Second)"

definition isStaleCluster :: "Server \<Rightarrow> time \<Rightarrow> Cluster \<Rightarrow> bool" where
  "isStaleCluster srv now cluster \<longleftrightarrow>
     \<not> (IsZero (c_LastHeartbeat cluster) \<or>
        \<not> time_Before (c_LastHeartbeat cluster) (time_Add now (-3 * heartbeatInterval srv)) \<or>
        c_Health cluster = HealthUnreachable)"

definition markStaleCluster :: "Server \<Rightarrow> time \<Rightarrow> Cluster \<Rightarrow> (hub, 'e, unit) sm" where
  "markStaleCluster srv now cluster =
     (if \<not> isStaleCluster srv now cluster then ret ()
      else let oldHealth = c_Health cluster in
        bindm (attempt (onStore (UpdateHealth (c_ID cluster) HealthUnreachable (c_LastHeartbeat cluster)))) (\<lambda>res.
        case res of Inl _ \<Rightarrow> ret ()
        | Inr _ \<Rightarrow>
            let cluster = cluster\<lparr>c_Health := HealthUnreachable\<rparr> in
            bindm (evaluateAlerts srv cluster) (\<lambda>_.
            bindm (Broadcast \<lparr>cu_Type = ''health_changed'', cu_Cluster = cluster\<rparr>) (\<lambda>_.
            bindm (recordAgentDisconnected srv cluster ''heartbeat_timeout'' now) (\<lambda>_.
            recordHeartbeatTransition srv cluster oldHealth HealthUnreachable now)))))"

definition markStaleClusters :: "Server \<Rightarrow> time \<Rightarrow> (hub, 'e, unit) sm" where
  "markStaleClusters srv now =
     bindm (attempt (onStore ListClusters)) (\<lambda>res. case res of
       Inl _ \<Rightarrow> ret ()
     | Inr clusters \<Rightarrow> forEach clusters (markStaleCluster srv now))"

definition eventRetention :: "Server \<Rightarrow> duration" where
  "eventRetention srv = (if srv_EventRetention srv > 0 then srv_EventRetention srv else 90 * 24 * Hour)"

definition pruneExpiredEvents :: "Server \<Rightarrow> time \<Rightarrow> (hub, 'e, unit) sm" where
  "pruneExpiredEvents srv now =
     bindm (attempt (onStore (PruneEventsBefore (time_Add now (- eventRetention srv))))) (\<lambda>_. ret ())"

definition pruneExpiredSessions :: "time \<Rightarrow> (hub, 'e, unit) sm" where
  "pruneExpiredSessions now = bindm (attempt (onStore (DeleteExpiredSessions now))) (\<lambda>_. ret ())"

section \<open>Invariants of the store\<close>

lemma storeOr404_keeps [valid_intro]: "keepsT I m \<Longrightarrow> keepsH I (storeOr404 m)"
  unfolding storeOr404_def by (intro valid_intro)

lemma lookups_keep [valid_intro]:
  "keepsH I (findClusterByName r name)" "keepsH I (clusterByIDOrName r name)"
  "keepsH I (authenticateAgentPath srv r)" "keepsH I (checkRegistrationAuth srv a)"
  "keepsH I (RegistrationDisabled srv)" "keepsH I (validExistingAgentToken srv cid tok)"
  "keepsH I (requireApprovedAgent srv r cid)" "keepsH I (resourceCluster r)"
  "keepsH I (writeSnapshotDecodeError err)"
proof -
  show f: "keepsH I (findClusterByName r name)" for r name
    unfolding findClusterByName_def Let_def by (intro valid_intro)
  show c: "keepsH I (clusterByIDOrName r name)" for r name
    unfolding clusterByIDOrName_def by (intro valid_intro f)
  show "keepsH I (authenticateAgentPath srv r)"
    unfolding authenticateAgentPath_def by (intro valid_intro c)
  show "keepsH I (checkRegistrationAuth srv a)" "keepsH I (RegistrationDisabled srv)"
    "keepsH I (validExistingAgentToken srv cid tok)" "keepsH I (requireApprovedAgent srv r cid)"
    "keepsH I (resourceCluster r)"
    unfolding checkRegistrationAuth_def RegistrationDisabled_def validExistingAgentToken_def
      requireApprovedAgent_def resourceCluster_def Let_def by (intro valid_intro)+
  show "keepsH I (writeSnapshotDecodeError err)"
    by (cases err) (simp_all add: writeSnapshotDecodeError_def keepsH_primitives)
qed

lemma keeps_case_registrationAuth [valid_intro]:
  "keeps I m1 \<Longrightarrow> keeps I m2 \<Longrightarrow> keeps I m3 \<Longrightarrow> keeps I m4 \<Longrightarrow>
     keeps I (case a of registrationDisabled \<Rightarrow> m1 | registrationBadToken \<Rightarrow> m2
       | registrationStoreError \<Rightarrow> m3 | registrationOK \<Rightarrow> m4)"
  by (cases a) simp_all

context fleet_invariant begin

lemma registeredCluster_keep [valid_intro]: "keepsH I (registeredCluster srv req r n t)"
  unfolding registeredCluster_def Let_def by (intro valid_intro)

lemma issueCredential_keep [valid_intro]: "keepsH I (issueCredential srv cluster newlyRegistered)"
  unfolding issueCredential_def Let_def by (intro valid_intro)

lemma handleAgentRegister_keep [valid_intro]: "keepsH I (handleAgentRegister srv req r)"
  unfolding handleAgentRegister_def Let_def by (intro valid_intro)

lemma agent_handlers_keep [valid_intro]:
  "keepsH I (handleAgentLiveness srv r)" "keepsH I (handleAgentDeregister srv r)"
  "keepsH I (handleAgentApprove srv r)" "keepsH I (handleListPendingAgents r)"
  "keepsH I (handleHeartbeat srv hreq r)"
  unfolding handleAgentLiveness_def handleAgentDeregister_def handleAgentApprove_def
    handleListPendingAgents_def handleHeartbeat_def Let_def
  by (intro valid_intro)+

lemma cluster_handlers_keep [valid_intro]:
  "keepsH I (handleListClusters r)" "keepsH I (handleGetCluster r)"
  "keepsH I (handleRegisterCluster srv req r)" "keepsH I (handleDeleteCluster r)"
  "keepsH I (handleClusterStatus r)" "keepsH I (handleClusterPods r)"
  "keepsH I (handleClusterServices r)" "keepsH I (handleClusterDeployments r)"
  "keepsH I (handleClusterNamespaces r)" "keepsH I (handleClusterEvents r)"
  "keepsH I (handleClusterSnapshot srv sreq r)"
  unfolding handleListClusters_def handleGetCluster_def handleRegisterCluster_def handleDeleteCluster_def
    handleClusterStatus_def handleClusterPods_def handleClusterServices_def handleClusterDeployments_def
    handleClusterNamespaces_def handleClusterEvents_def handleClusterSnapshot_def Let_def
  by (intro valid_intro)+

lemma monitors_keep [valid_intro]:
  "keepsH I (markStaleClusters srv now)" "keepsH I (pruneExpiredEvents srv now)"
  unfolding markStaleClusters_def markStaleCluster_def pruneExpiredEvents_def Let_def
  by (intro valid_intro)+

end

context store_invariant begin

lemma pruneExpiredSessions_keep [valid_intro]: "keepsH I (pruneExpiredSessions now)"
  unfolding pruneExpiredSessions_def by (intro valid_intro)

end

end
