(* ===== verification/ServerApi.thy ===== *)
theory ServerApi
  imports ServerAgents
begin

text \<open>
  \<open>internal/server\<close>: the policy, alert and timeline endpoints (\<open>handlers_policies.go\<close>,
  \<open>handlers_alerts.go\<close>, \<open>handlers_events.go\<close>), the metrics cache and rendering (\<open>metrics.go\<close>) and
  the outer middleware of \<open>server.go\<close> (request ids, demo mode).
\<close>

section \<open>Policies\<close>

definition validPolicyStatus :: "string \<Rightarrow> bool" where
  "validPolicyStatus v = (v \<in> set [PolicyPass, PolicyFail, PolicyUnknown, PolicyStale])"

definition validPolicySeverity :: "string \<Rightarrow> bool" where
  "validPolicySeverity v = (v \<in> set [SeverityLow, SeverityMedium, SeverityHigh, SeverityCritical])"

definition validPolicyScope :: "string \<Rightarrow> bool" where
  "validPolicyScope v = (v \<in> set [ScopeFleet, ScopeCluster, ScopeNamespace, ScopeWorkload])"

definition filterPolicyResults :: "Request \<Rightarrow> PolicyResult list \<Rightarrow> PolicyResult list handlerm" where
  "filterPolicyResults r results =
     (let status = TrimSpace (rq_Query r ''status''); severity = TrimSpace (rq_Query r ''severity'');
          scope = TrimSpace (rq_Query r ''scope''); policyID = TrimSpace (rq_Query r ''policyId'');
          clusterID = TrimSpace (rq_Query r ''clusterId'') in
      if status \<noteq> '''' \<and> \<not> validPolicyStatus status then WriteError 400 ''invalid policy status''
      else if severity \<noteq> '''' \<and> \<not> validPolicySeverity severity then WriteError 400 ''invalid policy severity''
      else if scope \<noteq> '''' \<and> \<not> validPolicyScope scope then WriteError 400 ''invalid policy scope''
      else ret (filter (\<lambda>res.
        (status = '''' \<or> pr_Status res = status) \<and> (severity = '''' \<or> pr_Severity res = severity) \<and>
        (scope = '''' \<or> pr_Scope res = scope) \<and> (policyID = '''' \<or> pr_PolicyID res = policyID) \<and>
        (clusterID = '''' \<or> su_ClusterID (pr_Subject res) = clusterID)) results))"

definition writePolicyResults :: "PolicyResult list \<Rightarrow> handler" where
  "writePolicyResults results =
     (let clusters = remdups (filter (\<lambda>c. c \<noteq> '''') (map (\<lambda>res. su_ClusterID (pr_Subject res)) results)) in
      bindm timeNow (\<lambda>clock.
        let now = (if results \<noteq> [] then pr_EvaluatedAt (hd results) else clock)
        in WriteJSON 200 (PolicyResultsBody results (Summarize results (int (length clusters)) now))))"

definition serverPolicies :: "Server \<Rightarrow> (db, store_error) Engine" where
  "serverPolicies srv = NewEngine storeReader (wrap64 (3 * heartbeatInterval srv))"

text \<open>The engine reads through the store; its error is answered with 500.\<close>

definition evaluatePoliciesFor :: "Server \<Rightarrow> string \<Rightarrow> PolicyResult list handlerm" where
  "evaluatePoliciesFor srv tenantID =
     bindm timeNow (\<lambda>now.
     mapErr (serverError ''failed to evaluate policies'')
       (within h_db (\<lambda>d h. h\<lparr>h_db := d\<rparr>) (EvaluatePolicies (serverPolicies srv) tenantID now)))"

definition handleListPolicies :: "Request \<Rightarrow> handler" where
  "handleListPolicies r = bindm (tenantIDFromRequest r) (\<lambda>_. WriteJSON 200 (PoliciesBody Catalog))"

definition handlePolicyResults :: "Server \<Rightarrow> Request \<Rightarrow> handler" where
  "handlePolicyResults srv r =
     bindm (tenantIDFromRequest r) (\<lambda>tenantID.
     bindm (evaluatePoliciesFor srv tenantID) (\<lambda>results.
     bindm (filterPolicyResults r results) (\<lambda>results. writePolicyResults results)))"

definition policyClusterError :: "store_error \<Rightarrow> response" where
  "policyClusterError err =
     (if err = ErrNotFound then \<lparr>rs_Status = 404, rs_Body = ErrorBody ''cluster not found''\<rparr>
      else \<lparr>rs_Status = 500, rs_Body = ErrorBody ''failed to evaluate policies''\<rparr>)"

definition handleClusterPolicyResults :: "Server \<Rightarrow> Request \<Rightarrow> handler" where
  "handleClusterPolicyResults srv r =
     bindm (tenantIDFromRequest r) (\<lambda>tenantID.
     bindm (mapErr policyClusterError (onStore (GetClusterForTenant tenantID (rq_PathValue r ''id'')))) (\<lambda>cluster.
     bindm (evaluatePoliciesFor srv tenantID) (\<lambda>results.
     bindm (filterPolicyResults r (filter (\<lambda>res. su_ClusterID (pr_Subject res) = c_ID cluster) results)) (\<lambda>filtered.
     writePolicyResults filtered))))"

section \<open>Alerts\<close>

definition validAlertStatus :: "AlertStatus \<Rightarrow> bool" where
  "validAlertStatus status \<longleftrightarrow>
     status = AlertStatusFiring \<or> status = AlertStatusAcknowledged \<or> status = AlertStatusResolved"

definition limitParam :: "string \<Rightarrow> int \<Rightarrow> int \<Rightarrow> int option" where
  "limitParam raw fallback maximum =
     (if raw = '''' then Some fallback
      else case ParseInt 64 raw of None \<Rightarrow> None
           | Some parsed \<Rightarrow> if parsed \<le> 0 \<or> parsed > maximum then None else Some parsed)"

definition handleListAlerts :: "Request \<Rightarrow> handler" where
  "handleListAlerts r =
     bindm (tenantIDFromRequest r) (\<lambda>tenantID.
     let status = TrimSpace (rq_Query r ''status'') in
     if status \<noteq> '''' \<and> \<not> validAlertStatus status
     then WriteError 400 ''status must be firing, acknowledged, or resolved''
     else case limitParam (rq_Query r ''limit'') 100 500 of
       None \<Rightarrow> WriteError 400 ''limit must be between 1 and 500''
     | Some limit \<Rightarrow>
         bindm (mapErr (serverError ''failed to list alerts'') (onStore (ListAlertsForTenant tenantID status limit)))
           (\<lambda>alerts. WriteJSON 200 (AlertsBody alerts)))"

definition acknowledgeError :: "store_error \<Rightarrow> response" where
  "acknowledgeError err =
     (if err = ErrNotFound then \<lparr>rs_Status = 404, rs_Body = ErrorBody ''alert not found''\<rparr>
      else if err = ErrInvalidState then \<lparr>rs_Status = 409, rs_Body = ErrorBody ''only firing alerts can be acknowledged''\<rparr>
      else \<lparr>rs_Status = 500, rs_Body = ErrorBody ''failed to acknowledge alert''\<rparr>)"

text \<open>The body is decoded for its form only: the recorded name is the actor's.\<close>

definition handleAcknowledgeAlert :: "string option \<Rightarrow> Request \<Rightarrow> handler" where
  "handleAcknowledgeAlert req r =
     bindm (tenantIDFromRequest r) (\<lambda>tenantID.
     case req of None \<Rightarrow> WriteError 400 ''invalid request body''
     | Some acknowledgedBy \<Rightarrow>
         let actor = authenticatedUser r; alertID = rq_PathValue r ''id'' in
         bindm timeNow (\<lambda>now.
         bindm (mapErr acknowledgeError
           (onStore (AcknowledgeAlertForTenant tenantID alertID (u_Username actor) now))) (\<lambda>_.
         bindm (recordAudit r (auditActorFromUser actor) ''alert.acknowledge'' ''alert'' alertID AuditSuccess
           (''tenant_id='' @ tenantID)) (\<lambda>_.
         bindm (mapErr (serverError ''failed to acknowledge alert'') (onStore (GetAlertForTenant tenantID alertID)))
           (\<lambda>alert. WriteJSON 200 (AlertBody alert))))))"

definition handleListAlertRules :: "Request \<Rightarrow> handler" where
  "handleListAlertRules r =
     bindm (mapErr (serverError ''failed to list alert rules'') (onStore ListAlertRules))
       (\<lambda>rules. WriteJSON 200 (RulesBody rules))"

definition handlePutAlertRule :: "AlertRule option \<Rightarrow> Request \<Rightarrow> handler" where
  "handlePutAlertRule req r =
     (case req of None \<Rightarrow> WriteError 400 ''invalid request body''
      | Some body \<Rightarrow>
        let rule = body\<lparr>ar_ID := TrimSpace (rq_PathValue r ''id''), ar_Name := TrimSpace (ar_Name body)\<rparr> in
        if ar_ID rule = '''' \<or> 128 < length (ar_ID rule) \<or> ar_Name rule = '''' \<or> 200 < length (ar_Name rule)
        then WriteError 400 ''rule id and name are required and must be within length limits''
        else if ar_Health rule \<noteq> HealthDegraded \<and> ar_Health rule \<noteq> HealthUnreachable
        then WriteError 400 ''health must be degraded or unreachable''
        else if ar_Severity rule \<noteq> AlertSeverityWarning \<and> ar_Severity rule \<noteq> AlertSeverityCritical
        then WriteError 400 ''severity must be warning or critical''
        else if ar_CooldownSeconds rule < 0 \<or> ar_CooldownSeconds rule > go_div (30 * 24 * Hour) Second
        then WriteError 400 ''cooldownSeconds must be between 0 and 2592000''
        else bindm timeNow (\<lambda>now.
          let rule = rule\<lparr>ar_CreatedAt := now, ar_UpdatedAt := now\<rparr> in
          bindm (mapErr (serverError ''failed to save alert rule'') (onStore (UpsertAlertRule rule now))) (\<lambda>_.
          bindm (recordAudit r (auditActorFromUser (authenticatedUser r)) ''alert_rule.update'' ''alert_rule''
            (ar_ID rule) AuditSuccess '''') (\<lambda>_.
          bindm (mapErr (serverError ''failed to save alert rule'') (onStore ListAlertRules)) (\<lambda>rules.
          case find (\<lambda>saved. ar_ID saved = ar_ID rule) rules of
            None \<Rightarrow> WriteError 500 ''failed to save alert rule''
          | Some saved \<Rightarrow> WriteJSON 200 (RuleBody saved))))))"

section \<open>Timeline\<close>

text \<open>One optional query parameter: absent, malformed, or parsed.\<close>

definition optParam :: "(string \<Rightarrow> 'a option) \<Rightarrow> string \<Rightarrow> 'a option option" where
  "optParam parse raw =
     (let raw = TrimSpace raw in
      if raw = '''' then Some None else case parse raw of None \<Rightarrow> None | Some v \<Rightarrow> Some (Some v))"

definition positiveCursor :: "string \<Rightarrow> int option" where
  "positiveCursor raw = (case ParseInt 64 raw of None \<Rightarrow> None | Some v \<Rightarrow> if v \<le> 0 then None else Some v)"

definition timelineLimit :: "string \<Rightarrow> int option" where
  "timelineLimit raw =
     (case ParseInt 64 raw of None \<Rightarrow> None | Some v \<Rightarrow> if v \<le> 0 \<or> v > 500 then None else Some v)"

definition serveTimeline :: "Server \<Rightarrow> Request \<Rightarrow> string \<Rightarrow> string \<Rightarrow> handler" where
  "serveTimeline srv r tenantID clusterID =
     (case optParam (srv_parseTime srv) (rq_Query r ''since'') of
        None \<Rightarrow> WriteError 400 ''since must be an RFC3339 timestamp''
      | Some since \<Rightarrow>
      case optParam (srv_parseTime srv) (rq_Query r ''until'') of
        None \<Rightarrow> WriteError 400 ''until must be an RFC3339 timestamp''
      | Some til \<Rightarrow>
      case optParam positiveCursor (rq_Query r ''before'') of
        None \<Rightarrow> WriteError 400 ''before must be a positive integer cursor''
      | Some before \<Rightarrow>
      case optParam timelineLimit (rq_Query r ''limit'') of
        None \<Rightarrow> WriteError 400 ''limit must be an integer between 1 and 500''
      | Some limit \<Rightarrow>
        if (case (since, til) of (Some s, Some u) \<Rightarrow> \<not> time_Before s u | _ \<Rightarrow> False)
        then WriteError 400 ''since must be before until''
        else bindm (mapErr (serverError ''failed to list timeline events'') (onStore (ListTimelineEvents
               \<lparr>ef_TenantID = tenantID, ef_ClusterID = clusterID, ef_Since = since, ef_Until = til,
                ef_Before = (case before of None \<Rightarrow> 0 | Some b \<Rightarrow> b),
                ef_Limit = (case limit of None \<Rightarrow> 0 | Some l \<Rightarrow> l)\<rparr>)))
             (\<lambda>page. WriteJSON 200 (TimelineBody (ep_Events page) (ep_NextCursor page))))"

definition handleFleetTimeline :: "Server \<Rightarrow> Request \<Rightarrow> handler" where
  "handleFleetTimeline srv r =
     bindm (tenantIDFromRequest r) (\<lambda>tenantID. serveTimeline srv r tenantID '''')"

definition timelineCluster :: "Request \<Rightarrow> string \<Rightarrow> (hub, store_error, Cluster) sm" where
  "timelineCluster r tenantID =
     bindm (attempt (onStore (GetClusterForTenant tenantID (rq_PathValue r ''id'')))) (\<lambda>res. case res of
       Inr cluster \<Rightarrow> ret cluster
     | Inl err \<Rightarrow>
         if err \<noteq> ErrNotFound then throw err
         else bindm (onStore (ListClustersForTenant tenantID)) (\<lambda>clusters.
           case find (\<lambda>c. c_Name c = rq_PathValue r ''id'') clusters of
             None \<Rightarrow> throw ErrNotFound | Some c \<Rightarrow> ret c))"

definition handleClusterTimeline :: "Server \<Rightarrow> Request \<Rightarrow> handler" where
  "handleClusterTimeline srv r =
     bindm (tenantIDFromRequest r) (\<lambda>tenantID.
     bindm (mapErr handleStoreError (timelineCluster r tenantID)) (\<lambda>cluster.
     serveTimeline srv r tenantID (c_ID cluster)))"

record PolicyFinding =
  pf_RuleID :: string
  pf_Resource :: string
  pf_Severity :: string
  pf_Message :: string
  pf_Details :: labels
  pf_OccurredAt :: time

text \<open>The body as for snapshots; \<open>encode\<close> is \<open>json.Marshal\<close> of the dedupe payload.\<close>

definition handleRecordPolicyFinding ::
  "Server \<Rightarrow> (PolicyFinding \<Rightarrow> string) \<Rightarrow> (decode_error + (PolicyFinding \<times> bool)) \<Rightarrow> Request \<Rightarrow> handler" where
  "handleRecordPolicyFinding srv encode req r =
     bindm (authenticateAgentPath srv r) (\<lambda>(cluster, approved).
     if \<not> approved then WriteError 403 ''agent is pending approval''
     else case req of
       Inl TooLarge \<Rightarrow> WriteError 413 ''request body is too large''
     | Inl Malformed \<Rightarrow> WriteError 400 ''invalid request body''
     | Inr (body, atEOF) \<Rightarrow>
         if \<not> atEOF then WriteError 400 ''request body must contain one JSON object''
         else let request = body\<lparr>pf_RuleID := TrimSpace (pf_RuleID body), pf_Resource := TrimSpace (pf_Resource body),
                    pf_Severity := TrimSpace (pf_Severity body), pf_Message := TrimSpace (pf_Message body)\<rparr> in
           if pf_RuleID request = '''' \<or> pf_Resource request = '''' \<or> pf_Message request = ''''
           then WriteError 400 ''ruleId, resource, and message are required''
           else bindm (if IsZero (pf_OccurredAt request) then timeNow else ret (pf_OccurredAt request)) (\<lambda>occurredAt.
             let details = (pf_Details request)(''ruleId'' \<mapsto> pf_RuleID request, ''resource'' \<mapsto> pf_Resource request);
                 details = (if pf_Severity request \<noteq> '''' then details(''severity'' \<mapsto> pf_Severity request) else details);
                 dedupe = srv_hash srv (encode (request\<lparr>pf_Details := details, pf_OccurredAt := occurredAt\<rparr>)) in
             bindm (mapErr (serverError ''failed to record policy finding'') (onStore (AppendEvent
               \<lparr>oe_ID = 0, oe_TenantID = c_TenantID cluster, oe_ClusterID = c_ID cluster, oe_Kind = EventPolicyFinding,
                oe_Message = pf_Message request, oe_Details = details, oe_OccurredAt = occurredAt,
                oe_DedupeKey = dedupe\<rparr>))) (\<lambda>inserted.
             ret \<lparr>rs_Status = (if inserted then 201 else 200), rs_Body = NoBody\<rparr>)))"

section \<open>Metrics\<close>

definition storeMetricsCacheTTL :: duration where "storeMetricsCacheTTL = 30 * Second"

record metric =
  mt_name :: string
  mt_help :: string
  mt_value :: int
  mt_valid :: bool

definition refreshCount :: "time \<Rightarrow> cachedCount \<Rightarrow> int storem \<Rightarrow> (hub, 'e, cachedCount) sm" where
  "refreshCount now c countQuery =
     (if \<not> cc_valid c \<or> \<not> time_After (cc_expiresAt c) now
      then bindm (attempt (onStore countQuery)) (\<lambda>res. case res of
             Inr v \<Rightarrow> ret \<lparr>cc_value = v, cc_valid = True, cc_expiresAt = time_Add now storeMetricsCacheTTL\<rparr>
           | Inl _ \<Rightarrow> ret (c\<lparr>cc_valid := False\<rparr>))
      else ret c)"

definition storeMetricsGet :: "(hub, 'e, metric \<times> metric) sm" where
  "storeMetricsGet =
     bindm timeNow (\<lambda>now.
     bindm (gets h_agents) (\<lambda>a.
     bindm (refreshCount now a CountClusters) (\<lambda>agents.
     bindm (modify (\<lambda>h. h\<lparr>h_agents := agents\<rparr>)) (\<lambda>_.
     bindm (gets h_deadLettered) (\<lambda>d.
     bindm (refreshCount now d CountDeadLetteredAlerts) (\<lambda>deadLettered.
     bindm (modify (\<lambda>h. h\<lparr>h_deadLettered := deadLettered\<rparr>)) (\<lambda>_.
     ret (\<lparr>mt_name = ''kfleet_agents_registered'', mt_help = ''Clusters with a registered agent.'',
           mt_value = cc_value agents, mt_valid = cc_valid agents\<rparr>,
          \<lparr>mt_name = ''kfleet_alerts_dead_letter'', mt_help = ''Alerts in the dead-letter delivery state.'',
           mt_value = cc_value deadLettered, mt_valid = cc_valid deadLettered\<rparr>))))))))"

fun renderMetrics :: "metric list \<Rightarrow> string list" where
  "renderMetrics [] = []"
| "renderMetrics (m # ms) =
     (if \<not> mt_valid m then renderMetrics ms
      else (''# HELP '' @ mt_name m @ '' '' @ mt_help m) # (''# TYPE '' @ mt_name m @ '' gauge'') #
           (mt_name m @ '' '' @ Itoa (mt_value m)) # renderMetrics ms)"

section \<open>Outer middleware\<close>

definition maxRequestIDLength :: nat where "maxRequestIDLength = 128"

definition isValidRequestID :: "string \<Rightarrow> bool" where
  "isValidRequestID rid \<longleftrightarrow> rid \<noteq> '''' \<and> length rid \<le> maxRequestIDLength \<and>
     list_all (\<lambda>c. 0x21 \<le> (of_char c :: nat) \<and> (of_char c :: nat) \<le> 0x7e) rid"

definition sanitizeRequestID :: "string \<Rightarrow> (hub, 'e, string) sm" where
  "sanitizeRequestID incoming = (if isValidRequestID incoming then ret incoming else newUUID)"

definition withRequestID :: "(Request \<Rightarrow> (hub, 'e, 'a) sm) \<Rightarrow> Request \<Rightarrow> (hub, 'e, 'a) sm" where
  "withRequestID next r =
     bindm (sanitizeRequestID (HeaderGet r ''X-Request-ID'')) (\<lambda>rid.
     bindm (addHeader ''X-Request-ID'' rid) (\<lambda>_. next r))"

definition withDemoReadOnly :: "(Request \<Rightarrow> handler) \<Rightarrow> Request \<Rightarrow> handler" where
  "withDemoReadOnly next r =
     (if rq_Method r = ''GET'' \<or> rq_Method r = ''HEAD'' then next r
      else if rq_Method r = ''OPTIONS'' then
        bindm (addHeader ''Allow'' ''GET, HEAD, OPTIONS'') (\<lambda>_. ret \<lparr>rs_Status = 204, rs_Body = NoBody\<rparr>)
      else bindm (addHeader ''Allow'' ''GET, HEAD, OPTIONS'') (\<lambda>_.
           bindm (addHeader ''Cache-Control'' ''no-store'') (\<lambda>_.
           WriteError 405 ''public demo is read-only'')))"

section \<open>Invariants of the store\<close>

lemma policies_keep [valid_intro]:
  "keepsH I (evaluatePoliciesFor srv ten)" "keepsH I (filterPolicyResults r rs)" "keepsH I (writePolicyResults rs)"
proof -
  have "keepsT I (EvaluatePolicies (serverPolicies srv) ten now)" for now
    using store_reader.Evaluate_read_only unfolding serverPolicies_def keeps_def by (metis prod.collapse)
  then show "keepsH I (evaluatePoliciesFor srv ten)"
    unfolding evaluatePoliciesFor_def by (intro valid_intro keeps_within [where J = "\<lambda>d. I (db_tables d)"]) simp_all
  show "keepsH I (filterPolicyResults r rs)" "keepsH I (writePolicyResults rs)"
    unfolding filterPolicyResults_def writePolicyResults_def Let_def by (intro valid_intro)+
qed

lemma serveTimeline_keeps [valid_intro]: "keepsH I (serveTimeline srv r ten cid)"
  unfolding serveTimeline_def by (intro valid_intro)

lemma timelineCluster_keeps [valid_intro]: "keepsH I (timelineCluster r ten)"
  unfolding timelineCluster_def by (intro valid_intro)

lemma keeps_case_decode_error [valid_intro]:
  "keeps I m \<Longrightarrow> keeps I n \<Longrightarrow> keeps I (case e of TooLarge \<Rightarrow> m | Malformed \<Rightarrow> n)"
  by (cases e) simp_all

lemma refreshCount_keeps [valid_intro]: "keepsT I q \<Longrightarrow> keepsH I (refreshCount now c q)"
  unfolding refreshCount_def by (intro valid_intro)

lemma storeMetricsGet_keep [valid_intro]: "keepsH I storeMetricsGet"
  unfolding storeMetricsGet_def by (intro valid_intro keeps_modify; simp)

context fleet_invariant begin

lemma api_handlers_keep [valid_intro]:
  "keepsH I (handleListPolicies r)" "keepsH I (handlePolicyResults srv r)"
  "keepsH I (handleClusterPolicyResults srv r)" "keepsH I (handleListAlerts r)"
  "keepsH I (handleAcknowledgeAlert areq r)" "keepsH I (handleListAlertRules r)"
  "keepsH I (handlePutAlertRule preq r)" "keepsH I (handleFleetTimeline srv r)"
  "keepsH I (handleClusterTimeline srv r)" "keepsH I (handleRecordPolicyFinding srv enc freq r)"
  unfolding handleListPolicies_def handlePolicyResults_def handleClusterPolicyResults_def handleListAlerts_def
    handleAcknowledgeAlert_def handleListAlertRules_def handlePutAlertRule_def handleFleetTimeline_def
    handleClusterTimeline_def handleRecordPolicyFinding_def Let_def
  by (intro valid_intro)+

end

end
