(* ===== verification/Routes.thy ===== *)
theory Routes
  imports ServerApi
begin

text \<open>
  The API routes of \<open>server.New\<close> and the \<open>register*Routes\<close> methods: method and path pattern, who
  may call it, and the handler; \<open>net/http.ServeMux\<close> matching by segments; the JSON fallback for
  unmatched \<open>/api\<close> requests; the outer middleware. The request body reaches a handler decoded as
  its request type (\<open>Bodies\<close>). The two log streams and the WebSocket are served by \<open>PodLogs\<close> and
  \<open>WsHub\<close>.
\<close>

section \<open>The table\<close>

datatype access = Open | Session | AtLeast Role

text \<open>The decoding of the request body, for each type a handler reads.\<close>

record Bodies =
  bd_login :: "LoginRequest option"
  bd_createUser :: "CreateUserRequest option"
  bd_updateUser :: "UpdateUserRequest option"
  bd_password :: "UpdateUserPasswordRequest option"
  bd_register :: "RegisterClusterRequest option"
  bd_heartbeat :: "HeartbeatRequest option"
  bd_snapshot :: snapshot_body
  bd_acknowledge :: "string option"
  bd_rule :: "AlertRule option"
  bd_encode :: "PolicyFinding \<Rightarrow> string"
  bd_finding :: "decode_error + (PolicyFinding \<times> bool)"

type_synonym route = "(string \<times> string) \<times> access \<times> (Request \<Rightarrow> handler)"

definition registerAuthRoutes :: "Server \<Rightarrow> Bodies \<Rightarrow> route list" where
  "registerAuthRoutes srv b =
     [((''POST'', ''/api/v1/auth/login''), Open, handleLogin srv (bd_login b)),
      ((''POST'', ''/api/v1/auth/logout''), Session, handleLogout srv),
      ((''GET'', ''/api/v1/auth/me''), Session, handleMe)]"

definition registerUserRoutes :: "Server \<Rightarrow> Bodies \<Rightarrow> route list" where
  "registerUserRoutes srv b =
     [((''GET'', ''/api/v1/users''), AtLeast RoleAdmin, handleListUsers),
      ((''POST'', ''/api/v1/users''), AtLeast RoleAdmin, handleCreateUser srv (bd_createUser b)),
      ((''PATCH'', ''/api/v1/users/{id}''), AtLeast RoleAdmin, handleUpdateUser srv (bd_updateUser b)),
      ((''PATCH'', ''/api/v1/users/{id}/password''), Session, handleUpdateUserPassword srv (bd_password b)),
      ((''DELETE'', ''/api/v1/users/{id}''), AtLeast RoleAdmin, handleDeleteUser)]"

definition registerAuditRoutes :: "route list" where
  "registerAuditRoutes = [((''GET'', ''/api/v1/audit''), AtLeast RoleAdmin, handleListAuditEvents)]"

definition registerAdminRoutes :: "Server \<Rightarrow> route list" where
  "registerAdminRoutes srv =
     [((''POST'', ''/api/v1/admin/registration-token/rotate''), AtLeast RoleAdmin, handleRotateRegistrationToken srv)]"

definition registerAgentRoutes :: "Server \<Rightarrow> Bodies \<Rightarrow> route list" where
  "registerAgentRoutes srv b =
     [((''POST'', ''/api/v1/agents/register''), Open, handleAgentRegister srv (bd_register b)),
      ((''POST'', ''/api/v1/agents/{id}/approve''), AtLeast RoleOperator, handleAgentApprove srv),
      ((''GET'', ''/api/v1/agents/pending''), Session, handleListPendingAgents),
      ((''POST'', ''/api/v1/agents/heartbeat''), Open, handleHeartbeat srv (bd_heartbeat b)),
      ((''POST'', ''/api/v1/agents/{id}/heartbeat''), Open, handleAgentLiveness srv),
      ((''POST'', ''/api/v1/agents/{id}/deregister''), Open, handleAgentDeregister srv)]"

definition registerClusterRoutes :: "Server \<Rightarrow> Bodies \<Rightarrow> route list" where
  "registerClusterRoutes srv b =
     [((''GET'', ''/api/v1/clusters''), Session, handleListClusters),
      ((''GET'', ''/api/v1/clusters/{id}''), Session, handleGetCluster),
      ((''POST'', ''/api/v1/clusters/register''), AtLeast RoleOperator, handleRegisterCluster srv (bd_register b)),
      ((''DELETE'', ''/api/v1/clusters/{id}''), AtLeast RoleOperator, handleDeleteCluster),
      ((''GET'', ''/api/v1/clusters/{id}/status''), Session, handleClusterStatus),
      ((''POST'', ''/api/v1/clusters/{id}/status''), Open, handleClusterSnapshot srv (bd_snapshot b)),
      ((''GET'', ''/api/v1/clusters/{id}/pods''), Session, handleClusterPods),
      ((''GET'', ''/api/v1/clusters/{id}/services''), Session, handleClusterServices),
      ((''GET'', ''/api/v1/clusters/{id}/deployments''), Session, handleClusterDeployments),
      ((''GET'', ''/api/v1/clusters/{id}/namespaces''), Session, handleClusterNamespaces),
      ((''GET'', ''/api/v1/clusters/{id}/events''), Session, handleClusterEvents)]"

definition registerAlertRoutes :: "Bodies \<Rightarrow> route list" where
  "registerAlertRoutes b =
     [((''GET'', ''/api/v1/alerts''), Session, handleListAlerts),
      ((''POST'', ''/api/v1/alerts/{id}/acknowledge''), AtLeast RoleOperator, handleAcknowledgeAlert (bd_acknowledge b)),
      ((''GET'', ''/api/v1/alert-rules''), Session, handleListAlertRules),
      ((''PUT'', ''/api/v1/alert-rules/{id}''), AtLeast RoleAdmin, handlePutAlertRule (bd_rule b))]"

definition registerEventRoutes :: "Server \<Rightarrow> Bodies \<Rightarrow> route list" where
  "registerEventRoutes srv b =
     [((''GET'', ''/api/v1/timeline''), Session, handleFleetTimeline srv),
      ((''GET'', ''/api/v1/clusters/{id}/timeline''), Session, handleClusterTimeline srv),
      ((''POST'', ''/api/v1/clusters/{id}/policy-findings''), Open,
         handleRecordPolicyFinding srv (bd_encode b) (bd_finding b))]"

definition registerPolicyRoutes :: "Server \<Rightarrow> route list" where
  "registerPolicyRoutes srv =
     [((''GET'', ''/api/v1/policies''), Session, handleListPolicies),
      ((''GET'', ''/api/v1/policies/results''), Session, handlePolicyResults srv),
      ((''GET'', ''/api/v1/clusters/{id}/policy-results''), Session, handleClusterPolicyResults srv)]"

definition apiRoutes :: "Server \<Rightarrow> Bodies \<Rightarrow> route list" where
  "apiRoutes srv b =
     registerAuthRoutes srv b @ registerUserRoutes srv b @ registerAuditRoutes @ registerAdminRoutes srv @
     registerAgentRoutes srv b @ registerClusterRoutes srv b @ registerAlertRoutes b @
     registerEventRoutes srv b @ registerPolicyRoutes srv"

section \<open>Dispatch\<close>

definition isWildcard :: "string \<Rightarrow> bool" where
  "isWildcard seg = (HasPrefix seg ''{'')"

text \<open>Segment by segment; a wildcard takes one non-empty segment, by its name without braces.\<close>

fun matchSegments :: "string list \<Rightarrow> string list \<Rightarrow> (string \<times> string) list option" where
  "matchSegments [] [] = Some []"
| "matchSegments (p # ps) (s # ss) =
     (if isWildcard p then
        (if s = '''' then None
         else map_option (\<lambda>m. (butlast (tl p), s) # m) (matchSegments ps ss))
      else if p = s then matchSegments ps ss else None)"
| "matchSegments _ _ = None"

definition matchPath :: "string \<Rightarrow> string \<Rightarrow> (string \<times> string) list option" where
  "matchPath pattern path = matchSegments (SplitC (CHR ''/'') pattern) (SplitC (CHR ''/'') path)"

text \<open>A \<open>GET\<close> pattern also serves \<open>HEAD\<close>.\<close>

definition matchMethod :: "string \<Rightarrow> string \<Rightarrow> bool" where
  "matchMethod pattern m = (m = pattern \<or> (pattern = ''GET'' \<and> m = ''HEAD''))"

definition guarded :: "Server \<Rightarrow> access \<Rightarrow> (Request \<Rightarrow> handler) \<Rightarrow> Request \<Rightarrow> handler" where
  "guarded srv a h =
     (case a of Open \<Rightarrow> h | Session \<Rightarrow> requireAuth srv h | AtLeast role \<Rightarrow> requireRole srv role h)"

definition pathValues :: "(string \<times> string) list \<Rightarrow> Request \<Rightarrow> Request" where
  "pathValues m r = r\<lparr>rq_PathValue := (\<lambda>k. case map_of m k of None \<Rightarrow> '''' | Some v \<Rightarrow> v)\<rparr>"

fun findRoute :: "route list \<Rightarrow> Request \<Rightarrow> (access \<times> (Request \<Rightarrow> handler) \<times> (string \<times> string) list) option" where
  "findRoute [] r = None"
| "findRoute (((meth, pattern), a, h) # rts) r =
     (case matchPath pattern (rq_Path r) of
        Some m \<Rightarrow> if matchMethod meth (rq_Method r) then Some (a, h, m) else findRoute rts r
      | None \<Rightarrow> findRoute rts r)"

definition apiJSONFallback :: "route list \<Rightarrow> Request \<Rightarrow> handler" where
  "apiJSONFallback rts r =
     (if list_ex (\<lambda>((meth, pattern), _). matchPath pattern (rq_Path r) \<noteq> None) rts
      then WriteError 405 ''method not allowed'' else WriteError 404 ''not found'')"

definition serveAPI :: "Server \<Rightarrow> Bodies \<Rightarrow> Request \<Rightarrow> handler" where
  "serveAPI srv b r =
     (case findRoute (apiRoutes srv b) r of
        Some (a, h, m) \<Rightarrow> guarded srv a h (pathValues m r)
      | None \<Rightarrow> apiJSONFallback (apiRoutes srv b) r)"

text \<open>The API behind the outer middleware of \<open>New\<close>; a request enters without a user. \<open>Frontend\<close> has the whole handler.\<close>

definition serveHTTP :: "Server \<Rightarrow> Bodies \<Rightarrow> Request \<Rightarrow> handler" where
  "serveHTTP srv b r =
     withRequestID (if srv_DemoMode srv then withDemoReadOnly (serveAPI srv b) else serveAPI srv b)
       (r\<lparr>rq_User := None\<rparr>)"

section \<open>Invariants of the store\<close>

lemma middleware_keep:
  "(\<And>r. keepsH I (next r)) \<Longrightarrow> keepsH I (withRequestID next r)"
  "(\<And>r. keepsH I (next r)) \<Longrightarrow> keepsH I (withDemoReadOnly next r)"
  "keepsH I (apiJSONFallback rts r)"
  unfolding withRequestID_def sanitizeRequestID_def withDemoReadOnly_def apiJSONFallback_def
  by (intro valid_intro; assumption)+

lemma findRoute_in: "findRoute rts r = Some (a, h, m) \<Longrightarrow> \<exists>p. (p, a, h) \<in> set rts"
  by (induction rts r rule: findRoute.induct) (auto split: option.splits if_splits)

context store_invariant begin

lemma routes_keep: "(p, a, h) \<in> set (apiRoutes srv b) \<Longrightarrow> keepsH I (h r)"
  unfolding apiRoutes_def registerAuthRoutes_def registerUserRoutes_def registerAuditRoutes_def
    registerAdminRoutes_def registerAgentRoutes_def registerClusterRoutes_def registerAlertRoutes_def
    registerEventRoutes_def registerPolicyRoutes_def
  by (simp del: keeps_valid) (elim disjE conjE; hypsubst; intro valid_intro)

lemma serveAPI_keep: "keepsH I (serveAPI srv b r)"
proof (cases "findRoute (apiRoutes srv b) r")
  case None
  then show ?thesis by (simp add: serveAPI_def middleware_keep)
next
  case (Some x)
  obtain a h m where x: "x = (a, h, m)" by (cases x)
  with Some findRoute_in obtain p where "(p, a, h) \<in> set (apiRoutes srv b)" by blast
  then have "keepsH I (h r)" for r by (rule routes_keep)
  then show ?thesis using Some x
    by (cases a) (simp_all add: serveAPI_def guarded_def requireAuth_keeps requireRole_keeps)
qed

lemma serveHTTP_keep: "keepsH I (serveHTTP srv b r)"
  unfolding serveHTTP_def by (intro middleware_keep) (simp add: middleware_keep serveAPI_keep)

end

section \<open>The hub\<close>

text \<open>
  What changes the hub's state: a request, the monitors' ticks, the alert deliveries, a scrape of
  the metrics, the broadcast hub taking an update, and the start (default rules and first
  administrator), in any order and with any inputs.
\<close>

inductive hub_step :: "Server \<Rightarrow> hub \<Rightarrow> hub \<Rightarrow> bool" for srv where
  hub_request: "serveHTTP srv b r h = (res, h') \<Longrightarrow> hub_step srv h h'"
| hub_stale: "markStaleClusters srv now h = ((Inr u :: store_error + unit), h') \<Longrightarrow> hub_step srv h h'"
| hub_pruneEvents: "pruneExpiredEvents srv now h = ((Inr u :: store_error + unit), h') \<Longrightarrow> hub_step srv h h'"
| hub_pruneSessions: "pruneExpiredSessions now h = ((Inr u :: store_error + unit), h') \<Longrightarrow> hub_step srv h h'"
| hub_deliver: "onStore (ProcessDue (srv_alerts srv) encode hmac now cancelled clock) h = ((dres :: store_error + unit), h') \<Longrightarrow> hub_step srv h h'"
| hub_metrics: "storeMetricsGet h = ((Inr mm :: store_error + metric \<times> metric), h') \<Longrightarrow> hub_step srv h h'"
| hub_broadcast: "hub_step srv h (h\<lparr>h_broadcast := tl (h_broadcast h)\<rparr>)"
| hub_seed: "onStore (seedDefaultAlertRules now) h = (sres, h') \<Longrightarrow> hub_step srv h h'"
| hub_bootstrap: "BootstrapAdmin srv un em pw h = (bres, h') \<Longrightarrow> hub_step srv h h'"

abbreviation hub_steps :: "Server \<Rightarrow> hub \<Rightarrow> hub \<Rightarrow> bool" where
  "hub_steps srv \<equiv> (hub_step srv)\<^sup>*\<^sup>*"

abbreviation hubTables :: "hub \<Rightarrow> tables" where
  "hubTables h \<equiv> db_tables (h_db h)"

lemma keepsH_D: "m h = (r, h') \<Longrightarrow> I (hubTables h) \<Longrightarrow> keepsH I m \<Longrightarrow> I (hubTables h')"
  by (simp add: keeps_def) (metis snd_conv)

context store_invariant begin

lemma hub_step_keeps:
  assumes "hub_step srv h h'" and I: "I (hubTables h)"
  shows "I (hubTables h')"
  using assms(1)
proof cases
  case hub_request
  then show ?thesis using I serveHTTP_keep by (rule keepsH_D)
next
  case (hub_stale now u)
  show ?thesis by (rule keepsH_D [OF hub_stale I monitors_keep(1)])
next
  case (hub_pruneEvents now u)
  show ?thesis by (rule keepsH_D [OF hub_pruneEvents I monitors_keep(2)])
next
  case (hub_pruneSessions now u)
  show ?thesis by (rule keepsH_D [OF hub_pruneSessions I pruneExpiredSessions_keep])
next
  case hub_deliver
  then show ?thesis using I by (rule keepsH_D) (intro valid_intro)
next
  case (hub_metrics mm)
  show ?thesis by (rule keepsH_D [where I = I, OF hub_metrics I storeMetricsGet_keep])
next
  case hub_broadcast
  with I show ?thesis by simp
next
  case hub_seed
  then show ?thesis using I by (rule keepsH_D) (intro valid_intro)
next
  case hub_bootstrap
  then show ?thesis using I by (rule keepsH_D) (intro valid_intro)
qed

lemma hub_steps_keep: "hub_steps srv h h' \<Longrightarrow> I (hubTables h) \<Longrightarrow> I (hubTables h')"
  by (induction rule: rtranclp_induct) (simp_all add: hub_step_keeps)

end

section \<open>Routing is unambiguous\<close>

text \<open>Two patterns that some path matches both.\<close>

definition overlap :: "string \<times> string \<Rightarrow> string \<times> string \<Rightarrow> bool" where
  "overlap p q \<longleftrightarrow> fst p = fst q \<and>
     list_all2 (\<lambda>s t. isWildcard s \<or> isWildcard t \<or> s = t) (SplitC (CHR ''/'') (snd p)) (SplitC (CHR ''/'') (snd q))"

definition routePatterns :: "(string \<times> string) list" where
  "routePatterns =
     [(''POST'', ''/api/v1/auth/login''), (''POST'', ''/api/v1/auth/logout''), (''GET'', ''/api/v1/auth/me''),
      (''GET'', ''/api/v1/users''), (''POST'', ''/api/v1/users''), (''PATCH'', ''/api/v1/users/{id}''),
      (''PATCH'', ''/api/v1/users/{id}/password''), (''DELETE'', ''/api/v1/users/{id}''), (''GET'', ''/api/v1/audit''),
      (''POST'', ''/api/v1/admin/registration-token/rotate''), (''POST'', ''/api/v1/agents/register''),
      (''POST'', ''/api/v1/agents/{id}/approve''), (''GET'', ''/api/v1/agents/pending''),
      (''POST'', ''/api/v1/agents/heartbeat''), (''POST'', ''/api/v1/agents/{id}/heartbeat''),
      (''POST'', ''/api/v1/agents/{id}/deregister''), (''GET'', ''/api/v1/clusters''),
      (''GET'', ''/api/v1/clusters/{id}''), (''POST'', ''/api/v1/clusters/register''),
      (''DELETE'', ''/api/v1/clusters/{id}''), (''GET'', ''/api/v1/clusters/{id}/status''),
      (''POST'', ''/api/v1/clusters/{id}/status''), (''GET'', ''/api/v1/clusters/{id}/pods''),
      (''GET'', ''/api/v1/clusters/{id}/services''), (''GET'', ''/api/v1/clusters/{id}/deployments''),
      (''GET'', ''/api/v1/clusters/{id}/namespaces''), (''GET'', ''/api/v1/clusters/{id}/events''),
      (''GET'', ''/api/v1/alerts''), (''POST'', ''/api/v1/alerts/{id}/acknowledge''), (''GET'', ''/api/v1/alert-rules''),
      (''PUT'', ''/api/v1/alert-rules/{id}''), (''GET'', ''/api/v1/timeline''), (''GET'', ''/api/v1/clusters/{id}/timeline''),
      (''POST'', ''/api/v1/clusters/{id}/policy-findings''), (''GET'', ''/api/v1/policies''),
      (''GET'', ''/api/v1/policies/results''), (''GET'', ''/api/v1/clusters/{id}/policy-results'')]"

lemma route_patterns: "map fst (apiRoutes srv b) = routePatterns"
  by (simp add: apiRoutes_def registerAuthRoutes_def registerUserRoutes_def registerAuditRoutes_def
    registerAdminRoutes_def registerAgentRoutes_def registerClusterRoutes_def registerAlertRoutes_def
    registerEventRoutes_def registerPolicyRoutes_def routePatterns_def)

fun apart :: "('a \<Rightarrow> 'a \<Rightarrow> bool) \<Rightarrow> 'a list \<Rightarrow> bool" where
  "apart R [] = True"
| "apart R (x # xs) = (list_all (\<lambda>y. \<not> R x y) xs \<and> apart R xs)"

lemma routePatterns_apart: "apart overlap routePatterns"
  by code_simp

lemma matchSegments_overlap:
  "matchSegments ps ss = Some m \<Longrightarrow> matchSegments qs ss = Some n \<Longrightarrow>
     list_all2 (\<lambda>s t. isWildcard s \<or> isWildcard t \<or> s = t) ps qs"
proof (induction ps ss arbitrary: qs m n rule: matchSegments.induct)
  case (2 p ps s ss)
  then obtain q qs' where qs: "qs = q # qs'" by (cases qs) auto
  with 2 show ?case by (auto split: if_splits)
next
  case 1
  then show ?case by (cases qs) auto
qed auto

text \<open>The routes that serve a request.\<close>

definition serves_request :: "Request \<Rightarrow> string \<times> string \<Rightarrow> bool" where
  "serves_request r p = (matchPath (snd p) (rq_Path r) \<noteq> None \<and> matchMethod (fst p) (rq_Method r))"

lemma apart_filter: "apart R xs \<Longrightarrow> (\<And>x y. P x \<Longrightarrow> P y \<Longrightarrow> R x y) \<Longrightarrow> length (filter P xs) \<le> 1"
proof (induction xs)
  case (Cons x xs)
  show ?case
  proof (cases "P x")
    case True
    with Cons.prems have "filter P xs = []" by (auto simp: filter_empty_conv list_all_iff)
    then show ?thesis by simp
  qed (use Cons in auto)
qed simp

lemma serves_overlap:
  "serves_request r p \<Longrightarrow> serves_request r q \<Longrightarrow> fst p = fst q \<Longrightarrow> overlap p q"
  unfolding overlap_def serves_request_def matchPath_def using matchSegments_overlap by blast

lemma serves_one_method:
  "serves_request r p \<Longrightarrow> serves_request r q \<Longrightarrow> fst p \<noteq> ''HEAD'' \<Longrightarrow> fst q \<noteq> ''HEAD'' \<Longrightarrow> overlap p q"
  by (rule serves_overlap) (auto simp: serves_request_def matchMethod_def)

lemma findRoute_serves:
  "findRoute rts r = Some (a, h, m) \<Longrightarrow> \<exists>p. (p, a, h) \<in> set rts \<and> serves_request r p"
  by (induction rts r rule: findRoute.induct) (auto simp: serves_request_def split: option.splits if_splits)

lemma findRoute_none: "findRoute rts r = None \<longleftrightarrow> (\<forall>rt \<in> set rts. \<not> serves_request r (fst rt))"
  by (induction rts r rule: findRoute.induct) (auto simp: serves_request_def split: option.splits)


end
