(* ===== verification/Samples.thy ===== *)
theory Samples
  imports Routes
begin

text \<open>
  A small concrete hub: two tenants with one cluster each, an approved agent, two administrators
  and a session. The properties with hypotheses are applied to it.
\<close>

definition sampleCluster :: Cluster where
  "sampleCluster = \<lparr>c_ID = ''c1'', c_TenantID = ''default'', c_Name = ''prod'', c_Health = HealthHealthy,
     c_Version = ''v1.30.0'', c_AgentVersion = ''0.1'', c_NodeCount = 1, c_PodCount = 0,
     c_RegisteredAt = 10, c_LastHeartbeat = 20, c_Labels = Map.empty\<rparr>"

definition otherCluster :: Cluster where
  "otherCluster = sampleCluster\<lparr>c_ID := ''c2'', c_TenantID := ''acme'', c_Name := ''edge''\<rparr>"

definition sampleAdmin :: User where
  "sampleAdmin = \<lparr>u_ID = ''u1'', u_Username = ''root'', u_Email = ''root@x'', u_Role = RoleAdmin,
     u_Disabled = False, u_CreatedAt = 1, u_UpdatedAt = 1, u_PasswordHash = ''h''\<rparr>"

definition sampleViewer :: User where
  "sampleViewer = sampleAdmin\<lparr>u_ID := ''u2'', u_Username := ''eve'', u_Email := ''eve@x'', u_Role := RoleReadOnly\<rparr>"

definition sampleTables :: tables where
  "sampleTables = empty_tables\<lparr>t_clusters := [sampleCluster, otherCluster],
     t_agents := [\<lparr>ag_ClusterID = ''c1'', ag_TokenHash = ''#tok'', ag_Approved = True, ag_IssuedAt = 10,
                   ag_LastHeartbeat = None\<rparr>],
     t_users := [sampleAdmin, sampleViewer],
     t_sessions := [\<lparr>ss_TokenHash = ''#sess'', ss_UserID = ''u1'', ss_CreatedAt = 1, ss_ExpiresAt = 1000\<rparr>]\<rparr>"

definition sampleDb :: db where
  "sampleDb = \<lparr>db_tables = sampleTables, db_faults = []\<rparr>"

definition sampleHub :: hub where
  "sampleHub = \<lparr>h_db = sampleDb, h_broadcast = [],
     h_agents = \<lparr>cc_value = 0, cc_valid = False, cc_expiresAt = 0\<rparr>,
     h_deadLettered = \<lparr>cc_value = 0, cc_valid = False, cc_expiresAt = 0\<rparr>,
     h_header = [], h_cookies = [], h_tick = 0, h_clock = (\<lambda>n. 100 + int n),
     h_uuid = (\<lambda>n. ''id'' @ show_nat n), h_ruleUUID = (\<lambda>n r. ''id'' @ show_nat n @ ar_ID r),
     h_rand = (\<lambda>n. Some (''r'' @ show_nat n))\<rparr>"

definition emptyHub :: hub where
  "emptyHub = sampleHub\<lparr>h_db := \<lparr>db_tables = empty_tables, db_faults = []\<rparr>\<rparr>"

definition sampleServer :: Server where
  "sampleServer = \<lparr>srv_DemoMode = False, srv_HeartbeatInterval = 30 * Second, srv_EventRetention = 0,
     srv_SessionDuration = 0, srv_SessionCookieSecure = True, srv_RegistrationToken = ''join'',
     srv_MetricsDisabled = False,
     srv_alerts = NewManager \<lparr>cf_WebhookURL = '''', cf_Secret = '''', cf_MaxAttempts = 0, cf_RetryBase = 0,
       cf_PollInterval = 0\<rparr> (\<lambda>_. Inl ''down''),
     srv_hash = (\<lambda>s. CHR ''#'' # s), srv_bcrypt = (\<lambda>_ p. Some (CHR ''$'' # p)),
     srv_bcryptMatches = (\<lambda>h p. h = CHR ''$'' # p), srv_quote = (\<lambda>s. s),
     srv_formatTime = (\<lambda>_. ''''), srv_parseTime = (\<lambda>_. None)\<rparr>"

definition sampleRequest :: "string \<Rightarrow> string \<Rightarrow> Request" where
  "sampleRequest meth path = \<lparr>rq_Method = meth, rq_Path = path, rq_PathValue = (\<lambda>_. ''''),
     rq_Header = (\<lambda>_. []), rq_Query = (\<lambda>_. ''''), rq_Cookie = (\<lambda>_. None), rq_RemoteAddr = ''10.0.0.1:5000'',
     rq_User = None\<rparr>"

definition sampleBodies :: Bodies where
  "sampleBodies = \<lparr>bd_login = None, bd_createUser = None, bd_updateUser = None, bd_password = None,
     bd_register = None, bd_heartbeat = None, bd_snapshot = Inl Malformed, bd_acknowledge = None,
     bd_rule = None, bd_encode = (\<lambda>_. ''''), bd_finding = Inl Malformed\<rparr>"

lemmas sample_defs = sampleCluster_def otherCluster_def sampleAdmin_def sampleViewer_def sampleTables_def
  sampleDb_def sampleHub_def emptyHub_def sampleServer_def sampleRequest_def sampleBodies_def empty_tables_def

lemma sampleTables_wf: "db_wf sampleTables"
  by (simp add: db_wf_def schema_defs sample_defs unique_key_def references_def validRoleRow_def)

lemma sampleTables_admin: "hasEnabledAdmin sampleTables"
  by (simp add: hasEnabledAdmin_def sample_defs)

lemma sample_hub_simps [simp]:
  "hubTables sampleHub = sampleTables" "hubTables emptyHub = empty_tables" "db_faults sampleDb = []"
  "db_tables sampleDb = sampleTables" "h_db sampleHub = sampleDb"
  by (simp_all add: sampleHub_def emptyHub_def sampleDb_def)

end
