(* ===== verification/Gate.thy ===== *)
theory Gate
  imports Samples
begin

text \<open>
  What the session and role wrappers (\<open>middleware_auth.go\<close>) guarantee for every guarded route, and
  what the agent endpoints guarantee without a valid agent token.
\<close>

section \<open>The wrappers\<close>

definition exceptAudit :: "tables \<Rightarrow> tables" where
  "exceptAudit t = t\<lparr>t_audit := []\<rparr>"

lemma recordAudit_exceptAudit: "keepsH (\<lambda>t. exceptAudit t = v) (recordAudit r actor act tt ti oc dt)"
  unfolding recordAudit_def RecordAuditEvent_def
  by (intro valid_intro keepsT_insertRow) (auto simp: exceptAudit_def)

lemma recordAudit_returns: "recordAudit r actor act tt ti oc dt h = (res, h') \<Longrightarrow> res = Inr ()"
  by (auto simp: recordAudit_def bindm_def newUUID_def timeNow_def attempt_def ret_def split: prod.splits)

lemma recordAudit_tables:
  "recordAudit r actor act tt ti oc dt h = (res, h') \<Longrightarrow> exceptAudit (hubTables h') = exceptAudit (hubTables h)"
  using keepsH_D [where I = "\<lambda>t. exceptAudit t = exceptAudit (hubTables h)", OF _ refl recordAudit_exceptAudit] by blast

lemma clearSessionCookie_tables: "clearSessionCookie srv h = (res, h') \<Longrightarrow> res = Inr () \<and> hubTables h' = hubTables h"
  by (auto simp: clearSessionCookie_def modify_def)

lemma GetSessionUser_ok:
  assumes "GetSessionUser th now d = (Inr user, d')"
  shows "sessionUser th now (db_tables d) = Some user \<and> db_tables d' = db_tables d"
proof -
  from assms obtain row d1 where q: "query (sessionUser th now) d = (Inr row, d1)" and s: "scanUser row d1 = (Inr user, d')"
    by (auto simp: GetSessionUser_def bindm_ok wrapErr_ok)
  have "keepsT (\<lambda>t. t = db_tables d1) (scanUser row)" by (intro valid_intro)
  then have "db_tables d' = db_tables d1" using s by (auto simp: keeps_def split: prod.splits)
  moreover have "row = Some user" using s by (auto simp: scanUser_def split: option.splits if_splits)
  ultimately show ?thesis using query_ok [OF q] by simp
qed

lemma GetSessionUser_tables: "GetSessionUser th now d = (res, d') \<Longrightarrow> db_tables d' = db_tables d"
  using user_reads(4) [of "\<lambda>t. t = db_tables d" th now] by (auto simp: keeps_def)

text \<open>The session behind a request, and the refusals.\<close>

definition validSession :: "Server \<Rightarrow> Request \<Rightarrow> hub \<Rightarrow> User \<Rightarrow> bool" where
  "validSession srv r h user \<longleftrightarrow>
     (\<exists>token. rq_Cookie r sessionCookieName = Some token \<and> token \<noteq> '''' \<and>
        sessionUser (HashToken srv token) (h_clock h (h_tick h)) (hubTables h) = Some user) \<and>
     \<not> u_Disabled user \<and> (mutationRequest r \<longrightarrow> HeaderGet r csrfHeaderName = ''1'')"

definition refused :: "hub \<Rightarrow> response + response \<Rightarrow> hub \<Rightarrow> bool" where
  "refused h res h' \<longleftrightarrow>
     (\<exists>e. res = Inl e \<and> rs_Status e \<in> {401, 403}) \<and> exceptAudit (hubTables h') = exceptAudit (hubTables h)"

lemma requireAuth_gate:
  assumes run: "requireAuth srv next r h = (res, h')" and demo: "\<not> srv_DemoMode srv"
  shows "(\<exists>user h1. validSession srv r h user \<and> hubTables h1 = hubTables h \<and>
            next (r\<lparr>rq_User := Some user\<rparr>) h1 = (res, h')) \<or> refused h res h'"
proof (cases "rq_Cookie r sessionCookieName")
  case None
  then show ?thesis using run demo by (auto simp: requireAuth_def WriteError_def throw_def refused_def)
next
  case (Some token)
  show ?thesis
  proof (cases "token = ''''")
    case True
    then show ?thesis using run demo Some by (auto simp: requireAuth_def WriteError_def throw_def refused_def)
  next
    case False
    let ?now = "h_clock h (h_tick h)"
    obtain x d where g: "GetSessionUser (HashToken srv token) ?now (h_db h) = (x, d)" by fastforce
    let ?h1 = "h\<lparr>h_tick := h_tick h + 1, h_db := d\<rparr>"
    have t: "hubTables ?h1 = hubTables h" using GetSessionUser_tables [OF g] by simp
    show ?thesis
    proof (cases x)
      case (Inl e)
      then have "bindm (clearSessionCookie srv) (\<lambda>_. WriteError 401 ''session is invalid or has expired'') ?h1 = (res, h')"
        using run demo Some False g
        by (simp add: requireAuth_def bindm_def timeNow_def attempt_def onStore_def within_def)
      then have "refused h res h'" using t
        by (auto simp: bindm_def clearSessionCookie_def modify_def WriteError_def throw_def refused_def)
      then show ?thesis ..
    next
      case (Inr user)
      note u = GetSessionUser_ok [OF g [unfolded Inr]]
      let ?rest = "if u_Disabled user
          then bindm (clearSessionCookie srv) (\<lambda>_. WriteError 401 ''account is disabled'')
          else if mutationRequest r \<and> HeaderGet r csrfHeaderName \<noteq> ''1''
          then bindm (recordAudit r (auditActorFromUser user) ''authorization.csrf_denied'' ''http_route''
                 (rq_Method r @ '' '' @ rq_Path r) AuditFailure ''missing or invalid CSRF header'')
                 (\<lambda>_. WriteError 403 ''CSRF validation failed'')
          else next (r\<lparr>rq_User := Some user\<rparr>)"
      have rest: "?rest ?h1 = (res, h')"
        using run demo Some False g Inr
        by (simp add: requireAuth_def bindm_def timeNow_def attempt_def onStore_def within_def)
      show ?thesis
      proof (cases "u_Disabled user \<or> (mutationRequest r \<and> HeaderGet r csrfHeaderName \<noteq> ''1'')")
        case True
        then have "refused h res h'" using rest t
          by (auto simp: bindm_def WriteError_def throw_def refused_def split: if_splits prod.splits sum.splits
              dest: clearSessionCookie_tables recordAudit_tables recordAudit_returns)
        then show ?thesis ..
      next
        case False
        then have "next (r\<lparr>rq_User := Some user\<rparr>) ?h1 = (res, h')" using rest by auto
        moreover have "validSession srv r h user"
          using False u Some \<open>token \<noteq> ''''\<close> by (auto simp: validSession_def)
        ultimately show ?thesis using t by blast
      qed
    qed
  qed
qed

lemma requireRole_gate:
  assumes run: "requireRole srv minimum next r h = (res, h')" and demo: "\<not> srv_DemoMode srv"
  shows "(\<exists>user h1. validSession srv r h user \<and> HasAtLeast (u_Role user) minimum \<and> hubTables h1 = hubTables h \<and>
            next (r\<lparr>rq_User := Some user\<rparr>) h1 = (res, h')) \<or> refused h res h'"
proof -
  let ?inner = "\<lambda>r. case rq_User r of None \<Rightarrow> WriteError 403 (''this action requires the '' @ minimum @ '' role'')
     | Some user \<Rightarrow>
         if \<not> HasAtLeast (u_Role user) minimum
         then bindm (recordAudit r (auditActorFromUser user) ''authorization.role_denied'' ''http_route''
                (rq_Method r @ '' '' @ rq_Path r) AuditFailure (''required_role='' @ minimum))
                (\<lambda>_. WriteError 403 (''this action requires the '' @ minimum @ '' role''))
         else next r"
  from requireAuth_gate [OF run [unfolded requireRole_def] demo] consider
    (served) user h1 where "validSession srv r h user" "hubTables h1 = hubTables h"
      "?inner (r\<lparr>rq_User := Some user\<rparr>) h1 = (res, h')"
    | (refusal) "refused h res h'" by blast
  then show ?thesis
  proof cases
    case served
    show ?thesis
    proof (cases "HasAtLeast (u_Role user) minimum")
      case True
      with served show ?thesis by auto
    next
      case False
      then have "refused h res h'" using served(2,3)
        by (auto simp: bindm_def WriteError_def throw_def refused_def split: prod.splits sum.splits
            dest: recordAudit_tables recordAudit_returns)
      then show ?thesis ..
    qed
  qed simp
qed


definition sampleDelete :: Request where
  "sampleDelete = (sampleRequest ''DELETE'' ''/api/v1/clusters/c1'')\<lparr>rq_Cookie := (\<lambda>_. Some ''sess'')\<rparr>"


section \<open>The read-only demo\<close>

lemma get_routes_read:
  assumes "(p, a, handle) \<in> set (apiRoutes srv b)" and "fst p = ''GET''"
  shows "keepsH I (handle r)"
proof -
  have "handle \<in> {handleMe, handleListUsers, handleListAuditEvents, handleListPendingAgents, handleListClusters,
      handleGetCluster, handleClusterStatus, handleClusterPods, handleClusterServices, handleClusterDeployments,
      handleClusterNamespaces, handleClusterEvents, handleListAlerts, handleListAlertRules, handleFleetTimeline srv,
      handleClusterTimeline srv, handleListPolicies, handlePolicyResults srv, handleClusterPolicyResults srv}"
    using assms unfolding apiRoutes_def registerAuthRoutes_def registerUserRoutes_def registerAuditRoutes_def
      registerAdminRoutes_def registerAgentRoutes_def registerClusterRoutes_def registerAlertRoutes_def
      registerEventRoutes_def registerPolicyRoutes_def by auto
  moreover have "keepsH I (handleMe r)" "keepsH I (handleListUsers r)" "keepsH I (handleListAuditEvents r)"
    "keepsH I (handleListPendingAgents r)" "keepsH I (handleListClusters r)" "keepsH I (handleGetCluster r)"
    "keepsH I (handleClusterStatus r)" "keepsH I (handleClusterPods r)" "keepsH I (handleClusterServices r)"
    "keepsH I (handleClusterDeployments r)" "keepsH I (handleClusterNamespaces r)" "keepsH I (handleClusterEvents r)"
    "keepsH I (handleListAlerts r)" "keepsH I (handleListAlertRules r)" "keepsH I (handleFleetTimeline srv r)"
    "keepsH I (handleClusterTimeline srv r)" "keepsH I (handleListPolicies r)" "keepsH I (handlePolicyResults srv r)"
    "keepsH I (handleClusterPolicyResults srv r)"
    unfolding handleMe_def handleListUsers_def handleListAuditEvents_def handleListPendingAgents_def
      handleListClusters_def handleGetCluster_def handleClusterStatus_def handleClusterPods_def
      handleClusterServices_def handleClusterDeployments_def handleClusterNamespaces_def handleClusterEvents_def
      handleListAlerts_def handleListAlertRules_def handleFleetTimeline_def handleClusterTimeline_def
      handleListPolicies_def handlePolicyResults_def handleClusterPolicyResults_def Let_def
    by (intro valid_intro)+
  ultimately show ?thesis by auto
qed

lemma requireAuth_exceptAudit:
  assumes "\<And>r. keepsH (\<lambda>t. exceptAudit t = v) (next r)"
  shows "keepsH (\<lambda>t. exceptAudit t = v) (requireAuth srv next r)"
  unfolding requireAuth_def by (intro valid_intro recordAudit_exceptAudit assms)

lemma requireRole_exceptAudit:
  assumes "\<And>r. keepsH (\<lambda>t. exceptAudit t = v) (next r)"
  shows "keepsH (\<lambda>t. exceptAudit t = v) (requireRole srv minimum next r)"
  unfolding requireRole_def
  by (rule requireAuth_exceptAudit) (intro valid_intro recordAudit_exceptAudit assms)

lemma fallback_keeps: "keepsH I (apiJSONFallback rts r)"
  unfolding apiJSONFallback_def by (intro valid_intro)

lemma serveAPI_get:
  assumes "rq_Method r = ''GET'' \<or> rq_Method r = ''HEAD''"
  shows "keepsH (\<lambda>t. exceptAudit t = v) (serveAPI srv b r)"
proof (cases "findRoute (apiRoutes srv b) r")
  case None
  then show ?thesis unfolding serveAPI_def by (simp only: option.case) (rule fallback_keeps)
next
  case (Some x)
  obtain a handle m where x: "x = (a, handle, m)" by (cases x)
  from findRoute_serves [OF Some [unfolded x]] obtain p where p: "(p, a, handle) \<in> set (apiRoutes srv b)"
    and s: "serves_request r p" by blast
  have "p \<in> set (map fst (apiRoutes srv b))" using image_eqI [of p fst "(p, a, handle)"] p by simp
  then have "p \<in> set routePatterns" by (simp only: route_patterns)
  moreover have "list_all (\<lambda>p. fst p \<noteq> ''HEAD'') routePatterns" by (simp add: routePatterns_def)
  ultimately have "fst p \<noteq> ''HEAD''" unfolding list_all_iff by blast
  then have "fst p = ''GET''" using s assms by (auto simp: serves_request_def matchMethod_def)
  from get_routes_read [OF p this] have "keepsH (\<lambda>t. exceptAudit t = v) (handle r)" for r .
  then show ?thesis using Some x
    by (cases a) (simp_all add: serveAPI_def guarded_def requireAuth_exceptAudit requireRole_exceptAudit)
qed

text \<open>C35: In demo mode no API request of any kind changes a table, apart from denials appended to the
  audit log.\<close>

theorem demo_read_only:
  assumes "srv_DemoMode srv" and "serveHTTP srv b r h = (res, h')"
  shows "exceptAudit (hubTables h') = exceptAudit (hubTables h)"
proof -
  let ?v = "exceptAudit (hubTables h)"
  have "keepsH (\<lambda>t. exceptAudit t = ?v) (withDemoReadOnly (serveAPI srv b) r)" for r
    unfolding withDemoReadOnly_def by (intro valid_intro serveAPI_get)
  then have "keepsH (\<lambda>t. exceptAudit t = ?v) (serveHTTP srv b r)"
    unfolding serveHTTP_def using assms(1) by (intro middleware_keep(1)) simp
  from keepsH_D [where I = "\<lambda>t. exceptAudit t = ?v", OF assms(2) refl this] show ?thesis .
qed

theorem demo_read_only_witness:
  "exceptAudit (hubTables (snd (serveHTTP (sampleServer\<lparr>srv_DemoMode := True\<rparr>) sampleBodies sampleDelete sampleHub))) =
     exceptAudit (hubTables sampleHub)"
  by (rule demo_read_only [OF _ prod.collapse [symmetric]]) simp

end
