(* ===== verification/LogRelay.thy ===== *)
theory LogRelay
  imports GoLib
begin

text \<open>
  \<open>internal/server/logrelay.go\<close>: the reverse channels of the agents and the log streams multiplexed
  over them. Connections and stream queues are objects shared by pointer, so the state holds them
  in two lists and a pointer is an index. Each operation below runs under the connection's mutex
  (or the relay's), so it is one step; \<open>relay_step\<close> interleaves them in any order. A send on a
  closed channel, or a second close, sets \<open>lr_panic\<close>, as it panics in Go.
\<close>

section \<open>State\<close>

record LogStreamMessage =
  lm_Type :: string
  lm_StreamID :: string
  lm_Namespace :: string
  lm_Pod :: string
  lm_Container :: string
  lm_Follow :: bool
  lm_TailLines :: int
  lm_Previous :: bool
  lm_SinceSeconds :: int
  lm_Line :: string
  lm_Error :: string

abbreviation LogStreamStart :: string where "LogStreamStart \<equiv> ''start''"
abbreviation LogStreamStop :: string where "LogStreamStop \<equiv> ''stop''"
abbreviation LogStreamData :: string where "LogStreamData \<equiv> ''data''"
abbreviation LogStreamEnd :: string where "LogStreamEnd \<equiv> ''end''"

definition agentSendQueueSize :: nat where "agentSendQueueSize = 64"
definition logStreamQueueSize :: nat where "logStreamQueueSize = 512"

record queue =
  q_buf :: "LogStreamMessage list"
  q_closed :: bool

record agentLogConn =
  ac_clusterID :: string
  ac_send :: "LogStreamMessage list"
  ac_streams :: "(string \<times> nat) list"
  ac_closed :: bool

record LogRelay =
  lr_agents :: "(string \<times> nat) list"
  lr_conns :: "agentLogConn list"
  lr_queues :: "queue list"
  lr_panic :: bool

definition NewLogRelay :: LogRelay where
  "NewLogRelay = \<lparr>lr_agents = [], lr_conns = [], lr_queues = [], lr_panic = False\<rparr>"

section \<open>Channels and maps\<close>

definition closeQueue :: "nat \<Rightarrow> LogRelay \<Rightarrow> LogRelay" where
  "closeQueue q r =
     (if q_closed (lr_queues r ! q) then r\<lparr>lr_panic := True\<rparr>
      else r\<lparr>lr_queues := (lr_queues r)[q := (lr_queues r ! q)\<lparr>q_closed := True\<rparr>]\<rparr>)"

text \<open>\<open>select { case queue <- message: ...; default: ... }\<close>: whether the message was taken.\<close>

definition trySend :: "nat \<Rightarrow> LogStreamMessage \<Rightarrow> LogRelay \<Rightarrow> bool \<times> LogRelay" where
  "trySend q message r =
     (if q_closed (lr_queues r ! q) then (True, r\<lparr>lr_panic := True\<rparr>)
      else if length (q_buf (lr_queues r ! q)) < logStreamQueueSize
      then (True, r\<lparr>lr_queues := (lr_queues r)
              [q := (lr_queues r ! q)\<lparr>q_buf := q_buf (lr_queues r ! q) @ [message]\<rparr>]\<rparr>)
      else (False, r))"

definition mapPut :: "string \<Rightarrow> nat \<Rightarrow> (string \<times> nat) list \<Rightarrow> (string \<times> nat) list" where
  "mapPut k v m = (k, v) # filter (\<lambda>p. fst p \<noteq> k) m"

definition mapDelete :: "string \<Rightarrow> (string \<times> nat) list \<Rightarrow> (string \<times> nat) list" where
  "mapDelete k m = filter (\<lambda>p. fst p \<noteq> k) m"

definition updConn :: "nat \<Rightarrow> (agentLogConn \<Rightarrow> agentLogConn) \<Rightarrow> LogRelay \<Rightarrow> LogRelay" where
  "updConn c f r = r\<lparr>lr_conns := (lr_conns r)[c := f (lr_conns r ! c)]\<rparr>"

section \<open>Operations of a connection\<close>

definition newAgentLogConn :: "string \<Rightarrow> LogRelay \<Rightarrow> nat \<times> LogRelay" where
  "newAgentLogConn clusterID r =
     (length (lr_conns r),
      r\<lparr>lr_conns := lr_conns r @
          [\<lparr>ac_clusterID = clusterID, ac_send = [], ac_streams = [], ac_closed = False\<rparr>]\<rparr>)"

definition dropStream :: "nat \<Rightarrow> string \<Rightarrow> nat \<Rightarrow> LogRelay \<Rightarrow> LogRelay" where
  "dropStream c sid q r = closeQueue q (updConn c (\<lambda>k. k\<lparr>ac_streams := mapDelete sid (ac_streams k)\<rparr>) r)"

definition deliverFrame :: "nat \<Rightarrow> LogStreamMessage \<Rightarrow> LogRelay \<Rightarrow> LogRelay" where
  "deliverFrame c message r =
     (case map_of (ac_streams (lr_conns r ! c)) (lm_StreamID message) of
        None \<Rightarrow> r
      | Some q \<Rightarrow>
          (case trySend q message r of
             (True, r') \<Rightarrow> if lm_Type message = LogStreamEnd then dropStream c (lm_StreamID message) q r' else r'
           | (False, r') \<Rightarrow> dropStream c (lm_StreamID message) q r'))"

text \<open>The loop over the map: each entry is deleted and its queue closed.\<close>

fun closeStreams :: "nat \<Rightarrow> (string \<times> nat) list \<Rightarrow> LogRelay \<Rightarrow> LogRelay" where
  "closeStreams c [] r = r"
| "closeStreams c ((sid, q) # rest) r = closeStreams c rest (dropStream c sid q r)"

definition closeAll :: "nat \<Rightarrow> LogRelay \<Rightarrow> LogRelay" where
  "closeAll c r =
     (if ac_closed (lr_conns r ! c) then r
      else closeStreams c (ac_streams (lr_conns r ! c)) (updConn c (\<lambda>k. k\<lparr>ac_closed := True\<rparr>) r))"

definition streamCount :: "nat \<Rightarrow> LogRelay \<Rightarrow> nat" where
  "streamCount c r = length (ac_streams (lr_conns r ! c))"

definition addStream :: "nat \<Rightarrow> string \<Rightarrow> LogRelay \<Rightarrow> nat option \<times> LogRelay" where
  "addStream c sid r =
     (if ac_closed (lr_conns r ! c) then (None, r)
      else let q = length (lr_queues r) in
        (Some q, updConn c (\<lambda>k. k\<lparr>ac_streams := mapPut sid q (ac_streams k)\<rparr>)
           (r\<lparr>lr_queues := lr_queues r @ [\<lparr>q_buf = [], q_closed = False\<rparr>]\<rparr>)))"

definition removeStream :: "nat \<Rightarrow> string \<Rightarrow> LogRelay \<Rightarrow> LogRelay" where
  "removeStream c sid r =
     (case map_of (ac_streams (lr_conns r ! c)) sid of None \<Rightarrow> r | Some q \<Rightarrow> dropStream c sid q r)"

definition enqueue :: "nat \<Rightarrow> LogStreamMessage \<Rightarrow> LogRelay \<Rightarrow> bool \<times> LogRelay" where
  "enqueue c message r =
     (if ac_closed (lr_conns r ! c) then (False, r)
      else if length (ac_send (lr_conns r ! c)) < agentSendQueueSize
      then (True, updConn c (\<lambda>k. k\<lparr>ac_send := ac_send k @ [message]\<rparr>) r)
      else (False, r))"

section \<open>Operations of the relay\<close>

definition registerMap :: "nat \<Rightarrow> LogRelay \<Rightarrow> nat option \<times> LogRelay" where
  "registerMap c r =
     (let cid = ac_clusterID (lr_conns r ! c) in
      (map_of (lr_agents r) cid, r\<lparr>lr_agents := mapPut cid c (lr_agents r)\<rparr>))"

definition registerConn :: "nat \<Rightarrow> LogRelay \<Rightarrow> LogRelay" where
  "registerConn c r =
     (case registerMap c r of
        (None, r') \<Rightarrow> r'
      | (Some previous, r') \<Rightarrow> if previous \<noteq> c then closeAll previous r' else r')"

definition unregisterMap :: "nat \<Rightarrow> LogRelay \<Rightarrow> LogRelay" where
  "unregisterMap c r =
     (let cid = ac_clusterID (lr_conns r ! c) in
      if map_of (lr_agents r) cid = Some c then r\<lparr>lr_agents := mapDelete cid (lr_agents r)\<rparr> else r)"

definition unregisterConn :: "nat \<Rightarrow> LogRelay \<Rightarrow> LogRelay" where
  "unregisterConn c r = closeAll c (unregisterMap c r)"

definition Connected :: "string \<Rightarrow> LogRelay \<Rightarrow> bool" where
  "Connected clusterID r = (map_of (lr_agents r) clusterID \<noteq> None)"

definition ConnectedAgents :: "LogRelay \<Rightarrow> nat" where
  "ConnectedAgents r = length (lr_agents r)"

definition ActiveStreams :: "LogRelay \<Rightarrow> nat" where
  "ActiveStreams r = sum_list (map (\<lambda>(cid, c). streamCount c r) (lr_agents r))"

record logStreamRequest =
  ls_Namespace :: string
  ls_Pod :: string
  ls_Container :: string
  ls_Follow :: bool
  ls_TailLines :: int
  ls_Previous :: bool
  ls_SinceSeconds :: int

datatype relay_error = errNoAgentConnected | errAgentChannelClosed

record logStream =
  st_id :: string
  st_conn :: nat
  st_messages :: nat

definition openStream ::
  "string \<Rightarrow> logStreamRequest \<Rightarrow> string \<Rightarrow> LogRelay \<Rightarrow> (relay_error + logStream) \<times> LogRelay" where
  "openStream clusterID request sid r =
     (case map_of (lr_agents r) clusterID of
        None \<Rightarrow> (Inl errNoAgentConnected, r)
      | Some c \<Rightarrow>
          (case addStream c sid r of
             (None, r1) \<Rightarrow> (Inl errNoAgentConnected, r1)
           | (Some q, r1) \<Rightarrow>
               (case enqueue c \<lparr>lm_Type = LogStreamStart, lm_StreamID = sid, lm_Namespace = ls_Namespace request,
                      lm_Pod = ls_Pod request, lm_Container = ls_Container request, lm_Follow = ls_Follow request,
                      lm_TailLines = ls_TailLines request, lm_Previous = ls_Previous request,
                      lm_SinceSeconds = ls_SinceSeconds request, lm_Line = '''', lm_Error = ''''\<rparr> r1 of
                  (True, r2) \<Rightarrow> (Inr \<lparr>st_id = sid, st_conn = c, st_messages = q\<rparr>, r2)
                | (False, r2) \<Rightarrow> (Inl errAgentChannelClosed, removeStream c sid r2))))"

definition stopFrame :: "string \<Rightarrow> LogStreamMessage" where
  "stopFrame sid = \<lparr>lm_Type = LogStreamStop, lm_StreamID = sid, lm_Namespace = '''', lm_Pod = '''', lm_Container = '''',
     lm_Follow = False, lm_TailLines = 0, lm_Previous = False, lm_SinceSeconds = 0, lm_Line = '''', lm_Error = ''''\<rparr>"

definition closeStream :: "logStream \<Rightarrow> LogRelay \<Rightarrow> LogRelay" where
  "closeStream s r = removeStream (st_conn s) (st_id s) (snd (enqueue (st_conn s) (stopFrame (st_id s)) r))"

section \<open>Interleaving\<close>

text \<open>
  \<open>enqueue\<close> gives up the mutex before it sends, so a frame may also reach the send queue of a
  connection that was closed in between. The last two steps are the writer goroutine and an SSE
  handler taking a frame.
\<close>

inductive relay_step :: "LogRelay \<Rightarrow> LogRelay \<Rightarrow> bool" where
  "relay_step r (snd (newAgentLogConn cid r))"
| "c < length (lr_conns r) \<Longrightarrow> relay_step r (snd (registerMap c r))"
| "c < length (lr_conns r) \<Longrightarrow> relay_step r (unregisterMap c r)"
| "c < length (lr_conns r) \<Longrightarrow> relay_step r (deliverFrame c message r)"
| "c < length (lr_conns r) \<Longrightarrow> relay_step r (closeAll c r)"
| "c < length (lr_conns r) \<Longrightarrow> relay_step r (snd (addStream c sid r))"
| "c < length (lr_conns r) \<Longrightarrow> relay_step r (removeStream c sid r)"
| "c < length (lr_conns r) \<Longrightarrow> relay_step r (snd (enqueue c message r))"
| "c < length (lr_conns r) \<Longrightarrow> length (ac_send (lr_conns r ! c)) < agentSendQueueSize \<Longrightarrow>
     relay_step r (updConn c (\<lambda>k. k\<lparr>ac_send := ac_send k @ [message]\<rparr>) r)"
| "c < length (lr_conns r) \<Longrightarrow> relay_step r (updConn c (\<lambda>k. k\<lparr>ac_send := tl (ac_send k)\<rparr>) r)"
| "q < length (lr_queues r) \<Longrightarrow>
     relay_step r (r\<lparr>lr_queues := (lr_queues r)[q := (lr_queues r ! q)\<lparr>q_buf := tl (q_buf (lr_queues r ! q))\<rparr>]\<rparr>)"

inductive_cases relay_stepE: "relay_step r r'"

definition relay_reachable :: "LogRelay \<Rightarrow> bool" where
  "relay_reachable r = relay_step\<^sup>*\<^sup>* NewLogRelay r"

section \<open>The invariant\<close>

definition serves :: "LogRelay \<Rightarrow> nat \<Rightarrow> string \<Rightarrow> nat \<Rightarrow> bool" where
  "serves r c sid q \<longleftrightarrow> c < length (lr_conns r) \<and> (sid, q) \<in> set (ac_streams (lr_conns r ! c))"

text \<open>
  Every queue that a stream map refers to is open and belongs to one entry; a closed connection,
  except one being closed (\<open>E\<close>), serves no stream; the queues are bounded; nothing has panicked.
\<close>

definition conn_ok :: "nat set \<Rightarrow> nat \<Rightarrow> agentLogConn \<Rightarrow> bool" where
  "conn_ok E c k \<longleftrightarrow> distinct (map fst (ac_streams k)) \<and> (ac_closed k \<and> c \<notin> E \<longrightarrow> ac_streams k = []) \<and>
     length (ac_send k) \<le> agentSendQueueSize"

definition relayI :: "nat set \<Rightarrow> LogRelay \<Rightarrow> bool" where
  "relayI E r \<longleftrightarrow>
     \<not> lr_panic r \<and>
     (\<forall>c sid q. serves r c sid q \<longrightarrow> q < length (lr_queues r) \<and> \<not> q_closed (lr_queues r ! q)) \<and>
     (\<forall>c sid c' sid' q. serves r c sid q \<and> serves r c' sid' q \<longrightarrow> c = c' \<and> sid = sid') \<and>
     (\<forall>c < length (lr_conns r). conn_ok E c (lr_conns r ! c)) \<and>
     (\<forall>q < length (lr_queues r). length (q_buf (lr_queues r ! q)) \<le> logStreamQueueSize) \<and>
     distinct (map fst (lr_agents r)) \<and> (\<forall>(cid, c) \<in> set (lr_agents r). c < length (lr_conns r))"

lemma relayI_D:
  assumes "relayI E r"
  shows "\<not> lr_panic r"
    and "serves r c sid q \<Longrightarrow> q < length (lr_queues r) \<and> \<not> q_closed (lr_queues r ! q)"
    and "serves r c sid q \<Longrightarrow> serves r c' sid' q \<Longrightarrow> c = c' \<and> sid = sid'"
    and "c < length (lr_conns r) \<Longrightarrow> conn_ok E c (lr_conns r ! c)"
    and "q < length (lr_queues r) \<Longrightarrow> length (q_buf (lr_queues r ! q)) \<le> logStreamQueueSize"
    and "distinct (map fst (lr_agents r))"
    and "(cid, c) \<in> set (lr_agents r) \<Longrightarrow> c < length (lr_conns r)"
  using assms unfolding relayI_def by blast+

lemma relayI_I:
  assumes "\<not> lr_panic r"
    and "\<And>c sid q. serves r c sid q \<Longrightarrow> q < length (lr_queues r) \<and> \<not> q_closed (lr_queues r ! q)"
    and "\<And>c sid c' sid' q. serves r c sid q \<Longrightarrow> serves r c' sid' q \<Longrightarrow> c = c' \<and> sid = sid'"
    and "\<And>c. c < length (lr_conns r) \<Longrightarrow> conn_ok E c (lr_conns r ! c)"
    and "\<And>q. q < length (lr_queues r) \<Longrightarrow> length (q_buf (lr_queues r ! q)) \<le> logStreamQueueSize"
    and "distinct (map fst (lr_agents r))"
    and "\<And>cid c. (cid, c) \<in> set (lr_agents r) \<Longrightarrow> c < length (lr_conns r)"
  shows "relayI E r"
  using assms unfolding relayI_def by blast

lemma updConn_simps [simp]:
  "lr_panic (updConn c f r) = lr_panic r" "lr_queues (updConn c f r) = lr_queues r"
  "lr_agents (updConn c f r) = lr_agents r" "length (lr_conns (updConn c f r)) = length (lr_conns r)"
  by (simp_all add: updConn_def)

lemma updConn_nth: "c' < length (lr_conns r) \<Longrightarrow>
    lr_conns (updConn c f r) ! c' = (if c' = c then f (lr_conns r ! c) else lr_conns r ! c')"
  by (simp add: updConn_def nth_list_update)

lemma closeQueue_simps [simp]:
  "lr_conns (closeQueue q r) = lr_conns r" "lr_agents (closeQueue q r) = lr_agents r"
  "length (lr_queues (closeQueue q r)) = length (lr_queues r)"
  "q' < length (lr_queues r) \<Longrightarrow> q_buf (lr_queues (closeQueue q r) ! q') = q_buf (lr_queues r ! q')"
  by (simp_all add: closeQueue_def nth_list_update) (metis nth_list_update_eq nth_list_update_neq queue.select_convs(1) queue.surjective queue.update_convs(2))

lemma mapDelete_simps [simp]:
  "(sid', q) \<in> set (mapDelete sid m) \<longleftrightarrow> (sid', q) \<in> set m \<and> sid' \<noteq> sid"
  "distinct (map fst m) \<Longrightarrow> distinct (map fst (mapDelete sid m))"
  "mapDelete sid [] = []"
  by (auto simp: mapDelete_def GoLib.distinct_map_filter)

lemma mapPut_simps [simp]:
  "(k', v') \<in> set (mapPut k v m) \<longleftrightarrow> (k' = k \<and> v' = v) \<or> (k' \<noteq> k \<and> (k', v') \<in> set m)"
  "distinct (map fst m) \<Longrightarrow> distinct (map fst (mapPut k v m))"
  by (auto simp: mapPut_def GoLib.distinct_map_filter)

lemma serves_dropStream:
  "serves (dropStream c sid q r) c' sid' q' \<longleftrightarrow> serves r c' sid' q' \<and> \<not> (c' = c \<and> sid' = sid)"
  by (auto simp: serves_def dropStream_def updConn_nth split: if_splits)

lemma relayI_dropStream:
  assumes I: "relayI E r" and u: "serves r c sid q"
  shows "relayI E (dropStream c sid q r)"
proof (rule relayI_I)
  note q = relayI_D(2) [OF I u]
  show "\<not> lr_panic (dropStream c sid q r)"
    using q relayI_D(1) [OF I] by (simp add: dropStream_def closeQueue_def)
  fix c1 sid1 q1 assume s: "serves (dropStream c sid q r) c1 sid1 q1"
  then have "serves r c1 sid1 q1" and "q1 \<noteq> q"
    using relayI_D(3) [OF I u] by (auto simp: serves_dropStream)
  then show "q1 < length (lr_queues (dropStream c sid q r)) \<and> \<not> q_closed (lr_queues (dropStream c sid q r) ! q1)"
    using relayI_D(2) [OF I, of c1 sid1 q1] q by (simp add: dropStream_def closeQueue_def)
next
  fix c1 assume "c1 < length (lr_conns (dropStream c sid q r))"
  then show "conn_ok E c1 (lr_conns (dropStream c sid q r) ! c1)"
    using relayI_D(4) [OF I, of c1] by (auto simp: dropStream_def updConn_nth conn_ok_def)
next
  fix c1 s1 c2 s2 q1 assume "serves (dropStream c sid q r) c1 s1 q1" and "serves (dropStream c sid q r) c2 s2 q1"
  then show "c1 = c2 \<and> s1 = s2" using relayI_D(3) [OF I] unfolding serves_dropStream by blast
qed (use relayI_D(5,6,7) [OF I] in \<open>auto simp: dropStream_def\<close>)

text \<open>Changes of a connection that leave its streams as they are.\<close>

lemma relayI_updConn:
  assumes I: "relayI E r" and "ac_streams (f (lr_conns r ! c)) = ac_streams (lr_conns r ! c)"
    and "c < length (lr_conns r) \<Longrightarrow> conn_ok E' c (f (lr_conns r ! c))" and "E' = E \<or> E' = insert c E"
  shows "relayI E' (updConn c f r)"
proof -
  have s: "serves (updConn c f r) c' sid q \<longleftrightarrow> serves r c' sid q" for c' sid q
    using assms(2) by (auto simp: serves_def updConn_nth split: if_splits)
  show ?thesis
  proof (rule relayI_I)
    fix c1 assume "c1 < length (lr_conns (updConn c f r))"
    then show "conn_ok E' c1 (lr_conns (updConn c f r) ! c1)"
      using relayI_D(4) [OF I, of c1] assms(3,4) by (auto simp: updConn_nth conn_ok_def)
  qed (use relayI_D [OF I] s in auto)
qed

lemma dropStream_length [simp]: "length (lr_conns (dropStream c sid q r)) = length (lr_conns r)"
  by (simp add: dropStream_def)

lemma closeStreams_inv:
  "relayI {c} r \<Longrightarrow> c < length (lr_conns r) \<Longrightarrow> ss = ac_streams (lr_conns r ! c) \<Longrightarrow>
     relayI {c} (closeStreams c ss r) \<and> length (lr_conns (closeStreams c ss r)) = length (lr_conns r) \<and>
     ac_streams (lr_conns (closeStreams c ss r) ! c) = []"
proof (induction c ss r rule: closeStreams.induct)
  case (2 c sid q rest r)
  have u: "serves r c sid q" using 2(3) 2(4) [symmetric] by (simp add: serves_def)
  have "distinct (map fst ((sid, q) # rest))"
    using relayI_D(4) [OF 2(2,3)] 2(4) by (simp add: conn_ok_def)
  then have "mapDelete sid ((sid, q) # rest) = rest"
    unfolding mapDelete_def by (auto simp: filter_id_conv image_iff)
  then have "rest = ac_streams (lr_conns (dropStream c sid q r) ! c)"
    using 2(3) 2(4) [symmetric] by (simp add: dropStream_def updConn_nth)
  from 2(1) [OF relayI_dropStream [OF 2(2) u] _ this] 2(3) show ?case by simp
qed auto

lemma relayI_closeAll:
  assumes I: "relayI {} r" and c: "c < length (lr_conns r)"
  shows "relayI {} (closeAll c r)"
proof (cases "ac_closed (lr_conns r ! c)")
  case True
  with I show ?thesis by (simp add: closeAll_def)
next
  case False
  let ?r1 = "updConn c (\<lambda>k. k\<lparr>ac_closed := True\<rparr>) r"
  let ?r2 = "closeStreams c (ac_streams (lr_conns r ! c)) ?r1"
  have "relayI {c} ?r1"
    by (rule relayI_updConn [OF I]) (use relayI_D(4) [OF I c] in \<open>auto simp: conn_ok_def\<close>)
  from closeStreams_inv [OF this] c
  have r2: "relayI {c} ?r2" "ac_streams (lr_conns ?r2 ! c) = []" by (simp_all add: updConn_nth)
  have "relayI {} ?r2"
  proof (rule relayI_I)
    fix c1 assume "c1 < length (lr_conns ?r2)"
    then show "conn_ok {} c1 (lr_conns ?r2 ! c1)"
      using relayI_D(4) [OF r2(1), of c1] r2(2) by (cases "c1 = c") (auto simp: conn_ok_def)
  qed (use relayI_D [OF r2(1)] in blast)+
  with False show ?thesis by (simp add: closeAll_def)
qed

lemma relayI_trySend:
  assumes I: "relayI E r" and u: "serves r c sid q" and t: "trySend q message r = (b, r')"
  shows "relayI E r' \<and> serves r' c sid q \<and> length (lr_conns r') = length (lr_conns r)"
proof -
  note q = relayI_D(2) [OF I u]
  have r': "r' = r \<or> (length (q_buf (lr_queues r ! q)) < logStreamQueueSize \<and>
      r' = r\<lparr>lr_queues := (lr_queues r)[q := (lr_queues r ! q)\<lparr>q_buf := q_buf (lr_queues r ! q) @ [message]\<rparr>]\<rparr>)"
    using t q by (auto simp: trySend_def split: if_splits)
  have s: "serves r' x y z = serves r x y z" for x y z using r' by (auto simp: serves_def)
  have "relayI E r'"
  proof (rule relayI_I)
    fix c1 sid1 q1 assume "serves r' c1 sid1 q1"
    then show "q1 < length (lr_queues r') \<and> \<not> q_closed (lr_queues r' ! q1)"
      using relayI_D(2) [OF I, of c1 sid1 q1] r' s by (cases "q1 = q") auto
  next
    fix q1 assume "q1 < length (lr_queues r')"
    then show "length (q_buf (lr_queues r' ! q1)) \<le> logStreamQueueSize"
      using relayI_D(5) [OF I, of q1] r' by (cases "q1 = q") auto
  qed (use relayI_D(1,3,4,6,7) [OF I] r' s in auto)
  with s u r' show ?thesis by auto
qed

lemma relayI_deliverFrame:
  assumes I: "relayI E r" and c: "c < length (lr_conns r)"
  shows "relayI E (deliverFrame c message r)"
proof (cases "map_of (ac_streams (lr_conns r ! c)) (lm_StreamID message)")
  case None
  with I show ?thesis by (simp add: deliverFrame_def)
next
  case (Some q)
  then have u: "serves r c (lm_StreamID message) q" using c by (simp add: serves_def map_of_SomeD)
  obtain b r' where t: "trySend q message r = (b, r')" by fastforce
  from relayI_trySend [OF I u t] relayI_dropStream
  show ?thesis using Some t by (cases b) (auto simp: deliverFrame_def)
qed

lemma relayI_addStream:
  assumes I: "relayI {} r" and c: "c < length (lr_conns r)"
  shows "relayI {} (snd (addStream c sid r))"
proof (cases "ac_closed (lr_conns r ! c)")
  case True
  with I show ?thesis by (simp add: addStream_def)
next
  case False
  let ?r = "snd (addStream c sid r)" and ?n = "length (lr_queues r)"
  have conns: "c1 < length (lr_conns r) \<Longrightarrow> lr_conns ?r ! c1 =
      (if c1 = c then (lr_conns r ! c)\<lparr>ac_streams := mapPut sid ?n (ac_streams (lr_conns r ! c))\<rparr> else lr_conns r ! c1)" for c1
    using False by (simp add: addStream_def updConn_def Let_def nth_list_update)
  have other: "lr_panic ?r = lr_panic r" "lr_agents ?r = lr_agents r" "length (lr_conns ?r) = length (lr_conns r)"
    "lr_queues ?r = lr_queues r @ [\<lparr>q_buf = [], q_closed = False\<rparr>]"
    using False by (simp_all add: addStream_def updConn_def Let_def)
  have s: "serves ?r c1 s1 q1 \<longleftrightarrow> (c1 = c \<and> s1 = sid \<and> q1 = ?n) \<or> (serves r c1 s1 q1 \<and> \<not> (c1 = c \<and> s1 = sid))" for c1 s1 q1
    using c by (auto simp: serves_def other conns split: if_splits)
  show ?thesis
  proof (rule relayI_I)
    fix c1 s1 q1 assume "serves ?r c1 s1 q1"
    then show "q1 < length (lr_queues ?r) \<and> \<not> q_closed (lr_queues ?r ! q1)"
      using relayI_D(2) [OF I, of c1 s1 q1] by (auto simp: s other nth_append)
  next
    fix c1 s1 c2 s2 q1 assume "serves ?r c1 s1 q1" and "serves ?r c2 s2 q1"
    then show "c1 = c2 \<and> s1 = s2"
      using relayI_D(3) [OF I, of c1 s1 q1 c2 s2] relayI_D(2) [OF I] unfolding s by blast
  next
    fix c1 assume "c1 < length (lr_conns ?r)"
    then show "conn_ok {} c1 (lr_conns ?r ! c1)"
      using relayI_D(4) [OF I, of c1] False by (auto simp: other conns conn_ok_def)
  next
    fix q1 assume "q1 < length (lr_queues ?r)"
    then show "length (q_buf (lr_queues ?r ! q1)) \<le> logStreamQueueSize"
      using relayI_D(5) [OF I, of q1] by (auto simp: other nth_append)
  qed (use relayI_D(1,6,7) [OF I] in \<open>auto simp: other\<close>)
qed

lemma relayI_agents:
  assumes I: "relayI E r" and "distinct (map fst m)" and "\<And>cid c. (cid, c) \<in> set m \<Longrightarrow> c < length (lr_conns r)"
  shows "relayI E (r\<lparr>lr_agents := m\<rparr>)"
proof -
  have "serves (r\<lparr>lr_agents := m\<rparr>) x y z = serves r x y z" for x y z by (simp add: serves_def)
  with relayI_D(1-5) [OF I] assms(2,3) show ?thesis by (intro relayI_I) auto
qed

lemma relayI_newConn:
  assumes I: "relayI {} r"
  shows "relayI {} (snd (newAgentLogConn cid r))"
proof -
  let ?r = "snd (newAgentLogConn cid r)"
  have s: "serves ?r x y z = serves r x y z" for x y z
    by (auto simp: serves_def newAgentLogConn_def nth_append)
  show ?thesis
  proof (rule relayI_I)
    fix c assume "c < length (lr_conns ?r)"
    then show "conn_ok {} c (lr_conns ?r ! c)"
      using relayI_D(4) [OF I, of c] by (auto simp: newAgentLogConn_def nth_append conn_ok_def)
  next
    fix k c assume "(k, c) \<in> set (lr_agents ?r)"
    then show "c < length (lr_conns ?r)" using relayI_D(7) [OF I, of k c] by (simp add: newAgentLogConn_def)
  qed (use relayI_D(1-3,5,6) [OF I] s in \<open>auto simp: newAgentLogConn_def\<close>)
qed

lemma relayI_receive:
  assumes I: "relayI E r"
  shows "relayI E (r\<lparr>lr_queues := (lr_queues r)[q := (lr_queues r ! q)\<lparr>q_buf := tl (q_buf (lr_queues r ! q))\<rparr>]\<rparr>)"
    (is "relayI E ?r")
proof -
  have s: "serves ?r x y z = serves r x y z" for x y z by (simp add: serves_def)
  show ?thesis
  proof (rule relayI_I)
    fix c1 s1 q1 assume "serves ?r c1 s1 q1"
    then show "q1 < length (lr_queues ?r) \<and> \<not> q_closed (lr_queues ?r ! q1)"
      using relayI_D(2) [OF I, of c1 s1 q1] s by (cases "q1 = q") auto
  next
    fix q1 assume "q1 < length (lr_queues ?r)"
    then show "length (q_buf (lr_queues ?r ! q1)) \<le> logStreamQueueSize"
      using relayI_D(5) [OF I, of q1] by (cases "q1 = q") auto
  qed (use relayI_D(1,3,4,6,7) [OF I] s in auto)
qed

lemma relay_step_inv:
  assumes "relay_step r r'" and I: "relayI {} r"
  shows "relayI {} r'"
  using assms(1)
proof (cases rule: relay_step.cases)
  case (1 cid) with relayI_newConn [OF I] show ?thesis by simp
next
  case (2 c)
  then show ?thesis unfolding registerMap_def Let_def
    using relayI_D(6,7) [OF I] by (auto intro!: relayI_agents [OF I])
next
  case (3 c)
  then show ?thesis unfolding unregisterMap_def Let_def
    using relayI_D(6,7) [OF I] I by (auto intro!: relayI_agents [OF I])
next
  case (4 c m) with relayI_deliverFrame [OF I] show ?thesis by simp
next
  case (5 c) with relayI_closeAll [OF I] show ?thesis by simp
next
  case (6 c sid) with relayI_addStream [OF I] show ?thesis by simp
next
  case (7 c sid)
  with relayI_dropStream [OF I] I show ?thesis
    by (auto simp: removeStream_def serves_def map_of_SomeD split: option.splits)
next
  case (8 c m)
  with I show ?thesis unfolding enqueue_def
    by (auto intro!: relayI_updConn [OF I] simp: conn_ok_def dest!: relayI_D(4))
next
  case (9 c m)
  show ?thesis unfolding 9
    by (rule relayI_updConn [OF I]) (use 9 relayI_D(4) [OF I, of c] in \<open>auto simp: conn_ok_def\<close>)
next
  case (10 c)
  show ?thesis unfolding 10
    by (rule relayI_updConn [OF I]) (use 10 relayI_D(4) [OF I, of c] in \<open>auto simp: conn_ok_def\<close>)
next
  case (11 q) with relayI_receive [OF I] show ?thesis by simp
qed

lemma relayI_new: "relayI {} NewLogRelay"
  by (rule relayI_I) (simp_all add: NewLogRelay_def serves_def)

lemma relay_reachable_inv: "relay_reachable r \<Longrightarrow> relayI {} r"
  unfolding relay_reachable_def by (induction rule: rtranclp_induct) (auto intro: relayI_new relay_step_inv)

end
