(* ===== verification/PodLogs.thy ===== *)
theory PodLogs
  imports ServerAgents LogRelay
begin

text \<open>
  \<open>internal/server/handlers_logs.go\<close>: the pod log stream. The request's parameters, the opening of a
  stream on the relay, the frames an agent may send, and the server-sent events written to the
  browser; then the line format of the event stream as the browser reads it (\<open>sseEvents\<close>, from the
  HTML standard), against which the writer is checked.
\<close>

section \<open>Parameters\<close>

definition defaultLogTailLines :: int where "defaultLogTailLines = 200"
definition maxLogTailLines :: int where "maxLogTailLines = 5000"

definition parseFollow :: "string \<Rightarrow> bool" where
  "parseFollow raw =
     (if TrimSpace raw = '''' then True
      else case ParseBool (TrimSpace raw) of None \<Rightarrow> True | Some follow \<Rightarrow> follow)"

definition parseTailLines :: "string \<Rightarrow> int" where
  "parseTailLines raw =
     (case ParseInt 64 (TrimSpace raw) of
        None \<Rightarrow> defaultLogTailLines
      | Some v \<Rightarrow> if v \<le> 0 then defaultLogTailLines
                  else if v > maxLogTailLines then maxLogTailLines else v)"

definition parsePrevious :: "string \<Rightarrow> bool" where
  "parsePrevious raw = (case ParseBool (TrimSpace raw) of None \<Rightarrow> False | Some previous \<Rightarrow> previous)"

definition parseSinceSeconds :: "string \<Rightarrow> int" where
  "parseSinceSeconds raw =
     (case ParseInt 64 (TrimSpace raw) of None \<Rightarrow> 0 | Some v \<Rightarrow> if v \<le> 0 then 0 else v)"

section \<open>Opening a stream\<close>

text \<open>The handler up to the stream: a live one, or the synthetic output of the demo.\<close>

datatype pod_logs = Live logStream | Demo logStreamRequest

definition podLogsRequest :: "Request \<Rightarrow> (Cluster \<times> logStreamRequest) handlerm" where
  "podLogsRequest r =
     bindm (resourceCluster r) (\<lambda>cluster.
     let ns = TrimSpace (rq_PathValue r ''namespace''); pod = TrimSpace (rq_PathValue r ''pod'') in
     if ns = '''' \<or> pod = '''' then WriteError 400 ''namespace and pod are required''
     else ret (cluster,
       \<lparr>ls_Namespace = ns, ls_Pod = pod, ls_Container = TrimSpace (rq_Query r ''container''),
        ls_Follow = parseFollow (rq_Query r ''follow''), ls_TailLines = parseTailLines (rq_Query r ''tailLines''),
        ls_Previous = parsePrevious (rq_Query r ''previous''),
        ls_SinceSeconds = parseSinceSeconds (rq_Query r ''sinceSeconds'')\<rparr>))"

definition handleClusterPodLogs ::
  "Server \<Rightarrow> string \<Rightarrow> Request \<Rightarrow> hub \<times> LogRelay \<Rightarrow> (response + pod_logs) \<times> hub \<times> LogRelay" where
  "handleClusterPodLogs srv sid r = (\<lambda>(h, relay).
     case podLogsRequest r h of
       (Inl e, h') \<Rightarrow> (Inl e, h', relay)
     | (Inr (cluster, request), h') \<Rightarrow>
         (case openStream (c_ID cluster) request sid relay of
            (Inr stream, relay') \<Rightarrow> (Inr (Live stream), h', relay')
          | (Inl err, relay') \<Rightarrow>
              if srv_DemoMode srv then (Inr (Demo request), h', relay')
              else (Inl \<lparr>rs_Status = 503, rs_Body = ErrorBody ''no agent is connected for this cluster''\<rparr>, h', relay')))"

text \<open>The agent's side: who may connect, and the frames that are passed on.\<close>

definition handleAgentLogStream :: "Server \<Rightarrow> Request \<Rightarrow> hub \<times> LogRelay \<Rightarrow> (response + nat) \<times> hub \<times> LogRelay" where
  "handleAgentLogStream srv r = (\<lambda>(h, relay).
     case authenticateAgentPath srv r h of
       (Inl e, h') \<Rightarrow> (Inl e, h', relay)
     | (Inr (cluster, approved), h') \<Rightarrow>
         if \<not> approved then (Inl \<lparr>rs_Status = 403, rs_Body = ErrorBody ''agent is pending approval''\<rparr>, h', relay)
         else (case newAgentLogConn (c_ID cluster) relay of
                 (c, relay1) \<Rightarrow> (Inr c, h', registerConn c relay1)))"

definition readAgentLogFrame :: "nat \<Rightarrow> LogStreamMessage \<Rightarrow> LogRelay \<Rightarrow> LogRelay" where
  "readAgentLogFrame c message relay =
     (if lm_Type message \<in> {LogStreamData, LogStreamEnd} then deliverFrame c message relay else relay)"

section \<open>Writing server-sent events\<close>

abbreviation CR :: char where "CR \<equiv> CHR 0x0D"
abbreviation LF :: char where "LF \<equiv> CHR 0x0A"

text \<open>\<open>strings.ReplaceAll(line, "\r\n", "\n")\<close>\<close>

fun replaceCRLF :: "string \<Rightarrow> string" where
  "replaceCRLF [] = []"
| "replaceCRLF [c] = [c]"
| "replaceCRLF (c # d # cs) =
     (if c = CR \<and> d = LF then LF # replaceCRLF cs else c # replaceCRLF (d # cs))"

definition writeSSEData :: "string \<Rightarrow> string" where
  "writeSSEData line =
     concat (map (\<lambda>part. ''data: '' @ part @ [LF]) (SplitC LF (replaceCRLF line))) @ [LF]"

definition writeSSEEvent :: "string \<Rightarrow> string \<Rightarrow> string" where
  "writeSSEEvent name payload = ''event: '' @ name @ [LF] @ ''data: '' @ payload @ [LF, LF]"

definition sseStreamErrorEvent :: string where "sseStreamErrorEvent = ''stream-error''"

text \<open>\<open>encode\<close> is \<open>json.Marshal\<close> of \<open>{"message": ...}\<close>, \<open>None\<close> its error.\<close>

definition sseErrorPayload :: "(string \<Rightarrow> string option) \<Rightarrow> string \<Rightarrow> string" where
  "sseErrorPayload encode message =
     (case encode message of
        None \<Rightarrow> [CHR ''{'', CHR 0x22] @ ''message'' @ [CHR 0x22, CHR '':'', CHR 0x22] @
          ''log stream failed'' @ [CHR 0x22, CHR ''}'']
      | Some payload \<Rightarrow> payload)"

definition writeSSEError :: "(string \<Rightarrow> string option) \<Rightarrow> string \<Rightarrow> string" where
  "writeSSEError encode message = writeSSEEvent sseStreamErrorEvent (sseErrorPayload encode message)"

text \<open>
  The handler's loop over the messages of its queue, which is then closed: what is written, and
  the messages left when it returned. A write error or the end of the request stops it earlier.
\<close>

fun streamPodLogs :: "(string \<Rightarrow> string option) \<Rightarrow> LogStreamMessage list \<Rightarrow> string \<times> LogStreamMessage list" where
  "streamPodLogs encode [] = (writeSSEError encode ''the agent log channel closed unexpectedly'', [])"
| "streamPodLogs encode (m # ms) =
     (if lm_Type m = LogStreamData then
        (case streamPodLogs encode ms of (out, rest) \<Rightarrow> (writeSSEData (lm_Line m) @ out, rest))
      else if lm_Type m = LogStreamEnd then
        (if lm_Error m \<noteq> '''' then writeSSEError encode (lm_Error m) else writeSSEEvent ''end'' ''{}'', ms)
      else streamPodLogs encode ms)"

section \<open>Synthetic output of the demo\<close>

definition demoLogBacklog :: int where "demoLogBacklog = 40"
definition demoLogInterval :: duration where "demoLogInterval = Second"

definition demoLogMessages :: "string list" where
  "demoLogMessages =
     [''handled request method=GET path=/healthz status=200 duration=3ms'',
      ''synthetic sample data only; no live cluster is attached'',
      ''cache warm complete entries=128'',
      ''reconcile loop finished changed=0'',
      ''published metrics sample points=42'',
      ''heartbeat ok peer=demo-control-plane'']"

definition demoLogLevels :: "string list" where
  "demoLogLevels = [''info'', ''info'', ''info'', ''debug'', ''warn'', ''info'']"

definition padRight :: "nat \<Rightarrow> string \<Rightarrow> string" where
  "padRight n s = s @ replicate (n - length s) (CHR '' '')"

definition demoLogLine :: "(time \<Rightarrow> string) \<Rightarrow> logStreamRequest \<Rightarrow> time \<Rightarrow> nat \<Rightarrow> string" where
  "demoLogLine formatTime request at index =
     (let container = (if ls_Container request = '''' then ''app'' else ls_Container request);
          slot = index mod length demoLogMessages
      in formatTime at @ '' '' @ padRight 5 (demoLogLevels ! slot) @ '' ['' @ ls_Namespace request @ ''/'' @
         ls_Pod request @ '':'' @ container @ ''] '' @ demoLogMessages ! slot)"

text \<open>The replayed backlog; following goes on with the next index on every tick.\<close>

definition demoBacklog :: "(time \<Rightarrow> string) \<Rightarrow> logStreamRequest \<Rightarrow> time \<Rightarrow> string" where
  "demoBacklog formatTime request now =
     (let backlog = min (ls_TailLines request) demoLogBacklog;
          started = time_Add now (- (backlog * demoLogInterval))
      in concat (map (\<lambda>index. writeSSEData (demoLogLine formatTime request
            (time_Add started (int index * demoLogInterval)) index)) [0..<nat backlog]) @
         (if ls_Follow request then '''' else writeSSEEvent ''end'' ''{}''))"

section \<open>Reading server-sent events\<close>

text \<open>Lines end with CR LF, LF or CR; an unfinished last line is not used.\<close>

definition dropLF :: "string \<Rightarrow> string" where
  "dropLF cs = (case cs of [] \<Rightarrow> [] | c # r \<Rightarrow> if c = LF then r else cs)"

lemma length_dropLF: "length (dropLF cs) \<le> length cs"
  by (simp add: dropLF_def split: list.splits)

function sseLines :: "string \<Rightarrow> string \<Rightarrow> string list" where
  "sseLines acc [] = []"
| "sseLines acc (c # cs) =
     (if c = LF then acc # sseLines [] cs
      else if c = CR then acc # sseLines [] (dropLF cs)
      else sseLines (acc @ [c]) cs)"
  by pat_completeness auto
termination
  by (relation "measure (\<lambda>(acc, cs). length cs)") (auto simp: le_imp_less_Suc length_dropLF)

text \<open>A field: its name and its value, without one leading space.\<close>

definition sseField :: "string \<Rightarrow> string \<times> string" where
  "sseField line =
     (case CutC (CHR '':'') line of None \<Rightarrow> (line, '''') | Some (name, v) \<Rightarrow> (name, TrimPrefix v '' ''))"

text \<open>The events as name and data; the lines of data received so far are \<open>buf\<close>.\<close>

fun sseEvents :: "string \<Rightarrow> string list \<Rightarrow> string list \<Rightarrow> (string \<times> string) list" where
  "sseEvents name buf [] = []"
| "sseEvents name buf (line # ls) =
     (if line = '''' then
        (if buf = [] then sseEvents '''' [] ls
         else (if name = '''' then ''message'' else name, Join [LF] buf) # sseEvents '''' [] ls)
      else case sseField line of (field, v) \<Rightarrow>
        if field = ''data'' then sseEvents name (buf @ [v]) ls
        else if field = ''event'' then sseEvents v buf ls
        else sseEvents name buf ls)"

definition sseParse :: "string \<Rightarrow> (string \<times> string) list" where
  "sseParse out = sseEvents '''' [] (sseLines '''' out)"

section \<open>What the browser reads\<close>

lemma sseLines_line:
  "LF \<notin> set l \<Longrightarrow> CR \<notin> set l \<Longrightarrow> sseLines acc (l @ LF # rest) = (acc @ l) # sseLines '''' rest"
  by (induction l arbitrary: acc) auto

lemma sseLines_data:
  "(\<And>p. p \<in> set ps \<Longrightarrow> LF \<notin> set p \<and> CR \<notin> set p) \<Longrightarrow>
     sseLines '''' (concat (map (\<lambda>part. ''data: '' @ part @ [LF]) ps) @ LF # rest) =
       map (\<lambda>p. ''data: '' @ p) ps @ '''' # sseLines '''' rest"
proof (induction ps)
  case (Cons p ps)
  have "sseLines '''' ((''data: '' @ p) @ LF # (concat (map (\<lambda>part. ''data: '' @ part @ [LF]) ps) @ LF # rest)) =
      (''data: '' @ p) # sseLines '''' (concat (map (\<lambda>part. ''data: '' @ part @ [LF]) ps) @ LF # rest)"
    using Cons.prems by (subst sseLines_line) auto
  with Cons show ?case by simp
qed simp

lemma sseField_data: "sseField (''data: '' @ p) = (''data'', p)"
  using CutC_append [of "CHR '':''" "''data''" "CHR '' '' # p"] by (simp add: sseField_def TrimPrefix_def)

lemma sseEvents_data:
  "sseEvents name buf (map (\<lambda>p. ''data: '' @ p) ps @ ls) = sseEvents name (buf @ ps) ls"
proof (induction ps arbitrary: buf)
  case (Cons p ps)
  have "sseEvents name buf ((''data: '' @ p) # ls') = sseEvents name (buf @ [p]) ls'" for ls'
    by (subst sseEvents.simps, subst sseField_data) simp
  with Cons show ?case by simp
qed simp

lemma Join_SplitC: "Join [c] (SplitC c s) = s"
proof (induction s)
  case (Cons x s)
  then show ?case
    by (cases "SplitC c s" rule: remdups_adj.cases) (auto)
qed simp

lemma SplitC_parts: "p \<in> set (SplitC c s) \<Longrightarrow> c \<notin> set p \<and> set p \<subseteq> set s"
proof (induction s arbitrary: p)
  case (Cons x s)
  show ?case
  proof (cases "x = c")
    case True
    with Cons show ?thesis by fastforce
  next
    case False
    obtain y ys where s: "SplitC c s = y # ys" by (cases "SplitC c s") auto
    with Cons.prems False have "p = x # y \<or> p \<in> set ys" by simp
    with Cons.IH [of y] Cons.IH [of p] s False show ?thesis by auto
  qed
qed simp

lemma sseParse_data:
  assumes "CR \<notin> set (replaceCRLF line)"
  shows "sseParse (writeSSEData line @ rest) = (''message'', replaceCRLF line) # sseParse rest"
proof -
  let ?ps = "SplitC LF (replaceCRLF line)"
  have "\<And>p. p \<in> set ?ps \<Longrightarrow> LF \<notin> set p \<and> CR \<notin> set p" using SplitC_parts assms by blast
  from sseLines_data [OF this, of ?ps rest] show ?thesis
    by (simp add: sseParse_def writeSSEData_def sseEvents_data [simplified] Join_SplitC)
qed

lemma sseParse_event:
  assumes "LF \<notin> set name" "CR \<notin> set name" "LF \<notin> set payload" "CR \<notin> set payload" "name \<noteq> ''''"
  shows "sseParse (writeSSEEvent name payload) = [(name, payload)]"
proof -
  have "sseLines '''' ((''event: '' @ name) @ LF # (''data: '' @ payload) @ LF # '''' @ LF # '''') =
      [''event: '' @ name, ''data: '' @ payload, '''']"
    using assms by (subst sseLines_line, simp, simp, subst sseLines_line, simp, simp) simp
  then have l: "sseLines '''' (writeSSEEvent name payload) = [''event: '' @ name, ''data: '' @ payload, '''']"
    by (simp add: writeSSEEvent_def)
  have e: "sseField (''event: '' @ name) = (''event'', name)"
    using CutC_append [of "CHR '':''" "''event''" "CHR '' '' # name"] by (simp add: sseField_def TrimPrefix_def)
  have "sseEvents '''' '''' ((''event: '' @ name) # ls) = sseEvents name [] ls" for ls
    by (subst sseEvents.simps, subst e) simp
  moreover have "sseEvents name [] ((''data: '' @ payload) # ls) = sseEvents name [payload] ls" for ls
    by (subst sseEvents.simps, subst sseField_data) simp
  ultimately show ?thesis using assms(5) by (simp add: sseParse_def l)
qed

text \<open>The events a browser should see: each line of output in order, then one last event.\<close>

fun podLogEvents :: "(string \<Rightarrow> string option) \<Rightarrow> LogStreamMessage list \<Rightarrow> (string \<times> string) list" where
  "podLogEvents encode [] =
     [(sseStreamErrorEvent, sseErrorPayload encode ''the agent log channel closed unexpectedly'')]"
| "podLogEvents encode (m # ms) =
     (if lm_Type m = LogStreamData then (''message'', replaceCRLF (lm_Line m)) # podLogEvents encode ms
      else if lm_Type m = LogStreamEnd then
        [if lm_Error m = '''' then (''end'', ''{}'') else (sseStreamErrorEvent, sseErrorPayload encode (lm_Error m))]
      else podLogEvents encode ms)"

lemma sseParse_error:
  assumes "\<And>m p. encode m = Some p \<Longrightarrow> LF \<notin> set p \<and> CR \<notin> set p"
  shows "sseParse (writeSSEError encode m) = [(sseStreamErrorEvent, sseErrorPayload encode m)]"
  unfolding writeSSEError_def using assms [of m]
  by (intro sseParse_event) (auto simp: sseErrorPayload_def sseStreamErrorEvent_def split: option.splits)

lemma streamPodLogs_events:
  assumes enc: "\<And>m p. encode m = Some p \<Longrightarrow> LF \<notin> set p \<and> CR \<notin> set p"
    and "\<And>m. m \<in> set ms \<Longrightarrow> CR \<notin> set (replaceCRLF (lm_Line m))"
  shows "sseParse (fst (streamPodLogs encode ms)) = podLogEvents encode ms"
  using assms(2)
proof (induction ms)
  case Nil
  show ?case by (simp add: sseParse_error enc)
next
  case (Cons m ms)
  have "sseParse (writeSSEEvent ''end'' ''{}'') = [(''end'', ''{}'')]" by (rule sseParse_event) simp_all
  with Cons show ?case
    by (auto simp: sseParse_data sseParse_error [OF enc] split: prod.splits)
qed

end
