(* ===== verification/LogFacts.thy ===== *)
theory LogFacts
  imports PodLogs Samples
begin

text \<open>
  The properties of the pod log path: the relay in every interleaving of agents, browsers and
  frames (from the invariant of \<open>LogRelay\<close>), the life of one stream, whose agent a browser reads from,
  and the server-sent events it receives.
\<close>

section \<open>The relay in every interleaving\<close>

text \<open>A relay with the agent of cluster \<open>c1\<close> connected.\<close>

definition relayJoined :: LogRelay where
  "relayJoined = snd (registerMap 0 (snd (newAgentLogConn ''c1'' NewLogRelay)))"

lemma relayJoined_eq:
  "relayJoined = \<lparr>lr_agents = [(''c1'', 0)],
     lr_conns = [\<lparr>ac_clusterID = ''c1'', ac_send = [], ac_streams = [], ac_closed = False\<rparr>],
     lr_queues = [], lr_panic = False\<rparr>"
  by (simp add: relayJoined_def registerMap_def newAgentLogConn_def NewLogRelay_def mapPut_def)

lemma relay_reachable_step: "relay_reachable r \<Longrightarrow> relay_step r r' \<Longrightarrow> relay_reachable r'"
  unfolding relay_reachable_def by (rule rtranclp.rtrancl_into_rtrancl)

lemma relayJoined_reachable: "relay_reachable relayJoined"
  unfolding relayJoined_def
  by (rule relay_reachable_step, rule relay_reachable_step [where r = NewLogRelay])
    (auto simp: relay_reachable_def newAgentLogConn_def intro: relay_step.intros relay_step.intros(1) [unfolded newAgentLogConn_def, simplified])

text \<open>C13: In every interleaving no queue is closed twice or sent to once closed, every queue in a stream table is
  open and no other entry has it, a closed connection serves no stream, and both kinds of queue respect their
  capacities.\<close>

theorem relay_safe:
  assumes "relay_reachable r"
  shows "\<not> lr_panic r \<and>
    list_all (\<lambda>k. (ac_closed k \<longrightarrow> ac_streams k = []) \<and> length (ac_send k) \<le> agentSendQueueSize \<and>
                  list_all (\<lambda>(sid, q). q < length (lr_queues r) \<and> \<not> q_closed (lr_queues r ! q)) (ac_streams k)) (lr_conns r) \<and>
    list_all (\<lambda>q. length (q_buf q) \<le> logStreamQueueSize) (lr_queues r) \<and>
    (\<forall>c sid q c' sid'. serves r c sid q \<and> serves r c' sid' q \<longrightarrow> c = c' \<and> sid = sid')"
proof -
  note I = relay_reachable_inv [OF assms]
  have "(ac_closed k \<longrightarrow> ac_streams k = []) \<and> length (ac_send k) \<le> agentSendQueueSize \<and>
      list_all (\<lambda>(sid, q). q < length (lr_queues r) \<and> \<not> q_closed (lr_queues r ! q)) (ac_streams k)"
    if k: "k \<in> set (lr_conns r)" for k
  proof -
    obtain c where c: "c < length (lr_conns r)" "k = lr_conns r ! c" using k by (metis in_set_conv_nth)
    then show ?thesis using relayI_D(4) [OF I c(1)] relayI_D(2) [OF I, of c]
      by (auto simp: conn_ok_def list_all_iff serves_def)
  qed
  moreover have "length (q_buf q) \<le> logStreamQueueSize" if "q \<in> set (lr_queues r)" for q
    using relayI_D(5) [OF I] that by (metis in_set_conv_nth)
  ultimately show ?thesis using relayI_D(1,3) [OF I] unfolding list_all_iff by blast
qed

theorem relay_safe_witness: "\<not> lr_panic relayJoined"
  using relay_safe [OF relayJoined_reachable] by blast

section \<open>The life of a stream\<close>

lemma mapPut_delete: "k \<notin> fst ` set m \<Longrightarrow> mapDelete k (mapPut k v m) = m"
  by (auto simp: mapPut_def mapDelete_def filter_id_conv)

text \<open>Opening a stream on a connected agent with a free place in its send queue succeeds with a fresh queue, and
  closing it again gives back the stream table as it was; the agent has been sent exactly the start frame
  with the request's parameters and the stop frame, and the queue is closed.\<close>

theorem stream_open_close:
  assumes "relay_reachable r" and agent: "map_of (lr_agents r) cid = Some c"
    and "\<not> ac_closed (lr_conns r ! c)" and room: "length (ac_send (lr_conns r ! c)) + 2 \<le> agentSendQueueSize"
    and fresh: "sid \<notin> fst ` set (ac_streams (lr_conns r ! c))"
  shows "\<exists>s r1. openStream cid request sid r = (Inr s, r1) \<and> st_messages s = length (lr_queues r) \<and>
      lr_conns (closeStream s r1) = (lr_conns r)[c := (lr_conns r ! c)\<lparr>ac_send := ac_send (lr_conns r ! c) @
        [\<lparr>lm_Type = LogStreamStart, lm_StreamID = sid, lm_Namespace = ls_Namespace request, lm_Pod = ls_Pod request,
          lm_Container = ls_Container request, lm_Follow = ls_Follow request, lm_TailLines = ls_TailLines request,
          lm_Previous = ls_Previous request, lm_SinceSeconds = ls_SinceSeconds request, lm_Line = '''', lm_Error = ''''\<rparr>,
         stopFrame sid]\<rparr>] \<and>
      lr_queues (closeStream s r1) = lr_queues r @ [\<lparr>q_buf = [], q_closed = True\<rparr>] \<and>
      lr_agents (closeStream s r1) = lr_agents r \<and> \<not> lr_panic (closeStream s r1)"
proof -
  note I = relay_reachable_inv [OF assms(1)]
  have c: "c < length (lr_conns r)" using relayI_D(7) [OF I] map_of_SomeD [OF agent] by blast
  let ?k = "lr_conns r ! c" and ?q = "length (lr_queues r)"
  let ?start = "\<lparr>lm_Type = LogStreamStart, lm_StreamID = sid, lm_Namespace = ls_Namespace request,
    lm_Pod = ls_Pod request, lm_Container = ls_Container request, lm_Follow = ls_Follow request,
    lm_TailLines = ls_TailLines request, lm_Previous = ls_Previous request,
    lm_SinceSeconds = ls_SinceSeconds request, lm_Line = '''', lm_Error = ''''\<rparr>"
  let ?s = "\<lparr>st_id = sid, st_conn = c, st_messages = ?q\<rparr>"
  let ?r1 = "r\<lparr>lr_conns := (lr_conns r)[c := ?k\<lparr>ac_streams := mapPut sid ?q (ac_streams ?k),
      ac_send := ac_send ?k @ [?start]\<rparr>], lr_queues := lr_queues r @ [\<lparr>q_buf = [], q_closed = False\<rparr>]\<rparr>"
  have 1: "openStream cid request sid r = (Inr ?s, ?r1)"
    using assms c by (simp add: openStream_def addStream_def enqueue_def updConn_def Let_def)
  have "map_of (mapPut sid ?q m) sid = Some ?q" for m by (simp add: mapPut_def)
  then have "lr_conns (closeStream ?s ?r1) = (lr_conns r)[c := ?k\<lparr>ac_send := ac_send ?k @ [?start, stopFrame sid]\<rparr>] \<and>
      lr_queues (closeStream ?s ?r1) = lr_queues r @ [\<lparr>q_buf = [], q_closed = True\<rparr>] \<and>
      lr_agents (closeStream ?s ?r1) = lr_agents r \<and> \<not> lr_panic (closeStream ?s ?r1)"
    using assms c relayI_D(1) [OF I]
    by (simp add: enqueue_def closeStream_def removeStream_def dropStream_def closeQueue_def updConn_def mapPut_delete)
  with 1 show ?thesis by (intro exI [of _ ?s] exI [of _ ?r1]) simp
qed

definition sampleLogRequest :: logStreamRequest where
  "sampleLogRequest = \<lparr>ls_Namespace = ''web'', ls_Pod = ''p'', ls_Container = '''', ls_Follow = True,
     ls_TailLines = 200, ls_Previous = False, ls_SinceSeconds = 0\<rparr>"

theorem stream_open_close_witness:
  "\<exists>s r1. openStream ''c1'' sampleLogRequest ''s1'' relayJoined = (Inr s, r1) \<and>
     lr_queues (closeStream s r1) = [\<lparr>q_buf = [], q_closed = True\<rparr>]"
  using stream_open_close [OF relayJoined_reachable, of "''c1''" 0 "''s1''" sampleLogRequest]
  by (auto simp: relayJoined_eq agentSendQueueSize_def)

section \<open>Whose agent\<close>

definition connIDs :: "LogRelay \<Rightarrow> string list" where
  "connIDs r = map ac_clusterID (lr_conns r)"

text \<open>The agent table files every connection under its own cluster.\<close>

definition agentsOwn :: "LogRelay \<Rightarrow> bool" where
  "agentsOwn r \<longleftrightarrow> (\<forall>(cid, c) \<in> set (lr_agents r). c < length (connIDs r) \<and> connIDs r ! c = cid)"

lemma connIDs_updConn: "(\<And>k. ac_clusterID (f k) = ac_clusterID k) \<Longrightarrow> connIDs (updConn c f r) = connIDs r"
  by (cases "c < length (lr_conns r)") (simp_all add: connIDs_def updConn_def map_update list_update_same_conv list_update_beyond)

lemma connIDs_updates [simp]: "connIDs (r\<lparr>lr_agents := m\<rparr>) = connIDs r" "connIDs (r\<lparr>lr_queues := qs\<rparr>) = connIDs r"
  "connIDs (r\<lparr>lr_panic := p\<rparr>) = connIDs r"
  by (simp_all add: connIDs_def)

lemma connIDs_simps [simp]:
  "connIDs (closeQueue q r) = connIDs r"
  "connIDs (dropStream c sid q r) = connIDs r" "lr_agents (dropStream c sid q r) = lr_agents r"
  "connIDs (snd (trySend q m r)) = connIDs r" "lr_agents (snd (trySend q m r)) = lr_agents r"
  by (simp_all add: closeQueue_def dropStream_def connIDs_updConn trySend_def)

lemma connIDs_closeStreams [simp]:
  "connIDs (closeStreams c ss r) = connIDs r" "lr_agents (closeStreams c ss r) = lr_agents r"
  by (induction c ss r rule: closeStreams.induct) simp_all

lemma connIDs_ops [simp]:
  "connIDs (closeAll c r) = connIDs r" "lr_agents (closeAll c r) = lr_agents r"
  "connIDs (snd (addStream c sid r)) = connIDs r" "lr_agents (snd (addStream c sid r)) = lr_agents r"
  "connIDs (removeStream c sid r) = connIDs r" "lr_agents (removeStream c sid r) = lr_agents r"
  "connIDs (snd (enqueue c m r)) = connIDs r" "lr_agents (snd (enqueue c m r)) = lr_agents r"
  by (auto simp: closeAll_def addStream_def removeStream_def enqueue_def Let_def connIDs_updConn split: option.splits)

lemma connIDs_deliverFrame [simp]:
  "connIDs (deliverFrame c m r) = connIDs r" "lr_agents (deliverFrame c m r) = lr_agents r"
proof -
  have *: "connIDs r' = connIDs r \<and> lr_agents r' = lr_agents r" if "trySend q m r = (b, r')" for q b r'
    using connIDs_simps(4,5) [of q m r] that by simp
  show "connIDs (deliverFrame c m r) = connIDs r" "lr_agents (deliverFrame c m r) = lr_agents r"
    unfolding deliverFrame_def by (auto dest: * split: option.splits prod.splits bool.splits)
qed

lemma agentsOwn_same: "agentsOwn r \<Longrightarrow> connIDs r' = connIDs r \<Longrightarrow> lr_agents r' = lr_agents r \<Longrightarrow> agentsOwn r'"
  by (simp add: agentsOwn_def)

lemma agentsOwn_step:
  assumes "relay_step r r'" and I: "agentsOwn r"
  shows "agentsOwn r'"
  using assms(1)
proof (cases rule: relay_step.cases)
  case (1 cid)
  with I show ?thesis by (auto simp: agentsOwn_def newAgentLogConn_def connIDs_def nth_append)
next
  case (2 c)
  with I show ?thesis by (auto simp: agentsOwn_def registerMap_def connIDs_def Let_def)
next
  case (3 c)
  with I show ?thesis by (auto simp: agentsOwn_def unregisterMap_def Let_def)
qed (auto intro: agentsOwn_same [OF I] simp: connIDs_updConn)

lemma agentsOwn_reachable: "relay_reachable r \<Longrightarrow> agentsOwn r"
  unfolding relay_reachable_def
proof (induction rule: rtranclp_induct)
  case base
  show ?case by (simp add: agentsOwn_def NewLogRelay_def)
qed (rule agentsOwn_step)

lemma resourceCluster_ok:
  assumes "resourceCluster r h = (Inr cluster, h')"
  shows "\<exists>tid row. fst (tenantIDFromRequest r h) = Inr tid \<and> row \<in> set (t_clusters (hubTables h)) \<and>
    cluster = scanCluster row \<and> c_ID row = rq_PathValue r ''id'' \<and> c_TenantID row = normalizeTenantID tid"
proof -
  from assms obtain tid h1 where t: "tenantIDFromRequest r h = (Inr tid, h1)"
    and g: "storeOr404 (GetClusterForTenant tid (rq_PathValue r ''id'')) h1 = (Inr cluster, h')"
    by (auto simp: resourceCluster_def bindm_ok)
  have "keepsH (\<lambda>u. u = hubTables h) (tenantIDFromRequest r)" by (intro valid_intro)
  from keepsH_D [where I = "\<lambda>u. u = hubTables h", OF t refl this] have "hubTables h1 = hubTables h" .
  moreover from g obtain d where "GetClusterForTenant tid (rq_PathValue r ''id'') (h_db h1) = (Inr cluster, d)"
    by (auto simp: storeOr404_def mapErr_ok onStore_def within_def split: prod.splits)
  ultimately show ?thesis using t
    by (auto simp: GetClusterForTenant_def foundCluster_def bindm_ok wrapErr_ok throw_def ret_def
        split: option.splits dest!: query_ok selectOne_Some [OF sym]) blast
qed

lemma openStream_agent:
  "openStream cid request sid r = (Inr s, r') \<Longrightarrow> (cid, st_conn s) \<in> set (lr_agents r) \<and> connIDs r' = connIDs r"
proof -
  have 1: "connIDs r1 = connIDs r0" if "addStream c sid r0 = (x, r1)" for c x r0 r1
    using connIDs_ops(3) [of c sid r0] that by simp
  have 2: "connIDs r1 = connIDs r0" if "enqueue c m r0 = (x, r1)" for c m x r0 r1
    using connIDs_ops(7) [of c m r0] that by simp
  show "openStream cid request sid r = (Inr s, r') \<Longrightarrow> ?thesis"
    by (auto simp: openStream_def dest: map_of_SomeD split: option.splits prod.splits bool.splits) (metis 1 2)
qed

text \<open>C29: A browser's live log stream is always served by the agent connection of the requested cluster, and that
  cluster belongs to the tenant the request is for, in every state of the relay and of the tables.\<close>

theorem pod_logs_tenant:
  assumes "relay_reachable relay" and run: "handleClusterPodLogs srv sid r (h, relay) = (Inr (Live s), h', relay')"
  shows "\<exists>tid row. fst (tenantIDFromRequest r h) = Inr tid \<and> row \<in> set (t_clusters (hubTables h)) \<and>
    c_ID row = rq_PathValue r ''id'' \<and> c_TenantID row = normalizeTenantID tid \<and>
    ac_clusterID (lr_conns relay' ! st_conn s) = c_ID row"
proof -
  from run obtain cluster request h1 where p: "podLogsRequest r h = (Inr (cluster, request), h1)"
    and o: "openStream (c_ID cluster) request sid relay = (Inr s, relay')"
    by (auto simp: handleClusterPodLogs_def split: prod.splits sum.splits if_splits)
  from p obtain h2 where "resourceCluster r h = (Inr cluster, h2)"
    by (auto simp: podLogsRequest_def bindm_ok Let_def ret_def WriteError_def throw_def split: if_splits)
  from resourceCluster_ok [OF this] obtain tid row where row: "fst (tenantIDFromRequest r h) = Inr tid"
    "row \<in> set (t_clusters (hubTables h))" "cluster = scanCluster row" "c_ID row = rq_PathValue r ''id''"
    "c_TenantID row = normalizeTenantID tid" by blast
  have "st_conn s < length (connIDs relay')" "connIDs relay' ! st_conn s = c_ID cluster"
    using openStream_agent [OF o] agentsOwn_reachable [OF assms(1)] by (auto simp: agentsOwn_def)
  with row show ?thesis by (auto simp: connIDs_def scanCluster_def)
qed

lemma TrimSpace_samples:
  "list_all (\<lambda>w. \<not> prefix w s \<and> \<not> prefix (rev w) (rev s)) utf8_spaces \<Longrightarrow> TrimSpace s = s"
  unfolding TrimSpace_def by (subst trimWith_id, simp add: list_all_iff, subst trimWith_id) (auto simp: list_all_iff)

definition samplePodRequest :: Request where
  "samplePodRequest = (sampleRequest ''GET'' ''/api/v1/clusters/c1/pods/web/p/logs'')
     \<lparr>rq_PathValue := (\<lambda>k. if k = ''id'' then ''c1'' else if k = ''namespace'' then ''web'' else ''p'')\<rparr>"

lemma samplePodRequest_accepted:
  "\<exists>h'. podLogsRequest samplePodRequest sampleHub = (Inr (scanCluster sampleCluster, sampleLogRequest), h')"
proof -
  have "fst (podLogsRequest samplePodRequest sampleHub) = Inr (scanCluster sampleCluster, sampleLogRequest)"
    by (simp add: podLogsRequest_def resourceCluster_def tenantIDFromRequest_def samplePodRequest_def addHeader_def
        modify_def bindm_def ret_def mapErr_def onStore_def within_def storeOr404_def GetClusterForTenant_def wrapErr_def
        query_nf sample_defs normalizeTenantID_def DefaultTenantID_def foundCluster_def scanCluster_def Let_def
        selectOne_def TrimSpace_samples utf8_spaces_def parseFollow_def parseTailLines_def parsePrevious_def
        parseSinceSeconds_def ParseInt_def ParseBool_def defaultLogTailLines_def sampleLogRequest_def)
  then show ?thesis by (metis prod.collapse)
qed

lemma samplePodRequest_opens:
  "\<exists>s h' relay'. handleClusterPodLogs sampleServer ''s1'' samplePodRequest (sampleHub, relayJoined) = (Inr (Live s), h', relay')"
proof -
  have "c_ID (scanCluster sampleCluster) = ''c1''" by (simp add: scanCluster_def sample_defs)
  with samplePodRequest_accepted show ?thesis
    by (auto simp: handleClusterPodLogs_def openStream_def relayJoined_eq addStream_def enqueue_def updConn_def
        agentSendQueueSize_def)
qed

theorem pod_logs_tenant_witness:
  "\<exists>s h' relay'. handleClusterPodLogs sampleServer ''s1'' samplePodRequest (sampleHub, relayJoined) = (Inr (Live s), h', relay')
     \<and> ac_clusterID (lr_conns relay' ! st_conn s) = ''c1''"
proof -
  from samplePodRequest_opens obtain s h' relay' where
    run: "handleClusterPodLogs sampleServer ''s1'' samplePodRequest (sampleHub, relayJoined) = (Inr (Live s), h', relay')"
    by blast
  from pod_logs_tenant [OF relayJoined_reachable run] run show ?thesis by (auto simp: samplePodRequest_def)
qed

section \<open>What the browser receives\<close>

text \<open>Every log request that is accepted names a namespace and a pod and asks the agent for a bounded tail, at
  least one line and at most 5000, of no negative age, whatever the query parameters hold.\<close>

theorem log_request_valid:
  assumes "podLogsRequest r h = (Inr (cluster, request), h')"
  shows "ls_Namespace request \<noteq> '''' \<and> ls_Pod request \<noteq> '''' \<and>
    1 \<le> ls_TailLines request \<and> ls_TailLines request \<le> maxLogTailLines \<and> 0 \<le> ls_SinceSeconds request"
proof -
  have "1 \<le> parseTailLines raw \<and> parseTailLines raw \<le> maxLogTailLines \<and> 0 \<le> parseSinceSeconds raw'" for raw raw'
    by (auto simp: parseTailLines_def parseSinceSeconds_def defaultLogTailLines_def maxLogTailLines_def split: option.splits)
  with assms show ?thesis
    by (auto simp: podLogsRequest_def bindm_ok Let_def ret_def WriteError_def throw_def split: if_splits)
qed

theorem log_request_valid_witness:
  "\<exists>cluster request h'. podLogsRequest samplePodRequest sampleHub = (Inr (cluster, request), h') \<and>
     ls_TailLines request \<le> 5000"
  using log_request_valid samplePodRequest_accepted by (metis maxLogTailLines_def)

text \<open>What the writer sends, the browser's event parser reads back: one message event per line of output (a line
  with line feeds arrives as one event), in order, then exactly one final event, \<open>end\<close> or \<open>stream-error\<close>; also
  when the agent disappears without an end frame. The lines must have no stray carriage return, and the JSON
  encoder must not emit line breaks, which \<open>json.Marshal\<close> does not.\<close>

theorem pod_log_events:
  assumes "\<And>m p. encode m = Some p \<Longrightarrow> LF \<notin> set p \<and> CR \<notin> set p"
    and "\<And>m. m \<in> set ms \<Longrightarrow> CR \<notin> set (replaceCRLF (lm_Line m))"
  shows "sseParse (fst (streamPodLogs encode ms)) = podLogEvents encode ms"
  using assms by (rule streamPodLogs_events)

definition dataFrame :: "string \<Rightarrow> LogStreamMessage" where
  "dataFrame line = (stopFrame ''s1'')\<lparr>lm_Type := LogStreamData, lm_Line := line\<rparr>"

theorem pod_log_events_witness:
  "sseParse (fst (streamPodLogs (\<lambda>_. None) [dataFrame (''a'' @ [LF] @ ''b''), (stopFrame ''s1'')\<lparr>lm_Type := LogStreamEnd\<rparr>])) =
     [(''message'', ''a'' @ [LF] @ ''b''), (''end'', ''{}'')]"
proof -
  have "sseParse (fst (streamPodLogs (\<lambda>_. None) ms)) = podLogEvents (\<lambda>_. None) ms"
    if "ms = [dataFrame (''a'' @ [LF] @ ''b''), (stopFrame ''s1'')\<lparr>lm_Type := LogStreamEnd\<rparr>]" for ms
    by (rule pod_log_events) (auto simp: that dataFrame_def stopFrame_def)
  from this [OF refl] show ?thesis by (simp add: dataFrame_def stopFrame_def)
qed


end
