(* ===== verification/WsHub.thy ===== *)
theory WsHub
  imports Hub
begin

text \<open>
  \<open>internal/server/hub.go\<close> and \<open>handlers_ws.go\<close>: the broadcast hub, whose \<open>Run\<close> goroutine owns
  the set of WebSocket clients, and the handler goroutine of each client. A client is shared by
  pointer, so the state holds the clients in a list and a pointer is an index. Each case of
  \<open>Run\<close>'s select is one step, and so is each channel operation of a handler; \<open>ws_step\<close>
  interleaves them in any order. A second close, or a send by \<open>Run\<close> on a closed channel, sets
  \<open>bh_panic\<close>; a handler that sends on a closed channel leaves with \<open>Leaving True\<close>.
\<close>

section \<open>State\<close>

text \<open>Where the handler goroutine of a client stands; \<open>Sending\<close> holds the snapshot still to send.\<close>

datatype ws_stage = Registering "Cluster list" | Awaiting "Cluster list" | Sending "Cluster list"
  | Streaming | Leaving bool | Gone bool

record wsClient =
  wc_tenantID :: string
  wc_queueSize :: nat
  wc_send :: "ClusterUpdate list"
  wc_sendClosed :: bool
  wc_registered :: bool
  wc_closed :: bool
  wc_connClosed :: bool
  wc_written :: "ClusterUpdate list"
  wc_stage :: ws_stage

record BroadcastHub =
  bh_pool :: "wsClient list"
  bh_clients :: "nat list"
  bh_unregister :: "nat list"
  bh_broadcast :: "ClusterUpdate list"
  bh_done :: bool
  bh_clientCount :: int
  bh_panic :: bool

definition clientQueueSize :: nat where "clientQueueSize = 16"

definition NewBroadcastHub :: BroadcastHub where
  "NewBroadcastHub = \<lparr>bh_pool = [], bh_clients = [], bh_unregister = [], bh_broadcast = [],
     bh_done = False, bh_clientCount = 0, bh_panic = False\<rparr>"

definition updClient :: "nat \<Rightarrow> (wsClient \<Rightarrow> wsClient) \<Rightarrow> BroadcastHub \<Rightarrow> BroadcastHub" where
  "updClient c f b = b\<lparr>bh_pool := (bh_pool b)[c := f (bh_pool b ! c)]\<rparr>"

section \<open>The cases of Run\<close>

definition removeClient :: "nat \<Rightarrow> bool \<Rightarrow> BroadcastHub \<Rightarrow> BroadcastHub" where
  "removeClient c closeConnection b =
     (if c \<notin> set (bh_clients b) then b
      else let k = bh_pool b ! c in
        updClient c (\<lambda>k. k\<lparr>wc_sendClosed := True, wc_closed := True,
                          wc_connClosed := wc_connClosed k \<or> closeConnection\<rparr>)
          (b\<lparr>bh_clients := filter (\<lambda>d. d \<noteq> c) (bh_clients b), bh_clientCount := bh_clientCount b - 1,
             bh_panic := bh_panic b \<or> wc_sendClosed k \<or> wc_closed k\<rparr>))"

definition runRegister :: "nat \<Rightarrow> BroadcastHub \<Rightarrow> BroadcastHub" where
  "runRegister c b =
     updClient c (\<lambda>k. k\<lparr>wc_registered := True\<rparr>)
       (b\<lparr>bh_clients := bh_clients b @ [c], bh_clientCount := bh_clientCount b + 1,
          bh_panic := bh_panic b \<or> wc_registered (bh_pool b ! c)\<rparr>)"

definition normalizeBroadcastTenant :: "string \<Rightarrow> string" where
  "normalizeBroadcastTenant tenantID = (if tenantID = '''' then DefaultTenantID else tenantID)"

definition offerUpdate :: "ClusterUpdate \<Rightarrow> nat \<Rightarrow> BroadcastHub \<Rightarrow> BroadcastHub" where
  "offerUpdate update c b =
     (let k = bh_pool b ! c in
      if normalizeBroadcastTenant (c_TenantID (cu_Cluster update)) \<noteq> normalizeBroadcastTenant (wc_tenantID k) then b
      else if wc_sendClosed k then b\<lparr>bh_panic := True\<rparr>
      else if length (wc_send k) < wc_queueSize k then updClient c (\<lambda>k. k\<lparr>wc_send := wc_send k @ [update]\<rparr>) b
      else removeClient c True b)"

definition runBroadcast :: "ClusterUpdate \<Rightarrow> BroadcastHub \<Rightarrow> BroadcastHub" where
  "runBroadcast update b = fold (offerUpdate update) (bh_clients b) b"

definition runShutdown :: "BroadcastHub \<Rightarrow> BroadcastHub" where
  "runShutdown b = (fold (\<lambda>c. removeClient c True) (bh_clients b) b)\<lparr>bh_done := True\<rparr>"

definition ClientCount :: "BroadcastHub \<Rightarrow> int" where
  "ClientCount b = bh_clientCount b"

section \<open>The operations of other goroutines\<close>

definition queueUpdate :: "ClusterUpdate \<Rightarrow> BroadcastHub \<Rightarrow> BroadcastHub" where
  "queueUpdate update b =
     (if length (bh_broadcast b) < broadcastQueueSize then b\<lparr>bh_broadcast := bh_broadcast b @ [update]\<rparr> else b)"

text \<open>The first half of the handler: what it reads before the connection is accepted.\<close>

definition wsSnapshot :: "Request \<Rightarrow> (string \<times> Cluster list) handlerm" where
  "wsSnapshot r =
     bindm (tenantIDFromRequest r) (\<lambda>tenantID.
     bindm (mapErr (\<lambda>_. \<lparr>rs_Status = 500, rs_Body = ErrorBody ''failed to list clusters''\<rparr>)
              (onStore (ListClustersForTenant tenantID))) (\<lambda>clusters.
     ret (tenantID, clusters)))"

definition newClient :: "string \<Rightarrow> Cluster list \<Rightarrow> BroadcastHub \<Rightarrow> BroadcastHub" where
  "newClient tenantID clusters b =
     b\<lparr>bh_pool := bh_pool b @
        [\<lparr>wc_tenantID = tenantID, wc_queueSize = max clientQueueSize (length clusters), wc_send = [],
          wc_sendClosed = False, wc_registered = False, wc_closed = False, wc_connClosed = False,
          wc_written = [], wc_stage = Registering clusters\<rparr>]\<rparr>"

abbreviation setStage :: "nat \<Rightarrow> ws_stage \<Rightarrow> BroadcastHub \<Rightarrow> BroadcastHub" where
  "setStage c st \<equiv> updClient c (\<lambda>k. k\<lparr>wc_stage := st\<rparr>)"

text \<open>
  One \<open>client.send <- ClusterUpdate{...}\<close> of the snapshot loop. It blocks (\<open>None\<close>) on a full
  buffer, and panics on a closed channel, upon which the deferred calls run.
\<close>

definition sendSnapshot :: "nat \<Rightarrow> Cluster \<Rightarrow> Cluster list \<Rightarrow> BroadcastHub \<Rightarrow> BroadcastHub option" where
  "sendSnapshot c cluster rest b =
     (let k = bh_pool b ! c in
      if wc_sendClosed k then Some (setStage c (Leaving True) b)
      else if length (wc_send k) < wc_queueSize k
      then Some (updClient c (\<lambda>k. k\<lparr>wc_send := wc_send k @ [\<lparr>cu_Type = ''snapshot'', cu_Cluster = cluster\<rparr>],
                                  wc_stage := Sending rest\<rparr>) b)
      else None)"

definition writeUpdate :: "nat \<Rightarrow> BroadcastHub \<Rightarrow> BroadcastHub" where
  "writeUpdate c = updClient c (\<lambda>k. k\<lparr>wc_written := wc_written k @ take 1 (wc_send k), wc_send := tl (wc_send k)\<rparr>)"

text \<open>\<open>unregisterClient\<close> blocks (\<open>None\<close>) while its queue is full and \<open>Run\<close> has not returned.\<close>

definition unregisterClient :: "nat \<Rightarrow> BroadcastHub \<Rightarrow> BroadcastHub option" where
  "unregisterClient c b =
     (if length (bh_unregister b) < broadcastQueueSize
      then Some (b\<lparr>bh_unregister := bh_unregister b @ [c]\<rparr>)
      else if bh_done b then Some b else None)"

definition finishHandler :: "nat \<Rightarrow> bool \<Rightarrow> BroadcastHub \<Rightarrow> BroadcastHub" where
  "finishHandler c panicked = updClient c (\<lambda>k. k\<lparr>wc_connClosed := True, wc_stage := Gone panicked\<rparr>)"

section \<open>Interleaving\<close>

abbreviation stage :: "BroadcastHub \<Rightarrow> nat \<Rightarrow> ws_stage" where
  "stage b c \<equiv> wc_stage (bh_pool b ! c)"

inductive ws_step :: "BroadcastHub \<Rightarrow> BroadcastHub \<Rightarrow> bool" where
  ws_connect: "wsSnapshot r h = (Inr (tenantID, clusters), h') \<Longrightarrow> ws_step b (newClient tenantID clusters b)"
| ws_update: "ws_step b (queueUpdate update b)"
| ws_register: "\<not> bh_done b \<Longrightarrow> c < length (bh_pool b) \<Longrightarrow> stage b c = Registering cs \<Longrightarrow>
     ws_step b (setStage c (Awaiting cs) (runRegister c b))"
| ws_unregister: "\<not> bh_done b \<Longrightarrow> bh_unregister b = c # rest \<Longrightarrow>
     ws_step b (removeClient c False (b\<lparr>bh_unregister := rest\<rparr>))"
| ws_broadcast: "\<not> bh_done b \<Longrightarrow> bh_broadcast b = update # rest \<Longrightarrow>
     ws_step b (runBroadcast update (b\<lparr>bh_broadcast := rest\<rparr>))"
| ws_shutdown: "\<not> bh_done b \<Longrightarrow> ws_step b (runShutdown b)"
| ws_refused: "bh_done b \<Longrightarrow> c < length (bh_pool b) \<Longrightarrow> stage b c = Registering cs \<or> stage b c = Awaiting cs \<Longrightarrow>
     ws_step b (finishHandler c False b)"
| ws_registered: "c < length (bh_pool b) \<Longrightarrow> stage b c = Awaiting cs \<Longrightarrow> wc_registered (bh_pool b ! c) \<Longrightarrow>
     ws_step b (setStage c (Sending cs) b)"
| ws_send: "c < length (bh_pool b) \<Longrightarrow> stage b c = Sending (x # xs) \<Longrightarrow> sendSnapshot c x xs b = Some b' \<Longrightarrow>
     ws_step b b'"
| ws_stream: "c < length (bh_pool b) \<Longrightarrow> stage b c = Sending [] \<Longrightarrow> ws_step b (setStage c Streaming b)"
| ws_write: "c < length (bh_pool b) \<Longrightarrow> stage b c = Streaming \<Longrightarrow> ws_step b (writeUpdate c b)"
| ws_stop: "c < length (bh_pool b) \<Longrightarrow> stage b c = Streaming \<Longrightarrow> ws_step b (setStage c (Leaving False) b)"
| ws_leave: "c < length (bh_pool b) \<Longrightarrow> stage b c = Leaving p \<Longrightarrow> unregisterClient c b = Some b' \<Longrightarrow>
     ws_step b (finishHandler c p b')"

definition ws_reachable :: "BroadcastHub \<Rightarrow> bool" where
  "ws_reachable b = ws_step\<^sup>*\<^sup>* NewBroadcastHub b"

section \<open>The invariant\<close>

definition ofTenant :: "string \<Rightarrow> Cluster \<Rightarrow> bool" where
  "ofTenant tenantID cluster \<longleftrightarrow>
     normalizeBroadcastTenant (c_TenantID cluster) = normalizeBroadcastTenant tenantID"

definition pendingClusters :: "ws_stage \<Rightarrow> Cluster list" where
  "pendingClusters st = (case st of Registering cs \<Rightarrow> cs | Awaiting cs \<Rightarrow> cs | Sending cs \<Rightarrow> cs | _ \<Rightarrow> [])"

text \<open>
  \<open>live\<close> says whether \<open>Run\<close> holds the client: then its channels are open, and otherwise they are
  closed from the registration on. Everything queued, written or still to send is of its tenant.
\<close>

definition client_ok :: "bool \<Rightarrow> wsClient \<Rightarrow> bool" where
  "client_ok live k \<longleftrightarrow>
     (live \<longrightarrow> wc_registered k) \<and>
     (wc_sendClosed k \<longleftrightarrow> wc_registered k \<and> \<not> live) \<and> (wc_closed k \<longleftrightarrow> wc_sendClosed k) \<and>
     (case wc_stage k of Registering cs \<Rightarrow> \<not> wc_registered k | _ \<Rightarrow> True) \<and>
     length (wc_send k) \<le> wc_queueSize k \<and>
     (\<forall>u \<in> set (wc_send k @ wc_written k). ofTenant (wc_tenantID k) (cu_Cluster u)) \<and>
     (\<forall>x \<in> set (pendingClusters (wc_stage k)). ofTenant (wc_tenantID k) x)"

definition wsI :: "BroadcastHub \<Rightarrow> bool" where
  "wsI b \<longleftrightarrow>
     \<not> bh_panic b \<and> distinct (bh_clients b) \<and> (\<forall>c \<in> set (bh_clients b). c < length (bh_pool b)) \<and>
     bh_clientCount b = int (length (bh_clients b)) \<and>
     length (bh_broadcast b) \<le> broadcastQueueSize \<and> length (bh_unregister b) \<le> broadcastQueueSize \<and>
     (bh_done b \<longrightarrow> bh_clients b = []) \<and>
     (\<forall>c < length (bh_pool b). client_ok (c \<in> set (bh_clients b)) (bh_pool b ! c))"

lemma wsI_D:
  assumes "wsI b"
  shows "\<not> bh_panic b" and "distinct (bh_clients b)"
    and "c \<in> set (bh_clients b) \<Longrightarrow> c < length (bh_pool b)"
    and "bh_clientCount b = int (length (bh_clients b))"
    and "length (bh_broadcast b) \<le> broadcastQueueSize" and "length (bh_unregister b) \<le> broadcastQueueSize"
    and "bh_done b \<Longrightarrow> bh_clients b = []"
    and "c < length (bh_pool b) \<Longrightarrow> client_ok (c \<in> set (bh_clients b)) (bh_pool b ! c)"
  using assms unfolding wsI_def by blast+

lemma updClient_simps [simp]:
  "bh_clients (updClient c f b) = bh_clients b" "bh_unregister (updClient c f b) = bh_unregister b"
  "bh_broadcast (updClient c f b) = bh_broadcast b" "bh_done (updClient c f b) = bh_done b"
  "bh_clientCount (updClient c f b) = bh_clientCount b" "bh_panic (updClient c f b) = bh_panic b"
  "length (bh_pool (updClient c f b)) = length (bh_pool b)"
  "d < length (bh_pool b) \<Longrightarrow> bh_pool (updClient c f b) ! d = (if d = c then f (bh_pool b ! c) else bh_pool b ! d)"
  by (simp_all add: updClient_def nth_list_update)

text \<open>A step that changes one client and no field of the hub.\<close>

lemma wsI_updClient:
  assumes "wsI b" and "c < length (bh_pool b)"
    and "client_ok (c \<in> set (bh_clients b)) (bh_pool b ! c) \<Longrightarrow> client_ok (c \<in> set (bh_clients b)) (f (bh_pool b ! c))"
  shows "wsI (updClient c f b)"
  using assms unfolding wsI_def by auto

lemma filter_neq_absent: "c \<notin> set xs \<Longrightarrow> filter (\<lambda>d. d \<noteq> c) xs = xs"
  by (induction xs) auto

lemma length_remove_distinct:
  "distinct xs \<Longrightarrow> c \<in> set xs \<Longrightarrow> int (length (filter (\<lambda>d. d \<noteq> c) xs)) = int (length xs) - 1"
  by (induction xs) (auto simp: filter_neq_absent)

lemma removeClient_absent: "c \<notin> set (bh_clients b) \<Longrightarrow> removeClient c close b = b"
  by (simp add: removeClient_def)

lemma removeClient_fields [simp]:
  "bh_clients (removeClient c close b) = filter (\<lambda>d. d \<noteq> c) (bh_clients b)"
  "length (bh_pool (removeClient c close b)) = length (bh_pool b)"
  "bh_done (removeClient c close b) = bh_done b" "bh_broadcast (removeClient c close b) = bh_broadcast b"
  "bh_unregister (removeClient c close b) = bh_unregister b"
  "d < length (bh_pool b) \<Longrightarrow> d \<noteq> c \<Longrightarrow> bh_pool (removeClient c close b) ! d = bh_pool b ! d"
  by (auto simp: removeClient_def Let_def filter_id_conv intro: sym)

lemma removeClient_self:
  "c \<in> set (bh_clients b) \<Longrightarrow> c < length (bh_pool b) \<Longrightarrow>
     bh_pool (removeClient c close b) ! c = (bh_pool b ! c)
       \<lparr>wc_sendClosed := True, wc_closed := True, wc_connClosed := wc_connClosed (bh_pool b ! c) \<or> close\<rparr>"
  by (simp add: removeClient_def Let_def)

lemma wsI_removeClient:
  assumes I: "wsI b"
  shows "wsI (removeClient c close b)"
proof (cases "c \<in> set (bh_clients b)")
  case False
  with I show ?thesis by (simp add: removeClient_absent)
next
  case True
  note c = wsI_D(3) [OF I True] and k = wsI_D(8) [OF I wsI_D(3) [OF I True]]
  show ?thesis unfolding wsI_def
  proof (intro conjI allI impI ballI)
    show "\<not> bh_panic (removeClient c close b)"
      using k True wsI_D(1) [OF I] by (simp add: removeClient_def Let_def client_ok_def)
    show "bh_clientCount (removeClient c close b) = int (length (bh_clients (removeClient c close b)))"
      using True wsI_D(4) [OF I] by (simp add: removeClient_def Let_def length_remove_distinct [OF wsI_D(2) [OF I]])
  next
    fix d assume d: "d < length (bh_pool (removeClient c close b))"
    then show "client_ok (d \<in> set (bh_clients (removeClient c close b))) (bh_pool (removeClient c close b) ! d)"
      using wsI_D(8) [OF I, of d] k True
      by (cases "d = c") (auto simp: removeClient_self client_ok_def split: ws_stage.splits)
  qed (use wsI_D(2,3,5,6,7) [OF I] in auto)
qed

lemma wsI_offerUpdate:
  assumes I: "wsI b" and c: "c \<in> set (bh_clients b)"
  shows "wsI (offerUpdate update c b)"
proof -
  note k = wsI_D(8) [OF I wsI_D(3) [OF I c]]
  have "wsI (updClient c (\<lambda>k. k\<lparr>wc_send := wc_send k @ [update]\<rparr>) b)"
    if "ofTenant (wc_tenantID (bh_pool b ! c)) (cu_Cluster update)"
      "length (wc_send (bh_pool b ! c)) < wc_queueSize (bh_pool b ! c)"
    by (rule wsI_updClient [OF I wsI_D(3) [OF I c]])
      (use that in \<open>auto simp: client_ok_def split: ws_stage.splits\<close>)
  then show ?thesis
    using I k c wsI_removeClient [OF I]
    by (simp add: offerUpdate_def Let_def ofTenant_def) (simp add: client_ok_def)
qed

lemma offerUpdate_clients:
  "set (bh_clients (offerUpdate update c b)) \<union> {c} = set (bh_clients b) \<union> {c}"
  by (auto simp: offerUpdate_def Let_def)

lemma wsI_runBroadcast:
  assumes I: "wsI b"
  shows "wsI (runBroadcast update b)"
proof -
  have "wsI b' \<Longrightarrow> distinct cs \<Longrightarrow> set cs \<subseteq> set (bh_clients b') \<Longrightarrow> wsI (fold (offerUpdate update) cs b')" for cs b'
  proof (induction cs arbitrary: b')
    case (Cons c cs)
    have "set cs \<subseteq> set (bh_clients (offerUpdate update c b'))"
      using Cons.prems offerUpdate_clients [of update c b'] by auto
    with Cons wsI_offerUpdate show ?case by simp
  qed simp
  from this [OF I wsI_D(2) [OF I]] show ?thesis by (simp add: runBroadcast_def)
qed

lemma fold_removeClient:
  "wsI b \<Longrightarrow> wsI (fold (\<lambda>c. removeClient c True) cs b) \<and>
     bh_clients (fold (\<lambda>c. removeClient c True) cs b) = filter (\<lambda>d. d \<notin> set cs) (bh_clients b)"
  by (induction cs arbitrary: b) (auto simp: wsI_removeClient intro: filter_cong)

lemma wsI_runShutdown:
  assumes "wsI b"
  shows "wsI (runShutdown b)"
proof -
  have *: "wsI (b\<lparr>bh_done := True\<rparr>)" if "wsI b" "bh_clients b = []" for b using that by (simp add: wsI_def)
  from fold_removeClient [OF assms, of "bh_clients b"] show ?thesis
    unfolding runShutdown_def by (intro *) auto
qed

lemma runShutdown_clients: "wsI b \<Longrightarrow> bh_clients (runShutdown b) = []"
  using fold_removeClient [of b "bh_clients b"] by (simp add: runShutdown_def)

lemma wsI_register:
  assumes I: "wsI b" and "\<not> bh_done b" and c: "c < length (bh_pool b)" and s: "stage b c = Registering cs"
  shows "wsI (setStage c (Awaiting cs) (runRegister c b))"
proof -
  note k = wsI_D(8) [OF I c]
  have new: "c \<notin> set (bh_clients b)" using k s by (auto simp: client_ok_def)
  with assms k wsI_D [OF I] show ?thesis
    unfolding wsI_def runRegister_def
    by (auto simp: client_ok_def pendingClusters_def split: ws_stage.splits)
qed

lemma wsSnapshot_tenant:
  assumes "wsSnapshot r h = (Inr (tenantID, clusters), h')" and "x \<in> set clusters"
  shows "ofTenant tenantID x"
proof -
  have "\<exists>t. fst (ListClustersForTenant tenantID t) = Inr clusters"
    using assms(1) by (auto simp: wsSnapshot_def bindm_ok mapErr_ok onStore_def within_def case_prod_beta)
  then obtain t d where "ListClustersForTenant tenantID t = (Inr clusters, d)" by (metis prod.collapse)
  with assms(2) show ?thesis
    by (auto simp: ListClustersForTenant_def wrapErr_ok ofTenant_def normalizeBroadcastTenant_def
        normalizeTenantID_def scanCluster_def dest!: query_ok split: if_splits)
qed

lemma wsI_newClient:
  assumes I: "wsI b" and "\<And>x. x \<in> set clusters \<Longrightarrow> ofTenant tenantID x"
  shows "wsI (newClient tenantID clusters b)"
proof -
  have "length (bh_pool b) \<notin> set (bh_clients b)" using wsI_D(3) [OF I] by blast
  with I assms(2) show ?thesis
    by (auto simp: wsI_def newClient_def nth_append client_ok_def pendingClusters_def less_Suc_eq)
qed

lemma ws_step_inv:
  assumes "ws_step b b'" and I: "wsI b"
  shows "wsI b'"
  using assms(1)
proof cases
  case (ws_connect r h tenantID clusters h')
  then show ?thesis using wsI_newClient [OF I] wsSnapshot_tenant by simp
next
  case (ws_update update)
  with I show ?thesis by (simp add: wsI_def queueUpdate_def)
next
  case (ws_register c cs)
  then show ?thesis using wsI_register [OF I] by simp
next
  case (ws_unregister c rest)
  have "wsI (b\<lparr>bh_unregister := rest\<rparr>)" using I ws_unregister(3) by (simp add: wsI_def)
  then show ?thesis unfolding ws_unregister(1) by (rule wsI_removeClient)
next
  case (ws_broadcast update rest)
  have "wsI (b\<lparr>bh_broadcast := rest\<rparr>)" using I ws_broadcast(3) by (simp add: wsI_def)
  then show ?thesis unfolding ws_broadcast(1) by (rule wsI_runBroadcast)
next
  case ws_shutdown
  then show ?thesis using wsI_runShutdown [OF I] by simp
next
  case (ws_refused c cs)
  show ?thesis unfolding ws_refused(1) finishHandler_def
    by (rule wsI_updClient [OF I ws_refused(3)]) (auto simp: client_ok_def pendingClusters_def)
next
  case (ws_registered c cs)
  show ?thesis unfolding ws_registered(1)
    by (rule wsI_updClient [OF I ws_registered(2)]) (use ws_registered in \<open>auto simp: client_ok_def pendingClusters_def\<close>)
next
  case (ws_send c x xs)
  have 1: "wsI (setStage c (Leaving True) b)"
    by (rule wsI_updClient [OF I ws_send(1)]) (use ws_send in \<open>auto simp: client_ok_def pendingClusters_def\<close>)
  have "wsI (updClient c (\<lambda>k. k\<lparr>wc_send := wc_send k @ [\<lparr>cu_Type = ''snapshot'', cu_Cluster = x\<rparr>],
                                  wc_stage := Sending xs\<rparr>) b)"
    if "length (wc_send (bh_pool b ! c)) < wc_queueSize (bh_pool b ! c)"
    by (rule wsI_updClient [OF I ws_send(1)]) (use ws_send that in \<open>auto simp: client_ok_def pendingClusters_def\<close>)
  with 1 ws_send(3) show ?thesis by (auto simp: sendSnapshot_def Let_def split: if_splits)
next
  case (ws_stream c)
  show ?thesis unfolding ws_stream(1)
    by (rule wsI_updClient [OF I ws_stream(2)]) (use ws_stream in \<open>auto simp: client_ok_def pendingClusters_def\<close>)
next
  case (ws_write c)
  show ?thesis unfolding ws_write(1) writeUpdate_def
    by (rule wsI_updClient [OF I ws_write(2)], cases "wc_send (bh_pool b ! c)")
      (simp_all add: client_ok_def ws_write(3))
next
  case (ws_stop c)
  show ?thesis unfolding ws_stop(1)
    by (rule wsI_updClient [OF I ws_stop(2)]) (use ws_stop in \<open>auto simp: client_ok_def pendingClusters_def\<close>)
next
  case (ws_leave c p b1)
  have "wsI b1" "length (bh_pool b1) = length (bh_pool b)"
    using I ws_leave(4) by (auto simp: unregisterClient_def wsI_def split: if_splits)
  then show ?thesis unfolding ws_leave(1) finishHandler_def
    by (intro wsI_updClient) (use ws_leave(2) in \<open>auto simp: client_ok_def pendingClusters_def\<close>)
qed

lemma ws_reachable_inv: "ws_reachable b \<Longrightarrow> wsI b"
  unfolding ws_reachable_def
proof (induction rule: rtranclp_induct)
  case base
  show ?case by (simp add: wsI_def NewBroadcastHub_def)
qed (rule ws_step_inv)

end
