(* ===== verification/WsFacts.thy ===== *)
theory WsFacts
  imports WsHub Samples
begin

text \<open>
  The properties of the broadcast hub that hold in every interleaving of \<open>Run\<close>, the broadcasters and
  the handlers (from the invariant of \<open>WsHub\<close>), what one broadcast does to each client, and the one
  crash the interleavings do allow.
\<close>

section \<open>A concrete run\<close>

definition wsRequest :: Request where
  "wsRequest = sampleRequest ''GET'' ''/api/v1/ws/clusters''"

lemma wsSnapshot_sample:
  "wsSnapshot wsRequest sampleHub =
     (Inr (DefaultTenantID, [scanCluster sampleCluster]), snd (wsSnapshot wsRequest sampleHub))"
  by (simp add: wsSnapshot_def tenantIDFromRequest_def wsRequest_def addHeader_def modify_def bindm_def ret_def
      mapErr_def onStore_def within_def ListClustersForTenant_def wrapErr_def query_nf sample_defs
      normalizeTenantID_def DefaultTenantID_def scanCluster_def Let_def)

text \<open>One client of the default tenant: registered, then shut down or served.\<close>

definition wsJoined :: BroadcastHub where
  "wsJoined = setStage 0 (Sending [scanCluster sampleCluster])
     (setStage 0 (Awaiting [scanCluster sampleCluster])
       (runRegister 0 (newClient DefaultTenantID [scanCluster sampleCluster] NewBroadcastHub)))"

lemma wsJoined_eq:
  "wsJoined = \<lparr>bh_pool = [\<lparr>wc_tenantID = DefaultTenantID, wc_queueSize = 16, wc_send = [],
       wc_sendClosed = False, wc_registered = True, wc_closed = False, wc_connClosed = False,
       wc_written = [], wc_stage = Sending [scanCluster sampleCluster]\<rparr>],
     bh_clients = [0], bh_unregister = [], bh_broadcast = [], bh_done = False, bh_clientCount = 1, bh_panic = False\<rparr>"
  by (simp add: wsJoined_def runRegister_def newClient_def NewBroadcastHub_def updClient_def clientQueueSize_def)

lemma ws_reachable_step: "ws_reachable b \<Longrightarrow> ws_step b b' \<Longrightarrow> ws_reachable b'"
  unfolding ws_reachable_def by (rule rtranclp.rtrancl_into_rtrancl)

lemma wsJoined_reachable: "ws_reachable wsJoined"
proof -
  let ?cs = "[scanCluster sampleCluster]"
  let ?b1 = "newClient DefaultTenantID ?cs NewBroadcastHub"
  let ?b2 = "setStage 0 (Awaiting ?cs) (runRegister 0 ?b1)"
  have "ws_step NewBroadcastHub ?b1" by (rule ws_connect [OF wsSnapshot_sample])
  then have "ws_reachable ?b1" by (simp add: ws_reachable_def r_into_rtranclp)
  moreover have "ws_step ?b1 ?b2"
    by (rule ws_register) (simp_all add: newClient_def NewBroadcastHub_def)
  ultimately have "ws_reachable ?b2" by (rule ws_reachable_step)
  moreover have "ws_step ?b2 wsJoined" unfolding wsJoined_def
    by (rule ws_registered) (simp_all add: newClient_def NewBroadcastHub_def runRegister_def updClient_def)
  ultimately show ?thesis by (rule ws_reachable_step)
qed

section \<open>What every interleaving guarantees\<close>

text \<open>C14: \<open>Run\<close> never sends on or closes a closed channel, its atomic client counter is the number of clients
  it holds, a client it holds has open channels and no overfull buffer, and the two queues respect
  their capacities, in every interleaving.\<close>

theorem ws_run_safe:
  assumes "ws_reachable b"
  shows "\<not> bh_panic b \<and> ClientCount b = int (length (bh_clients b)) \<and> distinct (bh_clients b) \<and>
     length (bh_broadcast b) \<le> broadcastQueueSize \<and> length (bh_unregister b) \<le> broadcastQueueSize \<and>
     list_all (\<lambda>c. \<not> wc_sendClosed (bh_pool b ! c) \<and>
                   length (wc_send (bh_pool b ! c)) \<le> wc_queueSize (bh_pool b ! c)) (bh_clients b)"
proof -
  note I = ws_reachable_inv [OF assms]
  have "client_ok True (bh_pool b ! c)" if "c \<in> set (bh_clients b)" for c
    using wsI_D(8) [OF I wsI_D(3) [OF I that]] that by simp
  then show ?thesis
    using wsI_D(1,2,4,5,6) [OF I] by (auto simp: ClientCount_def list_all_iff client_ok_def)
qed

theorem ws_run_safe_witness: "\<not> bh_panic wsJoined \<and> ClientCount wsJoined = 1"
  using ws_run_safe [OF wsJoined_reachable] by (simp add: wsJoined_eq)

text \<open>C30: Tenant isolation of the live feed: whatever is queued for a WebSocket client or has been written to
  it, snapshot or update, is about a cluster of the tenant the client connected for.\<close>

theorem ws_tenant_isolation:
  assumes "ws_reachable b" and "c < length (bh_pool b)"
    and "u \<in> set (wc_send (bh_pool b ! c) @ wc_written (bh_pool b ! c))"
  shows "normalizeBroadcastTenant (c_TenantID (cu_Cluster u)) = normalizeBroadcastTenant (wc_tenantID (bh_pool b ! c))"
  using wsI_D(8) [OF ws_reachable_inv [OF assms(1)] assms(2)] assms(3)
  by (auto simp: client_ok_def ofTenant_def)

definition wsServed :: BroadcastHub where
  "wsServed = wsJoined\<lparr>bh_pool := [(bh_pool wsJoined ! 0)\<lparr>wc_send :=
     [\<lparr>cu_Type = ''snapshot'', cu_Cluster = scanCluster sampleCluster\<rparr>], wc_stage := Sending []\<rparr>]\<rparr>"

lemma wsServed_reachable: "ws_reachable wsServed"
proof (rule ws_reachable_step [OF wsJoined_reachable])
  show "ws_step wsJoined wsServed"
    by (rule ws_send [where c = 0])
      (simp_all add: wsJoined_eq wsServed_def sendSnapshot_def updClient_def)
qed

theorem ws_tenant_isolation_witness:
  "normalizeBroadcastTenant (c_TenantID (scanCluster sampleCluster)) = DefaultTenantID"
  using ws_tenant_isolation [OF wsServed_reachable, of 0 "\<lparr>cu_Type = ''snapshot'', cu_Cluster = scanCluster sampleCluster\<rparr>"]
  by (simp add: wsServed_def wsJoined_eq normalizeBroadcastTenant_def DefaultTenantID_def)

section \<open>One broadcast\<close>

lemma offerUpdate_other:
  "d < length (bh_pool b) \<Longrightarrow> d \<noteq> c \<Longrightarrow> bh_pool (offerUpdate u c b) ! d = bh_pool b ! d"
  "length (bh_pool (offerUpdate u c b)) = length (bh_pool b)"
  "d \<noteq> c \<Longrightarrow> d \<in> set (bh_clients (offerUpdate u c b)) \<longleftrightarrow> d \<in> set (bh_clients b)"
  by (auto simp: offerUpdate_def Let_def)

lemma fold_offer_other:
  assumes "d \<notin> set cs" and "d < length (bh_pool b)"
  shows "bh_pool (fold (offerUpdate u) cs b) ! d = bh_pool b ! d \<and>
    (d \<in> set (bh_clients (fold (offerUpdate u) cs b)) \<longleftrightarrow> d \<in> set (bh_clients b)) \<and>
    length (bh_pool (fold (offerUpdate u) cs b)) = length (bh_pool b)"
  using assms by (induction cs arbitrary: b) (simp_all add: offerUpdate_other)

lemma fold_offer_at:
  assumes "distinct cs" and "c \<in> set cs" and "list_all (\<lambda>d. d < length (bh_pool b)) cs"
  shows "\<exists>b'. bh_pool b' ! c = bh_pool b ! c \<and> length (bh_pool b') = length (bh_pool b) \<and>
      (c \<in> set (bh_clients b') \<longleftrightarrow> c \<in> set (bh_clients b)) \<and>
      bh_pool (fold (offerUpdate u) cs b) ! c = bh_pool (offerUpdate u c b') ! c \<and>
      (c \<in> set (bh_clients (fold (offerUpdate u) cs b)) \<longleftrightarrow> c \<in> set (bh_clients (offerUpdate u c b')))"
  using assms
proof (induction cs arbitrary: b)
  case (Cons a cs)
  show ?case
  proof (cases "c = a")
    case True
    then have "c \<notin> set cs" "c < length (bh_pool (offerUpdate u c b))"
      using Cons.prems by (auto simp: offerUpdate_other)
    from fold_offer_other [OF this, of u] True show ?thesis by (intro exI [of _ b]) simp
  next
    case False
    with Cons.prems have a: "distinct cs" "c \<in> set cs" "list_all (\<lambda>d. d < length (bh_pool (offerUpdate u a b))) cs"
      "c < length (bh_pool b)" by (auto simp: offerUpdate_other list_all_iff)
    from Cons.IH [OF a(1-3)] obtain b' where "bh_pool b' ! c = bh_pool (offerUpdate u a b) ! c \<and>
      length (bh_pool b') = length (bh_pool (offerUpdate u a b)) \<and>
      (c \<in> set (bh_clients b') \<longleftrightarrow> c \<in> set (bh_clients (offerUpdate u a b))) \<and>
      bh_pool (fold (offerUpdate u) cs (offerUpdate u a b)) ! c = bh_pool (offerUpdate u c b') ! c \<and>
      (c \<in> set (bh_clients (fold (offerUpdate u) cs (offerUpdate u a b))) \<longleftrightarrow>
       c \<in> set (bh_clients (offerUpdate u c b')))" by blast
    with a(4) False show ?thesis by (intro exI [of _ b']) (simp add: offerUpdate_other)
  qed
qed simp

text \<open>One broadcast treats every client by its own tenant and its own buffer: a client of another tenant is
  left alone, one of the same tenant with room gets the update last in its queue and stays, and one whose
  buffer is full is dropped with its channel closed and its queue unchanged. Which client the map
  iteration visits first does not matter.\<close>

theorem ws_broadcast_effect:
  assumes "ws_reachable b" and "c \<in> set (bh_clients b)"
  shows "bh_pool (runBroadcast u b) ! c =
      (let k = bh_pool b ! c in
       if normalizeBroadcastTenant (c_TenantID (cu_Cluster u)) \<noteq> normalizeBroadcastTenant (wc_tenantID k) then k
       else if length (wc_send k) < wc_queueSize k then k\<lparr>wc_send := wc_send k @ [u]\<rparr>
       else k\<lparr>wc_sendClosed := True, wc_closed := True, wc_connClosed := True\<rparr>) \<and>
    (c \<in> set (bh_clients (runBroadcast u b)) \<longleftrightarrow>
       normalizeBroadcastTenant (c_TenantID (cu_Cluster u)) \<noteq> normalizeBroadcastTenant (wc_tenantID (bh_pool b ! c)) \<or>
       length (wc_send (bh_pool b ! c)) < wc_queueSize (bh_pool b ! c))"
proof -
  note I = ws_reachable_inv [OF assms(1)]
  note c = wsI_D(3) [OF I assms(2)]
  have "list_all (\<lambda>d. d < length (bh_pool b)) (bh_clients b)" using wsI_D(3) [OF I] by (simp add: list_all_iff)
  from fold_offer_at [OF wsI_D(2) [OF I] assms(2) this, of u] obtain b' where b':
    "bh_pool b' ! c = bh_pool b ! c" "length (bh_pool b') = length (bh_pool b)"
    "c \<in> set (bh_clients b') \<longleftrightarrow> c \<in> set (bh_clients b)"
    "bh_pool (runBroadcast u b) ! c = bh_pool (offerUpdate u c b') ! c"
    "c \<in> set (bh_clients (runBroadcast u b)) \<longleftrightarrow> c \<in> set (bh_clients (offerUpdate u c b'))"
    unfolding runBroadcast_def by blast
  have "\<not> wc_sendClosed (bh_pool b ! c)" using wsI_D(8) [OF I c] assms(2) by (simp add: client_ok_def)
  with b' c assms(2) show ?thesis by (simp add: offerUpdate_def Let_def removeClient_self)
qed

theorem ws_broadcast_effect_witness:
  "wc_send (bh_pool (runBroadcast \<lparr>cu_Type = ''updated'', cu_Cluster = otherCluster\<rparr> wsServed) ! 0) =
     [\<lparr>cu_Type = ''snapshot'', cu_Cluster = scanCluster sampleCluster\<rparr>]"
  using ws_broadcast_effect [OF wsServed_reachable, of 0 "\<lparr>cu_Type = ''updated'', cu_Cluster = otherCluster\<rparr>"]
  by (simp add: wsServed_def wsJoined_eq normalizeBroadcastTenant_def DefaultTenantID_def sample_defs)

section \<open>The crash\<close>

text \<open>C39: The handler can crash: there is an interleaving (a client registers, the hub shuts down before the
  handler sends its snapshot) in which a handler goroutine ends by a panic, the send on a closed channel.\<close>

theorem ws_handler_can_panic: "\<exists>b. ws_reachable b \<and> stage b 0 = Gone True"
proof -
  let ?b1 = "runShutdown wsJoined"
  let ?b2 = "setStage 0 (Leaving True) ?b1"
  let ?b3 = "?b2\<lparr>bh_unregister := [0]\<rparr>"
  note defs = wsJoined_eq runShutdown_def removeClient_def updClient_def
  have "ws_reachable ?b1"
    by (rule ws_reachable_step [OF wsJoined_reachable], rule ws_shutdown) (simp add: wsJoined_eq)
  then have "ws_reachable ?b2"
    by (rule ws_reachable_step) (rule ws_send [where c = 0], simp_all add: defs sendSnapshot_def)
  then have "ws_reachable (finishHandler 0 True ?b3)"
    by (rule ws_reachable_step)
      (rule ws_leave [where c = 0], simp_all add: defs unregisterClient_def broadcastQueueSize_def)
  then show ?thesis by (intro exI conjI) (assumption, simp add: defs finishHandler_def)
qed

end
