(* ===== verification/StoreFacts.thy ===== *)
theory StoreFacts
  imports Samples
begin

text \<open>
  What the operations of \<open>internal/store\<close> promise their callers: a snapshot upload as the update of an
  abstract map from clusters to snapshots, the cascade of a cluster deletion, the life of an agent
  token, retention, the guard of the last administrator, sessions and the timeline's pages.
\<close>

section \<open>Snapshots\<close>

text \<open>The abstract state: the snapshot stored for each cluster.\<close>

definition storedSnapshot :: "tables \<Rightarrow> string \<Rightarrow> ClusterSnapshot" where
  "storedSnapshot t cid = \<lparr>sn_Nodes = rowsOf cid (t_nodes t), sn_Pods = rowsOf cid (t_pods t),
     sn_Services = rowsOf cid (t_services t), sn_Deployments = rowsOf cid (t_deployments t),
     sn_Namespaces = rowsOf cid (t_namespaces t), sn_Events = map snd (rowsOf cid (t_events t))\<rparr>"

lemma storedSnapshot_replaced:
  "storedSnapshot (replacedTables cid sn v av health hb t) = (storedSnapshot t)(cid := sn)"
proof
  fix c
  show "storedSnapshot (replacedTables cid sn v av health hb t) c = ((storedSnapshot t)(cid := sn)) c"
    by (cases "c = cid") (simp_all add: storedSnapshot_def replacedTables_def)
qed

text \<open>C7: A snapshot upload refines a map update: when it succeeds the stored snapshots are the old ones with this
  cluster's replaced by the uploaded one (no other cluster changes), and when it fails, at whichever of its
  statements, no table has changed. Without a failing statement it succeeds exactly for a known cluster and a
  snapshot that names no object twice.\<close>

theorem snapshot_replace_refines:
  assumes "ReplaceSnapshot cid sn version agentVersion health hb d = (res, d')"
  shows "case res of
      Inl e \<Rightarrow> db_tables d' = db_tables d \<and>
        \<not> (db_faults d = [] \<and> cid \<in> set (map c_ID (t_clusters (db_tables d))) \<and> distinctSnapshot sn)
    | Inr _ \<Rightarrow> storedSnapshot (db_tables d') = (storedSnapshot (db_tables d))(cid := sn) \<and>
        cid \<in> set (map c_ID (t_clusters (db_tables d))) \<and> distinctSnapshot sn"
proof (cases res)
  case (Inl e)
  have "\<not> (db_faults d = [] \<and> cid \<in> set (map c_ID (t_clusters (db_tables d))) \<and> distinctSnapshot sn)"
  proof
    assume "db_faults d = [] \<and> cid \<in> set (map c_ID (t_clusters (db_tables d))) \<and> distinctSnapshot sn"
    then have "fst (ReplaceSnapshot cid sn version agentVersion health hb d) = Inr ()"
      by (subst ReplaceSnapshot_nf) simp_all
    with assms Inl show False by simp
  qed
  moreover have "db_tables d' = db_tables d" by (rule ReplaceSnapshot_err [OF assms [unfolded Inl]])
  ultimately show ?thesis unfolding Inl sum.case by (rule conjI [rotated])
next
  case (Inr x)
  from ReplaceSnapshot_ok [OF assms [unfolded Inr]] show ?thesis by (simp add: Inr storedSnapshot_replaced)
qed

definition sampleSnapshot :: ClusterSnapshot where
  "sampleSnapshot = \<lparr>sn_Nodes = [], sn_Pods = [], sn_Services = [], sn_Deployments = [],
     sn_Namespaces = [\<lparr>ns_Name = ''web'', ns_Labels = Map.empty\<rparr>], sn_Events = []\<rparr>"

lemma sampleSnapshot_run:
  "ReplaceSnapshot ''c1'' sampleSnapshot ''v1'' ''0.2'' HealthHealthy 50 sampleDb =
     (Inr (), sampleDb\<lparr>db_tables := replacedTables ''c1'' sampleSnapshot ''v1'' ''0.2'' HealthHealthy 50 sampleTables\<rparr>)"
  by (subst ReplaceSnapshot_nf) (simp_all add: sampleSnapshot_def distinctSnapshot_def sample_defs)

theorem snapshot_replace_refines_witness:
  "storedSnapshot (db_tables (snd (ReplaceSnapshot ''c1'' sampleSnapshot ''v1'' ''0.2'' HealthHealthy 50 sampleDb))) ''c1'' =
     sampleSnapshot"
  using snapshot_replace_refines [OF sampleSnapshot_run] sampleSnapshot_run by simp

text \<open>What was uploaded is what the API reads back: after a successful upload each list of the cluster holds
  exactly the uploaded objects, sorted by namespace and name, and a namespace filter selects from them.\<close>

theorem snapshot_read_back:
  assumes "ReplaceSnapshot cid sn version agentVersion health hb d = (Inr u, d1)" and "db_faults d1 = []"
  shows "fst (ListNodes cid d1) = Inr (sort_key n_Name (sn_Nodes sn)) \<and>
    fst (ListPods cid ns d1) =
      Inr (sort_key (\<lambda>p. (p_Namespace p, p_Name p)) (inNamespace ns p_Namespace (sn_Pods sn))) \<and>
    fst (ListServices cid ns d1) =
      Inr (sort_key (\<lambda>s. (sv_Namespace s, sv_Name s)) (inNamespace ns sv_Namespace (sn_Services sn))) \<and>
    fst (ListDeployments cid ns d1) =
      Inr (sort_key (\<lambda>d. (d_Namespace d, d_Name d)) (inNamespace ns d_Namespace (sn_Deployments sn))) \<and>
    fst (ListNamespaceConfigs cid d1) = Inr (sort_key ns_Name (sn_Namespaces sn)) \<and>
    fst (ListEvents cid '''' d1) = Inr (map (\<lambda>e. e\<lparr>ev_ClusterID := cid\<rparr>) (sn_Events sn))"
proof -
  have "sort_key fst (enumerate 0 es) = enumerate 0 es" for es :: "Event list"
    by (rule sort_key_id_if_sorted) simp
  moreover have "map (\<lambda>(i, e). e\<lparr>ev_ClusterID := cid\<rparr>) (enumerate n es) = map (\<lambda>e. e\<lparr>ev_ClusterID := cid\<rparr>) es"
    for n and es :: "Event list" by (induction es arbitrary: n) simp_all
  ultimately show ?thesis
    using ReplaceSnapshot_ok [OF assms(1)] assms(2)
    by (simp add: ListNodes_def ListPods_def ListServices_def ListDeployments_def ListNamespaceConfigs_def
        ListEvents_def wrapErr_def mapErr_def query_nf replacedTables_def inNamespace_def)
qed

theorem snapshot_read_back_witness:
  "fst (ListNamespaceConfigs ''c1'' (snd (ReplaceSnapshot ''c1'' sampleSnapshot ''v1'' ''0.2'' HealthHealthy 50 sampleDb))) =
     Inr [\<lparr>ns_Name = ''web'', ns_Labels = Map.empty\<rparr>]"
  using snapshot_read_back [OF sampleSnapshot_run] sampleSnapshot_run by (simp add: sampleSnapshot_def)

section \<open>Deleting a cluster\<close>

lemma cascade_rows:
  assumes "references key rows c_ID cs"
  shows "filter (\<lambda>r. \<not> (\<exists>c \<in> set cs. c_ID c = cid \<and> c_ID c = key r)) rows = filter (\<lambda>r. key r \<noteq> cid) rows"
  using assms by (auto simp: references_def list_all_iff image_iff intro!: filter_cong) metis

lemma rowsOf_without: "rowsOf c (filter (\<lambda>r. fst r \<noteq> cid) rows) = (if c = cid then [] else rowsOf c rows)"
  by (auto simp: rowsOf_def filter_empty_conv intro!: arg_cong [where f = "map snd"] filter_cong)

lemma cascadeClusters_wf:
  assumes "db_wf t"
  shows "cascadeClusters (\<lambda>c. c_ID c = cid) t =
    t\<lparr>t_clusters := filter (\<lambda>c. c_ID c \<noteq> cid) (t_clusters t),
      t_agents := filter (\<lambda>a. ag_ClusterID a \<noteq> cid) (t_agents t),
      t_nodes := filter (\<lambda>r. fst r \<noteq> cid) (t_nodes t), t_pods := filter (\<lambda>r. fst r \<noteq> cid) (t_pods t),
      t_services := filter (\<lambda>r. fst r \<noteq> cid) (t_services t),
      t_deployments := filter (\<lambda>r. fst r \<noteq> cid) (t_deployments t),
      t_namespaces := filter (\<lambda>r. fst r \<noteq> cid) (t_namespaces t),
      t_events := filter (\<lambda>r. fst r \<noteq> cid) (t_events t)\<rparr>"
proof -
  have refs: "references ag_ClusterID (t_agents t) c_ID (t_clusters t)"
    "references fst (t_nodes t) c_ID (t_clusters t)" "references fst (t_pods t) c_ID (t_clusters t)"
    "references fst (t_services t) c_ID (t_clusters t)" "references fst (t_deployments t) c_ID (t_clusters t)"
    "references fst (t_namespaces t) c_ID (t_clusters t)" "references fst (t_events t) c_ID (t_clusters t)"
    using assms by (simp_all add: db_wf_def schema_defs)
  show ?thesis
    unfolding cascadeClusters_def Let_def cascade_rows [OF refs(1)] cascade_rows [OF refs(2)]
      cascade_rows [OF refs(3)] cascade_rows [OF refs(4)] cascade_rows [OF refs(5)] cascade_rows [OF refs(6)]
      cascade_rows [OF refs(7)] by (rule refl)
qed

text \<open>C38: Deleting a cluster removes it and everything that refers to it (agent credential, snapshot rows) and
  nothing else: other clusters keep their rows, and users, sessions, audit log, alerts and the timeline
  are untouched. A cluster that does not exist is reported as not found and nothing changes.\<close>

theorem cluster_delete_cascade:
  assumes "DeleteCluster cid d = (res, d')" and "db_faults d = []"
  shows "let t = db_tables d; t' = db_tables d' in
    (res = (if cid \<in> set (map c_ID (t_clusters t)) then Inr () else Inl ErrNotFound)) \<and>
    t_clusters t' = filter (\<lambda>c. c_ID c \<noteq> cid) (t_clusters t) \<and>
    (db_wf t \<longrightarrow> t_agents t' = filter (\<lambda>a. ag_ClusterID a \<noteq> cid) (t_agents t) \<and>
       storedSnapshot t' = (storedSnapshot t)(cid := \<lparr>sn_Nodes = [], sn_Pods = [], sn_Services = [],
         sn_Deployments = [], sn_Namespaces = [], sn_Events = []\<rparr>)) \<and>
    t_users t' = t_users t \<and> t_sessions t' = t_sessions t \<and> t_audit t' = t_audit t \<and>
    t_alerts t' = t_alerts t \<and> t_op_events t' = t_op_events t"
proof -
  let ?t = "db_tables d"
  have run: "db_tables d' = cascadeClusters (\<lambda>c. c_ID c = cid) ?t"
    and res: "res = (if cid \<in> set (map c_ID (t_clusters ?t)) then Inr () else Inl ErrNotFound)"
    using assms by (auto simp: DeleteCluster_def bindm_def db_simps cnt_def filter_empty_conv split: if_splits)
  have "t_agents (db_tables d') = filter (\<lambda>a. ag_ClusterID a \<noteq> cid) (t_agents ?t) \<and>
       storedSnapshot (db_tables d') = (storedSnapshot ?t)(cid := \<lparr>sn_Nodes = [], sn_Pods = [], sn_Services = [],
         sn_Deployments = [], sn_Namespaces = [], sn_Events = []\<rparr>)" if wf: "db_wf ?t"
    by (simp add: run cascadeClusters_wf [OF wf] storedSnapshot_def fun_eq_iff rowsOf_without)
  moreover have "t_clusters (db_tables d') = filter (\<lambda>c. c_ID c \<noteq> cid) (t_clusters ?t) \<and>
      t_users (db_tables d') = t_users ?t \<and> t_sessions (db_tables d') = t_sessions ?t \<and> t_audit (db_tables d') = t_audit ?t \<and>
      t_alerts (db_tables d') = t_alerts ?t \<and> t_op_events (db_tables d') = t_op_events ?t"
    by (simp add: run cascadeClusters_def Let_def)
  ultimately show ?thesis using res unfolding Let_def by blast
qed

theorem cluster_delete_cascade_witness:
  "t_clusters (db_tables (snd (DeleteCluster ''c1'' sampleDb))) = [otherCluster] \<and>
   t_agents (db_tables (snd (DeleteCluster ''c1'' sampleDb))) = []"
proof -
  obtain res d' where run: "DeleteCluster ''c1'' sampleDb = (res, d')" by fastforce
  from cluster_delete_cascade [OF run] run sampleTables_wf show ?thesis
    by (simp add: Let_def) (simp add: sample_defs)
qed

section \<open>Agent tokens\<close>

definition approvedRow :: "string \<Rightarrow> tables \<Rightarrow> bool" where
  "approvedRow cid t \<longleftrightarrow> (\<exists>a \<in> set (t_agents t). ag_ClusterID a = cid \<and> ag_Approved a)"

lemma ValidateAgentToken_only:
  assumes "db_faults d = []" and "a \<in> set (t_agents (db_tables d))" and "ag_ClusterID a = cid"
    and "\<And>b. b \<in> set (t_agents (db_tables d)) \<Longrightarrow> ag_ClusterID b = cid \<Longrightarrow> b = a"
  shows "fst (ValidateAgentToken cid h d) = (if h = ag_TokenHash a then Inr (ag_Approved a) else Inl ErrNotFound)"
proof -
  have "selectOne (\<lambda>b. ag_ClusterID b = cid \<and> ag_TokenHash b = h) (t_agents (db_tables d)) =
      (if h = ag_TokenHash a then Some a else None)"
  proof (cases "h = ag_TokenHash a")
    case True
    have "selectOne (\<lambda>b. ag_ClusterID b = cid \<and> ag_TokenHash b = h) (t_agents (db_tables d)) = Some a"
      by (rule selectOne_only [OF assms(2)]) (use True assms(3,4) in blast)+
    with True show ?thesis by simp
  next
    case False
    then have "\<forall>b \<in> set (t_agents (db_tables d)). \<not> (ag_ClusterID b = cid \<and> ag_TokenHash b = h)"
      using assms(4) by blast
    with False show ?thesis by (simp only: selectOne_None if_False)
  qed
  with assms(1) show ?thesis by (simp add: ValidateAgentToken_def bindm_def db_simps throw_def ret_def)
qed

lemma IssueAgentToken_row:
  assumes "db_wf (db_tables d)" and "db_faults d = []" and "IssueAgentToken cid hash now d = (Inr u, d1)"
  shows "db_faults d1 = [] \<and> t_clusters (db_tables d1) = t_clusters (db_tables d) \<and>
    (\<exists>a. a \<in> set (t_agents (db_tables d1)) \<and> ag_ClusterID a = cid \<and> ag_TokenHash a = hash \<and>
       ag_Approved a = approvedRow cid (db_tables d) \<and>
       (\<forall>b. b \<in> set (t_agents (db_tables d1)) \<longrightarrow> ag_ClusterID b = cid \<longrightarrow> b = a))"
proof -
  let ?t = "db_tables d"
  have uniq: "distinct (map ag_ClusterID (t_agents ?t))"
    using assms(1) by (simp add: db_wf_def createAgentsTable_def unique_key_def)
  have d1: "db_faults d1 = []" and "cid \<in> set (map c_ID (t_clusters ?t))" and
    t1: "db_tables d1 = (if cid \<in> set (map ag_ClusterID (t_agents ?t))
      then snd (updAgents cid (\<lambda>a. a\<lparr>ag_TokenHash := hash, ag_IssuedAt := now, ag_LastHeartbeat := None\<rparr>) ?t)
      else ?t\<lparr>t_agents := t_agents ?t @ [\<lparr>ag_ClusterID = cid, ag_TokenHash = hash, ag_Approved = False,
                ag_IssuedAt = now, ag_LastHeartbeat = None\<rparr>]\<rparr>)"
    using assms(2,3)
    by (auto simp: IssueAgentToken_def bindm_def db_simps cnt_def filter_empty_conv image_iff split: if_splits)
  have "t_clusters (db_tables d1) = t_clusters ?t" by (simp add: t1 updAgents_def)
  moreover have "\<exists>a. a \<in> set (t_agents (db_tables d1)) \<and> ag_ClusterID a = cid \<and> ag_TokenHash a = hash \<and>
       ag_Approved a = approvedRow cid ?t \<and>
       (\<forall>b. b \<in> set (t_agents (db_tables d1)) \<longrightarrow> ag_ClusterID b = cid \<longrightarrow> b = a)"
  proof (cases "cid \<in> set (map ag_ClusterID (t_agents ?t))")
    case True
    then obtain x where x: "x \<in> set (t_agents ?t)" "ag_ClusterID x = cid" by auto
    have only: "b = x" if "b \<in> set (t_agents ?t)" "ag_ClusterID b = cid" for b
      using uniq that x by (auto simp: distinct_map inj_on_def)
    let ?f = "\<lambda>a. a\<lparr>ag_TokenHash := hash, ag_IssuedAt := now, ag_LastHeartbeat := None\<rparr>"
    have t: "set (t_agents (db_tables d1)) = (\<lambda>a. if ag_ClusterID a = cid then ?f a else a) ` set (t_agents ?t)"
      using t1 True by (simp add: updAgents_def updWhere_def)
    have f1: "approvedRow cid ?t = ag_Approved x" using x only unfolding approvedRow_def by blast
    have f2: "?f x \<in> set (t_agents (db_tables d1))" unfolding t using x by (intro image_eqI [of _ _ x]) simp_all
    have f3: "b = ?f x" if b: "b \<in> set (t_agents (db_tables d1))" "ag_ClusterID b = cid" for b
    proof -
      obtain y where y: "y \<in> set (t_agents ?t)" "b = (if ag_ClusterID y = cid then ?f y else y)" using b(1) unfolding t by blast
      then have "y = x" using b(2) only [of y] by (simp split: if_splits)
      with y x(2) show ?thesis by simp
    qed
    show ?thesis by (intro exI [of _ "?f x"] conjI allI impI f2 f3) (simp_all add: x(2) f1)
  next
    case False
    then show ?thesis using t1
      by (intro exI [of _ "\<lparr>ag_ClusterID = cid, ag_TokenHash = hash, ag_Approved = False, ag_IssuedAt = now, ag_LastHeartbeat = None\<rparr>"])
        (auto simp: approvedRow_def)
  qed
  ultimately show ?thesis using d1 by blast
qed

lemma IssueAgentToken_succeeds:
  assumes "db_faults d = []" and "cid \<in> set (map c_ID (t_clusters (db_tables d)))"
  shows "\<exists>d1. IssueAgentToken cid hash now d = (Inr (), d1)"
  using assms by (auto simp: IssueAgentToken_def bindm_def db_simps cnt_def filter_empty_conv image_iff)

text \<open>The life of an agent credential: after a token is issued exactly that token is valid for the cluster (an
  older one no longer is), it counts as approved only if the cluster's agent was approved before, and after
  an approval it is approved.\<close>

theorem agent_token_lifecycle:
  assumes "db_wf (db_tables d)" and "db_faults d = []" and "IssueAgentToken cid hash now d = (Inr u, d1)"
  shows "fst (ValidateAgentToken cid h d1) =
      (if h = hash then Inr (approvedRow cid (db_tables d)) else Inl ErrNotFound) \<and>
    fst (ApproveAgent cid d1) = Inr () \<and>
    fst (ValidateAgentToken cid h (snd (ApproveAgent cid d1))) = (if h = hash then Inr True else Inl ErrNotFound)"
proof -
  from IssueAgentToken_row [OF assms] obtain a where d1: "db_faults d1 = []" and
    a: "a \<in> set (t_agents (db_tables d1))" "ag_ClusterID a = cid" "ag_TokenHash a = hash"
    "ag_Approved a = approvedRow cid (db_tables d)"
    and only: "\<And>b. b \<in> set (t_agents (db_tables d1)) \<Longrightarrow> ag_ClusterID b = cid \<Longrightarrow> b = a" by blast
  note v1 = ValidateAgentToken_only [OF d1 a(1,2) only, of h]
  let ?d2 = "d1\<lparr>db_tables := snd (updAgents cid (\<lambda>a. a\<lparr>ag_Approved := True\<rparr>) (db_tables d1))\<rparr>"
  have "cnt (\<lambda>a. ag_ClusterID a = cid) (t_agents (db_tables d1)) \<noteq> 0"
    using a(1,2) by (auto simp: cnt_def filter_empty_conv)
  then have 2: "ApproveAgent cid d1 = (Inr (), ?d2)"
    using d1 by (simp add: ApproveAgent_def bindm_def db_simps updAgents_def)
  have t2: "set (t_agents (db_tables ?d2)) =
      (\<lambda>a. if ag_ClusterID a = cid then a\<lparr>ag_Approved := True\<rparr> else a) ` set (t_agents (db_tables d1))"
    by (simp add: updAgents_def updWhere_def)
  have in2: "a\<lparr>ag_Approved := True\<rparr> \<in> set (t_agents (db_tables ?d2))"
    unfolding t2 using a by (intro image_eqI [of _ _ a]) simp_all
  have only2: "b = a\<lparr>ag_Approved := True\<rparr>" if b: "b \<in> set (t_agents (db_tables ?d2))" "ag_ClusterID b = cid" for b
  proof -
    obtain y where y: "y \<in> set (t_agents (db_tables d1))" "b = (if ag_ClusterID y = cid then y\<lparr>ag_Approved := True\<rparr> else y)"
      using b(1) unfolding t2 by blast
    then have "y = a" using b(2) only [of y] by (simp split: if_splits)
    with y a(2) show ?thesis by simp
  qed
  have id2: "db_faults ?d2 = []" "ag_ClusterID (a\<lparr>ag_Approved := True\<rparr>) = cid" using d1 a(2) by simp_all
  note v2 = ValidateAgentToken_only [OF id2(1) in2 id2(2) only2, of h]
  have "fst (ValidateAgentToken cid h ?d2) = (if h = hash then Inr True else Inl ErrNotFound)"
    using v2 a(3) by simp
  with v1 2 a(3,4) show ?thesis by simp
qed

theorem agent_token_lifecycle_witness:
  "fst (ValidateAgentToken ''c2'' ''#old'' (snd (IssueAgentToken ''c2'' ''#new'' 60 sampleDb))) = Inl ErrNotFound \<and>
   fst (ValidateAgentToken ''c2'' ''#new'' (snd (IssueAgentToken ''c2'' ''#new'' 60 sampleDb))) = Inr False"
proof -
  obtain d1 where run: "IssueAgentToken ''c2'' ''#new'' 60 sampleDb = (Inr (), d1)"
    by (simp add: IssueAgentToken_def bindm_def db_simps sample_defs cnt_def ret_def)
  show ?thesis using agent_token_lifecycle [OF _ _ run] run sampleTables_wf
    by (simp add: approvedRow_def) (simp add: sample_defs)
qed

end
