(* ===== verification/Timeline.thy ===== *)
theory Timeline
  imports Samples
begin

text \<open>
  The pages of the operational timeline (\<open>ListTimelineEvents\<close>): a client that follows the cursors of
  \<open>EventPage\<close> receives every matching event exactly once, newest first.
\<close>

section \<open>Positions in a descending list\<close>

lemma sort_desc_filter: "sort_desc k (filter P xs) = filter P (sort_desc k xs)"
  by (simp only: sort_desc_def rev_filter [symmetric] filter_sort)

lemma filter_below:
  assumes "sorted_wrt (\<lambda>x y. k y < k x) L" and "i < length L"
  shows "filter (\<lambda>x. k x < (k (L ! i) :: 'k :: linorder)) L = drop (Suc i) L"
  using assms
proof (induction L arbitrary: i)
  case (Cons a L)
  show ?case
  proof (cases i)
    case 0
    with Cons.prems show ?thesis by (auto simp: filter_id_conv)
  next
    case (Suc j)
    then have "L ! j \<in> set L" using Cons.prems by simp
    with Suc Cons show ?thesis by (auto simp: not_less less_imp_le)
  qed
qed simp

lemma sort_desc_strict:
  assumes "distinct (map k xs)"
  shows "sorted_wrt (\<lambda>x y. k y < (k x :: 'k :: linorder)) (sort_desc k xs)"
proof -
  have "distinct (map k (sort_key k xs))"
    using assms by (metis distinct_map distinct_sort set_sort)
  then have "sorted_wrt (<) (map k (sort_key k xs))"
    by (simp add: strict_sorted_iff)
  then show ?thesis by (simp add: sort_desc_def sorted_wrt_rev sorted_wrt_map)
qed

section \<open>One page\<close>

definition matching :: "EventFilter \<Rightarrow> tables \<Rightarrow> OperationalEvent list" where
  "matching f t = sort_desc eventOrder (filter (filterMatch f) (t_op_events t))"

text \<open>The filter that asks for the events from position \<open>k\<close> of the matching ones.\<close>

definition asksFrom :: "nat \<Rightarrow> EventFilter \<Rightarrow> tables \<Rightarrow> bool" where
  "asksFrom k f t \<longleftrightarrow>
     (if k = 0 then ef_Before f \<le> 0 else k \<le> length (matching f t) \<and> ef_Before f = oe_ID (matching f t ! (k - 1)))"

lemma pageLimit_bounds: "1 \<le> pageLimit l" "pageLimit l \<le> maxEventPageLimit"
  by (auto simp: pageLimit_def Let_def defaultEventPageLimit_def maxEventPageLimit_def)

lemma filterMatch_before [simp]: "filterMatch (f\<lparr>ef_Before := b\<rparr>) = filterMatch f"
  by (rule ext) (simp add: filterMatch_def)

lemma matching_before [simp]: "matching (f\<lparr>ef_Before := b\<rparr>) t = matching f t"
  by (simp add: matching_def)

lemma event_ids:
  assumes "db_wf t" and "e \<in> set (t_op_events t)"
  shows "0 < oe_ID e" and "selectOne (\<lambda>x. oe_ID x = oe_ID e) (t_op_events t) = Some e"
  using assms selectOne_unique [of oe_ID "t_op_events t" e]
  by (auto simp: db_wf_def createOperationalEventsTable_def unique_key_def list_all_iff)

lemma matching_strict: "db_wf t \<Longrightarrow> sorted_wrt (\<lambda>x y. eventOrder y < eventOrder x) (matching f t)"
proof -
  assume "db_wf t"
  then have "distinct (map oe_ID (t_op_events t))"
    by (simp add: db_wf_def createOperationalEventsTable_def unique_key_def)
  then have "distinct (map eventOrder (filter (filterMatch f) (t_op_events t)))"
    unfolding distinct_map by (auto simp: eventOrder_def inj_on_def)
  then show ?thesis unfolding matching_def by (rule sort_desc_strict)
qed

lemma cursor_event:
  assumes wf: "db_wf t" and e: "e \<in> set (matching f t)"
  shows "selectOne (\<lambda>x. oe_ID x = oe_ID e \<and>
      (ef_TenantID f \<noteq> '''' \<longrightarrow> oe_TenantID x = normalizeTenantID (ef_TenantID f))) (t_op_events t) = Some e"
proof -
  have m: "e \<in> set (t_op_events t)" "filterMatch f e" using e by (auto simp: matching_def)
  note one = event_ids(2) [OF wf m(1)]
  have weaker: "selectOne P xs = Some x" if "selectOne Q xs = Some x" "P x" "\<And>y. P y \<Longrightarrow> Q y"
    for P Q :: "OperationalEvent \<Rightarrow> bool" and xs x
    using that by (induction xs) (auto simp: selectOne_def split: if_splits)
  show ?thesis by (rule weaker [OF one]) (use m(2) in \<open>auto simp: filterMatch_def\<close>)
qed

lemma ListTimelineEvents_at:
  assumes wf: "db_wf (db_tables d)" and nf: "db_faults d = []" and at: "asksFrom k f (db_tables d)"
  shows "ListTimelineEvents f d =
    (Inr (pageOf (nat (pageLimit (ef_Limit f)))
       (map scanTimelineEvent (take (nat (pageLimit (ef_Limit f) + 1)) (drop k (matching f (db_tables d)))))), d)"
proof (cases "k = 0")
  case True
  with at nf show ?thesis
    by (simp add: ListTimelineEvents_def asksFrom_def selectPage_def matching_def db_simps bindm_def ret_def Let_def)
next
  case False
  let ?L = "matching f (db_tables d)" and ?t = "db_tables d"
  let ?e = "?L ! (k - 1)"
  have e: "?e \<in> set ?L" "k \<le> length ?L" "ef_Before f = oe_ID ?e" using False at by (auto simp: asksFrom_def)
  then have "0 < ef_Before f" using event_ids(1) [OF wf] by (auto simp: matching_def)
  moreover have "filter (\<lambda>x. filterMatch f x \<and> beforeCursor (oe_OccurredAt ?e) (ef_Before f) x) (t_op_events ?t) =
      filter (\<lambda>x. eventOrder x < eventOrder ?e) (filter (filterMatch f) (t_op_events ?t))"
    using e(3) by (auto simp: beforeCursor_def eventOrder_def less_prod_def intro!: filter_cong)
  then have "selectPage f (beforeCursor (oe_OccurredAt ?e) (ef_Before f)) ?t =
      map scanTimelineEvent (take (nat (pageLimit (ef_Limit f) + 1)) (drop k ?L))"
    using filter_below [OF matching_strict [OF wf], of "k - 1" f] False e(2)
    by (simp add: selectPage_def sort_desc_filter [of eventOrder] matching_def)
  ultimately show ?thesis
    using nf cursor_event [OF wf e(1)] e(3)
    by (simp add: ListTimelineEvents_def db_simps bindm_def ret_def Let_def)
qed

section \<open>Following the cursors\<close>

text \<open>A client that asks for the next page as long as the hub names a cursor.\<close>

fun followCursors :: "nat \<Rightarrow> EventFilter \<Rightarrow> db \<Rightarrow> OperationalEvent list" where
  "followCursors 0 f d = []"
| "followCursors (Suc n) f d =
     (case ListTimelineEvents f d of
        (Inl e, d') \<Rightarrow> []
      | (Inr page, d') \<Rightarrow> ep_Events page @
          (if ep_NextCursor page = 0 then [] else followCursors n (f\<lparr>ef_Before := ep_NextCursor page\<rparr>) d'))"

lemma followCursors_from:
  "db_wf (db_tables d) \<Longrightarrow> db_faults d = [] \<Longrightarrow> asksFrom k f (db_tables d) \<Longrightarrow>
     length (matching f (db_tables d)) < n + k \<Longrightarrow> 0 < n \<Longrightarrow>
     followCursors n f d = map scanTimelineEvent (drop k (matching f (db_tables d)))"
proof (induction n arbitrary: k f)
  case (Suc n)
  let ?L = "matching f (db_tables d)" and ?m = "nat (pageLimit (ef_Limit f))"
  note page = ListTimelineEvents_at [OF Suc.prems(1-3)]
  have m: "nat (pageLimit (ef_Limit f) + 1) = Suc ?m" "0 < ?m" using pageLimit_bounds(1) [of "ef_Limit f"] by auto
  show ?case
  proof (cases "length ?L - k > ?m")
    case False
    with page m show ?thesis by (simp add: pageOf_def)
  next
    case True
    let ?e = "?L ! (k + ?m - 1)" and ?g = "f\<lparr>ef_Before := oe_ID (?L ! (k + ?m - 1))\<rparr>"
    have "oe_ID (map scanTimelineEvent (take (Suc ?m) (drop k ?L)) ! (?m - 1)) = oe_ID ?e"
      using True m(2) by (simp add: scanTimelineEvent_def)
    moreover have "?e \<in> set (t_op_events (db_tables d))" using True m(2) nth_mem [of "k + ?m - 1" ?L]
      by (auto simp: matching_def)
    then have "0 < oe_ID ?e" using event_ids(1) [OF Suc.prems(1)] by blast
    ultimately have "followCursors (Suc n) f d =
        map scanTimelineEvent (take ?m (drop k ?L)) @ followCursors n ?g d"
      using page m True by (simp add: pageOf_def take_map)
    also have "followCursors n ?g d = map scanTimelineEvent (drop (k + ?m) (matching ?g (db_tables d)))"
      using Suc.prems True m(2) by (intro Suc.IH) (auto simp: asksFrom_def)
    also have "map scanTimelineEvent (take ?m (drop k ?L)) @ map scanTimelineEvent (drop (k + ?m) (matching ?g (db_tables d))) =
        map scanTimelineEvent (drop k ?L)"
      by (metis append_take_drop_id drop_drop map_append matching_before add.commute)
    finally show ?thesis .
  qed
next
  case 0
  then show ?case by (simp only: less_irrefl)
qed

text \<open>C9: Following the timeline's cursors from the first page enumerates every matching event exactly once, newest
  first, whatever the page size: no event is lost or repeated at a page boundary, also between events of the
  same instant. Fuel of one page per event is always enough.\<close>

theorem timeline_pages_complete:
  assumes "db_wf (db_tables d)" and "db_faults d = []" and "ef_Before f \<le> 0"
    and "length (t_op_events (db_tables d)) < n"
  shows "followCursors n f d =
    map scanTimelineEvent (sort_desc eventOrder (filter (filterMatch f) (t_op_events (db_tables d))))"
proof -
  have "length (matching f (db_tables d)) \<le> length (t_op_events (db_tables d))" by (simp add: matching_def)
  then show ?thesis
    using followCursors_from [of d 0 f n] assms by (simp add: asksFrom_def) (simp add: matching_def)
qed

text \<open>A page never holds more events than asked for, at most 500 and 50 by default, and every event on it matches
  the filter: it is of the requested tenant and cluster and inside the time window, for any cursor, also one that
  names another tenant's event.\<close>

theorem timeline_page_isolated:
  assumes "ListTimelineEvents f d = (Inr page, d')"
  shows "int (length (ep_Events page)) \<le> pageLimit (ef_Limit f) \<and> pageLimit (ef_Limit f) \<le> maxEventPageLimit \<and>
    list_all (filterMatch f) (ep_Events page)"
proof -
  have f: "filterMatch f (scanTimelineEvent e) = filterMatch f e" for e
    by (simp add: filterMatch_def scanTimelineEvent_def split: option.splits)
  have "\<forall>e \<in> set (selectPage f c t). filterMatch f e" for c t
    by (auto simp: selectPage_def f dest!: in_set_takeD)
  moreover have "set (ep_Events (pageOf l es)) \<subseteq> set es" "length (ep_Events (pageOf l es)) \<le> l" for l es
    by (auto simp: pageOf_def dest: in_set_takeD)
  ultimately have "list_all (filterMatch f) (ep_Events (pageOf l (selectPage f c t))) \<and> length (ep_Events (pageOf l (selectPage f c t))) \<le> l"
    for l c t unfolding list_all_iff by blast
  moreover have "page = \<lparr>ep_Events = [], ep_NextCursor = 0\<rparr> \<or>
      (\<exists>c t. page = pageOf (nat (pageLimit (ef_Limit f))) (selectPage f c t))"
    using assms by (auto simp: ListTimelineEvents_def Let_def bindm_ok wrapErr_ok dest!: query_ok split: if_splits option.splits)
  moreover have "int l \<le> pageLimit (ef_Limit f)" if "l \<le> nat (pageLimit (ef_Limit f))" for l
    using that pageLimit_bounds(1) [of "ef_Limit f"] by linarith
  ultimately show ?thesis using pageLimit_bounds [of "ef_Limit f"] by auto
qed

definition sampleEvent :: "int \<Rightarrow> string \<Rightarrow> OperationalEvent" where
  "sampleEvent i key = \<lparr>oe_ID = i, oe_TenantID = ''default'', oe_ClusterID = ''c1'', oe_Kind = ''policy_finding'',
     oe_Message = '''', oe_Details = Map.empty, oe_OccurredAt = 70, oe_DedupeKey = key\<rparr>"

definition timelineDb :: db where
  "timelineDb = \<lparr>db_tables = sampleTables\<lparr>t_op_seq := 2, t_op_events := [sampleEvent 1 ''a'', sampleEvent 2 ''b'']\<rparr>,
     db_faults = []\<rparr>"

definition sampleFilter :: EventFilter where
  "sampleFilter = \<lparr>ef_TenantID = '''', ef_ClusterID = ''c1'', ef_Since = None, ef_Until = None, ef_Before = 0, ef_Limit = 1\<rparr>"

lemma timelineDb_wf: "db_wf (db_tables timelineDb)"
  using sampleTables_wf
  by (simp add: timelineDb_def db_wf_def schema_defs sampleEvent_def unique_key_def)

theorem timeline_pages_complete_witness:
  "followCursors 3 sampleFilter timelineDb = map scanTimelineEvent [sampleEvent 2 ''b'', sampleEvent 1 ''a'']"
  by (subst timeline_pages_complete)
    (simp_all add: timelineDb_wf, simp_all add: timelineDb_def sampleFilter_def sampleEvent_def filterMatch_def
      sort_desc_def eventOrder_def)

theorem timeline_page_isolated_witness:
  "length (ep_Events (projr (fst (ListTimelineEvents sampleFilter timelineDb)))) \<le> 1"
proof -
  have "asksFrom 0 sampleFilter (db_tables timelineDb)" by (simp add: asksFrom_def sampleFilter_def)
  then obtain page d' where run: "ListTimelineEvents sampleFilter timelineDb = (Inr page, d')"
    using ListTimelineEvents_at [OF timelineDb_wf] by (simp add: timelineDb_def)
  from timeline_page_isolated [OF run] run show ?thesis
    by (simp add: sampleFilter_def pageLimit_def maxEventPageLimit_def)
qed

section \<open>Appending and pruning\<close>

text \<open>Recording is idempotent: an event that was recorded with a dedupe key is not recorded a second time (the
  call reports false and changes nothing), even with another message or time, and a recorded event gets
  an id above all ids ever used.\<close>

theorem event_append_once:
  assumes "AppendEvent event d = (Inr b, d1)" and "oe_DedupeKey event \<noteq> ''''" and "db_faults d1 = []"
    and "oe_ClusterID again = oe_ClusterID event" and "oe_Kind again = oe_Kind event"
    and "oe_DedupeKey again = oe_DedupeKey event"
  shows "AppendEvent again d1 = (Inr False, d1) \<and>
    (b \<longrightarrow> t_op_events (db_tables d1) = t_op_events (db_tables d) @
       [event\<lparr>oe_ID := t_op_seq (db_tables d) + 1, oe_TenantID := normalizeTenantID (oe_TenantID event)\<rparr>]) \<and>
    (\<not> b \<longrightarrow> db_tables d1 = db_tables d)"
proof -
  let ?key = "\<lambda>e. (oe_ClusterID e, oe_Kind e, oe_DedupeKey e)"
  let ?dup = "?key event \<in> set (map ?key (t_op_events (db_tables d)))"
  let ?row = "event\<lparr>oe_ID := t_op_seq (db_tables d) + 1, oe_TenantID := normalizeTenantID (oe_TenantID event)\<rparr>"
  define change where "change = (\<lambda>t :: tables. if ?key event \<in> set (map ?key (t_op_events t)) then (0, t)
    else (1 :: nat, t\<lparr>t_op_seq := t_op_seq t + 1, t_op_events := t_op_events t @
      [event\<lparr>oe_ID := t_op_seq t + 1, oe_TenantID := normalizeTenantID (oe_TenantID event)\<rparr>]\<rparr>))"
  from assms(1,2) obtain n d0 where x: "exec change d = (Inr n, d0)"
    and r: "bindm (wrapErr ''read affected rows'' (RowsAffected n)) (\<lambda>affected. ret (0 < affected)) d0 = (Inr b, d1)"
    by (simp add: AppendEvent_def bindm_ok wrapErr_ok change_def) blast
  from r have b: "b \<longleftrightarrow> 0 < n" "db_tables d1 = db_tables d0"
    by (simp_all add: bindm_ok wrapErr_ok RowsAffected_def) (blast dest: query_ok)+
  note x' = exec_ok [OF x]
  have dup: "?key event \<in> set (map ?key (t_op_events (db_tables d1)))"
    using x' b(2) by (cases ?dup) (simp_all add: change_def)
  have "AppendEvent again d1 = (Inr False, d1)"
    using dup assms(2-) by (simp add: AppendEvent_def bindm_def ret_def db_simps)
  moreover have "(b \<longrightarrow> t_op_events (db_tables d1) = t_op_events (db_tables d) @ [?row]) \<and>
      (\<not> b \<longrightarrow> db_tables d1 = db_tables d)"
    using x' b by (cases ?dup) (simp_all add: change_def)
  ultimately show ?thesis by blast
qed

theorem event_append_once_witness:
  "fst (AppendEvent (sampleEvent 9 ''n'') (snd (AppendEvent (sampleEvent 0 ''n'') timelineDb))) = Inr False"
proof -
  obtain d1 where run: "AppendEvent (sampleEvent 0 ''n'') timelineDb = (Inr True, d1)" and "db_faults d1 = []"
    by (simp add: AppendEvent_def timelineDb_def sampleEvent_def bindm_def ret_def db_simps)
  from event_append_once [OF run _ this(2), of "sampleEvent 9 ''n''"] run show ?thesis
    by (simp add: sampleEvent_def)
qed

text \<open>Retention deletes exactly the events older than the cutoff, in batches, and reports their number; when a
  batch fails, what earlier batches removed was old too, and every event that is not stays. No other
  table changes.\<close>

theorem event_prune_exact:
  assumes "PruneEventsBefore cutoff d = (res, d')"
  shows "case res of
      Inr n \<Rightarrow> db_tables d' = (db_tables d)\<lparr>t_op_events :=
          filter (\<lambda>e. cutoff \<le> oe_OccurredAt e) (t_op_events (db_tables d))\<rparr> \<and>
        n = length (filter (\<lambda>e. oe_OccurredAt e < cutoff) (t_op_events (db_tables d)))
    | Inl e \<Rightarrow> (\<exists>rs. db_tables d' = (db_tables d)\<lparr>t_op_events := rs\<rparr> \<and>
        filter (\<lambda>e. cutoff \<le> oe_OccurredAt e) rs =
          filter (\<lambda>e. cutoff \<le> oe_OccurredAt e) (t_op_events (db_tables d)))"
proof -
  have old: "(\<lambda>e. \<not> olderThan cutoff e) = (\<lambda>e. cutoff \<le> oe_OccurredAt e)"
    "olderThan cutoff = (\<lambda>e. oe_OccurredAt e < cutoff)"
    by (auto simp: olderThan_def fun_eq_iff)
  show ?thesis
  proof (cases res)
    case (Inl e)
    with event_prune.loop_safe [OF assms [unfolded PruneEventsBefore_def]] show ?thesis by (simp add: old not_less)
  next
    case (Inr n)
    with event_prune.loop_ok [OF assms [unfolded PruneEventsBefore_def Inr]] show ?thesis
      by (simp add: old cnt_def not_less)
  qed
qed

theorem event_prune_exact_witness:
  "\<exists>n d'. PruneEventsBefore 71 timelineDb = (Inr n, d') \<and> n = 2 \<and> t_op_events (db_tables d') = []"
proof -
  have "db_faults timelineDb = []" by (simp add: timelineDb_def)
  from event_prune.loop_nf [OF this, of 71 0] obtain n d' where run: "PruneEventsBefore 71 timelineDb = (Inr n, d')"
    by (simp add: PruneEventsBefore_def)
  from event_prune_exact [OF run] run show ?thesis by (simp add: timelineDb_def sampleEvent_def)
qed

end
