(* ===== verification/UserFacts.thy ===== *)
theory UserFacts
  imports Samples
begin

text \<open>
  What the account operations of \<open>internal/store\<close> promise: the exact outcome of the guarded changes of a
  user, the revocation of sessions by a password reset, and the validity of a session from its creation
  to its end.
\<close>

section \<open>The guard of the last administrator\<close>

definition soleEnabledAdmin :: "string \<Rightarrow> tables \<Rightarrow> bool" where
  "soleEnabledAdmin uid t \<longleftrightarrow> filter enabledAdmin (t_users t) \<noteq> [] \<and>
     list_all (\<lambda>u. enabledAdmin u \<longrightarrow> u_ID u = uid) (t_users t)"

lemma cnt_sole:
  assumes "unique_key u_ID (t_users t)" and u: "u \<in> set (t_users t)" and "enabledAdmin u"
  shows "cnt enabledAdmin (t_users t) \<le> 1 \<longleftrightarrow> soleEnabledAdmin (u_ID u) t"
proof -
  let ?xs = "filter enabledAdmin (t_users t)"
  have d: "distinct (map u_ID ?xs)" using assms(1) unfolding unique_key_def by (rule GoLib.distinct_map_filter)
  have "u \<in> set ?xs" using assms by simp
  then obtain a ys where xs: "?xs = a # ys" by (cases ?xs) auto
  show ?thesis
  proof
    assume "cnt enabledAdmin (t_users t) \<le> 1"
    with xs have "?xs = [a]" by (simp add: cnt_def)
    with \<open>u \<in> set ?xs\<close> have "v = u" if "v \<in> set (t_users t)" "enabledAdmin v" for v
    proof -
      have "v \<in> set ?xs" using that by simp
      with \<open>?xs = [a]\<close> \<open>u \<in> set ?xs\<close> show ?thesis by simp
    qed
    then show "soleEnabledAdmin (u_ID u) t" using xs by (auto simp: soleEnabledAdmin_def list_all_iff)
  next
    assume "soleEnabledAdmin (u_ID u) t"
    then have same: "u_ID v = u_ID u" if "v \<in> set ?xs" for v using that by (simp add: soleEnabledAdmin_def list_all_iff)
    have "ys = []"
    proof (cases ys)
      case (Cons b zs)
      with same [of a] same [of b] d show ?thesis by (simp add: xs)
    qed simp
    with xs show "cnt enabledAdmin (t_users t) \<le> 1" by (simp add: cnt_def)
  qed
qed

text \<open>The outcome of a guarded change that itself succeeds on every existing user.\<close>

lemma withLastAdminGuard_nf:
  assumes nf: "db_faults d = []" and key: "unique_key u_ID (t_users (db_tables d))"
    and ok: "uid \<in> set (map u_ID (t_users (db_tables d))) \<Longrightarrow>
      mutate d = (Inr (), d\<lparr>db_tables := f (db_tables d)\<rparr>)"
  shows "withLastAdminGuard uid role disabled mutate d =
    (if uid \<notin> set (map u_ID (t_users (db_tables d))) then (Inl ErrNotFound, d)
     else if soleEnabledAdmin uid (db_tables d) \<and> \<not> (role = RoleAdmin \<and> \<not> disabled) then (Inl ErrLastAdmin, d)
     else (Inr (), d\<lparr>db_tables := f (db_tables d)\<rparr>))"
proof (cases "uid \<in> set (map u_ID (t_users (db_tables d)))")
  case False
  then have none: "selectOne (\<lambda>u. u_ID u = uid) (t_users (db_tables d)) = None" by auto
  show ?thesis unfolding withLastAdminGuard_def
    by (subst tx_nf [OF nf, of _ "Inl ErrNotFound" d]) (use False nf in \<open>simp_all add: none bindm_def db_simps throw_def del: selectOne_None\<close>)
next
  case True
  then obtain u where u: "u \<in> set (t_users (db_tables d))" "u_ID u = uid" by auto
  have one: "selectOne (\<lambda>u. u_ID u = uid) (t_users (db_tables d)) = Some u"
    using selectOne_unique [of u_ID] key u unfolding unique_key_def by blast
  have sole: "soleEnabledAdmin uid (db_tables d) \<longleftrightarrow> enabledAdmin u \<and> cnt enabledAdmin (t_users (db_tables d)) \<le> 1"
  proof (cases "enabledAdmin u")
    case True
    with cnt_sole [OF key u(1)] u(2) show ?thesis by simp
  next
    case False
    have "u = v" if "v \<in> set (t_users (db_tables d))" "u_ID v = uid" for v
      using key u that by (auto simp: unique_key_def distinct_map inj_on_def)
    with False show ?thesis by (auto simp: soleEnabledAdmin_def list_all_iff filter_empty_conv)
  qed
  let ?refused = "soleEnabledAdmin uid (db_tables d) \<and> \<not> (role = RoleAdmin \<and> \<not> disabled)"
  have e: "(\<lambda>u. u_Role u = RoleAdmin \<and> \<not> u_Disabled u) = enabledAdmin" by (simp add: enabledAdmin_def fun_eq_iff)
  show ?thesis unfolding withLastAdminGuard_def
    apply (subst tx_nf [OF nf, of _ "if ?refused then Inl ErrLastAdmin else Inr ()" "if ?refused then d else d\<lparr>db_tables := f (db_tables d)\<rparr>"])
    using True one sole nf ok apply (simp_all add: bindm_def db_simps throw_def ret_def Let_def e)
    apply (auto simp: enabledAdmin_def)
    done
qed

text \<open>C32: Changing a user's role or disabling them, without a failing statement, has exactly one of three outcomes:
  not found for an unknown id; the last-admin error, with nothing changed, when the user is the only
  enabled administrator and would stop being one; otherwise success, and exactly that user's role,
  disabled flag and update time have changed.\<close>

theorem update_user_outcome:
  assumes "db_faults d = []" and "db_wf (db_tables d)" and "validRoleRow role"
  shows "UpdateUser uid role disabled now d =
    (if uid \<notin> set (map u_ID (t_users (db_tables d))) then (Inl ErrNotFound, d)
     else if soleEnabledAdmin uid (db_tables d) \<and> \<not> (role = RoleAdmin \<and> \<not> disabled) then (Inl ErrLastAdmin, d)
     else (Inr (), d\<lparr>db_tables := (db_tables d)\<lparr>t_users :=
       map (\<lambda>u. if u_ID u = uid then u\<lparr>u_Role := role, u_Disabled := disabled, u_UpdatedAt := now\<rparr> else u)
         (t_users (db_tables d))\<rparr>\<rparr>))"
  unfolding UpdateUser_def
proof (rule withLastAdminGuard_nf [OF assms(1)])
  show "unique_key u_ID (t_users (db_tables d))"
    using assms(2) by (simp add: db_wf_def createUsersTable_def)
  assume "uid \<in> set (map u_ID (t_users (db_tables d)))"
  then have "cnt (\<lambda>u. u_ID u = uid) (t_users (db_tables d)) \<noteq> 0"
    by (auto simp: cnt_def filter_empty_conv)
  then show "bindm (wrapErr ''update user'' (stmt (\<lambda>t.
        if \<not> validRoleRow role \<and> cnt (\<lambda>u. u_ID u = uid) (t_users t) \<noteq> 0 then Inl SqlCheck
        else Inr (updUsers uid (setRole role disabled now) t)))) requireAffectedRow d =
      (Inr (), d\<lparr>db_tables := (db_tables d)\<lparr>t_users :=
       map (\<lambda>u. if u_ID u = uid then u\<lparr>u_Role := role, u_Disabled := disabled, u_UpdatedAt := now\<rparr> else u)
         (t_users (db_tables d))\<rparr>\<rparr>)"
    using assms(1,3) by (simp add: bindm_def db_simps updUsers_def updWhere_def setRole_def)
qed

theorem update_user_outcome_witness:
  "fst (UpdateUser ''u1'' RoleOperator False 60 sampleDb) = Inl ErrLastAdmin \<and>
   fst (UpdateUser ''u2'' RoleAdmin False 60 sampleDb) = Inr ()"
  using update_user_outcome [OF _ _ _, of sampleDb RoleOperator "''u1''" False 60]
    update_user_outcome [OF _ _ _, of sampleDb RoleAdmin "''u2''" False 60] sampleTables_wf
  by (simp add: validRoleRow_def) (simp add: sample_defs soleEnabledAdmin_def enabledAdmin_def)

section \<open>Sessions\<close>

text \<open>A password reset is all or nothing: it either fails and changes nothing, or it sets the hash and revokes
  every session of that user, so that no token is a session of theirs afterwards, while all other users
  keep theirs.\<close>

theorem reset_password_revokes:
  assumes "ResetUserPassword uid hash now d = (res, d')"
  shows "case res of
      Inl e \<Rightarrow> db_tables d' = db_tables d
    | Inr _ \<Rightarrow> (\<exists>u \<in> set (t_users (db_tables d')). u_ID u = uid) \<and>
        list_all (\<lambda>u. u_ID u = uid \<longrightarrow> u_PasswordHash u = hash) (t_users (db_tables d')) \<and>
        (\<forall>token time u. sessionUser token time (db_tables d') = Some u \<longrightarrow> u_ID u \<noteq> uid) \<and>
        filter (\<lambda>s. ss_UserID s \<noteq> uid) (t_sessions (db_tables d')) = filter (\<lambda>s. ss_UserID s \<noteq> uid) (t_sessions (db_tables d))"
proof (cases res)
  case (Inl e)
  from tx_err [OF assms [unfolded ResetUserPassword_def Inl]] show ?thesis by (simp add: Inl)
next
  case (Inr x)
  let ?t = "db_tables d"
  have t: "db_tables d' = ?t\<lparr>t_users := updWhere (\<lambda>u. u_ID u = uid)
        (\<lambda>u. u\<lparr>u_PasswordHash := hash, u_UpdatedAt := now\<rparr>) (t_users ?t),
      t_sessions := filter (\<lambda>s. ss_UserID s \<noteq> uid) (t_sessions ?t)\<rparr>"
    and n: "cnt (\<lambda>u. u_ID u = uid) (t_users ?t) \<noteq> 0"
    using tx_ok [OF assms [unfolded ResetUserPassword_def Inr]]
    by (auto simp: bindm_ok wrapErr_ok updUsers_def dest!: exec_ok requireAffectedRow_ok)
  have revoked: "u_ID u \<noteq> uid" if su: "sessionUser token time (db_tables d') = Some u" for token time u
  proof -
    obtain s where "selectOne (\<lambda>(s, u). u_ID u = ss_UserID s \<and> ss_TokenHash s = token \<and> time < ss_ExpiresAt s)
        (List.product (t_sessions (db_tables d')) (t_users (db_tables d'))) = Some (s, u)"
      using su by (auto simp: sessionUser_def split: option.splits prod.splits)
    from selectOne_Some [OF this] show ?thesis by (auto simp: t)
  qed
  have "\<exists>u \<in> set (t_users ?t). u_ID u = uid" using n by (auto simp: cnt_def filter_empty_conv)
  moreover have "map u_ID (t_users (db_tables d')) = map u_ID (t_users ?t)" unfolding t by (simp add: map_updWhere)
  ultimately have "uid \<in> u_ID ` set (t_users (db_tables d'))" by (metis image_eqI set_map)
  then have "\<exists>u \<in> set (t_users (db_tables d')). u_ID u = uid" by blast
  moreover have "list_all (\<lambda>u. u_ID u = uid \<longrightarrow> u_PasswordHash u = hash) (t_users (db_tables d'))"
    unfolding list_all_iff
  proof (intro ballI impI)
    fix u assume "u \<in> set (t_users (db_tables d'))" and "u_ID u = uid"
    then obtain r where "u = (if u_ID r = uid then r\<lparr>u_PasswordHash := hash, u_UpdatedAt := now\<rparr> else r)"
      unfolding t by (auto simp: in_updWhere)
    with \<open>u_ID u = uid\<close> show "u_PasswordHash u = hash" by (simp split: if_splits)
  qed
  moreover have "filter (\<lambda>s. ss_UserID s \<noteq> uid) (t_sessions (db_tables d')) = filter (\<lambda>s. ss_UserID s \<noteq> uid) (t_sessions ?t)"
    unfolding t by simp
  ultimately show ?thesis using revoked unfolding Inr sum.case by blast
qed

theorem reset_password_revokes_witness:
  "sessionUser ''#sess'' 100 sampleTables = Some sampleAdmin \<and>
   (case ResetUserPassword ''u1'' ''$new'' 60 sampleDb of
      (Inl e, d') \<Rightarrow> False | (Inr x, d') \<Rightarrow> sessionUser ''#sess'' 100 (db_tables d') \<noteq> Some sampleAdmin)"
proof -
  obtain res d' where run: "ResetUserPassword ''u1'' ''$new'' 60 sampleDb = (res, d')" by fastforce
  have "fst (ResetUserPassword ''u1'' ''$new'' 60 sampleDb) = Inr ()"
    unfolding ResetUserPassword_def
    by (subst tx_nf [OF _ prod.collapse [symmetric]]) (simp_all add: bindm_def db_simps updUsers_def ret_def, simp_all add: sample_defs cnt_def)
  then have res: "res = Inr ()" by (simp add: run)
  have "sessionUser ''#sess'' 100 sampleTables = Some sampleAdmin"
    by (simp add: sessionUser_def selectOne_def sample_defs)
  moreover have "u_ID sampleAdmin = ''u1''" by (simp add: sample_defs)
  ultimately show ?thesis using reset_password_revokes [OF run] by (auto simp: run res)
qed

text \<open>C33: A session is valid from its creation to its expiry and only with its own token: until then it yields its
  user as the users table has them, from the expiry instant on it is not found, and after a logout it is
  not found at any time.\<close>

theorem session_lifecycle:
  assumes "db_wf (db_tables d)" and "db_faults d = []" and "CreateSession token (u_ID user) expiry now d = (Inr x, d1)"
    and "user \<in> set (t_users (db_tables d))"
  shows "fst (GetSessionUser token time d1) = (if time < expiry then Inr user else Inl ErrNotFound) \<and>
    fst (GetSessionUser token time (snd (DeleteSession token d1))) = Inl ErrNotFound"
proof -
  let ?t = "db_tables d"
  let ?s = "\<lparr>ss_TokenHash = token, ss_UserID = u_ID user, ss_CreatedAt = now, ss_ExpiresAt = expiry\<rparr>"
  have d1: "d1 = d\<lparr>db_tables := ?t\<lparr>t_sessions := t_sessions ?t @ [?s]\<rparr>\<rparr>" and new: "token \<notin> set (map ss_TokenHash (t_sessions ?t))"
    using assms(2,3) by (auto simp: CreateSession_def bindm_def db_simps split: if_splits)
  have uniq: "v = user" if "v \<in> set (t_users ?t)" "u_ID v = u_ID user" for v
    using assms(1,4) that by (auto simp: db_wf_def createUsersTable_def unique_key_def distinct_map inj_on_def)
  have "selectOne (\<lambda>(s, u). u_ID u = ss_UserID s \<and> ss_TokenHash s = token \<and> time < ss_ExpiresAt s)
      (List.product (t_sessions (db_tables d1)) (t_users (db_tables d1))) = (if time < expiry then Some (?s, user) else None)"
  proof (cases "time < expiry")
    case True
    have "selectOne (\<lambda>(s, u). u_ID u = ss_UserID s \<and> ss_TokenHash s = token \<and> time < ss_ExpiresAt s)
        (List.product (t_sessions (db_tables d1)) (t_users (db_tables d1))) = Some (?s, user)"
    proof (rule selectOne_only)
      fix b assume b: "b \<in> set (List.product (t_sessions (db_tables d1)) (t_users (db_tables d1)))"
        "case b of (s, u) \<Rightarrow> u_ID u = ss_UserID s \<and> ss_TokenHash s = token \<and> time < ss_ExpiresAt s"
      then obtain s u where su: "b = (s, u)" "s \<in> set (t_sessions ?t) \<or> s = ?s" "u \<in> set (t_users ?t)" by (auto simp: d1)
      then have "s = ?s" using b(2) new by auto
      then show "b = (?s, user)" using b(2) su uniq by auto
    qed (use True assms(4) d1 in auto)
    with True show ?thesis by simp
  next
    case False
    then show ?thesis using new by (auto simp: d1)
  qed
  then have "fst (GetSessionUser token time d1) = (if time < expiry then Inr user else Inl ErrNotFound)"
    using assms(2) by (simp add: GetSessionUser_def sessionUser_def bindm_def db_simps d1 scanUser_def throw_def ret_def)
  moreover have "sessionUser token time (t\<lparr>t_sessions := filter (\<lambda>s. ss_TokenHash s \<noteq> token) rs\<rparr>) = None" for t rs
    unfolding sessionUser_def by (auto split: option.splits dest!: selectOne_Some)
  then have "fst (GetSessionUser token time (snd (DeleteSession token d1))) = Inl ErrNotFound"
    using assms(2) by (simp add: GetSessionUser_def DeleteSession_def bindm_def db_simps d1 scanUser_def throw_def ret_def)
  ultimately show ?thesis ..
qed

theorem session_lifecycle_witness:
  "fst (GetSessionUser ''#new'' 99 (snd (CreateSession ''#new'' ''u2'' 100 60 sampleDb))) = Inr sampleViewer \<and>
   fst (GetSessionUser ''#new'' 100 (snd (CreateSession ''#new'' ''u2'' 100 60 sampleDb))) = Inl ErrNotFound"
proof -
  have id: "u_ID sampleViewer = ''u2''" and mem: "sampleViewer \<in> set (t_users (db_tables sampleDb))"
    by (simp_all add: sample_defs)
  obtain d1 where run: "CreateSession ''#new'' (u_ID sampleViewer) 100 60 sampleDb = (Inr (), d1)"
    by (simp add: CreateSession_def bindm_def db_simps ret_def) (simp add: sample_defs)
  show ?thesis
    using session_lifecycle [OF _ _ run mem, of 99] session_lifecycle [OF _ _ run mem, of 100] run sampleTables_wf
    by (simp add: id)
qed

end
