(* ===== verification/PolicyProps.thy ===== *)
theory PolicyProps
  imports PolicyFacts Samples
begin

text \<open>
  The properties of the policy engine on the store: complete and isolated results, the reference
  semantics of the majority vote behind the drift policies, and the totals of a summary.
\<close>

section \<open>The majority vote\<close>

text \<open>The reference: sort the non-empty values by falling frequency, then by value, and take the first.\<close>

definition modeSpec :: "string list \<Rightarrow> string" where
  "modeSpec vs = (case sort_key (\<lambda>v. (- int (count_list vs v), v)) (filter (\<lambda>v. v \<noteq> '''') vs) of
     [] \<Rightarrow> '''' | v # _ \<Rightarrow> v)"

lemma sort_key_Nil: "sort_key k xs = [] \<Longrightarrow> xs = []"
  by (metis length_0_conv length_sort)

lemma sort_key_least:
  assumes "sort_key k xs = m # ms"
  shows "m \<in> set xs" and "v \<in> set xs \<Longrightarrow> k m \<le> k v"
proof -
  have s: "set (m # ms) = set xs" by (metis assms set_sort)
  then show "m \<in> set xs" by auto
  have "sorted (map k (m # ms))" by (metis assms sorted_sort_key)
  with s show "v \<in> set xs \<Longrightarrow> k m \<le> k v" by auto
qed

lemma modeSpec_isMode: "isMode vs (modeSpec vs)"
proof -
  let ?key = "\<lambda>v. (- int (count_list vs v), v)" and ?vs = "filter (\<lambda>v. v \<noteq> '''') vs"
  show ?thesis
  proof (cases "sort_key ?key ?vs")
    case Nil
    then have "?vs = []" by (rule sort_key_Nil)
    with Nil show ?thesis by (simp add: isMode_def modeSpec_def)
  next
    case (Cons m ms)
    have m: "modeSpec vs = m" by (simp add: modeSpec_def Cons)
    note least = sort_key_least [OF Cons]
    have "count_list vs v < count_list vs m \<or> (count_list vs v = count_list vs m \<and> m \<le> v)"
      if "v \<in> set vs" "v \<noteq> ''''" for v
      using least(2) [of v] that by (auto simp: less_eq_prod_def)
    moreover have "?vs \<noteq> []" using least(1) by force
    ultimately show ?thesis using least(1) unfolding m isMode_def by auto
  qed
qed

text \<open>C31: The drift policies compare each cluster with the most common value: the one-pass loop with running
  counts computes the most frequent non-empty value, the smallest one among equally frequent ones, as
  the reference does by sorting; so the verdicts do not depend on the order of the clusters.\<close>

theorem mode_is_majority: "mode vs = modeSpec vs"
  by (rule isMode_mset [OF refl mode_isMode modeSpec_isMode])

section \<open>Evaluation on the store\<close>

lemma store_clusters:
  assumes "rd_ListClustersForTenant (en_reader (NewEngine storeReader sa)) ten d = (Inr clusters, d1)"
  shows "clusters = map scanCluster (sort_key (\<lambda>c. (c_RegisteredAt c, c_Name c))
      (filter (\<lambda>c. c_TenantID c = normalizeTenantID ten) (t_clusters (db_tables d))))"
  using assms by (auto simp: NewEngine_def storeReader_def ListClustersForTenant_def wrapErr_ok dest!: query_ok)

text \<open>Without a failing statement an evaluation succeeds.\<close>

definition succeeds :: "(db, 'e, 'a) sm \<Rightarrow> bool" where
  "succeeds m \<longleftrightarrow> (\<forall>d. db_faults d = [] \<longrightarrow> (\<exists>x. m d = (Inr x, d)))"

lemma succeeds_intros:
  "succeeds (ret x)"
  "succeeds m \<Longrightarrow> (\<And>x. succeeds (f x)) \<Longrightarrow> succeeds (bindm m f)"
  "succeeds m \<Longrightarrow> succeeds (mapErr g m)" "succeeds m' \<Longrightarrow> succeeds (wrapErr msg m')"
  "succeeds (query q)" "b \<Longrightarrow> succeeds m1 \<Longrightarrow> succeeds (if b then m1 else m2)"
  "(b \<Longrightarrow> succeeds m1) \<Longrightarrow> (\<not> b \<Longrightarrow> succeeds m2) \<Longrightarrow> succeeds (if b then m1 else m2)"
  unfolding succeeds_def by (fastforce simp: ret_def bindm_def mapErr_def wrapErr_def query_nf)+

lemma succeeds_collectM: "(\<And>x. succeeds (f x)) \<Longrightarrow> succeeds (collectM xs f)"
  by (induction xs) (auto intro: succeeds_intros simp del: bindm_def)

lemma Evaluate_succeeds:
  assumes "db_faults d = []"
  shows "\<exists>rs. EvaluatePolicies (NewEngine storeReader sa) ten now d = (Inr rs, d)"
proof -
  have "succeeds (EvaluatePolicies (NewEngine storeReader sa) ten now)"
    unfolding EvaluatePolicies_def evaluateNamespaces_def evaluateWorkloads_def evaluateSecurity_def NewEngine_def
      storeReader_def Engine.simps Reader.simps Let_def ListClustersForTenant_def ListPods_def ListDeployments_def
      ListNamespaces_def ListNamespaceConfigs_def
    by (intro succeeds_intros(1-5,7) succeeds_collectM)
  with assms show ?thesis unfolding succeeds_def by blast
qed

text \<open>C27: A policy evaluation of a tenant is complete and exact: every policy of the catalogue has a result for
  every cluster of the tenant, every result is about a cluster of the tenant (none of another tenant), and it
  is stale exactly when that cluster's last heartbeat is too old (older than
  the window, five minutes by default); the results come sorted.\<close>

theorem policies_complete:
  assumes "EvaluatePolicies (NewEngine storeReader sa) ten now d = (Inr rs, d')"
  shows "let clusters = filter (\<lambda>c. c_TenantID c = normalizeTenantID ten) (t_clusters (db_tables d)) in
    list_all (\<lambda>c. list_all (\<lambda>p. list_ex (\<lambda>r. pr_PolicyID r = po_ID p \<and> su_ClusterID (pr_Subject r) = c_ID c) rs) catalog) clusters \<and>
    list_all (\<lambda>r. list_ex (\<lambda>c. su_ClusterID (pr_Subject r) = c_ID c \<and> pr_ObservedAt r = c_LastHeartbeat c \<and>
      (pr_Status r = PolicyStale) = isStale (if sa \<le> 0 then 5 * Minute else sa) c now) clusters) rs \<and>
    sorted (map resultOrder rs)"
proof -
  from EvaluatePolicies_ok [OF assms] obtain clusters d1 where
    read: "rd_ListClustersForTenant (en_reader (NewEngine storeReader sa)) ten d = (Inr clusters, d1)"
    and r: "\<forall>r \<in> set rs. \<exists>c \<in> set clusters. reports (en_staleAfter (NewEngine storeReader sa)) now c r"
    and a: "\<forall>c \<in> set clusters. answers (map po_ID catalog) c rs" and s: "sorted (map resultOrder rs)"
    by blast
  have sc: "c_ID (scanCluster c) = c_ID c" "c_LastHeartbeat (scanCluster c) = c_LastHeartbeat c"
    "isStale x (scanCluster c) now = isStale x c now" for c x
    by (simp_all add: scanCluster_def isStale_def)
  let ?clusters = "filter (\<lambda>c. c_TenantID c = normalizeTenantID ten) (t_clusters (db_tables d))"
  have scs: "set clusters = scanCluster ` set ?clusters"
    using store_clusters [OF read] by simp
  let ?w = "if sa \<le> 0 then 5 * Minute else sa"
  from scs have set: "set clusters = scanCluster ` set ?clusters" .
  have "list_all (\<lambda>c. list_all (\<lambda>p. list_ex (\<lambda>r. pr_PolicyID r = po_ID p \<and> su_ClusterID (pr_Subject r) = c_ID c) rs) catalog) ?clusters"
    using a unfolding set list_all_iff list_ex_iff answers_def by (simp add: sc(1))
  moreover have "\<exists>c \<in> set ?clusters. su_ClusterID (pr_Subject r) = c_ID c \<and> pr_ObservedAt r = c_LastHeartbeat c \<and>
      (pr_Status r = PolicyStale) = isStale ?w c now" if rin: "r \<in> set rs" for r
  proof -
    obtain c where c: "c \<in> set ?clusters" "reports ?w now (scanCluster c) r"
    proof -
      have "\<exists>c' \<in> set clusters. reports ?w now c' r" using r rin by (simp add: NewEngine_def)
      then show ?thesis unfolding set using that by blast
    qed
    then have "su_ClusterID (pr_Subject r) = c_ID c \<and> pr_ObservedAt r = c_LastHeartbeat c \<and>
        (pr_Status r = PolicyStale) = isStale ?w c now"
      by (simp add: reports_def sc split: if_splits) auto
    with c(1) show ?thesis by blast
  qed
  ultimately show ?thesis using s unfolding Let_def list_all_iff list_ex_iff by blast
qed

text \<open>Evaluating policies is read-only: whatever happens on the way, success or a failing read, no table of the
  store has changed.\<close>

theorem policies_read_only:
  assumes "EvaluatePolicies (NewEngine storeReader sa) ten now d = (res, d')"
  shows "db_tables d' = db_tables d"
  using assms by (rule store_reader.Evaluate_read_only)

text \<open>A summary adds up: over the results of an evaluation the counts by status (pass, fail, unknown, stale)
  are the numbers of such results and together give the total.\<close>

theorem summary_totals:
  assumes "EvaluatePolicies (NewEngine storeReader sa) ten now d = (Inr rs, d')"
  shows "let s = Summarize rs n now; count = (\<lambda>st. the (ps_ByStatus s st)) in
    ps_Total s = count PolicyPass + count PolicyFail + count PolicyUnknown + count PolicyStale \<and>
    count PolicyFail = int (length (filter (\<lambda>r. pr_Status r = PolicyFail) rs))"
proof -
  have "pr_Status r \<in> {PolicyPass, PolicyFail, PolicyUnknown, PolicyStale}" if "r \<in> set rs" for r
    using EvaluatePolicies_ok [OF assms] that by (fastforce simp: reports_def split: if_splits)
  then have "int (length rs) = int (length (filter (\<lambda>r. pr_Status r = PolicyPass) rs)) +
      int (length (filter (\<lambda>r. pr_Status r = PolicyFail) rs)) + int (length (filter (\<lambda>r. pr_Status r = PolicyUnknown) rs)) +
      int (length (filter (\<lambda>r. pr_Status r = PolicyStale) rs))"
    by (induction rs) auto
  then show ?thesis by (simp add: Summarize_def countUp_fold Let_def)
qed

section \<open>Applied\<close>

lemma sampleEvaluation: "\<exists>rs. EvaluatePolicies (NewEngine storeReader 60) ''acme'' 90 sampleDb = (Inr rs, sampleDb)"
  by (rule Evaluate_succeeds) simp

theorem policies_complete_witness:
  "\<exists>rs. fst (EvaluatePolicies (NewEngine storeReader 60) ''acme'' 90 sampleDb) = Inr rs \<and>
     list_all (\<lambda>r. su_ClusterID (pr_Subject r) = ''c2'' \<and> pr_Status r = PolicyStale) rs \<and>
     list_ex (\<lambda>r. pr_PolicyID r = PodSecurityPolicyID) rs"
proof -
  obtain rs where run: "EvaluatePolicies (NewEngine storeReader 60) ''acme'' 90 sampleDb = (Inr rs, sampleDb)"
    using sampleEvaluation by blast
  have "filter (\<lambda>c. c_TenantID c = normalizeTenantID ''acme'') (t_clusters (db_tables sampleDb)) = [otherCluster]"
    "c_ID otherCluster = ''c2''" "isStale 60 otherCluster 90"
    by (simp_all add: sample_defs normalizeTenantID_def isStale_def go_time time_Sub_def minInt64_def maxInt64_def)
  moreover have "\<exists>p \<in> set catalog. po_ID p = PodSecurityPolicyID" 
    using catalog_ids by (metis (no_types, lifting) image_iff list.set_intros set_map)
  ultimately show ?thesis using policies_complete [OF run] run
    by (auto simp: Let_def list_all_iff list_ex_iff) metis
qed

theorem policies_read_only_witness:
  "db_tables (snd (EvaluatePolicies (NewEngine storeReader 60) ''acme'' 90 sampleDb)) = sampleTables"
  using policies_read_only [OF prod.collapse [symmetric]] by simp

theorem summary_totals_witness:
  "\<exists>rs. fst (EvaluatePolicies (NewEngine storeReader 60) ''acme'' 90 sampleDb) = Inr rs \<and>
     the (ps_ByStatus (Summarize rs 1 90) PolicyFail) = int (length (filter (\<lambda>r. pr_Status r = PolicyFail) rs))"
proof -
  obtain rs where run: "EvaluatePolicies (NewEngine storeReader 60) ''acme'' 90 sampleDb = (Inr rs, sampleDb)"
    using sampleEvaluation by blast
  from summary_totals [OF run, of 1] run show ?thesis by (simp add: Let_def)
qed

end
