(* ===== verification/Collector.thy ===== *)
theory Collector
  imports ServerAgents "HOL-Library.Multiset"
begin

text \<open>
  \<open>internal/agent/collector\<close>: the snapshot an agent takes of its cluster. The Kubernetes objects are
  records of the fields the collector reads; a client is the outcome of each of its list calls; a quantity
  is its canonical string, the deployment's specification its JSON encoding, and SHA-256 a parameter.
  The entries of a label map come in the order of one iteration, which Go leaves open.
\<close>

section \<open>Kubernetes objects\<close>

record NodeCondition =
  nc_Type :: string
  nc_Status :: string

record K8sNode =
  kn_Name :: string
  kn_Labels :: "(string \<times> string) list"
  kn_Conditions :: "NodeCondition list"
  kn_KubeletVersion :: string
  kn_CPU :: string
  kn_Memory :: string

record SecurityContext =
  sc_Privileged :: "bool option"
  sc_RunAsNonRoot :: "bool option"
  sc_ReadOnlyRootFilesystem :: "bool option"
  sc_AllowPrivilegeEscalation :: "bool option"
  sc_CapabilitiesDrop :: "string list option"

record Container =
  ct_Name :: string
  ct_Image :: string
  ct_SecurityContext :: "SecurityContext option"

record ContainerStatus =
  cs_RestartCount :: int
  cs_Ready :: bool

text \<open>\<open>kp_RunAsNonRoot\<close> is the pod's own security context: none, or with its \<open>runAsNonRoot\<close>.\<close>

record K8sPod =
  kp_Namespace :: string
  kp_Name :: string
  kp_Phase :: string
  kp_ContainerStatuses :: "ContainerStatus list"
  kp_InitContainerStatuses :: "ContainerStatus list"
  kp_StartTime :: "time option"
  kp_NodeName :: string
  kp_HostNetwork :: bool
  kp_HostPID :: bool
  kp_HostIPC :: bool
  kp_RunAsNonRoot :: "bool option option"
  kp_InitContainers :: "Container list"
  kp_Containers :: "Container list"
  kp_EphemeralContainers :: "Container list"

record K8sServicePort =
  kt_Name :: string
  kt_Port :: int
  kt_Protocol :: string

record K8sService =
  ks_Namespace :: string
  ks_Name :: string
  ks_Type :: string
  ks_ClusterIP :: string
  ks_ExternalIPs :: "string list"
  ks_Ports :: "K8sServicePort list"
  ks_Created :: time

record K8sDeployment =
  kd_Namespace :: string
  kd_Name :: string
  kd_Replicas :: "int option"
  kd_InitContainers :: "Container list"
  kd_Containers :: "Container list"
  kd_SpecJSON :: string
  kd_ReadyReplicas :: int
  kd_AvailableReplicas :: int
  kd_UpdatedReplicas :: int
  kd_Created :: time

record K8sNamespace =
  km_Name :: string
  km_Labels :: labels

record K8sEvent =
  ke_Namespace :: string
  ke_Name :: string
  ke_Type :: string
  ke_Reason :: string
  ke_Message :: string
  ke_InvolvedKind :: string
  ke_InvolvedName :: string
  ke_Count :: int
  ke_EventTime :: time
  ke_LastTimestamp :: time
  ke_Created :: time

text \<open>\<open>kubernetes.Interface\<close>: what its list calls return.\<close>

record Clientset =
  cl_Nodes :: "string + K8sNode list"
  cl_Pods :: "string + K8sPod list"
  cl_Services :: "string + K8sService list"
  cl_Deployments :: "string + K8sDeployment list"
  cl_Namespaces :: "string + K8sNamespace list"
  cl_Events :: "string + K8sEvent list"

section \<open>Nodes\<close>

definition nodeStatus :: "NodeCondition list \<Rightarrow> string" where
  "nodeStatus conditions =
     (case find (\<lambda>c. nc_Type c = ''Ready'') conditions of
        None \<Rightarrow> ''Unknown''
      | Some c \<Rightarrow> if nc_Status c = ''True'' then ''Ready''
                  else if nc_Status c = ''False'' then ''NotReady'' else ''Unknown'')"

definition rolePrefix :: string where
  "rolePrefix = ''node-role.kubernetes.io/''"

fun nodeRoleEntries :: "(string \<times> string) list \<Rightarrow> string list" where
  "nodeRoleEntries [] = []"
| "nodeRoleEntries ((key, v) # rest) =
     (if HasPrefix key rolePrefix
      then (let role = TrimPrefix key rolePrefix in (if role \<noteq> '''' then [role] else []))
      else if key = ''kubernetes.io/role'' \<and> v \<noteq> '''' then [v] else []) @ nodeRoleEntries rest"

definition nodeInfo :: "K8sNode \<Rightarrow> SnapshotNode" where
  "nodeInfo node =
     \<lparr>xn_Name = kn_Name node, xn_Status = nodeStatus (kn_Conditions node),
      xn_K8sVersion = kn_KubeletVersion node, xn_Roles = sort (nodeRoleEntries (kn_Labels node)),
      xn_CPUCapacity = kn_CPU node, xn_MemoryCapacity = kn_Memory node\<rparr>"

section \<open>Pods\<close>

definition wrap32 :: "int \<Rightarrow> int" where
  "wrap32 x = (x + 2 ^ 31) mod 2 ^ 32 - 2 ^ 31"

definition effectiveRunAsNonRoot :: "bool option option \<Rightarrow> SecurityContext option \<Rightarrow> bool" where
  "effectiveRunAsNonRoot pod container =
     (case container of
        Some c \<Rightarrow> (case sc_RunAsNonRoot c of Some b \<Rightarrow> b | None \<Rightarrow> pod = Some (Some True))
      | None \<Rightarrow> pod = Some (Some True))"

definition dropsAllCapabilities :: "SecurityContext option \<Rightarrow> bool" where
  "dropsAllCapabilities security =
     (case security of None \<Rightarrow> False
      | Some s \<Rightarrow> (case sc_CapabilitiesDrop s of None \<Rightarrow> False
                   | Some caps \<Rightarrow> list_ex (\<lambda>c. EqualFold c ''ALL'') caps))"

definition isPrivileged :: "SecurityContext option \<Rightarrow> bool" where
  "isPrivileged security = (case security of None \<Rightarrow> False | Some s \<Rightarrow> sc_Privileged s = Some True)"

definition readOnlyRoot :: "SecurityContext option \<Rightarrow> bool" where
  "readOnlyRoot security = (case security of None \<Rightarrow> False | Some s \<Rightarrow> sc_ReadOnlyRootFilesystem s = Some True)"

definition mayEscalate :: "SecurityContext option \<Rightarrow> bool" where
  "mayEscalate security = (case security of None \<Rightarrow> True | Some s \<Rightarrow> sc_AllowPrivilegeEscalation s \<noteq> Some False)"

definition podContainers :: "K8sPod \<Rightarrow> Container list" where
  "podContainers pod = kp_InitContainers pod @ kp_Containers pod @
     map (\<lambda>c. \<lparr>ct_Name = ct_Name c, ct_Image = '''', ct_SecurityContext = ct_SecurityContext c\<rparr>) (kp_EphemeralContainers pod)"

text \<open>One round of the loop over the containers.\<close>

definition checkContainer :: "bool option option \<Rightarrow> Container \<Rightarrow> SnapshotPod \<Rightarrow> SnapshotPod" where
  "checkContainer podSecurity container info =
     (let security = ct_SecurityContext container;
          info = (if isPrivileged security then info\<lparr>xp_Privileged := True\<rparr> else info);
          info = (if \<not> effectiveRunAsNonRoot podSecurity security then info\<lparr>xp_RunAsNonRoot := False\<rparr> else info);
          info = (if \<not> readOnlyRoot security then info\<lparr>xp_ReadOnlyRootFilesystem := False\<rparr> else info);
          info = (if mayEscalate security then info\<lparr>xp_AllowsPrivilegeEscalation := True\<rparr> else info)
      in if \<not> dropsAllCapabilities security then info\<lparr>xp_CapabilitiesDroppedAll := False\<rparr> else info)"

definition podInfo :: "K8sPod \<Rightarrow> SnapshotPod" where
  "podInfo pod =
     (let restarts = fold (\<lambda>s n. wrap32 (n + cs_RestartCount s))
            (kp_ContainerStatuses pod @ kp_InitContainerStatuses pod) 0;
          ready = fold (\<lambda>s b. b \<and> cs_Ready s) (kp_ContainerStatuses pod) (kp_ContainerStatuses pod \<noteq> []);
          info = \<lparr>xp_Namespace = kp_Namespace pod, xp_Name = kp_Name pod, xp_Phase = kp_Phase pod,
            xp_Restarts = restarts, xp_Node = kp_NodeName pod, xp_Ready = ready,
            xp_StartTime = (case kp_StartTime pod of None \<Rightarrow> 0 | Some t \<Rightarrow> t),
            xp_SecurityContextKnown = False, xp_Privileged = False, xp_RunAsNonRoot = False,
            xp_ReadOnlyRootFilesystem = False, xp_AllowsPrivilegeEscalation = False,
            xp_CapabilitiesDroppedAll = False, xp_HostNetwork = kp_HostNetwork pod,
            xp_HostPID = kp_HostPID pod, xp_HostIPC = kp_HostIPC pod\<rparr>;
          containers = podContainers pod
      in if containers = [] then info
         else fold (checkContainer (kp_RunAsNonRoot pod)) containers
           (info\<lparr>xp_SecurityContextKnown := True, xp_RunAsNonRoot := True, xp_ReadOnlyRootFilesystem := True,
                 xp_CapabilitiesDroppedAll := True\<rparr>))"

section \<open>Services, deployments and events\<close>

definition formatAge :: "time \<Rightarrow> time \<Rightarrow> string" where
  "formatAge createdAt collectedAt =
     (if IsZero createdAt then ''''
      else let age = time_Sub collectedAt createdAt; age = (if age < 0 then 0 else age) in
        if age < Minute then Itoa (go_div age Second) @ ''s''
        else if age < Hour then Itoa (go_div age Minute) @ ''m''
        else if age < 24 * Hour then Itoa (go_div age Hour) @ ''h''
        else Itoa (go_div age (24 * Hour)) @ ''d'')"

definition portString :: "K8sServicePort \<Rightarrow> string" where
  "portString port =
     (let v = Itoa (kt_Port port) @ ''/'' @ kt_Protocol port
      in if kt_Name port \<noteq> '''' then kt_Name port @ '':'' @ v else v)"

definition serviceInfo :: "time \<Rightarrow> K8sService \<Rightarrow> SnapshotService" where
  "serviceInfo collectedAt service =
     \<lparr>xs_Namespace = ks_Namespace service, xs_Name = ks_Name service, xs_Type = ks_Type service,
      xs_ClusterIP = ks_ClusterIP service, xs_ExternalIPs = ks_ExternalIPs service,
      xs_Ports = map portString (ks_Ports service), xs_Age = formatAge (ks_Created service) collectedAt\<rparr>"

text \<open>\<open>sha256Hex\<close> is the digest in hexadecimal; the code prints its first 12 bytes.\<close>

definition deploymentInfo :: "(string \<Rightarrow> string) \<Rightarrow> time \<Rightarrow> K8sDeployment \<Rightarrow> SnapshotDeployment" where
  "deploymentInfo sha256Hex collectedAt deployment =
     \<lparr>xd_Namespace = kd_Namespace deployment, xd_Name = kd_Name deployment,
      xd_DesiredReplicas = (case kd_Replicas deployment of None \<Rightarrow> 0 | Some n \<Rightarrow> n),
      xd_ReadyReplicas = kd_ReadyReplicas deployment, xd_AvailableReplicas = kd_AvailableReplicas deployment,
      xd_UpdatedReplicas = kd_UpdatedReplicas deployment,
      xd_Age = formatAge (kd_Created deployment) collectedAt,
      xd_ConfigHash = take 24 (sha256Hex (kd_SpecJSON deployment)),
      xd_Images = sort (map ct_Image (kd_InitContainers deployment) @ map ct_Image (kd_Containers deployment))\<rparr>"

definition eventTimestamp :: "K8sEvent \<Rightarrow> time" where
  "eventTimestamp event =
     (if \<not> IsZero (ke_EventTime event) then ke_EventTime event
      else if \<not> IsZero (ke_LastTimestamp event) then ke_LastTimestamp event
      else ke_Created event)"

definition eventInfo :: "K8sEvent \<Rightarrow> SnapshotEvent" where
  "eventInfo event =
     \<lparr>xe_Namespace = ke_Namespace event, xe_Name = ke_Name event, xe_Type = ke_Type event,
      xe_Reason = ke_Reason event, xe_Message = ke_Message event,
      xe_InvolvedObject = ke_InvolvedKind event @ ''/'' @ ke_InvolvedName event,
      xe_Count = ke_Count event, xe_LastTimestamp = eventTimestamp event\<rparr>"

section \<open>The collection\<close>

definition maxEvents :: nat where
  "maxEvents = 100"

fun firstVersion :: "SnapshotNode list \<Rightarrow> string" where
  "firstVersion [] = ''''"
| "firstVersion (n # ns) = (if xn_K8sVersion n \<noteq> '''' then xn_K8sVersion n else firstVersion ns)"

text \<open>Events at the same instant keep their order here; \<open>sort.Slice\<close> may put them in any.\<close>

definition clusterState ::
  "(string \<Rightarrow> string) \<Rightarrow> string \<Rightarrow> time \<Rightarrow> K8sNode list \<Rightarrow> K8sPod list \<Rightarrow> K8sService list \<Rightarrow>
   K8sDeployment list \<Rightarrow> K8sNamespace list \<Rightarrow> K8sEvent list \<Rightarrow> ClusterSnapshotRequest" where
  "clusterState sha256Hex agentVersion collectedAt nodes pods services deployments namespaces events =
     \<lparr>sq_Nodes = map nodeInfo nodes, sq_Pods = map podInfo pods,
      sq_Services = map (serviceInfo collectedAt) services,
      sq_Deployments = map (deploymentInfo sha256Hex collectedAt) deployments,
      sq_Namespaces = map (\<lambda>n. \<lparr>ns_Name = km_Name n, ns_Labels = km_Labels n\<rparr>) namespaces,
      sq_Events = map eventInfo (take maxEvents (sort_key (\<lambda>e. - eventTimestamp e) events)),
      sq_NodeCount = int (length nodes), sq_PodCount = int (length pods),
      sq_K8sVersion = firstVersion (map nodeInfo nodes), sq_CollectedAt = collectedAt,
      sq_AgentVersion = agentVersion\<rparr>"

fun listResult :: "string \<Rightarrow> string + 'a \<Rightarrow> ('a \<Rightarrow> string + 'b) \<Rightarrow> string + 'b" where
  "listResult what (Inl err) k = Inl (''list '' @ what @ '': '' @ err)"
| "listResult what (Inr x) k = k x"

definition Collect ::
  "(string \<Rightarrow> string) \<Rightarrow> string \<Rightarrow> time \<Rightarrow> Clientset \<Rightarrow> string + ClusterSnapshotRequest" where
  "Collect sha256Hex agentVersion now client =
     listResult ''nodes'' (cl_Nodes client) (\<lambda>nodes.
     listResult ''pods'' (cl_Pods client) (\<lambda>pods.
     listResult ''services'' (cl_Services client) (\<lambda>services.
     listResult ''deployments'' (cl_Deployments client) (\<lambda>deployments.
     listResult ''namespaces'' (cl_Namespaces client) (\<lambda>namespaces.
     listResult ''events'' (cl_Events client) (\<lambda>events.
       Inr (clusterState sha256Hex agentVersion now nodes pods services deployments namespaces events)))))))"

end
