(* ===== verification/GoNet.thy ===== *)
theory GoNet
  imports GoLib
begin

text \<open>
  \<open>net/url\<close>'s escaping of a path segment, which the agent and the MCP client use to name a cluster in a
  URL and which the hub's router undoes; and text that \<open>strings.TrimSpace\<close> leaves alone.
\<close>

definition hexDigit :: "nat \<Rightarrow> char" where
  "hexDigit n = (if n < 10 then char_of (48 + n) else char_of (55 + n))"

definition unhex :: "char \<Rightarrow> nat option" where
  "unhex c =
     (let n = of_char c in
      if 48 \<le> n \<and> n \<le> 57 then Some (n - 48)
      else if 97 \<le> n \<and> n \<le> 102 then Some (n - 87)
      else if 65 \<le> n \<and> n \<le> 70 then Some (n - 55)
      else None)"

definition segmentByte :: "char \<Rightarrow> bool" where
  "segmentByte c \<longleftrightarrow>
     (let n = (of_char c :: nat) in
      48 \<le> n \<and> n \<le> 57 \<or> 65 \<le> n \<and> n \<le> 90 \<or> 97 \<le> n \<and> n \<le> 122 \<or> c \<in> set ''-_.~$&+=:@'')"

definition escapeByte :: "char \<Rightarrow> string" where
  "escapeByte c = (if segmentByte c then [c]
     else [CHR ''%'', hexDigit (of_char c div 16), hexDigit (of_char c mod 16)])"

definition PathEscape :: "string \<Rightarrow> string" where
  "PathEscape s = concat (map escapeByte s)"

fun PathUnescape :: "string \<Rightarrow> string option" where
  "PathUnescape [] = Some []"
| "PathUnescape (c # s) =
     (if c = CHR ''%''
      then (case s of a # b # t \<Rightarrow>
              (case (unhex a, unhex b) of
                 (Some x, Some y) \<Rightarrow> map_option (\<lambda>r. char_of (16 * x + y) # r) (PathUnescape t)
               | _ \<Rightarrow> None)
            | _ \<Rightarrow> None)
      else map_option (\<lambda>r. c # r) (PathUnescape s))"

lemma unhex_hexDigit [simp]: "n < 16 \<Longrightarrow> unhex (hexDigit n) = Some n"
  by (simp add: unhex_def hexDigit_def Let_def)

lemma byte_nibbles: "(of_char c :: nat) div 16 < 16" "(of_char c :: nat) mod 16 < 16"
proof -
  have "(of_char c :: nat) mod 256 = of_char c" by simp
  then have "(of_char c :: nat) < 256" by (metis mod_less_divisor zero_less_numeral)
  then show "(of_char c :: nat) div 16 < 16" by (intro less_mult_imp_div_less) simp
qed simp

lemma PathUnescape_escapeByte: "PathUnescape (escapeByte c @ s) = map_option (\<lambda>r. c # r) (PathUnescape s)"
proof (cases "segmentByte c")
  case True
  then have "c \<noteq> CHR ''%''" by (auto simp: segmentByte_def)
  with True show ?thesis by (simp add: escapeByte_def)
next
  case False
  with byte_nibbles [of c] False show ?thesis by (simp add: escapeByte_def)
qed

lemma PathUnescape_PathEscape [simp]: "PathUnescape (PathEscape s) = Some s"
  by (induction s) (simp_all add: PathEscape_def PathUnescape_escapeByte)

text \<open>An escaped segment has no slash, so it stays one segment of its path.\<close>

lemma PathEscape_no_slash: "CHR ''/'' \<notin> set (PathEscape s)"
proof -
  have "CHR ''/'' \<notin> set (escapeByte c)" for c
  proof -
    have "hexDigit n \<noteq> CHR ''/''" if "n < 16" for n
    proof
      assume "hexDigit n = CHR ''/''"
      with unhex_hexDigit [OF that] show False by (simp add: unhex_def)
    qed
    from this [OF byte_nibbles(1) [of c]] this [OF byte_nibbles(2) [of c]]
    show ?thesis by (auto simp: escapeByte_def segmentByte_def)
  qed
  then show ?thesis by (simp add: PathEscape_def)
qed

section \<open>Printable text\<close>

text \<open>A printable ASCII byte other than the space, as in hexadecimal tokens and tenant names.\<close>

definition plain :: "char \<Rightarrow> bool" where
  "plain c \<longleftrightarrow> 0x21 \<le> (of_char c :: nat) \<and> (of_char c :: nat) \<le> 0x7e"

lemma spaces_not_plain:
  "w \<in> set utf8_spaces \<Longrightarrow> w \<noteq> [] \<and> \<not> plain (hd w) \<and> \<not> plain (last w)"
  by (auto simp: utf8_spaces_def plain_def)

lemma TrimSpace_plain:
  assumes "s \<noteq> ''''" and "plain (hd s)" and "plain (last s)"
  shows "TrimSpace s = s"
proof -
  have 1: "trimWith utf8_spaces s = s"
  proof (rule trimWith_id)
    fix w assume w: "w \<in> set utf8_spaces" "w \<noteq> []"
    show "\<not> prefix w s"
    proof
      assume "prefix w s"
      then have "hd s = hd w" using w(2) by (auto simp: prefix_def)
      with spaces_not_plain [OF w(1)] assms(2) show False by simp
    qed
  qed
  have "trimWith (map rev utf8_spaces) (rev s) = rev s"
  proof (rule trimWith_id)
    fix v assume v: "v \<in> set (map rev utf8_spaces)" "v \<noteq> []"
    then obtain w where w: "w \<in> set utf8_spaces" "v = rev w" by auto
    show "\<not> prefix v (rev s)"
    proof
      assume "prefix v (rev s)"
      then have "hd (rev s) = hd v" using v(2) by (auto simp: prefix_def)
      then have "last s = last w" using w(2) v(2) assms(1) by (simp add: hd_rev)
      with spaces_not_plain [OF w(1)] assms(3) show False by simp
    qed
  qed
  with 1 show ?thesis by (simp add: TrimSpace_def)
qed

lemma plain_Itoa: "0 \<le> n \<Longrightarrow> Itoa n \<noteq> '''' \<and> list_all plain (Itoa n)"
proof -
  assume "0 \<le> n"
  have "is_digit c \<Longrightarrow> plain c" for c by (auto simp: is_digit_def plain_def)
  then show ?thesis using show_nat_digits [of "nat n"] show_nat_nonempty [of "nat n"] \<open>0 \<le> n\<close>
    by (auto simp: Itoa_def list_all_iff)
qed

lemma TrimSpace_Itoa: "0 \<le> n \<Longrightarrow> TrimSpace (Itoa n) = Itoa n"
  using plain_Itoa [of n] by (intro TrimSpace_plain) (auto simp: list_all_iff)

end
