(* ===== verification/Config.thy ===== *)
theory Config
  imports Hub GoNet
begin

text \<open>
  \<open>internal/config\<close>, \<open>internal/agent/config\<close> and \<open>internal/agentconfig\<close>: the configuration of the hub and of
  the agent, read from the environment. The environment is a function (unset and empty are the same to the code).
  The parsers of the standard library that the code calls on a value are a record: \<open>url.Parse\<close>,
  \<open>time.ParseDuration\<close>, \<open>json.Unmarshal\<close> into a string map, and \<open>AppendCertsFromPEM\<close>.
\<close>

type_synonym env = "string \<Rightarrow> string"

record ParsedURL =
  url_Scheme :: string
  url_Host :: string
  url_HasUser :: bool

record Parsers =
  ps_URL :: "string \<Rightarrow> ParsedURL option"
  ps_Duration :: "string \<Rightarrow> string + duration"
  ps_Labels :: "string \<Rightarrow> string + labels"
  ps_PEM :: "string \<Rightarrow> bool"

section \<open>The hub\<close>

record HubConfig =
  hc_ListenAddr :: string
  hc_DBPath :: string
  hc_LogLevel :: string
  hc_HeartbeatInterval :: duration
  hc_RegistrationToken :: string
  hc_DemoMode :: bool
  hc_AlertWebhookURL :: string
  hc_AlertWebhookSecret :: string
  hc_AlertMaxAttempts :: int
  hc_AlertRetryBase :: duration
  hc_AlertPollInterval :: duration
  hc_EventRetention :: duration
  hc_MetricsDisabled :: bool
  hc_SessionDuration :: duration
  hc_SessionCookieSecure :: bool
  hc_BootstrapAdminUsername :: string
  hc_BootstrapAdminEmail :: string
  hc_BootstrapAdminPassword :: string

definition positiveDurationEnv :: "Parsers \<Rightarrow> env \<Rightarrow> string \<Rightarrow> duration \<Rightarrow> string + duration" where
  "positiveDurationEnv ps env key fallback =
     (if env key = '''' then Inr fallback
      else case ps_Duration ps (env key) of
        Inr parsed \<Rightarrow> if parsed \<le> 0 then Inl (key @ '' must be a positive duration'') else Inr parsed
      | Inl _ \<Rightarrow> Inl (key @ '' must be a positive duration''))"

definition hubEnvOrDefault :: "env \<Rightarrow> string \<Rightarrow> string \<Rightarrow> string" where
  "hubEnvOrDefault env key fallback = (if env key \<noteq> '''' then env key else fallback)"

definition alertMaxAttempts :: "env \<Rightarrow> string + int" where
  "alertMaxAttempts env =
     (let v = env ''KFLEET_ALERT_MAX_ATTEMPTS''
      in if v = '''' then Inr 5
         else case ParseInt 64 v of
           None \<Rightarrow> Inl ''KFLEET_ALERT_MAX_ATTEMPTS must be a positive integer''
         | Some n \<Rightarrow> if n \<le> 0 then Inl ''KFLEET_ALERT_MAX_ATTEMPTS must be a positive integer'' else Inr n)"

definition webhookCheck :: "Parsers \<Rightarrow> env \<Rightarrow> string + unit" where
  "webhookCheck ps env =
     (let webhookURL = env ''KFLEET_ALERT_WEBHOOK_URL''
      in if webhookURL = '''' then Inr ()
         else if (case ps_URL ps webhookURL of None \<Rightarrow> True
                  | Some u \<Rightarrow> (url_Scheme u \<noteq> ''http'' \<and> url_Scheme u \<noteq> ''https'') \<or> url_Host u = '''' \<or> url_HasUser u)
         then Inl ''KFLEET_ALERT_WEBHOOK_URL must be an http or https URL without user information''
         else if env ''KFLEET_ALERT_WEBHOOK_SECRET'' = ''''
         then Inl ''KFLEET_ALERT_WEBHOOK_SECRET is required when KFLEET_ALERT_WEBHOOK_URL is set''
         else Inr ())"

definition boolEnv :: "env \<Rightarrow> string \<Rightarrow> bool \<Rightarrow> string + bool" where
  "boolEnv env key fallback =
     (if env key = '''' then Inr fallback
      else case ParseBool (env key) of None \<Rightarrow> Inl (key @ '' must be a boolean'') | Some b \<Rightarrow> Inr b)"

text \<open>\<open>if err != nil { return nil, err }\<close>.\<close>

fun andThen :: "'e + 'a \<Rightarrow> ('a \<Rightarrow> 'e + 'b) \<Rightarrow> 'e + 'b" where
  "andThen (Inl e) k = Inl e"
| "andThen (Inr x) k = k x"

definition loadHubConfig :: "Parsers \<Rightarrow> env \<Rightarrow> string + HubConfig" where
  "loadHubConfig ps env =
     andThen (positiveDurationEnv ps env ''KFLEET_HEARTBEAT_INTERVAL'' (30 * Second)) (\<lambda>heartbeatInterval.
     andThen (positiveDurationEnv ps env ''KFLEET_ALERT_RETRY_BASE'' (5 * Second)) (\<lambda>retryBase.
     andThen (positiveDurationEnv ps env ''KFLEET_ALERT_POLL_INTERVAL'' Second) (\<lambda>pollInterval.
     andThen (alertMaxAttempts env) (\<lambda>maxAttempts.
     andThen (webhookCheck ps env) (\<lambda>_.
     andThen (positiveDurationEnv ps env ''KFLEET_EVENT_RETENTION'' (90 * 24 * Hour)) (\<lambda>eventRetention.
     andThen (boolEnv env ''KFLEET_DEMO_MODE'' False) (\<lambda>demoMode.
     andThen (positiveDurationEnv ps env ''KFLEET_SESSION_DURATION'' (24 * Hour)) (\<lambda>sessionDuration.
     andThen (boolEnv env ''KFLEET_METRICS_ENABLED'' True) (\<lambda>enabled.
     Inr \<lparr>hc_ListenAddr = hubEnvOrDefault env ''KFLEET_LISTEN_ADDR'' '':8080'',
          hc_DBPath = hubEnvOrDefault env ''KFLEET_DB_PATH'' ''./kfleet.db'',
          hc_LogLevel = hubEnvOrDefault env ''KFLEET_LOG_LEVEL'' ''info'',
          hc_HeartbeatInterval = heartbeatInterval,
          hc_RegistrationToken = env ''KFLEET_REGISTRATION_TOKEN'',
          hc_DemoMode = demoMode,
          hc_AlertWebhookURL = env ''KFLEET_ALERT_WEBHOOK_URL'',
          hc_AlertWebhookSecret = env ''KFLEET_ALERT_WEBHOOK_SECRET'',
          hc_AlertMaxAttempts = maxAttempts,
          hc_AlertRetryBase = retryBase,
          hc_AlertPollInterval = pollInterval,
          hc_EventRetention = eventRetention,
          hc_MetricsDisabled = \<not> enabled,
          hc_SessionDuration = sessionDuration,
          hc_SessionCookieSecure = (env ''KFLEET_SESSION_COOKIE_INSECURE'' \<noteq> ''true''),
          hc_BootstrapAdminUsername = env ''KFLEET_BOOTSTRAP_ADMIN_USERNAME'',
          hc_BootstrapAdminEmail = env ''KFLEET_BOOTSTRAP_ADMIN_EMAIL'',
          hc_BootstrapAdminPassword = env ''KFLEET_BOOTSTRAP_ADMIN_PASSWORD''\<rparr>)))))))))"

text \<open>What \<open>server.New\<close> takes from the configuration; the other fields of the server are the library's functions.\<close>

definition configureServer :: "HubConfig \<Rightarrow> WebhookClient \<Rightarrow> Server \<Rightarrow> Server" where
  "configureServer cfg client srv =
     srv\<lparr>srv_DemoMode := hc_DemoMode cfg, srv_HeartbeatInterval := hc_HeartbeatInterval cfg,
         srv_EventRetention := hc_EventRetention cfg, srv_SessionDuration := hc_SessionDuration cfg,
         srv_SessionCookieSecure := hc_SessionCookieSecure cfg, srv_RegistrationToken := hc_RegistrationToken cfg,
         srv_MetricsDisabled := hc_MetricsDisabled cfg,
         srv_alerts := NewManager \<lparr>cf_WebhookURL = hc_AlertWebhookURL cfg, cf_Secret = hc_AlertWebhookSecret cfg,
           cf_MaxAttempts = hc_AlertMaxAttempts cfg, cf_RetryBase = hc_AlertRetryBase cfg,
           cf_PollInterval = hc_AlertPollInterval cfg\<rparr> client\<rparr>"

section \<open>The agent\<close>

record AgentConfig =
  acf_HubURL :: string
  acf_ClusterName :: string
  acf_HubToken :: string
  acf_HubCA :: "string option"
  acf_TenantID :: string
  acf_ReportInterval :: duration
  acf_Kubeconfig :: string
  acf_HealthAddress :: string
  acf_LogLevel :: string
  acf_ClusterLabels :: labels

definition agentEnvOrDefault :: "env \<Rightarrow> string \<Rightarrow> string \<Rightarrow> string" where
  "agentEnvOrDefault env key fallback = (let v = TrimSpace (env key) in if v \<noteq> '''' then v else fallback)"

text \<open>The pool of certificates is represented by the PEM text it was read from.\<close>

definition parseHubCA :: "Parsers \<Rightarrow> string \<Rightarrow> string + string option" where
  "parseHubCA ps pemData =
     (if TrimSpace pemData = '''' then Inr None
      else if \<not> ps_PEM ps pemData then Inl ''KFLEET_HUB_CA must contain at least one PEM-encoded certificate''
      else Inr (Some pemData))"

definition reportInterval :: "Parsers \<Rightarrow> env \<Rightarrow> string + duration" where
  "reportInterval ps env =
     (let raw = env ''KFLEET_REPORT_INTERVAL''
      in if raw = '''' then Inr (30 * Second)
         else case ps_Duration ps raw of
           Inl err \<Rightarrow> Inl (''parse KFLEET_REPORT_INTERVAL: '' @ err)
         | Inr parsed \<Rightarrow> if parsed \<le> 0 then Inl ''KFLEET_REPORT_INTERVAL must be greater than zero'' else Inr parsed)"

definition hubURLCheck :: "Parsers \<Rightarrow> string \<Rightarrow> string + unit" where
  "hubURLCheck ps hubURL =
     (if hubURL = '''' then Inl ''KFLEET_HUB_URL is required''
      else case ps_URL ps hubURL of
        None \<Rightarrow> Inl ''KFLEET_HUB_URL must be an absolute http or https URL (for example, https://kfleet.example.com)''
      | Some u \<Rightarrow> if url_Host u = '''' \<or> url_Scheme u \<noteq> ''http'' \<and> url_Scheme u \<noteq> ''https''
          then Inl ''KFLEET_HUB_URL must be an absolute http or https URL (for example, https://kfleet.example.com)''
          else Inr ())"

definition loadAgentConfig :: "Parsers \<Rightarrow> env \<Rightarrow> string + AgentConfig" where
  "loadAgentConfig ps env =
     (let hubURL = TrimRightC (CHR ''/'') (TrimSpace (env ''KFLEET_HUB_URL''));
          clusterName = TrimSpace (env ''KFLEET_CLUSTER_NAME'');
          hubToken = TrimSpace (env ''KFLEET_HUB_TOKEN'')
      in andThen (hubURLCheck ps hubURL) (\<lambda>_.
         if clusterName = '''' then Inl ''KFLEET_CLUSTER_NAME is required''
         else if hubToken = '''' then Inl ''KFLEET_HUB_TOKEN is required''
         else andThen (parseHubCA ps (env ''KFLEET_HUB_CA'')) (\<lambda>hubCA.
         andThen (reportInterval ps env) (\<lambda>interval.
         let tenantID = agentEnvOrDefault env ''KFLEET_TENANT_ID'' ''default'';
             logLevel = agentEnvOrDefault env ''KFLEET_LOG_LEVEL'' ''info''
         in if \<not> tenantIDPattern tenantID then Inl ''KFLEET_TENANT_ID must be a lowercase tenant identifier''
            else if logLevel \<notin> set [''debug'', ''info'', ''warn'', ''error'']
            then Inl ''KFLEET_LOG_LEVEL must be one of debug, info, warn, or error''
            else andThen (let raw = env ''KFLEET_CLUSTER_LABELS''
                          in if raw = '''' then Inr Map.empty
                             else case ps_Labels ps raw of
                               Inl err \<Rightarrow> Inl (''decode KFLEET_CLUSTER_LABELS: '' @ err)
                             | Inr labels \<Rightarrow> Inr labels) (\<lambda>labels.
            Inr \<lparr>acf_HubURL = hubURL, acf_ClusterName = clusterName, acf_HubToken = hubToken, acf_HubCA = hubCA,
                 acf_TenantID = tenantID, acf_ReportInterval = interval, acf_Kubeconfig = env ''KUBECONFIG'',
                 acf_HealthAddress = agentEnvOrDefault env ''KFLEET_HEALTH_ADDR'' '':8081'',
                 acf_LogLevel = logLevel, acf_ClusterLabels = labels\<rparr>)))))"

text \<open>Which roots a connection to the hub trusts, and its request timeout (0 is none).\<close>

definition HubHTTPClient :: "AgentConfig \<Rightarrow> duration \<Rightarrow> string option \<times> duration" where
  "HubHTTPClient cfg timeout = (acf_HubCA cfg, timeout)"

text \<open>\<open>internal/agentconfig\<close>, the older loader.\<close>

record LegacyAgentConfig =
  lg_HubURL :: string
  lg_ClusterName :: string
  lg_Kubeconfig :: string
  lg_HeartbeatInterval :: duration

definition loadLegacyAgentConfig :: "Parsers \<Rightarrow> env \<Rightarrow> string + LegacyAgentConfig" where
  "loadLegacyAgentConfig ps env =
     (let clusterName = env ''KFLEET_CLUSTER_NAME''; rawInterval = env ''KFLEET_HEARTBEAT_INTERVAL''
      in if clusterName = '''' then Inl ''KFLEET_CLUSTER_NAME is required''
         else andThen (if rawInterval = '''' then Inr (30 * Second)
            else case ps_Duration ps rawInterval of
              Inl err \<Rightarrow> Inl (''parse KFLEET_HEARTBEAT_INTERVAL: '' @ err)
            | Inr parsed \<Rightarrow> if parsed \<le> 0 then Inl ''KFLEET_HEARTBEAT_INTERVAL must be greater than zero'' else Inr parsed)
           (\<lambda>interval. Inr \<lparr>lg_HubURL = hubEnvOrDefault env ''KFLEET_HUB_URL'' ''http://localhost:8080'',
              lg_ClusterName = clusterName, lg_Kubeconfig = env ''KUBECONFIG'', lg_HeartbeatInterval = interval\<rparr>))"

section \<open>What a loaded configuration guarantees\<close>

lemma andThen_ok: "andThen r k = Inr y \<longleftrightarrow> (\<exists>x. r = Inr x \<and> k x = Inr y)"
  by (cases r) simp_all

lemma positiveDurationEnv_ok: "positiveDurationEnv ps env key fallback = Inr d \<Longrightarrow> 0 < fallback \<Longrightarrow> 0 < d"
  by (auto simp: positiveDurationEnv_def split: if_splits sum.splits)

lemma alertMaxAttempts_ok: "alertMaxAttempts env = Inr n \<Longrightarrow> 1 \<le> n"
  by (auto simp: alertMaxAttempts_def Let_def split: if_splits option.splits)

lemma webhookCheck_ok: "webhookCheck ps env = Inr u \<Longrightarrow>
    env ''KFLEET_ALERT_WEBHOOK_URL'' = '''' \<or> env ''KFLEET_ALERT_WEBHOOK_SECRET'' \<noteq> ''''"
  by (auto simp: webhookCheck_def Let_def split: if_splits)

end
