(* ===== verification/AgentClient.thy ===== *)
theory AgentClient
  imports Collector Config
begin

text \<open>
  The agent process: \<open>internal/agent/hubcontact\<close>, \<open>internal/agent/health\<close>, \<open>internal/agent/registrar\<close>,
  \<open>internal/agent/huberrors\<close>, \<open>internal/agent/reporter\<close> and the loops of \<open>cmd/agent\<close>. The HTTP client is a
  parameter: a function from a request and the state of the world to an error or a reply and the next
  state; a request carries the value that the code encodes, and the decoders of a reply are a record.
\<close>

section \<open>Contact with the hub\<close>

record Tracker =
  tk_registered :: bool
  tk_lastContact :: time
  tk_staleness :: duration

definition NewTracker :: "duration \<Rightarrow> Tracker" where
  "NewTracker staleness = \<lparr>tk_registered = False, tk_lastContact = 0, tk_staleness = staleness\<rparr>"

text \<open>A nil tracker is \<open>None\<close>; \<open>now\<close> is what its clock reads.\<close>

definition MarkRegistered :: "time \<Rightarrow> Tracker option \<Rightarrow> Tracker option" where
  "MarkRegistered now = map_option (\<lambda>t. t\<lparr>tk_registered := True, tk_lastContact := now\<rparr>)"

definition MarkContact :: "time \<Rightarrow> Tracker option \<Rightarrow> Tracker option" where
  "MarkContact now = map_option (\<lambda>t. t\<lparr>tk_lastContact := now\<rparr>)"

definition Ready :: "time \<Rightarrow> Tracker option \<Rightarrow> bool" where
  "Ready now tracker =
     (case tracker of None \<Rightarrow> False
      | Some t \<Rightarrow> tk_registered t \<and> time_Sub now (tk_lastContact t) \<le> tk_staleness t)"

text \<open>The probe server: status and body. A \<open>GET\<close> pattern also answers \<open>HEAD\<close>; an unknown path is 404, a
  known one with another method 405.\<close>

definition healthHandler :: "time \<Rightarrow> Tracker option \<Rightarrow> string \<Rightarrow> string \<Rightarrow> int \<times> string" where
  "healthHandler now tracker meth path =
     (if path \<noteq> ''/healthz'' \<and> path \<noteq> ''/readyz'' then (404, ''404 page not found'')
      else if meth \<noteq> ''GET'' \<and> meth \<noteq> ''HEAD'' then (405, ''Method Not Allowed'')
      else if path = ''/healthz'' then (200, ''ok'')
      else if \<not> Ready now tracker then (503, ''{\"error\":\"no successful hub contact\"}'' @ [CHR 0x0A])
      else (200, ''ok''))"

section \<open>Backoff\<close>

record Backoff =
  bo_Base :: duration
  bo_Max :: duration
  bo_factor :: int
  bo_current :: duration

definition NewBackoff :: Backoff where
  "NewBackoff = \<lparr>bo_Base = Second, bo_Max = Minute, bo_factor = 2, bo_current = 0\<rparr>"

text \<open>
  The multiplications of \<open>Next\<close> are in floating point. The doubling of a duration below \<open>2^53\<close> is exact
  there, so it is an integer product; the jittered value is a parameter, \<open>jitter d\<close> for the delay \<open>d\<close>.
\<close>

definition backoffNext :: "(duration \<Rightarrow> duration) \<Rightarrow> Backoff \<Rightarrow> duration \<times> Backoff" where
  "backoffNext jitter b =
     (let current =
        (if bo_current b \<le> 0 then bo_Base b
         else let nxt = bo_current b * bo_factor b
              in if nxt > bo_Max b \<or> nxt < bo_current b then bo_Max b else nxt)
      in (jitter current, b\<lparr>bo_current := current\<rparr>))"

definition backoffReset :: "Backoff \<Rightarrow> Backoff" where
  "backoffReset b = b\<lparr>bo_current := 0\<rparr>"

section \<open>Requests and replies\<close>

record RegisterRequest =
  rr_ClusterName :: string
  rr_Labels :: labels
  rr_AgentVersion :: string
  rr_K8sVersion :: string
  rr_ExistingAgentToken :: string

datatype payload = NoPayload | RegisterPayload RegisterRequest | StatePayload ClusterSnapshotRequest

record AgentRequest =
  aq_Method :: string
  aq_URL :: string
  aq_Header :: "(string \<times> string) list"
  aq_Payload :: payload

record 'b Reply =
  rp_StatusCode :: int
  rp_Status :: string
  rp_Body :: 'b

datatype statusBody = EmptyBody | UndecodableBody string | DecodedStatus bool

text \<open>What the code reads of a body: its bytes (\<open>None\<close> when reading fails), the \<open>error\<close> field of a JSON error
  document, the identity and token of a registration, and the approval flag of a heartbeat.\<close>

record 'b Codec =
  cd_Bytes :: "'b \<Rightarrow> string option"
  cd_ErrorField :: "string \<Rightarrow> string option"
  cd_Registration :: "'b \<Rightarrow> string + string \<times> string"
  cd_Status :: "'b \<Rightarrow> statusBody"

type_synonym ('w, 'b) transport = "AgentRequest \<Rightarrow> 'w \<Rightarrow> (string + 'b Reply) \<times> 'w"

section \<open>Error details\<close>

definition maxDetailBytes :: nat where
  "maxDetailBytes = 8 * 1024"

definition Detail :: "'b Codec \<Rightarrow> 'b Reply \<Rightarrow> string" where
  "Detail codec response =
     (case cd_Bytes codec (rp_Body response) of None \<Rightarrow> ''''
      | Some all \<Rightarrow>
        let body = take maxDetailBytes all; snippet = TrimSpace body in
        if snippet = '''' then ''''
        else (case cd_ErrorField codec body of
                Some err \<Rightarrow> if TrimSpace err \<noteq> '''' then TrimSpace err else snippet
              | None \<Rightarrow> snippet))"

definition WithDetail :: "'b Codec \<Rightarrow> string \<Rightarrow> 'b Reply \<Rightarrow> string" where
  "WithDetail codec base response =
     (let detail = Detail codec response in if detail \<noteq> '''' then base @ '': '' @ detail else base)"

section \<open>The registrar\<close>

record Registrar =
  rg_hubURL :: string
  rg_registrationToken :: string
  rg_token :: string
  rg_clusterName :: string
  rg_agentVersion :: string
  rg_tenantID :: string
  rg_labels :: labels
  rg_approved :: bool

definition NewRegistrar :: "AgentConfig \<Rightarrow> string \<Rightarrow> Registrar" where
  "NewRegistrar cfg version =
     \<lparr>rg_hubURL = TrimRightC (CHR ''/'') (acf_HubURL cfg), rg_registrationToken = acf_HubToken cfg,
      rg_token = acf_HubToken cfg, rg_clusterName = acf_ClusterName cfg, rg_agentVersion = version,
      rg_tenantID = acf_TenantID cfg, rg_labels = acf_ClusterLabels cfg, rg_approved = False\<rparr>"

text \<open>The agent's state: the registrar, the tracker it marks, its clock and the world behind the HTTP client.\<close>

record 'w agent =
  as_Registrar :: Registrar
  as_Contact :: "Tracker option"
  as_Clock :: "nat \<Rightarrow> time"
  as_Tick :: nat
  as_World :: 'w

type_synonym ('w, 'a) agentm = "('w agent, string, 'a) sm"

definition clientDo :: "('w, 'b) transport \<Rightarrow> string \<Rightarrow> AgentRequest \<Rightarrow> ('w, 'b Reply) agentm" where
  "clientDo http what request =
     mapErr (\<lambda>err. what @ '': '' @ err) (within as_World (\<lambda>w s. s\<lparr>as_World := w\<rparr>) (http request))"

definition markContact :: "(time \<Rightarrow> Tracker option \<Rightarrow> Tracker option) \<Rightarrow> ('w, unit) agentm" where
  "markContact mark =
     modify (\<lambda>s. s\<lparr>as_Contact := mark (as_Clock s (as_Tick s)) (as_Contact s), as_Tick := as_Tick s + 1\<rparr>)"

definition setHeaders :: "Registrar \<Rightarrow> bool \<Rightarrow> string \<Rightarrow> (string \<times> string) list" where
  "setHeaders r jsonBody token =
     (if jsonBody then [(''Content-Type'', ''application/json'')] else []) @
     [(''Authorization'', ''Bearer '' @ token)] @
     (if rg_tenantID r \<noteq> '''' then [(tenantHeader, rg_tenantID r)] else [])"

definition registerPayload :: "Registrar \<Rightarrow> string \<Rightarrow> RegisterRequest" where
  "registerPayload r k8sVersion =
     \<lparr>rr_ClusterName = rg_clusterName r, rr_Labels = rg_labels r, rr_AgentVersion = rg_agentVersion r,
      rr_K8sVersion = k8sVersion,
      rr_ExistingAgentToken = (if rg_token r \<noteq> rg_registrationToken r then rg_token r else '''')\<rparr>"

definition setRegistrar :: "(Registrar \<Rightarrow> Registrar) \<Rightarrow> ('w, unit) agentm" where
  "setRegistrar f = modify (\<lambda>s. s\<lparr>as_Registrar := f (as_Registrar s)\<rparr>)"

text \<open>The result: the cluster's id and whether the agent is approved.\<close>

definition Register :: "('w, 'b) transport \<Rightarrow> 'b Codec \<Rightarrow> string \<Rightarrow> ('w, string \<times> bool) agentm" where
  "Register http codec k8sVersion =
     bindm (gets as_Registrar) (\<lambda>r.
     bindm (clientDo http ''register agent'' \<lparr>aq_Method = ''POST'', aq_URL = rg_hubURL r @ ''/api/v1/agents/register'',
       aq_Header = setHeaders r True (rg_registrationToken r),
       aq_Payload = RegisterPayload (registerPayload r k8sVersion)\<rparr>) (\<lambda>response.
     if rp_StatusCode response = 401 then throw (WithDetail codec ''hub rejected agent token'' response)
     else if rp_StatusCode response \<noteq> 200 \<and> rp_StatusCode response \<noteq> 202 \<and> rp_StatusCode response \<noteq> 201
     then throw (WithDetail codec (''hub returned registration status '' @ rp_Status response) response)
     else case cd_Registration codec (rp_Body response) of
       Inl err \<Rightarrow> throw (''decode registration response: '' @ err)
     | Inr (clusterID, token) \<Rightarrow>
         if clusterID = '''' then throw ''hub returned an empty cluster ID''
         else bindm (if token \<noteq> '''' then setRegistrar (\<lambda>r. r\<lparr>rg_token := token\<rparr>) else ret ()) (\<lambda>_.
           let approved = (rp_StatusCode response = 200) in
           bindm (setRegistrar (\<lambda>r. r\<lparr>rg_approved := approved\<rparr>)) (\<lambda>_.
           bindm (markContact MarkRegistered) (\<lambda>_.
           ret (clusterID, approved))))))"

definition postLifecycle :: "('w, 'b) transport \<Rightarrow> 'b Codec \<Rightarrow> string \<Rightarrow> ('w, bool) agentm" where
  "postLifecycle http codec action =
     bindm (gets as_Registrar) (\<lambda>r.
     bindm (clientDo http (''send agent '' @ action) \<lparr>aq_Method = ''POST'',
       aq_URL = rg_hubURL r @ ''/api/v1/agents/'' @ PathEscape (rg_clusterName r) @ ''/'' @ action,
       aq_Header = setHeaders r False (rg_token r), aq_Payload = NoPayload\<rparr>) (\<lambda>response.
     if rp_StatusCode response < 200 \<or> 300 \<le> rp_StatusCode response
     then throw (WithDetail codec (''hub returned '' @ action @ '' status '' @ rp_Status response) response)
     else if action \<noteq> ''heartbeat'' then ret False
     else case cd_Status codec (rp_Body response) of
       EmptyBody \<Rightarrow> ret False
     | UndecodableBody err \<Rightarrow> throw (''decode agent heartbeat response: '' @ err)
     | DecodedStatus approved \<Rightarrow> ret approved))"

definition Heartbeat :: "('w, 'b) transport \<Rightarrow> 'b Codec \<Rightarrow> ('w, bool) agentm" where
  "Heartbeat http codec =
     bindm (postLifecycle http codec ''heartbeat'') (\<lambda>approved.
     bindm (markContact MarkContact) (\<lambda>_.
     bindm (gets as_Registrar) (\<lambda>r.
     bindm (if approved then setRegistrar (\<lambda>r. r\<lparr>rg_approved := True\<rparr>) else ret ()) (\<lambda>_.
     ret (approved \<and> \<not> rg_approved r)))))"

definition Deregister :: "('w, 'b) transport \<Rightarrow> 'b Codec \<Rightarrow> ('w, unit) agentm" where
  "Deregister http codec = bindm (postLifecycle http codec ''deregister'') (\<lambda>_. ret ())"

section \<open>The reporter\<close>

record Reporter =
  rt_hubURL :: string
  rt_token :: string
  rt_clusterName :: string
  rt_tenantID :: string

definition NewReporter :: "AgentConfig \<Rightarrow> string \<Rightarrow> Reporter" where
  "NewReporter cfg token =
     \<lparr>rt_hubURL = TrimRightC (CHR ''/'') (acf_HubURL cfg), rt_token = token,
      rt_clusterName = acf_ClusterName cfg, rt_tenantID = acf_TenantID cfg\<rparr>"

definition Report :: "('w, 'b) transport \<Rightarrow> 'b Codec \<Rightarrow> Reporter \<Rightarrow> ClusterSnapshotRequest \<Rightarrow> ('w, unit) agentm" where
  "Report http codec r st =
     bindm (clientDo http ''report cluster state'' \<lparr>aq_Method = ''POST'',
       aq_URL = rt_hubURL r @ ''/api/v1/clusters/'' @ PathEscape (rt_clusterName r) @ ''/status'',
       aq_Header = [(''Content-Type'', ''application/json''), (''Authorization'', ''Bearer '' @ rt_token r)] @
         (if rt_tenantID r \<noteq> '''' then [(tenantHeader, rt_tenantID r)] else []),
       aq_Payload = StatePayload st\<rparr>) (\<lambda>response.
     if rp_StatusCode response < 200 \<or> 300 \<le> rp_StatusCode response
     then throw (WithDetail codec (''hub returned status '' @ rp_Status response) response)
     else markContact MarkContact)"

end
