(* ===== verification/AgentLoop.thy ===== *)
theory AgentLoop
  imports AgentClient
begin

text \<open>
  The loops of \<open>cmd/agent\<close>. What the loops observe of the world comes as a schedule: each look at
  \<open>ctx.Err()\<close> and each \<open>select\<close> takes the next observation, which says whether the context is cancelled by then
  and, for a \<open>select\<close>, which channel is received from. A ready channel the \<open>select\<close> does not have is passed over.
  When the schedule ends the process is still waiting, and the result is \<open>None\<close>. The log channel, which
  runs beside the report loop, is modelled in \<open>AgentLogs\<close>.
\<close>

datatype tick = DoneC | HeartbeatC | ReportC | TimerC

record obs =
  ob_cancelled :: bool
  ob_tick :: tick

text \<open>The collaborators of the process.\<close>

record ('w, 'b) Deps =
  dp_http :: "('w, 'b) transport"
  dp_codec :: "'b Codec"
  dp_clientset :: "'w \<Rightarrow> Clientset"
  dp_sha256 :: "string \<Rightarrow> string"
  dp_version :: string
  dp_jitter :: "duration \<Rightarrow> duration"

definition collectState :: "('w, 'b) Deps \<Rightarrow> ('w, ClusterSnapshotRequest) agentm" where
  "collectState d = (\<lambda>s. (Collect (dp_sha256 d) (dp_version d) (as_Clock s (as_Tick s)) (dp_clientset d (as_World s)),
     s\<lparr>as_Tick := as_Tick s + 1\<rparr>))"

text \<open>A failure is logged and otherwise ignored.\<close>

definition reportState :: "('w, 'b) Deps \<Rightarrow> Reporter \<Rightarrow> 'w agent \<Rightarrow> 'w agent" where
  "reportState d reporter s =
     snd (bindm (collectState d) (Report (dp_http d) (dp_codec d) reporter) s)"

fun runAgentLoop :: "('w, 'b) Deps \<Rightarrow> Reporter \<Rightarrow> obs list \<Rightarrow> 'w agent \<Rightarrow> (bool \<times> obs list \<times> 'w agent) option" where
  "runAgentLoop d reporter [] s = None"
| "runAgentLoop d reporter (ob # rest) s =
     (case ob_tick ob of
        DoneC \<Rightarrow> Some (True, rest, s)
      | HeartbeatC \<Rightarrow>
          (case Heartbeat (dp_http d) (dp_codec d) s of
             (Inl err, s1) \<Rightarrow> (case rest of [] \<Rightarrow> None | ob1 # rest1 \<Rightarrow> Some (ob_cancelled ob1, rest1, s1))
           | (Inr reregister, s1) \<Rightarrow>
               if reregister then Some (False, rest, s1) else runAgentLoop d reporter rest s1)
      | ReportC \<Rightarrow> runAgentLoop d reporter rest (reportState d reporter s)
      | TimerC \<Rightarrow> runAgentLoop d reporter rest s)"

fun waitForRetry :: "obs list \<Rightarrow> (bool \<times> obs list) option" where
  "waitForRetry [] = None"
| "waitForRetry (ob # rest) =
     (case ob_tick ob of DoneC \<Rightarrow> Some (False, rest) | TimerC \<Rightarrow> Some (True, rest) | _ \<Rightarrow> waitForRetry rest)"

lemma waitForRetry_length: "waitForRetry os = Some (b, rest) \<Longrightarrow> length rest < length os"
  by (induction os) (auto split: tick.splits)

lemma runAgentLoop_length: "runAgentLoop d r os s = Some (b, rest, s') \<Longrightarrow> length rest < length os"
proof (induction d r os s rule: runAgentLoop.induct)
  case (2 d reporter ob rest0 s)
  then show ?case
    by (cases "ob_tick ob") (auto split: prod.splits sum.splits list.splits if_splits dest: less_imp_le_nat intro: less_SucI)
qed simp

text \<open>The wait before a registration that is not the first: nothing to wait for, or the delay of the backoff.\<close>

definition retryGate :: "(duration \<Rightarrow> duration) \<Rightarrow> bool \<Rightarrow> obs list \<Rightarrow> Backoff \<Rightarrow> (bool \<times> obs list \<times> Backoff) option" where
  "retryGate jitter delay os backoff =
     (if delay
      then map_option (\<lambda>(go, rest). (go, rest, snd (backoffNext jitter backoff))) (waitForRetry os)
      else Some (True, os, backoff))"

lemma retryGate_length: "retryGate j delay os b = Some (go, rest, b') \<Longrightarrow> length rest \<le> length os"
  by (auto simp: retryGate_def split: if_splits dest: waitForRetry_length)

function runLoop ::
  "('w, 'b) Deps \<Rightarrow> AgentConfig \<Rightarrow> string \<Rightarrow> bool \<Rightarrow> obs list \<Rightarrow> Backoff \<Rightarrow> 'w agent \<Rightarrow> 'w agent option" where
  "runLoop d cfg k8sVersion delayBeforeRegister os backoff s =
     (case os of [] \<Rightarrow> None
      | ob # rest \<Rightarrow>
        if ob_cancelled ob then Some s
        else (case retryGate (dp_jitter d) delayBeforeRegister rest backoff of None \<Rightarrow> None
          | Some (go, rest1, backoff1) \<Rightarrow>
            if \<not> go then Some s
            else (case Register (dp_http d) (dp_codec d) k8sVersion s of
                (Inl err, s1) \<Rightarrow>
                  (case rest1 of [] \<Rightarrow> None
                   | ob2 # rest2 \<Rightarrow>
                       if ob_cancelled ob2 then Some s1 else runLoop d cfg k8sVersion True rest2 backoff1 s1)
              | (Inr registration, s1) \<Rightarrow>
                  let reporter = NewReporter cfg (rg_token (as_Registrar s1)) in
                  (case runAgentLoop d reporter rest1 (reportState d reporter s1) of None \<Rightarrow> None
                   | Some (stopped, rest2, s2) \<Rightarrow>
                       if stopped then Some s2
                       else runLoop d cfg k8sVersion True rest2 (backoffReset backoff1) s2))))"
  by pat_completeness auto
termination
  by (relation "measure (\<lambda>(d, cfg, k, delay, os, b, s). length os)")
    (auto dest!: retryGate_length runAgentLoop_length)

declare runLoop.simps [simp del]

definition run :: "('w, 'b) Deps \<Rightarrow> AgentConfig \<Rightarrow> obs list \<Rightarrow> 'w agent \<Rightarrow> 'w agent option" where
  "run d cfg os s =
     (case collectState d s of (res, s1) \<Rightarrow>
        let k8sVersion = (case res of Inl err \<Rightarrow> '''' | Inr state \<Rightarrow> sq_K8sVersion state)
        in map_option (\<lambda>s2. snd (Deregister (dp_http d) (dp_codec d) s2))
             (runLoop d cfg k8sVersion False os NewBackoff s1))"

section \<open>The agent stops when told to\<close>

definition stopObs :: obs where
  "stopObs = \<lparr>ob_cancelled = True, ob_tick = DoneC\<rparr>"

definition endsCancelled :: "obs list \<Rightarrow> bool" where
  "endsCancelled os \<longleftrightarrow> os \<noteq> [] \<and> last os = stopObs"

lemma endsCancelled_Nil [simp]: "\<not> endsCancelled []"
  by (simp add: endsCancelled_def)

lemma endsCancelled_Cons: "endsCancelled (ob # rest) \<longleftrightarrow> (if rest = [] then ob = stopObs else endsCancelled rest)"
  by (simp add: endsCancelled_def)

lemma waitForRetry_stops:
  "endsCancelled os \<Longrightarrow> \<exists>go rest. waitForRetry os = Some (go, rest) \<and> (go \<longrightarrow> endsCancelled rest)"
  by (induction os) (auto simp: endsCancelled_Cons stopObs_def split: if_splits tick.splits)

lemma runAgentLoop_stops:
  "endsCancelled os \<Longrightarrow> \<exists>stopped rest s'. runAgentLoop d r os s = Some (stopped, rest, s') \<and> (\<not> stopped \<longrightarrow> endsCancelled rest)"
proof (induction d r os s rule: runAgentLoop.induct)
  case (2 d r ob rest s)
  show ?case
  proof (cases "rest = []")
    case True
    with 2 show ?thesis by (auto simp: endsCancelled_Cons stopObs_def)
  next
    case False
    then obtain ob1 rest1 where r: "rest = ob1 # rest1" by (cases rest) auto
    from 2(4) False have e: "endsCancelled rest" by (simp add: endsCancelled_Cons)
    then have "rest1 = [] \<longrightarrow> ob_cancelled ob1" by (simp add: r endsCancelled_Cons stopObs_def)
    with 2 e r show ?thesis
      by (cases "ob_tick ob") (auto simp: endsCancelled_Cons split: prod.splits sum.splits)
  qed
qed (simp add: endsCancelled_def)

lemma retryGate_stops:
  "endsCancelled os \<Longrightarrow> \<exists>go rest b'. retryGate j delay os b = Some (go, rest, b') \<and> (go \<longrightarrow> endsCancelled rest)"
  using waitForRetry_stops [of os] by (auto simp: retryGate_def)

lemma runLoop_stops: "endsCancelled os \<Longrightarrow> \<exists>s'. runLoop d cfg k delay os b s = Some s'"
proof (induction d cfg k delay os b s rule: runLoop.induct)
  case (1 d cfg k delay os b s)
  then obtain ob rest where os: "os = ob # rest" by (cases os) auto
  show ?case
  proof (cases "ob_cancelled ob")
    case True
    then show ?thesis by (subst runLoop.simps) (simp add: os)
  next
    case False': False
    then have e: "endsCancelled rest" using 1(3) os by (auto simp: endsCancelled_Cons stopObs_def split: if_splits)
    from retryGate_stops [OF this] obtain go rest1 b1
      where g: "retryGate (dp_jitter d) delay rest b = Some (go, rest1, b1)" "go \<longrightarrow> endsCancelled rest1" by blast
    show ?thesis
    proof (cases go)
      case False
      with g False' show ?thesis by (subst runLoop.simps) (simp add: os)
    next
      case True
      with g have e1: "endsCancelled rest1" by simp
      have nn: "\<not> \<not> go" using True by simp
      obtain res s1 where R: "Register (dp_http d) (dp_codec d) k s = (res, s1)" by fastforce
      note step = runLoop.simps [of d cfg k delay os b s, unfolded os list.case if_not_P [OF False'] g(1) option.case prod.case
          if_not_P [OF nn] R]
      show ?thesis
      proof (cases res)
        case (Inl err)
        from e1 obtain ob2 rest2 where r1: "rest1 = ob2 # rest2" by (cases rest1) auto
        show ?thesis
        proof (cases "ob_cancelled ob2")
          case True
          then show ?thesis by (simp add: step Inl r1 os)
        next
          case False
          then have "endsCancelled rest2" using e1 r1 by (auto simp: endsCancelled_Cons stopObs_def split: if_splits)
          from 1(1) [OF os False' g(1) refl refl nn R [symmetric] Inl r1 False this] False
          show ?thesis by (simp add: step Inl r1 os)
        qed
      next
        case (Inr reg)
        let ?rep = "NewReporter cfg (rg_token (as_Registrar s1))"
        from runAgentLoop_stops [OF e1, of d ?rep "reportState d ?rep s1"] obtain stopped rest2 s2
          where L: "runAgentLoop d ?rep rest1 (reportState d ?rep s1) = Some (stopped, rest2, s2)"
            "\<not> stopped \<longrightarrow> endsCancelled rest2" by blast
        show ?thesis
        proof (cases stopped)
          case True
          with L show ?thesis by (simp add: step Inr os Let_def)
        next
          case False
          with L have "endsCancelled rest2" by simp
          from 1(2) [OF os False' g(1) refl refl nn R [symmetric] Inr refl L(1) refl refl False this] L False
          show ?thesis by (simp add: step Inr os Let_def)
        qed
      qed
    qed
  qed
qed

end
