(* ===== verification/AgentGate.thy ===== *)
theory AgentGate
  imports Samples
begin

text \<open>
  What the agent endpoints guarantee about credentials: registration is refused without the
  registration token, nobody can take over the credential of a registered cluster without presenting it,
  and the endpoints of a registered agent change nothing without a valid token.
\<close>

section \<open>Reading through the store\<close>

lemma onStore_ok: "onStore m h = (res, h') \<longleftrightarrow> (\<exists>d. m (h_db h) = (res, d) \<and> h' = h\<lparr>h_db := d\<rparr>)"
  by (auto simp: onStore_def within_def split: prod.splits)

lemma onStore_unchanged:
  assumes "keepsT (\<lambda>t. t = hubTables h) m" and "onStore m h = (res, h')"
  shows "hubTables h' = hubTables h"
  using keepsD [OF assms(1) refl] assms(2) by (auto simp: onStore_ok)

lemma bindm_step: "m s = (Inr x, s') \<Longrightarrow> bindm m f s = f x s'"
  by (simp add: bindm_def)

lemma attempt_eq: "attempt m h = (res, h') \<longleftrightarrow> (\<exists>x. m h = (x, h') \<and> res = Inr x)"
  by (auto simp: attempt_def split: prod.splits)

section \<open>Registration needs the registration token\<close>

definition registrationGranted :: "Server \<Rightarrow> Request \<Rightarrow> tables \<Rightarrow> bool" where
  "registrationGranted srv r t \<longleftrightarrow>
     (case bearerToken (HeaderGet r ''Authorization'') of
        None \<Rightarrow> False
      | Some token \<Rightarrow>
          (case selectOne (\<lambda>kv. fst kv = settingRegistrationTokenHash) (t_settings t) of
             Some (_, rotated) \<Rightarrow> HashToken srv token = rotated
           | None \<Rightarrow> srv_RegistrationToken srv \<noteq> '''' \<and> token = srv_RegistrationToken srv))"

lemma GetSetting_ok:
  assumes "GetSetting key d = (Inr (v, present), d')"
  shows "case selectOne (\<lambda>kv. fst kv = key) (t_settings (db_tables d)) of
    None \<Rightarrow> \<not> present | Some kv \<Rightarrow> present \<and> v = snd kv"
proof -
  from assms obtain row d1 where q: "query (\<lambda>t. selectOne (\<lambda>kv. fst kv = key) (t_settings t)) d = (Inr row, d1)"
    and r: "((case row of None \<Rightarrow> ret ('''', False) | Some (k, v) \<Rightarrow> ret (v, True)) :: (string \<times> bool) storem) d1 =
      (Inr (v, present), d')"
    by (auto simp: GetSetting_def bindm_ok wrapErr_ok)
  from query_ok [OF q] r show ?thesis by (auto simp del: selectOne_None split: option.splits prod.splits)
qed

lemma checkRegistrationAuth_granted:
  assumes "checkRegistrationAuth srv (HeaderGet r ''Authorization'') h = (Inr auth, h')"
  shows "hubTables h' = hubTables h \<and> (auth = registrationOK \<longrightarrow> registrationGranted srv r (hubTables h))"
proof -
  have k: "keepsH I (checkRegistrationAuth srv x)" for I x
    unfolding checkRegistrationAuth_def by (intro valid_intro)
  have "hubTables h' = hubTables h"
    by (rule keepsH_D [where I = "\<lambda>t. t = hubTables h", OF assms refl k])
  moreover have "registrationGranted srv r (hubTables h)" if ok: "auth = registrationOK"
  proof -
    obtain x d where g: "GetSetting settingRegistrationTokenHash (h_db h) = (x, d)" by fastforce
    note run = assms [unfolded checkRegistrationAuth_def bindm_def attempt_def onStore_def within_def, simplified, unfolded g]
    show ?thesis
    proof (cases x)
      case (Inl e)
      with run ok show ?thesis by simp
    next
      case (Inr y)
      obtain v present where y: "y = (v, present)" by (cases y)
      from GetSetting_ok [OF g [unfolded Inr y]] run ok Inr y show ?thesis
        by (auto simp: registrationGranted_def simp del: selectOne_None split: option.splits if_splits)
    qed
  qed
  ultimately show ?thesis by blast
qed

text \<open>C24: Registration fails closed: unless the request carries the current registration token (the rotated one once
  there is one, else the configured one, and never an empty one), it is answered with 401, 403 or 500 and
  no table changes; in particular on a hub without a token, and when the setting cannot be read.\<close>

theorem registration_fail_closed:
  assumes "handleAgentRegister srv req r h = (res, h')" and "\<not> registrationGranted srv r (hubTables h)"
  shows "(\<exists>e. res = Inl e \<and> rs_Status e \<in> {401, 403, 500}) \<and> hubTables h' = hubTables h"
proof -
  obtain auth :: "response + registrationAuth" and h1 where c: "checkRegistrationAuth srv (HeaderGet r ''Authorization'') h = (auth, h1)" by fastforce
  then obtain a where a: "auth = Inr a"
    by (auto simp: checkRegistrationAuth_def bindm_def attempt_def ret_def split: prod.splits sum.splits option.splits if_splits)
  note g = checkRegistrationAuth_granted [OF c [unfolded a]]
  with assms(2) have "a \<noteq> registrationOK" by blast
  moreover note assms(1) [unfolded handleAgentRegister_def bindm_step [where m = "checkRegistrationAuth srv (HeaderGet r ''Authorization'')", OF c [unfolded a]]]
  ultimately show ?thesis using g by (cases a) (auto simp: WriteError_def throw_def)
qed

theorem registration_fail_closed_witness:
  "\<exists>e. fst (handleAgentRegister sampleServer None (sampleRequest ''POST'' ''/api/v1/agents/register'') sampleHub) = Inl e \<and>
     rs_Status e \<in> {401, 403, 500}"
proof -
  have "\<not> registrationGranted sampleServer (sampleRequest ''POST'' ''/api/v1/agents/register'') (hubTables sampleHub)"
    by (simp add: registrationGranted_def bearerToken_def HeaderGet_def sampleRequest_def CutC_def)
  from registration_fail_closed [OF prod.collapse [symmetric] this] show ?thesis by blast
qed

section \<open>No takeover of a registered cluster\<close>

text \<open>Every credential of \<open>old\<close> is still there, or its token was presented.\<close>

definition credentialsKept :: "Server \<Rightarrow> string \<Rightarrow> tables \<Rightarrow> tables \<Rightarrow> bool" where
  "credentialsKept srv tok old t \<longleftrightarrow>
     db_wf t \<and> (\<forall>a \<in> set (t_agents old). a \<in> set (t_agents t) \<or> HashToken srv tok = ag_TokenHash a)"

text \<open>The token was presented for whatever credential the cluster has.\<close>

definition proven :: "Server \<Rightarrow> string \<Rightarrow> Cluster \<Rightarrow> tables \<Rightarrow> bool" where
  "proven srv tok cluster t \<longleftrightarrow> (\<forall>a \<in> set (t_agents t). ag_ClusterID a = c_ID cluster \<longrightarrow> HashToken srv tok = ag_TokenHash a)"

lemma agents_unchanged:
  "keepsT (\<lambda>t. t_agents t = v) (CreateCluster c)" "keepsT (\<lambda>t. t_agents t = v) (AppendEvent e)"
  unfolding CreateCluster_def AppendEvent_def Let_def
  by (intro valid_intro keepsT_insertRow keepsT_exec; simp)+

lemma AppendEvent_credentials: "keepsT (credentialsKept srv tok old) (AppendEvent e)"
proof -
  have "keepsT (\<lambda>t. db_wf t \<and> t_agents t = v) (AppendEvent e)" for v
    by (intro keepsT_conj AppendEvent_wf agents_unchanged)
  then show ?thesis unfolding keeps_def credentialsKept_def by metis
qed

lemma findClusterByName_keeps: "keepsH I (findClusterByName r name)"
  unfolding findClusterByName_def by (intro valid_intro)

lemma agent_unique:
  assumes "db_wf t" and "a \<in> set (t_agents t)" and "b \<in> set (t_agents t)" and "ag_ClusterID a = ag_ClusterID b"
  shows "a = b"
  using assms by (auto simp: db_wf_def createAgentsTable_def unique_key_def distinct_map inj_on_def)

lemma ValidateAgentToken_ok:
  assumes "ValidateAgentToken cid hash d = (Inr approved, d')"
  shows "\<exists>a \<in> set (t_agents (db_tables d)). ag_ClusterID a = cid \<and> ag_TokenHash a = hash \<and> ag_Approved a = approved"
proof -
  from assms obtain row d1 where
    q: "query (\<lambda>t. selectOne (\<lambda>a. ag_ClusterID a = cid \<and> ag_TokenHash a = hash) (t_agents t)) d = (Inr row, d1)"
    and r: "(case row of None \<Rightarrow> throw ErrNotFound | Some a \<Rightarrow> ret (ag_Approved a)) d1 = (Inr approved, d')"
    by (auto simp: ValidateAgentToken_def bindm_ok wrapErr_ok)
  from r obtain a where a: "row = Some a" "ag_Approved a = approved" by (auto split: option.splits)
  with query_ok [OF q] have "selectOne (\<lambda>a. ag_ClusterID a = cid \<and> ag_TokenHash a = hash) (t_agents (db_tables d)) = Some a"
    by simp
  from selectOne_Some [OF this] a(2) show ?thesis by blast
qed

lemma validExistingAgentToken_ok:
  assumes "validExistingAgentToken srv cid tok h = (Inr True, h')"
  shows "\<exists>a \<in> set (t_agents (hubTables h)). ag_ClusterID a = cid \<and> ag_TokenHash a = HashToken srv (TrimSpace tok)"
proof -
  obtain x d where v: "ValidateAgentToken cid (HashToken srv (TrimSpace tok)) (h_db h) = (x, d)" by fastforce
  with assms obtain b where "x = Inr b"
    by (cases x) (auto simp: validExistingAgentToken_def Let_def bindm_def attempt_def onStore_def within_def throw_def ret_def
        split: if_splits)
  with v ValidateAgentToken_ok show ?thesis by blast
qed

lemma CreateCluster_fresh:
  assumes "CreateCluster cluster d = (Inr x, d')" and "db_wf (db_tables d)"
  shows "proven srv tok cluster (db_tables d')"
proof -
  have t: "t_agents (db_tables d') = t_agents (db_tables d)"
    by (rule keepsD [OF agents_unchanged(1) refl assms(1)])
  have new: "c_ID cluster \<notin> set (map c_ID (t_clusters (db_tables d)))"
    using assms(1) by (auto simp: CreateCluster_def Let_def bindm_ok wrapErr_ok insertRow_def dest!: stmt_ok split: if_splits option.splits)
  have "ag_ClusterID a \<noteq> c_ID cluster" if "a \<in> set (t_agents (db_tables d))" for a
  proof -
    have "references ag_ClusterID (t_agents (db_tables d)) c_ID (t_clusters (db_tables d))"
      using assms(2) by (simp add: db_wf_def createAgentsTable_def)
    then have "ag_ClusterID a \<in> set (map c_ID (t_clusters (db_tables d)))" using that by (simp add: references_def list_all_iff)
    with new show ?thesis by metis
  qed
  then show ?thesis by (simp add: proven_def t)
qed

lemma registeredCluster_proven:
  fixes srv request old
  defines "tok \<equiv> TrimSpace (rc_ExistingAgentToken request)"
  shows "valid (\<lambda>h. credentialsKept srv tok old (hubTables h)) (registeredCluster srv request r name tenantID)
     (\<lambda>(cluster, _) h. credentialsKept srv tok old (hubTables h) \<and> proven srv tok cluster (hubTables h))
     (\<lambda>_ h. credentialsKept srv tok old (hubTables h))"
proof -
  let ?K = "\<lambda>h. credentialsKept srv tok old (hubTables h)"
  let ?R = "\<lambda>(cluster, _) h. ?K h \<and> proven srv tok cluster (hubTables h)"
  have new: "valid ?K (bindm (mapErr (serverError msg) (onStore (CreateCluster cluster))) (\<lambda>_. ret (cluster, True))) ?R (\<lambda>_. ?K)"
    for cluster msg
  proof (rule validI)
    fix h e h' assume K: "?K h" and "bindm (mapErr (serverError msg) (onStore (CreateCluster cluster))) (\<lambda>_. ret (cluster, True)) h = (Inl e, h')"
    then obtain e' d where c: "CreateCluster cluster (h_db h) = (Inl e', d)" and h': "h' = h\<lparr>h_db := d\<rparr>"
      by (auto simp: bindm_err mapErr_err onStore_ok ret_def)
    show "?K h'" using keepsD [OF CreateCluster_wf _ c] keepsD [OF agents_unchanged(1) refl c] K
      by (simp add: h' credentialsKept_def)
  next
    fix h y h' assume K: "?K h" and "bindm (mapErr (serverError msg) (onStore (CreateCluster cluster))) (\<lambda>_. ret (cluster, True)) h = (Inr y, h')"
    then obtain x d where c: "CreateCluster cluster (h_db h) = (Inr x, d)" and h': "h' = h\<lparr>h_db := d\<rparr>" "y = (cluster, True)"
      by (auto simp: bindm_ok mapErr_ok onStore_ok)
    show "?R y h'" using keepsD [OF CreateCluster_wf _ c] keepsD [OF agents_unchanged(1) refl c] CreateCluster_fresh [OF c] K
      by (simp add: h' credentialsKept_def)
  qed
  have known: "valid ?K (bindm (mapErr (serverError msg) (validExistingAgentToken srv (c_ID cluster) (rc_ExistingAgentToken request)))
      (\<lambda>valid. if valid then ret (cluster, False) else WriteError 409 msg')) ?R (\<lambda>_. ?K)" for cluster msg msg'
  proof -
    have k: "keepsH I (validExistingAgentToken srv cid t)" for I cid t
      unfolding validExistingAgentToken_def Let_def by (intro valid_intro)
    show ?thesis
    proof (rule valid_bind [where R = "\<lambda>v h. ?K h \<and> (v \<longrightarrow> proven srv tok cluster (hubTables h))"])
      show "valid ?K (mapErr (serverError msg) (validExistingAgentToken srv (c_ID cluster) (rc_ExistingAgentToken request)))
          (\<lambda>v h. ?K h \<and> (v \<longrightarrow> proven srv tok cluster (hubTables h))) (\<lambda>_. ?K)"
      proof (rule validI)
        fix h e h' assume "?K h" and "mapErr (serverError msg) (validExistingAgentToken srv (c_ID cluster) (rc_ExistingAgentToken request)) h = (Inl e, h')"
        then show "?K h'" using keepsH_D [where I = "credentialsKept srv tok old", OF _ _ keeps_mapErr [OF k]] by blast
      next
        fix h v h' assume K: "?K h" and m: "mapErr (serverError msg) (validExistingAgentToken srv (c_ID cluster) (rc_ExistingAgentToken request)) h = (Inr v, h')"
        have same: "hubTables h' = hubTables h"
          by (rule keepsH_D [where I = "\<lambda>t. t = hubTables h", OF m refl keeps_mapErr [OF k]])
        have "proven srv tok cluster (hubTables h)" if v
        proof -
          obtain a where a: "a \<in> set (t_agents (hubTables h))" "ag_ClusterID a = c_ID cluster" "ag_TokenHash a = HashToken srv tok"
            using validExistingAgentToken_ok [of srv "c_ID cluster" "rc_ExistingAgentToken request" h h'] m \<open>v\<close>
            by (auto simp: mapErr_ok tok_def)
          have wf: "db_wf (hubTables h)" using K by (simp add: credentialsKept_def)
          show ?thesis unfolding proven_def
          proof (intro ballI impI)
            fix b assume "b \<in> set (t_agents (hubTables h))" and "ag_ClusterID b = c_ID cluster"
            then have "b = a" using agent_unique [OF wf _ a(1)] a(2) by simp
            then show "HashToken srv tok = ag_TokenHash b" using a(3) by simp
          qed
        qed
        with K same show "?K h' \<and> (v \<longrightarrow> proven srv tok cluster (hubTables h'))" by simp
      qed
      fix v
      show "valid (\<lambda>h. ?K h \<and> (v \<longrightarrow> proven srv tok cluster (hubTables h)))
          (if v then ret (cluster, False) else WriteError 409 msg') ?R (\<lambda>_. ?K)"
        by (cases v) (auto intro!: valid_intro simp: WriteError_def)
    qed
  qed
  have id: "valid ?K m (\<lambda>_. ?K) (\<lambda>_. ?K)" if "keepsH (credentialsKept srv tok old) m" for m :: "(hub, 'e, 'a) sm"
    using that by (simp only: keeps_valid)
  show ?thesis unfolding registeredCluster_def
  proof (rule valid_bind)
    show "valid ?K (attempt (findClusterByName r name)) (\<lambda>_. ?K) (\<lambda>_. ?K)"
      using keeps_attempt [OF findClusterByName_keeps] by (simp only: keeps_valid)
    fix x
    show "valid ?K (case x of Inl err \<Rightarrow>
         if err = ErrNotFound
         then bindm newUUID (\<lambda>cid. bindm timeNow (\<lambda>now.
           let cluster = \<lparr>c_ID = cid, c_TenantID = tenantID, c_Name = name, c_Health = HealthUnknown,
                 c_Version = rc_K8sVersion request, c_AgentVersion = rc_AgentVersion request,
                 c_NodeCount = 0, c_PodCount = 0, c_RegisteredAt = now, c_LastHeartbeat = 0,
                 c_Labels = rc_Labels request\<rparr> in
           bindm (mapErr (serverError ''failed to register agent'') (onStore (CreateCluster cluster)))
             (\<lambda>_. ret (cluster, True))))
         else WriteError 500 ''failed to register agent''
     | Inr cluster \<Rightarrow>
         bindm (mapErr (serverError ''failed to register agent'')
           (validExistingAgentToken srv (c_ID cluster) (rc_ExistingAgentToken request))) (\<lambda>valid.
         if valid then ret (cluster, False)
         else WriteError 409 ''cluster already registered; provide the current agent token or remove the cluster first'')) ?R (\<lambda>_. ?K)"
    proof (cases x)
      case (Inl err)
      have u: "valid ?K newUUID (\<lambda>_. ?K) (\<lambda>_. ?K)" and t: "valid ?K timeNow (\<lambda>_. ?K) (\<lambda>_. ?K)"
        by (rule keepsH_primitives(5) [unfolded keeps_valid], rule keepsH_primitives(4) [unfolded keeps_valid])
      show ?thesis
      proof (cases "err = ErrNotFound")
        case True
        show ?thesis unfolding Inl sum.case Let_def if_P [OF True]
          by (rule valid_bind [OF u], rule valid_bind [OF t], rule new)
      next
        case False
        show ?thesis unfolding Inl sum.case Let_def if_not_P [OF False] WriteError_def by (rule valid_throw)
      qed
    next
      case (Inr cluster)
      then show ?thesis unfolding sum.case by (simp add: known)
    qed
  qed
qed

lemma IssueAgentToken_kept:
  assumes "credentialsKept srv tok old (db_tables d)" and "proven srv tok cluster (db_tables d)"
    and "IssueAgentToken (c_ID cluster) hash now d = (res, d')"
  shows "credentialsKept srv tok old (db_tables d')"
proof -
  let ?t = "db_tables d"
  let ?I = "\<lambda>t. \<forall>a \<in> set (t_agents ?t). a \<in> set (t_agents t) \<or> (ag_ClusterID a = c_ID cluster)"
  have k: "keepsT (\<lambda>t. t = ?t \<or> ?I t) (IssueAgentToken (c_ID cluster) hash now)"
    unfolding IssueAgentToken_def
    by (intro valid_intro keepsT_exec) (auto simp: updAgents_def in_updWhere)
  from keepsD [OF k _ assms(3)] have "?I (db_tables d')" by auto
  moreover have "db_wf (db_tables d')"
    using keepsD [OF IssueAgentToken_wf _ assms(3)] assms(1) by (simp add: credentialsKept_def)
  ultimately show ?thesis
    using assms(1,2) by (auto simp: credentialsKept_def proven_def)
qed

lemma keepsH_valid: "keepsH I m \<Longrightarrow> valid (\<lambda>h. I (hubTables h)) m (\<lambda>_ h. I (hubTables h)) (\<lambda>_ h. I (hubTables h))"
  by (simp only: keeps_valid)

lemma keepsH_valid_weak:
  assumes "keepsH (\<lambda>t. J t \<and> K t) m"
  shows "valid (\<lambda>h. J (hubTables h) \<and> K (hubTables h)) m (\<lambda>_ h. J (hubTables h) \<and> K (hubTables h)) (\<lambda>_ h. J (hubTables h))"
  using assms by (auto simp: keeps_valid valid_def split: prod.splits sum.splits)

lemma valid_WriteError: "valid (\<lambda>h. J (hubTables h) \<and> K (hubTables h)) (WriteError n msg) Q (\<lambda>_ h. J (hubTables h))"
  unfolding WriteError_def by (rule valid_throw) simp

lemma issueCredential_kept:
  fixes cluster
  assumes J: "J = credentialsKept srv tok old"
  shows "valid (\<lambda>h. J (hubTables h) \<and> proven srv tok cluster (hubTables h)) (issueCredential srv cluster newlyRegistered)
      (\<lambda>_ h. J (hubTables h)) (\<lambda>_ h. J (hubTables h))"
    (is "valid ?P _ _ _")
proof -
  have rec: "keepsH J (recordClusterRegistered srv cluster)"
    unfolding recordClusterRegistered_def recordEvent_def J by (intro valid_intro AppendEvent_credentials)
  have issue: "valid ?P (mapErr f (onStore (IssueAgentToken (c_ID cluster) hash now)))
      (\<lambda>_ h. J (hubTables h)) (\<lambda>_ h. J (hubTables h))" for hash now f
    using IssueAgentToken_kept [of srv tok old _ cluster hash now]
    by (intro validI) (auto simp: mapErr_ok mapErr_err onStore_ok J)
  show ?thesis unfolding issueCredential_def Let_def
  proof (rule valid_bind [OF keepsH_valid_weak [OF keepsH_primitives(6)]])
    fix raw
    show "valid ?P (case raw of None \<Rightarrow> WriteError 500 ''failed to register agent''
     | Some rawToken \<Rightarrow>
       if rawToken = '''' then WriteError 500 ''failed to register agent''
       else bindm timeNow (\<lambda>now.
         bindm (mapErr (serverError ''failed to register agent'')
           (onStore (IssueAgentToken (c_ID cluster) (HashToken srv rawToken) now))) (\<lambda>_.
         bindm (Broadcast \<lparr>cu_Type = ''registered'', cu_Cluster = cluster\<rparr>) (\<lambda>_.
         bindm (if newlyRegistered then recordClusterRegistered srv cluster else ret ()) (\<lambda>_.
         bindm (mapErr (serverError ''failed to register agent'')
           (onStore (ValidateAgentToken (c_ID cluster) (HashToken srv rawToken)))) (\<lambda>approved.
         WriteJSON (if approved then 200 else 201) (TokenBody (c_ID cluster) rawToken)))))))
      (\<lambda>_ h. J (hubTables h)) (\<lambda>_ h. J (hubTables h))"
    proof (cases "raw = None \<or> raw = Some ''''")
      case True
      with valid_WriteError show ?thesis by auto
    next
      case False
      then obtain rawToken where raw: "raw = Some rawToken" "rawToken \<noteq> ''''" by auto
      show ?thesis unfolding raw(1) option.case if_not_P [OF raw(2)]
        by (rule valid_bind [OF keepsH_valid_weak [OF keepsH_primitives(4)]], rule valid_bind [OF issue],
            rule keepsH_valid) (intro valid_intro rec)
    qed
  qed
qed

text \<open>C6: Nobody takes over a registered cluster: registering, whatever the outcome and even with the registration
  token, replaces no agent credential other than one whose current token the request itself presents.\<close>

theorem registration_no_takeover:
  assumes "handleAgentRegister srv (Some request) r h = (res, h')" and "db_wf (hubTables h)"
    and "a \<in> set (t_agents (hubTables h))"
    and "HashToken srv (TrimSpace (rc_ExistingAgentToken request)) \<noteq> ag_TokenHash a"
  shows "a \<in> set (t_agents (hubTables h'))"
proof -
  let ?tok = "TrimSpace (rc_ExistingAgentToken request)"
  let ?J = "credentialsKept srv ?tok (hubTables h)"
  have c: "keepsH ?J (checkRegistrationAuth srv x)" for x unfolding checkRegistrationAuth_def by (intro valid_intro)
  note no = valid_WriteError [where J = ?J and K = "\<lambda>_. True", simplified]
  have tail: "valid (\<lambda>h. ?J (hubTables h)) (bindm (tenantIDFromRequest r) (\<lambda>tenantID.
            bindm (registeredCluster srv request r name tenantID) (\<lambda>(cluster, newlyRegistered).
            issueCredential srv cluster newlyRegistered))) (\<lambda>_ h. ?J (hubTables h)) (\<lambda>_ h. ?J (hubTables h))" for name
    by (rule valid_bind [OF keepsH_valid [OF keepsH_tenant]], rule valid_bind [OF registeredCluster_proven])
      (simp only: split_paired_all case_prod_conv issueCredential_kept [OF refl])
  have "valid (\<lambda>h. ?J (hubTables h)) (handleAgentRegister srv (Some request) r) (\<lambda>_ h. ?J (hubTables h)) (\<lambda>_ h. ?J (hubTables h))"
    unfolding handleAgentRegister_def option.case Let_def
    by (rule valid_bind [OF keepsH_valid [OF c]])
      (simp add: no tail split: registrationAuth.split)
  moreover have "?J (hubTables h)" using assms(2) by (simp add: credentialsKept_def)
  ultimately have "?J (hubTables h')" using assms(1) by (auto simp: keeps_valid [symmetric] dest: keepsD)
  with assms(3,4) show ?thesis by (auto simp: credentialsKept_def)
qed

definition takeoverRequest :: RegisterClusterRequest where
  "takeoverRequest = \<lparr>rc_Name = ''prod'', rc_ClusterName = '''', rc_Labels = Map.empty, rc_AgentVersion = '''',
     rc_K8sVersion = '''', rc_ExistingAgentToken = ''guess''\<rparr>"

theorem registration_no_takeover_witness:
  "\<exists>a \<in> set (t_agents (hubTables (snd (handleAgentRegister sampleServer (Some takeoverRequest)
      (sampleRequest ''POST'' ''/api/v1/agents/register'') sampleHub)))). ag_ClusterID a = ''c1'' \<and> ag_TokenHash a = ''#tok''"
proof -
  let ?a = "\<lparr>ag_ClusterID = ''c1'', ag_TokenHash = ''#tok'', ag_Approved = True, ag_IssuedAt = 10, ag_LastHeartbeat = None\<rparr>"
  have "?a \<in> set (t_agents (hubTables (snd (handleAgentRegister sampleServer (Some takeoverRequest)
      (sampleRequest ''POST'' ''/api/v1/agents/register'') sampleHub))))"
  proof (rule registration_no_takeover [OF prod.collapse [symmetric]])
    show "db_wf (hubTables sampleHub)" by (simp add: sampleTables_wf)
    show "?a \<in> set (t_agents (hubTables sampleHub))" by (simp add: sampleTables_def)
    have "TrimSpace ''guess'' = ''guess''" by code_simp
    then show "HashToken sampleServer (TrimSpace (rc_ExistingAgentToken takeoverRequest)) \<noteq> ag_TokenHash ?a"
      by (simp add: takeoverRequest_def sampleServer_def HashToken_def)
  qed
  then show ?thesis by (rule rev_bexI) simp
qed

end
