(* ===== verification/AgentUploads.thy ===== *)
theory AgentUploads
  imports AgentGate StoreFacts
begin

text \<open>
  An agent can only write about its own cluster: the stored snapshot of a cluster changes only for a
  request that carries the approved token of that very cluster, whichever cluster its path names, and
  a heartbeat without such a token changes nothing at all.
\<close>

section \<open>The credential check\<close>

definition presentsToken :: "Server \<Rightarrow> Request \<Rightarrow> string \<Rightarrow> tables \<Rightarrow> bool" where
  "presentsToken srv r cid t \<longleftrightarrow>
     (case bearerToken (HeaderGet r ''Authorization'') of None \<Rightarrow> False
      | Some token \<Rightarrow> list_ex (\<lambda>a. ag_ClusterID a = cid \<and> ag_TokenHash a = HashToken srv token \<and> ag_Approved a) (t_agents t))"

lemma requireApprovedAgent_keeps: "keepsH I (requireApprovedAgent srv r cid)"
  unfolding requireApprovedAgent_def by (intro valid_intro)

lemma requireApprovedAgent_ok:
  assumes "requireApprovedAgent srv r cid h = (Inr u, h')"
  shows "presentsToken srv r cid (hubTables h)"
proof -
  obtain token where tok: "bearerToken (HeaderGet r ''Authorization'') = Some token"
    using assms by (cases "bearerToken (HeaderGet r ''Authorization'')") (auto simp: requireApprovedAgent_def WriteError_def throw_def)
  obtain x d where v: "ValidateAgentToken cid (HashToken srv token) (h_db h) = (x, d)" by fastforce
  with assms tok have x: "x = Inr True"
    by (auto simp: requireApprovedAgent_def bindm_def attempt_def onStore_def within_def WriteError_def throw_def
        split: sum.splits if_splits)
  from ValidateAgentToken_ok [OF v [unfolded x]] tok show ?thesis
    by (auto simp: presentsToken_def list_ex_iff)
qed

lemma requireApprovedAgent_valid:
  "valid (\<lambda>h. hubTables h = t) (requireApprovedAgent srv r cid)
     (\<lambda>_ h. hubTables h = t \<and> presentsToken srv r cid t) (\<lambda>_ h. hubTables h = t)"
proof (rule validI)
  fix h e h' assume "hubTables h = t" and "requireApprovedAgent srv r cid h = (Inl e, h')"
  then show "hubTables h' = t" using keepsH_D [where I = "\<lambda>u. u = t", OF _ _ requireApprovedAgent_keeps] by blast
next
  fix h u h' assume "hubTables h = t" and "requireApprovedAgent srv r cid h = (Inr u, h')"
  then show "hubTables h' = t \<and> presentsToken srv r cid t"
    using keepsH_D [where I = "\<lambda>u. u = t", OF _ _ requireApprovedAgent_keeps] requireApprovedAgent_ok by blast
qed

section \<open>Heartbeats\<close>

text \<open>A heartbeat without the approved token of the cluster it names is refused with 400, 401 or 403 and changes no table.\<close>

theorem heartbeat_needs_token:
  assumes "handleHeartbeat srv req r h = (res, h')"
    and "\<forall>request. req = Some request \<longrightarrow> \<not> presentsToken srv r (TrimSpace (hb_ClusterID request)) (hubTables h)"
  shows "(\<exists>e. res = Inl e \<and> rs_Status e \<in> {400, 401, 403}) \<and> hubTables h' = hubTables h"
proof (cases "\<exists>request. req = Some request \<and> TrimSpace (hb_ClusterID request) \<noteq> ''''")
  case True
  then obtain request where req: "req = Some request" "TrimSpace (hb_ClusterID request) \<noteq> ''''" by blast
  let ?cid = "TrimSpace (hb_ClusterID request)"
  obtain x h1 where x: "requireApprovedAgent srv r ?cid h = (x, h1)" by fastforce
  have same: "hubTables h1 = hubTables h"
    by (rule keepsH_D [where I = "\<lambda>u. u = hubTables h", OF x refl requireApprovedAgent_keeps])
  obtain e where e: "x = Inl e"
    using x requireApprovedAgent_ok [of srv r ?cid h _ h1] assms(2) req(1) by (cases x) auto
  with x have "rs_Status e \<in> {401, 403}"
    by (auto simp: requireApprovedAgent_def WriteError_def throw_def bindm_def attempt_def
        split: option.splits prod.splits sum.splits if_splits)
  moreover from assms(1) req x e have "res = Inl e \<and> h' = h1"
    by (simp add: handleHeartbeat_def Let_def bindm_def)
  ultimately show ?thesis using same by simp
next
  case False
  with assms(1) show ?thesis
    by (auto simp: handleHeartbeat_def WriteError_def throw_def Let_def split: option.splits)
qed

theorem heartbeat_needs_token_witness:
  "hubTables (snd (handleHeartbeat sampleServer None (sampleRequest ''POST'' ''/api/v1/agents/heartbeat'') sampleHub)) =
     sampleTables"
  using heartbeat_needs_token [of sampleServer None "sampleRequest ''POST'' ''/api/v1/agents/heartbeat''" sampleHub,
      OF prod.collapse [symmetric]] by simp

section \<open>Snapshot uploads\<close>

lemma storedSnapshot_frame [simp]:
  "storedSnapshot (t\<lparr>t_op_events := a\<rparr>) = storedSnapshot t" "storedSnapshot (t\<lparr>t_op_seq := b\<rparr>) = storedSnapshot t"
  "storedSnapshot (t\<lparr>t_alerts := c\<rparr>) = storedSnapshot t" "storedSnapshot (t\<lparr>t_audit := e\<rparr>) = storedSnapshot t"
  "storedSnapshot (snd (updAlerts P f t)) = storedSnapshot t"
  by (simp_all add: storedSnapshot_def updAlerts_def fun_eq_iff)

interpretation snapshot_frame: recording_invariant "\<lambda>t. storedSnapshot t c = v" for c v
  by unfold_locales (unfold fleet_op_defs Let_def,
      (intro valid_intro keepsT_exec keepsT_insertRow; simp split: if_splits)+)

lemma clusterByIDOrName_keeps: "keepsH I (clusterByIDOrName r n)"
  unfolding clusterByIDOrName_def by (intro valid_intro findClusterByName_keeps)

lemma ReplaceSnapshot_frame: "c \<noteq> cid \<Longrightarrow> keepsT (\<lambda>t. storedSnapshot t c = v) (ReplaceSnapshot cid sn ver av health hb)"
  by (rule keepsT_ReplaceSnapshot) (simp add: storedSnapshot_replaced)

text \<open>C10: The stored snapshot of a cluster changes only when the uploading request carries the approved token of that
  cluster: an agent cannot overwrite another cluster's inventory by naming it in the path, by id or by
  name.\<close>

theorem snapshot_upload_own_cluster:
  assumes "handleClusterSnapshot srv req r h = (res, h')" and no: "\<not> presentsToken srv r c (hubTables h)"
  shows "storedSnapshot (hubTables h') c = storedSnapshot (hubTables h) c"
proof -
  let ?t = "hubTables h" and ?I = "\<lambda>t. storedSnapshot t c = storedSnapshot (hubTables h) c"
  have weak: "valid (\<lambda>h. hubTables h = ?t \<and> presentsToken srv r cid ?t) m (\<lambda>_ h. ?I (hubTables h)) (\<lambda>_ h. ?I (hubTables h))"
    if m: "c \<noteq> cid \<Longrightarrow> keepsH ?I m" for cid and m :: handler
  proof (cases "c = cid")
    case True
    with no show ?thesis by (simp add: valid_def)
  next
    case False
    show ?thesis by (rule valid_pre [OF keepsH_valid [OF m [OF False]]]) simp
  qed
  have same: "valid (\<lambda>h. hubTables h = ?t) m (\<lambda>_ h. hubTables h = ?t) (\<lambda>_ h. ?I (hubTables h))"
    if "keepsH (\<lambda>t. t = ?t) m" for m :: "Cluster handlerm"
    by (rule valid_err_weaken [OF keepsH_valid [OF that]]) simp
  have req: "valid (\<lambda>h. hubTables h = ?t) (requireApprovedAgent srv r cid)
     (\<lambda>_ h. hubTables h = ?t \<and> presentsToken srv r cid ?t) (\<lambda>_ h. ?I (hubTables h))" for cid
    by (rule valid_err_weaken [OF requireApprovedAgent_valid]) simp
  have "valid (\<lambda>h. hubTables h = ?t) (handleClusterSnapshot srv req r) (\<lambda>_ h. ?I (hubTables h)) (\<lambda>_ h. ?I (hubTables h))"
    unfolding handleClusterSnapshot_def Let_def storeOr404_def writeSnapshotDecodeError_def
    by (rule valid_bind [OF same [OF keeps_mapErr [OF clusterByIDOrName_keeps]]], rule valid_bind [OF req], rule weak)
      (intro valid_intro snapshot_frame.evaluateAlerts_keep snapshot_frame.recorders_keep ReplaceSnapshot_frame)
  then show ?thesis using assms by (auto simp: valid_def)
qed

definition crossUpload :: Request where
  "crossUpload = (sampleRequest ''PATCH'' ''/api/v1/clusters/c2/status'')
     \<lparr>rq_PathValue := (\<lambda>k. ''c2''), rq_Header := (\<lambda>k. if k = ''Authorization'' then [''Bearer tok''] else [])\<rparr>"

theorem snapshot_upload_own_cluster_witness:
  "storedSnapshot (hubTables (snd (handleClusterSnapshot sampleServer
      (Inr (\<lparr>sq_Nodes = [], sq_Pods = [], sq_Services = [], sq_Deployments = [], sq_Namespaces = [],
        sq_Events = [], sq_NodeCount = 0, sq_PodCount = 0, sq_K8sVersion = ''v1'', sq_CollectedAt = 7,
        sq_AgentVersion = ''0.2''\<rparr>, None)) crossUpload sampleHub))) ''c2'' =
   storedSnapshot sampleTables ''c2''"
proof -
  have "\<not> presentsToken sampleServer crossUpload ''c2'' (hubTables sampleHub)"
    by (simp add: presentsToken_def sampleTables_def split: option.splits)
  from snapshot_upload_own_cluster [OF prod.collapse [symmetric] this] show ?thesis by simp
qed

end
