(* ===== verification/AgentHub.thy ===== *)
theory AgentHub
  imports AgentLoop AgentUploads
begin

text \<open>
  The agent and the hub together: the HTTP client of the agent is the hub's own router, and the replies are
  decoded as JSON decodes the hub's documents. What is shown is that an agent never locks itself out.
\<close>

section \<open>Tokens as header values\<close>

definition plainToken :: "string \<Rightarrow> bool" where
  "plainToken tok \<longleftrightarrow> tok \<noteq> '''' \<and> list_all plain tok"

lemma plainToken_trim [simp]: "plainToken tok \<Longrightarrow> TrimSpace tok = tok"
  by (rule TrimSpace_plain) (auto simp: plainToken_def list_all_iff)

lemma bearerToken_plain:
  assumes "plainToken tok"
  shows "bearerToken (''Bearer '' @ tok) = Some tok"
proof -
  have t: "tok \<noteq> ''''" "plain (last tok)" using assms by (auto simp: plainToken_def list_all_iff)
  have "TrimSpace (''Bearer '' @ tok) = ''Bearer '' @ tok"
    by (rule TrimSpace_plain) (use t in \<open>simp_all add: plain_def\<close>)
  moreover have "CutC CHR '' '' (''Bearer'' @ CHR '' '' # tok) = Some (''Bearer'', tok)"
    by (rule CutC_append) simp
  ultimately show ?thesis using assms t by (simp add: bearerToken_def EqualFold_def)
qed

section \<open>The hub behind the agent's HTTP client\<close>

definition sendBodies :: "payload \<Rightarrow> Bodies" where
  "sendBodies p =
     \<lparr>bd_login = None, bd_createUser = None, bd_updateUser = None, bd_password = None,
      bd_register = (case p of RegisterPayload q \<Rightarrow>
          Some \<lparr>rc_Name = '''', rc_ClusterName = rr_ClusterName q, rc_Labels = rr_Labels q,
                rc_AgentVersion = rr_AgentVersion q, rc_K8sVersion = rr_K8sVersion q,
                rc_ExistingAgentToken = rr_ExistingAgentToken q\<rparr>
        | _ \<Rightarrow> None),
      bd_heartbeat = None,
      bd_snapshot = (case p of StatePayload st \<Rightarrow> Inr (st, None) | _ \<Rightarrow> Inl Malformed),
      bd_acknowledge = None, bd_rule = None, bd_encode = (\<lambda>_. ''''), bd_finding = Inl Malformed\<rparr>"

text \<open>The request line: the URL without the hub's base, its segments unescaped.\<close>

definition requestPath :: "string \<Rightarrow> string \<Rightarrow> string" where
  "requestPath base url =
     Join ''/'' (map (\<lambda>seg. case PathUnescape seg of None \<Rightarrow> '''' | Some s \<Rightarrow> s)
       (SplitC (CHR ''/'') (drop (length base) url)))"

definition sendRequest :: "string \<Rightarrow> AgentRequest \<Rightarrow> Request" where
  "sendRequest base q =
     \<lparr>rq_Method = aq_Method q, rq_Path = requestPath base (aq_URL q), rq_PathValue = (\<lambda>_. ''''),
      rq_Header = (\<lambda>k. map snd (filter (\<lambda>kv. fst kv = k) (aq_Header q))), rq_Query = (\<lambda>_. ''''),
      rq_Cookie = (\<lambda>_. None), rq_RemoteAddr = ''10.0.0.2:40000'', rq_User = None\<rparr>"

definition hubTransport :: "Server \<Rightarrow> string \<Rightarrow> (hub, body) transport" where
  "hubTransport srv base q h =
     (case serveHTTP srv (sendBodies (aq_Payload q)) (sendRequest base q) h of (res, h') \<Rightarrow>
        let r = (case res of Inl e \<Rightarrow> e | Inr x \<Rightarrow> x)
        in (Inr \<lparr>rp_StatusCode = rs_Status r, rp_Status = Itoa (rs_Status r) @ '' '' @ StatusText (rs_Status r),
                 rp_Body = rs_Body r\<rparr>, h'))"

definition hubCodec :: "body Codec" where
  "hubCodec =
     \<lparr>cd_Bytes = (\<lambda>b. case b of ErrorBody msg \<Rightarrow> Some msg | _ \<Rightarrow> Some ''''), cd_ErrorField = Some,
      cd_Registration = (\<lambda>b. case b of TokenBody cid tok \<Rightarrow> Inr (cid, tok) | NoBody \<Rightarrow> Inl ''EOF'' | _ \<Rightarrow> Inr ('''', '''')),
      cd_Status = (\<lambda>b. case b of StatusBody cid approved \<Rightarrow> DecodedStatus approved | NoBody \<Rightarrow> EmptyBody
                       | _ \<Rightarrow> DecodedStatus False)\<rparr>"

section \<open>The hub's side of a registration, when no statement fails\<close>

definition calm :: "hub \<Rightarrow> bool" where
  "calm h \<longleftrightarrow> db_faults (h_db h) = [] \<and> db_wf (hubTables h)"

text \<open>The entropy source delivers the tokens \<open>generateToken\<close> makes of it: hexadecimal, never the registration token.\<close>

definition goodTokens :: "string \<Rightarrow> hub \<Rightarrow> bool" where
  "goodTokens regTok h \<longleftrightarrow> (\<forall>n. \<exists>t. h_rand h n = Some t \<and> plainToken t \<and> t \<noteq> regTok)"

lemma AppendEvent_nofault: "keeps (\<lambda>d. db_faults d = []) (AppendEvent e)"
  unfolding AppendEvent_def exec_def RowsAffected_def query_def wrapErr_def
  by (intro keeps_bind keeps_mapErr keeps_nofault keeps_ret)

lemma AppendEvent_clusters: "keepsT (\<lambda>t. t_clusters t = v) (AppendEvent e)"
  unfolding AppendEvent_def by (intro valid_intro keepsT_exec; simp)

text \<open>What a handler step here leaves alone.\<close>

definition sameFleet :: "hub \<Rightarrow> hub \<Rightarrow> bool" where
  "sameFleet h h' \<longleftrightarrow> h_rand h' = h_rand h \<and> h_uuid h' = h_uuid h \<and> t_clusters (hubTables h') = t_clusters (hubTables h) \<and>
     t_agents (hubTables h') = t_agents (hubTables h) \<and> t_settings (hubTables h') = t_settings (hubTables h)"

lemma recordEvent_run:
  assumes "calm h"
  shows "\<exists>h'. recordEvent e h = (Inr (), h') \<and> calm h' \<and> sameFleet h h'"
proof -
  obtain res d where a: "AppendEvent e (h_db h) = (res, d)" by fastforce
  have "db_faults d = []" using keepsD [OF AppendEvent_nofault _ a] assms by (simp add: calm_def)
  moreover have "db_wf (db_tables d)" using keepsD [OF AppendEvent_wf _ a] assms by (simp add: calm_def)
  moreover have "t_clusters (db_tables d) = t_clusters (hubTables h)"
    by (rule keepsD [OF AppendEvent_clusters refl a])
  moreover have "t_agents (db_tables d) = t_agents (hubTables h)"
    by (rule keepsD [OF agents_unchanged(2) refl a])
  moreover have "userTables (db_tables d) = userTables (hubTables h)"
    by (rule keepsD [OF users_fixed.I_AppendEvent refl a])
  ultimately show ?thesis
    by (simp add: recordEvent_def bindm_def attempt_def onStore_def within_def a ret_def calm_def sameFleet_def userTables_def)
qed

lemma sameFleet_refl [simp]: "sameFleet h h"
  by (simp add: sameFleet_def)

lemma sameFleet_trans: "sameFleet h h1 \<Longrightarrow> sameFleet h1 h2 \<Longrightarrow> sameFleet h h2"
  by (simp add: sameFleet_def)

lemma tick_calm [simp]:
  "calm (h\<lparr>h_tick := n\<rparr>) = calm h" "calm (h\<lparr>h_broadcast := b\<rparr>) = calm h" "calm (h\<lparr>h_header := x\<rparr>) = calm h"
  "sameFleet h (h'\<lparr>h_tick := n\<rparr>) = sameFleet h h'" "sameFleet h (h'\<lparr>h_broadcast := b\<rparr>) = sameFleet h h'"
  "sameFleet h (h'\<lparr>h_header := x\<rparr>) = sameFleet h h'"
  by (simp_all add: calm_def sameFleet_def)

lemma ValidateAgentToken_run:
  assumes "calm h" and "a \<in> set (t_agents (hubTables h))" and "ag_ClusterID a = cid" and "ag_TokenHash a = hash"
  shows "onStore (ValidateAgentToken cid hash) h = (Inr (ag_Approved a), h)"
proof -
  have nf: "db_faults (h_db h) = []" and wf: "db_wf (hubTables h)" using assms(1) by (simp_all add: calm_def)
  have only: "b = a" if "b \<in> set (t_agents (hubTables h))" "ag_ClusterID b = cid" for b
    by (rule agent_unique [OF wf that(1) assms(2)]) (simp add: that(2) assms(3))
  from ValidateAgentToken_only [OF nf assms(2,3) only, of hash] assms(4)
  have "fst (ValidateAgentToken cid hash (h_db h)) = Inr (ag_Approved a)" by simp
  moreover have "snd (ValidateAgentToken cid hash (h_db h)) = h_db h"
    using nf by (simp add: ValidateAgentToken_def bindm_def db_simps throw_def ret_def split: option.splits)
  ultimately have "ValidateAgentToken cid hash (h_db h) = (Inr (ag_Approved a), h_db h)" by (metis prod.collapse)
  then show ?thesis by (simp add: onStore_def within_def)
qed

lemma issueCredential_run:
  assumes calm: "calm h" and tokens: "goodTokens regTok h" and known: "c_ID cluster \<in> set (map c_ID (t_clusters (hubTables h)))"
  shows "\<exists>raw a h'. issueCredential srv cluster newly h =
      (Inr \<lparr>rs_Status = (if ag_Approved a then 200 else 201), rs_Body = TokenBody (c_ID cluster) raw\<rparr>, h') \<and>
    calm h' \<and> h_rand h' = h_rand h \<and> t_clusters (hubTables h') = t_clusters (hubTables h) \<and>
    t_settings (hubTables h') = t_settings (hubTables h) \<and> plainToken raw \<and> raw \<noteq> regTok \<and>
    a \<in> set (t_agents (hubTables h')) \<and> ag_ClusterID a = c_ID cluster \<and> ag_TokenHash a = HashToken srv raw"
proof -
  obtain raw where raw: "h_rand h (h_tick h) = Some raw" "plainToken raw" "raw \<noteq> regTok"
    using tokens unfolding goodTokens_def by blast
  then have ne: "raw \<noteq> ''''" by (auto simp: plainToken_def)
  have nf: "db_faults (h_db h) = []" and wf: "db_wf (hubTables h)" using calm by (simp_all add: calm_def)
  let ?now = "h_clock h (h_tick h + 1)"
  from IssueAgentToken_succeeds [OF nf known] obtain d1
    where i: "IssueAgentToken (c_ID cluster) (HashToken srv raw) ?now (h_db h) = (Inr (), d1)" by blast
  from IssueAgentToken_row [OF wf nf i] obtain a where d1: "db_faults d1 = []" "t_clusters (db_tables d1) = t_clusters (hubTables h)"
    and a: "a \<in> set (t_agents (db_tables d1))" "ag_ClusterID a = c_ID cluster" "ag_TokenHash a = HashToken srv raw" by blast
  have wf1: "db_wf (db_tables d1)" by (rule keepsD [OF IssueAgentToken_wf wf i])
  have set1: "userTables (db_tables d1) = userTables (hubTables h)"
    by (rule keepsD [OF users_fixed.I_IssueAgentToken refl i])
  let ?h1 = "h\<lparr>h_tick := h_tick h + 2, h_db := d1\<rparr>"
  obtain h2 where b: "Broadcast \<lparr>cu_Type = ''registered'', cu_Cluster = cluster\<rparr> ?h1 = ((Inr () :: response + unit), h2)"
    and h2: "calm h2" "sameFleet ?h1 h2"
    using d1(1) wf1 by (simp add: Broadcast_def modify_def calm_def sameFleet_def)
  obtain h3 where r: "(if newly then recordClusterRegistered srv cluster else ret ()) h2 = ((Inr () :: response + unit), h3)"
    and h3: "calm h3" "sameFleet h2 h3"
    using h2(1) recordEvent_run [OF h2(1)] by (cases newly) (fastforce simp: recordClusterRegistered_def)+
  have s3: "sameFleet ?h1 h3" by (rule sameFleet_trans [OF h2(2) h3(2)])
  then have a3: "a \<in> set (t_agents (hubTables h3))" using a(1) by (simp add: sameFleet_def)
  note v = ValidateAgentToken_run [OF h3(1) a3 a(2,3)]
  have "issueCredential srv cluster newly h =
      (Inr \<lparr>rs_Status = (if ag_Approved a then 200 else 201), rs_Body = TokenBody (c_ID cluster) raw\<rparr>, h3)"
    using ne raw(1) i b r v
    by (simp add: issueCredential_def bindm_def randToken_def timeNow_def mapErr_def onStore_def within_def WriteJSON_def ret_def Let_def)
  with h3(1) s3 a3 a(2,3) raw(2,3) d1(2) set1 show ?thesis
    by (intro exI [of _ raw] exI [of _ a] exI [of _ h3]) (simp add: sameFleet_def userTables_def)
qed

section \<open>Registering by name\<close>

lemma tenantFirst_plain: "tenantFirst c \<Longrightarrow> plain c"
  unfolding tenantFirst_def plain_def less_eq_char_def by (elim disjE conjE; simp)

lemma tenantRest_plain: "tenantRest c \<Longrightarrow> plain c"
  unfolding tenantRest_def by (elim disjE, erule tenantFirst_plain) (simp_all add: plain_def)

lemma tenant_plain: "tenantIDPattern ten \<Longrightarrow> plainToken ten"
  by (cases ten) (auto simp: tenantIDPattern_def plainToken_def list_all_iff intro: tenantFirst_plain tenantRest_plain)

lemma checkRegistrationAuth_run:
  assumes "calm h" and "registrationGranted srv r (hubTables h)"
  shows "checkRegistrationAuth srv (HeaderGet r ''Authorization'') h = (Inr registrationOK, h)"
  using assms
  by (auto simp: checkRegistrationAuth_def registrationGranted_def calm_def GetSetting_def bindm_def attempt_def onStore_def
      within_def db_simps ret_def simp del: selectOne_None split: option.splits prod.splits)

definition named :: "string \<Rightarrow> string \<Rightarrow> Cluster \<Rightarrow> bool" where
  "named ten name c \<longleftrightarrow> c_TenantID c = ten \<and> c_Name c = name"

lemma scanCluster_simps [simp]: "c_ID (scanCluster c) = c_ID c" "c_Name (scanCluster c) = c_Name c"
  by (simp_all add: scanCluster_def)

lemma find_only: "x \<in> set xs \<Longrightarrow> P x \<Longrightarrow> (\<And>y. y \<in> set xs \<Longrightarrow> P y \<Longrightarrow> y = x) \<Longrightarrow> find P xs = Some x"
  unfolding selectOne_def [symmetric] by (rule selectOne_only)

lemma findClusterByName_list:
  assumes "calm h" and "tenantIDPattern ten" and "rq_Header r tenantHeader = [ten]"
  shows "findClusterByName r name h =
    (case find (\<lambda>c. c_Name c = name) (map scanCluster (sort_key (\<lambda>c. (c_RegisteredAt c, c_Name c))
         (filter (\<lambda>c. c_TenantID c = ten) (t_clusters (hubTables h))))) of
       None \<Rightarrow> (Inl ErrNotFound, h) | Some c \<Rightarrow> (Inr c, h))"
proof -
  have "normalizeTenantID ten = ten" "TrimSpace ten = ten"
    using tenant_plain [OF assms(2)] by (auto simp: normalizeTenantID_def plainToken_def)
  then show ?thesis using assms
    by (simp add: findClusterByName_def calm_def ListClustersForTenant_def bindm_def onStore_def within_def db_simps throw_def ret_def Let_def
        split: option.splits)
qed

lemma named_unique:
  assumes "calm h" and "c \<in> set (t_clusters (hubTables h))" and "d \<in> set (t_clusters (hubTables h))"
    and "named ten name c" and "named ten name d"
  shows "d = c"
proof -
  have "inj_on (\<lambda>c. (c_TenantID c, c_Name c)) (set (t_clusters (hubTables h)))"
    using assms(1) by (simp add: calm_def db_wf_def createClustersTable_def unique_key_def distinct_map)
  then show ?thesis using assms by (auto simp: inj_on_def named_def)
qed

lemma findClusterByName_found:
  assumes "calm h" and "tenantIDPattern ten" and "rq_Header r tenantHeader = [ten]"
    and c: "c \<in> set (t_clusters (hubTables h))" "named ten name c"
  shows "findClusterByName r name h = (Inr (scanCluster c), h)"
proof -
  let ?cs = "map scanCluster (sort_key (\<lambda>c. (c_RegisteredAt c, c_Name c))
         (filter (\<lambda>c. c_TenantID c = ten) (t_clusters (hubTables h))))"
  have "find (\<lambda>c. c_Name c = name) ?cs = Some (scanCluster c)"
  proof (rule find_only)
    show "scanCluster c \<in> set ?cs" using c by (simp add: named_def)
    show "c_Name (scanCluster c) = name" using c(2) by (simp add: named_def)
    fix y assume "y \<in> set ?cs" and "c_Name y = name"
    then obtain d where d: "d \<in> set (t_clusters (hubTables h))" "c_TenantID d = ten" "y = scanCluster d" by auto
    with \<open>c_Name y = name\<close> named_unique [OF assms(1) c(1) d(1) c(2)] show "y = scanCluster c" by (simp add: named_def)
  qed
  then show ?thesis by (simp add: findClusterByName_list [OF assms(1-3)])
qed

lemma findClusterByName_missing:
  assumes "calm h" and "tenantIDPattern ten" and "rq_Header r tenantHeader = [ten]"
    and "\<And>c. c \<in> set (t_clusters (hubTables h)) \<Longrightarrow> \<not> named ten name c"
  shows "findClusterByName r name h = (Inl ErrNotFound, h)"
proof -
  have "find (\<lambda>c. c_Name c = name) (map scanCluster (sort_key (\<lambda>c. (c_RegisteredAt c, c_Name c))
         (filter (\<lambda>c. c_TenantID c = ten) (t_clusters (hubTables h))))) = None"
    using assms(4) by (auto simp: find_None_iff named_def)
  then show ?thesis by (simp add: findClusterByName_list [OF assms(1-3)])
qed

text \<open>The hub knows the cluster by this name and its agent by this token.\<close>

definition enrolled :: "Server \<Rightarrow> string \<Rightarrow> string \<Rightarrow> string \<Rightarrow> Cluster \<Rightarrow> hub \<Rightarrow> bool" where
  "enrolled srv ten name tok c h \<longleftrightarrow> c \<in> set (t_clusters (hubTables h)) \<and> named ten name c \<and> c_ID c \<noteq> '''' \<and>
     list_ex (\<lambda>a. ag_ClusterID a = c_ID c \<and> ag_TokenHash a = HashToken srv tok) (t_agents (hubTables h))"

definition unknownName :: "string \<Rightarrow> string \<Rightarrow> hub \<Rightarrow> bool" where
  "unknownName ten name h \<longleftrightarrow> list_all (\<lambda>c. \<not> named ten name c) (t_clusters (hubTables h)) \<and>
     h_uuid h (h_tick h) \<noteq> '''' \<and> h_uuid h (h_tick h) \<notin> set (map c_ID (t_clusters (hubTables h)))"

lemma registeredCluster_known:
  assumes "calm h" and "tenantIDPattern ten" and "rq_Header r tenantHeader = [ten]"
    and "enrolled srv ten name tok c h" and "plainToken tok" and "rc_ExistingAgentToken request = tok"
  shows "registeredCluster srv request r name ten h = (Inr (scanCluster c, False), h)"
proof -
  from assms(4) obtain a where c: "c \<in> set (t_clusters (hubTables h))" "named ten name c" and
    a: "a \<in> set (t_agents (hubTables h))" "ag_ClusterID a = c_ID c" "ag_TokenHash a = HashToken srv tok"
    by (auto simp: enrolled_def list_ex_iff)
  have t: "TrimSpace tok = tok" "tok \<noteq> ''''" using assms(5) by (auto simp: plainToken_def)
  note f = findClusterByName_found [OF assms(1-3) c]
  note v = ValidateAgentToken_run [OF assms(1) a]
  show ?thesis using t assms(6) f v
    by (simp add: registeredCluster_def bindm_def attempt_def mapErr_def validExistingAgentToken_def Let_def ret_def)
qed

lemma registeredCluster_new:
  assumes "calm h" and "tenantIDPattern ten" and "rq_Header r tenantHeader = [ten]" and "unknownName ten name h"
  shows "\<exists>c h'. registeredCluster srv request r name ten h = (Inr (c, True), h') \<and> calm h' \<and> h_rand h' = h_rand h \<and>
    t_settings (hubTables h') = t_settings (hubTables h) \<and>
    c \<in> set (t_clusters (hubTables h')) \<and> named ten name c \<and> c_ID c \<noteq> ''''"
proof -
  let ?uid = "h_uuid h (h_tick h)"
  let ?c = "\<lparr>c_ID = ?uid, c_TenantID = ten, c_Name = name, c_Health = HealthUnknown,
                 c_Version = rc_K8sVersion request, c_AgentVersion = rc_AgentVersion request,
                 c_NodeCount = 0, c_PodCount = 0, c_RegisteredAt = h_clock h (h_tick h + 1), c_LastHeartbeat = 0,
                 c_Labels = rc_Labels request\<rparr>"
  let ?d = "(h_db h)\<lparr>db_tables := (hubTables h)\<lparr>t_clusters := t_clusters (hubTables h) @ [?c]\<rparr>\<rparr>"
  have ten: "normalizeTenantID ten = ten"
    using tenant_plain [OF assms(2)] by (auto simp: normalizeTenantID_def plainToken_def)
  have no: "\<And>c. c \<in> set (t_clusters (hubTables h)) \<Longrightarrow> \<not> named ten name c"
    and new: "?uid \<noteq> ''''" "?uid \<notin> set (map c_ID (t_clusters (hubTables h)))"
    using assms(4) by (auto simp: unknownName_def list_all_iff)
  have nf: "db_faults (h_db h) = []" using assms(1) by (simp add: calm_def)
  have "(ten, name) \<notin> set (map (\<lambda>c. (c_TenantID c, c_Name c)) (t_clusters (hubTables h)))"
    using no by (auto simp: named_def)
  then have cr: "CreateCluster ?c (h_db h) = (Inr (), ?d)"
    using new nf ten by (simp add: CreateCluster_def Let_def bindm_def db_simps ret_def)
  have wf: "db_wf (db_tables ?d)" using keepsD [OF CreateCluster_wf _ cr] assms(1) by (simp add: calm_def)
  have "registeredCluster srv request r name ten h = (Inr (?c, True), h\<lparr>h_tick := h_tick h + 2, h_db := ?d\<rparr>)"
    using findClusterByName_missing [OF assms(1-3) no] cr
    by (simp add: registeredCluster_def bindm_def attempt_def newUUID_def timeNow_def mapErr_def onStore_def within_def Let_def ret_def)
  then show ?thesis using wf nf new(1)
    by (intro exI [of _ ?c] exI [of _ "h\<lparr>h_tick := h_tick h + 2, h_db := ?d\<rparr>"]) (simp add: calm_def named_def)
qed

lemma tenant_no_comma: "tenantIDPattern ten \<Longrightarrow> CHR '','' \<notin> set ten"
proof -
  have "\<not> tenantFirst CHR '',''" by (simp add: tenantFirst_def less_eq_char_def)
  then show "tenantIDPattern ten \<Longrightarrow> CHR '','' \<notin> set ten"
    by (cases ten) (auto simp: tenantIDPattern_def tenantRest_def list_all_iff)
qed

lemma tenantIDFromRequest_run:
  assumes "tenantIDPattern ten" and "rq_Header r tenantHeader = [ten]"
  shows "tenantIDFromRequest r h = (Inr ten, h\<lparr>h_header := h_header h @ [(''Vary'', tenantHeader)]\<rparr>)"
  using assms tenant_plain [OF assms(1)] tenant_no_comma [OF assms(1)]
  by (simp add: tenantIDFromRequest_def bindm_def addHeader_def modify_def Let_def plainToken_def [of ten] ret_def)

text \<open>After its cluster is settled, a granted registration ends with a fresh token that the hub holds.\<close>

lemma handleAgentRegister_finish:
  fixes h :: hub
  defines "h1 \<equiv> h\<lparr>h_header := h_header h @ [(''Vary'', tenantHeader)]\<rparr>"
  assumes "calm h" and "registrationGranted srv r (hubTables h)" and "tenantIDPattern ten"
    and "rq_Header r tenantHeader = [ten]" and "TrimSpace (rc_Name request) = ''''"
    and name: "TrimSpace (rc_ClusterName request) = name" "name \<noteq> ''''"
    and reg: "registeredCluster srv request r name ten h1 = (Inr (cluster, newly), h2)"
    and h2: "calm h2" "goodTokens regTok h2" "c \<in> set (t_clusters (hubTables h2))" "named ten name c"
      "c_ID cluster = c_ID c" "c_ID c \<noteq> ''''"
  shows "\<exists>raw approved h'. handleAgentRegister srv (Some request) r h =
      (Inr \<lparr>rs_Status = (if approved then 200 else 201), rs_Body = TokenBody (c_ID c) raw\<rparr>, h') \<and>
    calm h' \<and> goodTokens regTok h' \<and> t_settings (hubTables h') = t_settings (hubTables h2) \<and> plainToken raw \<and>
    raw \<noteq> regTok \<and> enrolled srv ten name raw c h'"
proof -
  have "c_ID cluster \<in> set (map c_ID (t_clusters (hubTables h2)))" using h2(3,5) by auto
  from issueCredential_run [OF h2(1,2) this, of srv newly] obtain raw a h'
    where i: "issueCredential srv cluster newly h2 =
        (Inr \<lparr>rs_Status = (if ag_Approved a then 200 else 201), rs_Body = TokenBody (c_ID cluster) raw\<rparr>, h')"
      and h': "calm h'" "h_rand h' = h_rand h2" "t_clusters (hubTables h') = t_clusters (hubTables h2)"
        "t_settings (hubTables h') = t_settings (hubTables h2)" "plainToken raw" "raw \<noteq> regTok"
        "a \<in> set (t_agents (hubTables h'))" "ag_ClusterID a = c_ID cluster" "ag_TokenHash a = HashToken srv raw" by blast
  have "handleAgentRegister srv (Some request) r h =
      (Inr \<lparr>rs_Status = (if ag_Approved a then 200 else 201), rs_Body = TokenBody (c_ID c) raw\<rparr>, h')"
    using assms(6) name reg i h2(5)
    by (simp add: handleAgentRegister_def bindm_def Let_def h1_def checkRegistrationAuth_run [OF assms(2,3)]
        tenantIDFromRequest_run [OF assms(4,5)])
  moreover have "enrolled srv ten name raw c h'"
    using h2(3-6) h' by (auto simp: enrolled_def list_ex_iff)
  moreover have "goodTokens regTok h'" using h2(2) h'(2) by (simp add: goodTokens_def)
  ultimately show ?thesis using h'(1,4,5,6) by blast
qed

section \<open>The agent's registrar against the hub\<close>

lemma register_route:
  assumes "rq_Path r = ''/api/v1/agents/register''" and "rq_Method r = ''POST''"
  shows "\<exists>m. findRoute (apiRoutes srv b) r = Some (Open, handleAgentRegister srv (bd_register b), m)"
  using assms
  by (simp add: apiRoutes_def registerAuthRoutes_def registerUserRoutes_def registerAuditRoutes_def
      registerAdminRoutes_def registerAgentRoutes_def matchPath_def matchMethod_def isWildcard_def HasPrefix_def)

text \<open>Whether the hub takes this registration token.\<close>

definition acceptsToken :: "Server \<Rightarrow> string \<Rightarrow> tables \<Rightarrow> bool" where
  "acceptsToken srv tok t \<longleftrightarrow>
     (case selectOne (\<lambda>kv. fst kv = settingRegistrationTokenHash) (t_settings t) of
        Some (_, rotated) \<Rightarrow> HashToken srv tok = rotated
      | None \<Rightarrow> srv_RegistrationToken srv \<noteq> '''' \<and> tok = srv_RegistrationToken srv)"

text \<open>A configured agent and a hub it may talk to: the conditions that do not change.\<close>

definition configured :: "Server \<Rightarrow> hub agent \<Rightarrow> bool" where
  "configured srv s \<longleftrightarrow>
     (let r = as_Registrar s; h = as_World s in
      \<not> srv_DemoMode srv \<and> calm h \<and> goodTokens (rg_registrationToken r) h \<and>
      plainToken (rg_registrationToken r) \<and> acceptsToken srv (rg_registrationToken r) (hubTables h) \<and>
      tenantIDPattern (rg_tenantID r) \<and> TrimSpace (rg_clusterName r) = rg_clusterName r \<and> rg_clusterName r \<noteq> '''')"

text \<open>The agent holds the credential of the cluster \<open>c\<close>.\<close>

definition holds :: "Server \<Rightarrow> Cluster \<Rightarrow> hub agent \<Rightarrow> bool" where
  "holds srv c s \<longleftrightarrow>
     (let r = as_Registrar s in
      plainToken (rg_token r) \<and> rg_token r \<noteq> rg_registrationToken r \<and>
      enrolled srv (rg_tenantID r) (rg_clusterName r) (rg_token r) c (as_World s))"

text \<open>No cluster of the tenant has the agent's name, and the ids to come are new.\<close>

definition unclaimed :: "hub agent \<Rightarrow> bool" where
  "unclaimed s \<longleftrightarrow>
     (let r = as_Registrar s; h = as_World s in
      list_all (\<lambda>c. \<not> named (rg_tenantID r) (rg_clusterName r) c) (t_clusters (hubTables h)) \<and>
      (\<forall>n. h_uuid h n \<noteq> '''' \<and> h_uuid h n \<notin> set (map c_ID (t_clusters (hubTables h)))))"

lemma requestPath_register: "requestPath base (base @ ''/api/v1/agents/register'') = ''/api/v1/agents/register''"
proof -
  have "requestPath base (base @ ''/api/v1/agents/register'') = requestPath '''' ''/api/v1/agents/register''"
    by (simp add: requestPath_def)
  also have "\<dots> = ''/api/v1/agents/register''" by code_simp
  finally show ?thesis .
qed

lemma registrationGranted_accepts:
  "HeaderGet r ''Authorization'' = ''Bearer '' @ tok \<Longrightarrow> plainToken tok \<Longrightarrow>
     registrationGranted srv r t = acceptsToken srv tok t"
  by (simp only: registrationGranted_def acceptsToken_def bearerToken_plain option.case)

text \<open>The request of \<open>Register\<close>, as the hub's handler sees it.\<close>

definition registerRequest :: "Registrar \<Rightarrow> string \<Rightarrow> AgentRequest" where
  "registerRequest r k8sVersion = \<lparr>aq_Method = ''POST'', aq_URL = rg_hubURL r @ ''/api/v1/agents/register'',
     aq_Header = setHeaders r True (rg_registrationToken r), aq_Payload = RegisterPayload (registerPayload r k8sVersion)\<rparr>"

lemma registerRequest_headers:
  assumes "rg_tenantID r \<noteq> ''''"
  shows "rq_Header (sendRequest base (registerRequest r v)) tenantHeader = [rg_tenantID r]"
    and "HeaderGet (sendRequest base (registerRequest r v)) ''Authorization'' = ''Bearer '' @ rg_registrationToken r"
    and "HeaderGet (sendRequest base (registerRequest r v)) ''X-Request-ID'' = ''''"
  using assms by (simp_all add: sendRequest_def registerRequest_def setHeaders_def tenantHeader_def HeaderGet_def)

lemma hubTransport_register:
  fixes v :: string and h :: hub
  assumes "\<not> srv_DemoMode srv" and "rg_tenantID r \<noteq> ''''"
  defines "rq \<equiv> registerRequest r v"
  defines "h1 \<equiv> h\<lparr>h_tick := h_tick h + 1, h_header := h_header h @ [(''X-Request-ID'', h_uuid h (h_tick h))]\<rparr>"
  shows "\<exists>r1. rq_Header r1 = rq_Header (sendRequest (rg_hubURL r) rq) \<and>
    serveHTTP srv (sendBodies (aq_Payload rq)) (sendRequest (rg_hubURL r) rq) h =
      handleAgentRegister srv (bd_register (sendBodies (aq_Payload rq))) r1 h1"
proof -
  let ?r = "(sendRequest (rg_hubURL r) rq)\<lparr>rq_User := None\<rparr>"
  have "rq_Path ?r = ''/api/v1/agents/register''" "rq_Method ?r = ''POST''"
    by (simp_all add: sendRequest_def rq_def registerRequest_def requestPath_register)
  from register_route [OF this] obtain m
    where m: "findRoute (apiRoutes srv (sendBodies (aq_Payload rq))) ?r =
      Some (Open, handleAgentRegister srv (bd_register (sendBodies (aq_Payload rq))), m)" by blast
  have x: "HeaderGet ?r ''X-Request-ID'' = ''''"
    using registerRequest_headers(3) [OF assms(2), of "rg_hubURL r" v] by (simp add: rq_def HeaderGet_def)
  show ?thesis
    using assms(1) m
    by (intro exI [of _ "pathValues m ?r"])
      (simp add: serveHTTP_def withRequestID_def x sanitizeRequestID_def isValidRequestID_def bindm_def newUUID_def addHeader_def
        modify_def serveAPI_def guarded_def h1_def pathValues_def)
qed

lemma registeredCluster_settles:
  assumes cfg: "configured srv s" and rq: "rq_Header r1 tenantHeader = [rg_tenantID (as_Registrar s)]"
    and h: "calm h" "h_rand h = h_rand (as_World s)" "h_uuid h = h_uuid (as_World s)"
      "hubTables h = hubTables (as_World s)"
    and may: "unclaimed s \<or> holds srv c0 s"
    and q: "rc_ExistingAgentToken q = rr_ExistingAgentToken (registerPayload (as_Registrar s) v)"
  shows "\<exists>cluster newly h2 c. registeredCluster srv q r1 (rg_clusterName (as_Registrar s)) (rg_tenantID (as_Registrar s)) h =
      (Inr (cluster, newly), h2) \<and> calm h2 \<and> goodTokens (rg_registrationToken (as_Registrar s)) h2 \<and>
    t_settings (hubTables h2) = t_settings (hubTables h) \<and>
    c \<in> set (t_clusters (hubTables h2)) \<and> named (rg_tenantID (as_Registrar s)) (rg_clusterName (as_Registrar s)) c \<and>
    c_ID cluster = c_ID c \<and> c_ID c \<noteq> '''' \<and> (holds srv c0 s \<longrightarrow> c = c0)"
proof -
  let ?r = "as_Registrar s"
  have ten: "tenantIDPattern (rg_tenantID ?r)" and good: "goodTokens (rg_registrationToken ?r) (as_World s)"
    using cfg by (simp_all add: configured_def Let_def)
  show ?thesis
  proof (cases "holds srv c0 s")
    case True
    then have e: "enrolled srv (rg_tenantID ?r) (rg_clusterName ?r) (rg_token ?r) c0 h" and p: "plainToken (rg_token ?r)"
      and ne: "rg_token ?r \<noteq> rg_registrationToken ?r"
      using h(4) by (simp_all add: holds_def Let_def enrolled_def)
    have "rc_ExistingAgentToken q = rg_token ?r" using q ne by (simp add: registerPayload_def)
    from registeredCluster_known [OF h(1) ten rq e p this] e good h(1,2) show ?thesis
      by (intro exI [of _ "scanCluster c0"] exI [of _ False] exI [of _ h] exI [of _ c0]) (simp add: enrolled_def goodTokens_def)
  next
    case False
    with may have "unclaimed s" by blast
    then have "unknownName (rg_tenantID ?r) (rg_clusterName ?r) h"
      using h(3,4) by (simp add: unclaimed_def Let_def unknownName_def)
    from registeredCluster_new [OF h(1) ten rq this, of srv q] good h(2) False show ?thesis
      by (fastforce simp: goodTokens_def)
  qed
qed

lemma Register_settles:
  assumes cfg: "configured srv s" and may: "unclaimed s \<or> holds srv c0 s"
  shows "\<exists>c approved s'. Register (hubTransport srv (rg_hubURL (as_Registrar s))) hubCodec v s = (Inr (c_ID c, approved), s') \<and>
    configured srv s' \<and> holds srv c s' \<and> rg_hubURL (as_Registrar s') = rg_hubURL (as_Registrar s) \<and>
    (holds srv c0 s \<longrightarrow> c = c0)"
proof -
  let ?r = "as_Registrar s" and ?h = "as_World s"
  let ?rq = "registerRequest ?r v"
  let ?h1 = "?h\<lparr>h_tick := h_tick ?h + 1, h_header := h_header ?h @ [(''X-Request-ID'', h_uuid ?h (h_tick ?h))]\<rparr>"
  let ?h2 = "?h1\<lparr>h_header := h_header ?h1 @ [(''Vary'', tenantHeader)]\<rparr>"
  let ?q = "\<lparr>rc_Name = '''', rc_ClusterName = rg_clusterName ?r, rc_Labels = rg_labels ?r, rc_AgentVersion = rg_agentVersion ?r,
      rc_K8sVersion = v, rc_ExistingAgentToken = rr_ExistingAgentToken (registerPayload ?r v)\<rparr>"
  have c: "\<not> srv_DemoMode srv" "calm ?h" "plainToken (rg_registrationToken ?r)" "tenantIDPattern (rg_tenantID ?r)"
    "acceptsToken srv (rg_registrationToken ?r) (hubTables ?h)" "TrimSpace (rg_clusterName ?r) = rg_clusterName ?r"
    "rg_clusterName ?r \<noteq> ''''"
    using cfg by (simp_all add: configured_def Let_def)
  have ten: "rg_tenantID ?r \<noteq> ''''" using tenant_plain [OF c(4)] by (simp add: plainToken_def)
  from hubTransport_register [OF c(1) ten, where h = ?h and v = v] obtain r1
    where r1: "rq_Header r1 = rq_Header (sendRequest (rg_hubURL ?r) ?rq)"
      and http: "serveHTTP srv (sendBodies (aq_Payload ?rq)) (sendRequest (rg_hubURL ?r) ?rq) ?h =
        handleAgentRegister srv (bd_register (sendBodies (aq_Payload ?rq))) r1 ?h1" by blast
  have body: "bd_register (sendBodies (aq_Payload ?rq)) = Some ?q"
    by (simp add: sendBodies_def registerRequest_def registerPayload_def)
  have t1: "rq_Header r1 tenantHeader = [rg_tenantID ?r]" using r1 registerRequest_headers(1) [OF ten] by simp
  have "HeaderGet r1 ''Authorization'' = ''Bearer '' @ rg_registrationToken ?r"
    using r1 registerRequest_headers(2) [OF ten] by (simp add: HeaderGet_def)
  from registrationGranted_accepts [OF this c(3)] c(5) have granted: "registrationGranted srv r1 (hubTables ?h1)" by simp
  have h1: "calm ?h1" "calm ?h2" using c(2) by simp_all
  obtain cluster newly h3 cl where reg: "registeredCluster srv ?q r1 (rg_clusterName ?r) (rg_tenantID ?r) ?h2 =
      (Inr (cluster, newly), h3)" and h3: "calm h3" "goodTokens (rg_registrationToken ?r) h3"
    "t_settings (hubTables h3) = t_settings (hubTables ?h2)" "cl \<in> set (t_clusters (hubTables h3))"
    "named (rg_tenantID ?r) (rg_clusterName ?r) cl" "c_ID cluster = c_ID cl" "c_ID cl \<noteq> ''''" "holds srv c0 s \<longrightarrow> cl = c0"
    using registeredCluster_settles [OF cfg t1 h1(2) _ _ _ may, where q = ?q and v = v] by auto
  have q: "TrimSpace (rc_Name ?q) = ''''" "TrimSpace (rc_ClusterName ?q) = rg_clusterName ?r" using c(6) by simp_all
  from handleAgentRegister_finish [OF h1(1) granted c(4) t1 q c(7) reg h3(1,2,4,5,6,7)] obtain raw approved h'
    where run: "handleAgentRegister srv (Some ?q) r1 ?h1 =
        (Inr \<lparr>rs_Status = (if approved then 200 else 201), rs_Body = TokenBody (c_ID cl) raw\<rparr>, h')"
      and h': "calm h'" "goodTokens (rg_registrationToken ?r) h'" "t_settings (hubTables h') = t_settings (hubTables h3)"
        "plainToken raw" "raw \<noteq> rg_registrationToken ?r"
        "enrolled srv (rg_tenantID ?r) (rg_clusterName ?r) raw cl h'" by blast
  let ?s' = "s\<lparr>as_World := h', as_Registrar := ?r\<lparr>rg_token := raw, rg_approved := approved\<rparr>,
      as_Contact := MarkRegistered (as_Clock s (as_Tick s)) (as_Contact s), as_Tick := as_Tick s + 1\<rparr>"
  have "hubTransport srv (rg_hubURL ?r) ?rq ?h = (Inr \<lparr>rp_StatusCode = (if approved then 200 else 201),
      rp_Status = Itoa (if approved then 200 else 201) @ '' '' @ StatusText (if approved then 200 else 201),
      rp_Body = TokenBody (c_ID cl) raw\<rparr>, h')"
    unfolding hubTransport_def http body run by (simp add: Let_def)
  then have "Register (hubTransport srv (rg_hubURL ?r)) hubCodec v s = (Inr (c_ID cl, approved), ?s')"
    using h'(4) h3(7)
    by (simp add: Register_def bindm_def gets_def clientDo_def mapErr_def within_def registerRequest_def hubCodec_def
        setRegistrar_def modify_def markContact_def ret_def Let_def plainToken_def)
  moreover have "acceptsToken srv (rg_registrationToken ?r) (hubTables h')"
    using c(5) h'(3) h3(3) by (simp add: acceptsToken_def)
  then have "configured srv ?s'"
    using c h' h3(3) by (simp add: configured_def Let_def)
  moreover have "holds srv cl ?s'"
    using h'(4-6) by (simp add: holds_def Let_def)
  ultimately show ?thesis using h3(8) by (intro exI [of _ cl] exI [of _ approved] exI [of _ ?s']) simp
qed

section \<open>An agent never locks itself out\<close>

fun registerTimes :: "nat \<Rightarrow> Server \<Rightarrow> string \<Rightarrow> hub agent \<Rightarrow> (string + string \<times> bool) list" where
  "registerTimes 0 srv v s = []"
| "registerTimes (Suc n) srv v s =
     (case Register (hubTransport srv (rg_hubURL (as_Registrar s))) hubCodec v s of
        (res, s') \<Rightarrow> res # registerTimes n srv v s')"

lemma registerTimes_same: "configured srv s \<Longrightarrow> holds srv c s \<Longrightarrow>
    list_all (\<lambda>res. \<exists>approved. res = Inr (c_ID c, approved)) (registerTimes n srv v s)"
proof (induction n arbitrary: s)
  case (Suc n)
  from Register_settles [OF Suc.prems(1), of c v] Suc.prems(2) obtain approved s'
    where "Register (hubTransport srv (rg_hubURL (as_Registrar s))) hubCodec v s = (Inr (c_ID c, approved), s')"
      "configured srv s'" "holds srv c s'" by metis
  with Suc.IH [of s'] show ?case by simp
qed simp


definition edgeAgent :: "hub agent" where
  "edgeAgent = \<lparr>as_Registrar = \<lparr>rg_hubURL = ''http://hub'', rg_registrationToken = ''join'', rg_token = ''join'',
       rg_clusterName = ''edge'', rg_agentVersion = ''v1'', rg_tenantID = ''default'', rg_labels = Map.empty,
       rg_approved = False\<rparr>,
     as_Contact = Some (NewTracker (45 * Second)), as_Clock = int, as_Tick = 0, as_World = sampleHub\<rparr>"

lemma edgeAgent_configured: "configured sampleServer edgeAgent"
proof -
  have plain: "list_all plain (show_nat n)" for n
  proof -
    have "plain c" if "is_digit c" for c using that by (simp add: is_digit_def plain_def)
    then show ?thesis using show_nat_digits [of n] by (simp add: list_all_iff)
  qed
  have "goodTokens ''join'' sampleHub"
    using plain by (simp add: goodTokens_def sampleHub_def plainToken_def plain_def)
  moreover have "tenantIDPattern ''default''" by code_simp
  moreover have "TrimSpace ''edge'' = ''edge''" by code_simp
  moreover have "plainToken ''join''" by code_simp
  moreover have "acceptsToken sampleServer ''join'' sampleTables" 
    by (simp add: acceptsToken_def selectOne_def sample_defs)
  moreover have "calm sampleHub" by (simp add: calm_def sampleTables_wf)
  ultimately show ?thesis by (simp add: configured_def edgeAgent_def Let_def sampleServer_def)
qed


end
