(* ===== verification/CollectorFacts.thy ===== *)
theory CollectorFacts
  imports Collector Policy
begin

text \<open>
  What arrives at the hub of what an agent collects: the collector and the hub's normalisation together.
\<close>

section \<open>Roles\<close>

lemma nodeRoleEntries_append: "nodeRoleEntries (xs @ ys) = nodeRoleEntries xs @ nodeRoleEntries ys"
  by (induction xs rule: nodeRoleEntries.induct) simp_all

lemma nodeRoleEntries_mset:
  "mset (nodeRoleEntries xs) = (\<Sum>x\<in>#mset xs. mset (nodeRoleEntries [x]))"
proof (induction xs)
  case (Cons x xs)
  then show ?case using nodeRoleEntries_append [of "[x]" xs] by simp
qed simp

text \<open>The reported roles do not depend on the order in which Go iterates over the labels.\<close>

theorem node_roles_order:
  assumes "mset labels' = mset (kn_Labels node)"
  shows "nodeInfo (node\<lparr>kn_Labels := labels'\<rparr>) = nodeInfo node"
proof -
  have "mset (nodeRoleEntries labels') = mset (nodeRoleEntries (kn_Labels node))"
    by (simp only: nodeRoleEntries_mset [of labels'] nodeRoleEntries_mset [of "kn_Labels node"] assms)
  then have "sort (nodeRoleEntries labels') = sort (nodeRoleEntries (kn_Labels node))"
    by (intro properties_for_sort) simp_all
  then show ?thesis by (simp add: nodeInfo_def)
qed

section \<open>Service ports\<close>

definition portOK :: "K8sServicePort \<Rightarrow> bool" where
  "portOK p \<longleftrightarrow> CHR ''/'' \<notin> set (kt_Name p) \<and> CHR '':'' \<notin> set (kt_Name p) \<and>
     - (2 ^ 31) \<le> kt_Port p \<and> kt_Port p < 2 ^ 31"

lemma Itoa_notin: "\<not> is_digit c \<Longrightarrow> c \<noteq> CHR ''-'' \<Longrightarrow> c \<notin> set (Itoa i)"
  by (simp add: Itoa_def show_nat_notin)

lemma parseServicePort_portString:
  assumes "portOK p"
  shows "parseServicePort (portString p) =
    \<lparr>sp_Name = kt_Name p, sp_Port = kt_Port p, sp_TargetPort = kt_Port p, sp_Protocol = kt_Protocol p\<rparr>"
proof -
  have d: "CHR ''/'' \<notin> set (Itoa (kt_Port p))" "CHR '':'' \<notin> set (Itoa (kt_Port p))"
    by (simp_all add: Itoa_notin)
  have r: "ParseInt 32 (Itoa (kt_Port p)) = Some (kt_Port p)"
    using assms by (intro ParseInt_Itoa) (simp_all add: portOK_def)
  show ?thesis
  proof (cases "kt_Name p = ''''")
    case True
    with d r show ?thesis by (simp add: parseServicePort_def portString_def Let_def)
  next
    case False
    let ?q = "kt_Name p @ '':'' @ Itoa (kt_Port p)"
    have "CHR ''/'' \<notin> set ?q" using assms d by (simp add: portOK_def)
    then have "CutC (CHR ''/'') (?q @ CHR ''/'' # kt_Protocol p) = Some (?q, kt_Protocol p)" by (rule CutC_append)
    moreover have "CutC (CHR '':'') ?q = Some (kt_Name p, Itoa (kt_Port p))"
      using assms by (simp add: portOK_def)
    ultimately show ?thesis using False r by (simp add: parseServicePort_def portString_def Let_def)
  qed
qed

lemma Collect_ok:
  assumes "Collect sha version now client = Inr state"
  obtains nodes pods services deployments namespaces events
  where "cl_Nodes client = Inr nodes" "cl_Pods client = Inr pods" "cl_Services client = Inr services"
    "cl_Deployments client = Inr deployments" "cl_Namespaces client = Inr namespaces" "cl_Events client = Inr events"
    "state = clusterState sha version now nodes pods services deployments namespaces events"
  using assms unfolding Collect_def
  by (cases "cl_Nodes client"; cases "cl_Pods client"; cases "cl_Services client"; cases "cl_Deployments client";
      cases "cl_Namespaces client"; cases "cl_Events client") simp_all

text \<open>A service's ports survive the wire: what the hub stores for each service the agent collected is the name,
  number and protocol of each of its ports, parsed back from the strings the agent sends.\<close>

theorem service_ports_roundtrip:
  assumes "Collect sha version now client = Inr state" and "cl_Services client = Inr services"
    and "list_all (\<lambda>s. list_all portOK (ks_Ports s)) services"
  shows "map (\<lambda>s. (sv_Namespace s, sv_Name s, sv_Ports s)) (sn_Services (normalizeSnapshot cid state)) =
    map (\<lambda>s. (ks_Namespace s, ks_Name s, map (\<lambda>p. \<lparr>sp_Name = kt_Name p, sp_Port = kt_Port p,
      sp_TargetPort = kt_Port p, sp_Protocol = kt_Protocol p\<rparr>) (ks_Ports s))) services"
  using assms(2,3)
  by (rule_tac Collect_ok [OF assms(1)])
    (auto simp: normalizeSnapshot_def clusterState_def serviceInfo_def list_all_iff parseServicePort_portString)

definition sampleClient :: Clientset where
  "sampleClient = \<lparr>cl_Nodes = Inr [], cl_Pods = Inr [],
     cl_Services = Inr [\<lparr>ks_Namespace = ''web'', ks_Name = ''api'', ks_Type = ''ClusterIP'', ks_ClusterIP = ''10.0.0.1'',
       ks_ExternalIPs = [], ks_Ports = [\<lparr>kt_Name = ''http'', kt_Port = 8080, kt_Protocol = ''TCP''\<rparr>], ks_Created = 0\<rparr>],
     cl_Deployments = Inr [], cl_Namespaces = Inr [], cl_Events = Inr []\<rparr>"

theorem service_ports_roundtrip_witness:
  "\<exists>state. Collect (\<lambda>s. s) ''v1'' 5 sampleClient = Inr state \<and>
     map (\<lambda>s. (sv_Namespace s, sv_Name s, sv_Ports s)) (sn_Services (normalizeSnapshot ''c1'' state)) =
       [(''web'', ''api'', [\<lparr>sp_Name = ''http'', sp_Port = 8080, sp_TargetPort = 8080, sp_Protocol = ''TCP''\<rparr>])]"
proof -
  obtain state where s: "Collect (\<lambda>s. s) ''v1'' 5 sampleClient = Inr state"
    by (simp add: Collect_def sampleClient_def)
  have "cl_Services sampleClient = Inr [\<lparr>ks_Namespace = ''web'', ks_Name = ''api'', ks_Type = ''ClusterIP'',
      ks_ClusterIP = ''10.0.0.1'', ks_ExternalIPs = [],
      ks_Ports = [\<lparr>kt_Name = ''http'', kt_Port = 8080, kt_Protocol = ''TCP''\<rparr>], ks_Created = 0\<rparr>]"
    by (simp add: sampleClient_def)
  from service_ports_roundtrip [OF s this, of "''c1''"] s show ?thesis by (simp add: portOK_def)
qed

section \<open>Pod security\<close>

text \<open>The restricted profile as it is meant: every container, of whatever kind, is confined.\<close>

definition confined :: "bool option option \<Rightarrow> Container \<Rightarrow> bool" where
  "confined podSecurity c \<longleftrightarrow> \<not> isPrivileged (ct_SecurityContext c) \<and>
     effectiveRunAsNonRoot podSecurity (ct_SecurityContext c) \<and> readOnlyRoot (ct_SecurityContext c) \<and>
     \<not> mayEscalate (ct_SecurityContext c) \<and> dropsAllCapabilities (ct_SecurityContext c)"

definition podVerdict :: "K8sPod \<Rightarrow> string" where
  "podVerdict pod =
     (let cs = kp_InitContainers pod @ kp_Containers pod @ kp_EphemeralContainers pod
      in if cs = [] then PolicyUnknown
         else if list_all (confined (kp_RunAsNonRoot pod)) cs \<and>
           \<not> kp_HostNetwork pod \<and> \<not> kp_HostPID pod \<and> \<not> kp_HostIPC pod then PolicyPass
         else PolicyFail)"

lemma checkContainers:
  "let i = fold (checkContainer ps) cs info in
     xp_Privileged i = (xp_Privileged info \<or> list_ex (\<lambda>c. isPrivileged (ct_SecurityContext c)) cs) \<and>
     xp_RunAsNonRoot i = (xp_RunAsNonRoot info \<and> list_all (\<lambda>c. effectiveRunAsNonRoot ps (ct_SecurityContext c)) cs) \<and>
     xp_ReadOnlyRootFilesystem i = (xp_ReadOnlyRootFilesystem info \<and> list_all (\<lambda>c. readOnlyRoot (ct_SecurityContext c)) cs) \<and>
     xp_AllowsPrivilegeEscalation i = (xp_AllowsPrivilegeEscalation info \<or> list_ex (\<lambda>c. mayEscalate (ct_SecurityContext c)) cs) \<and>
     xp_CapabilitiesDroppedAll i = (xp_CapabilitiesDroppedAll info \<and> list_all (\<lambda>c. dropsAllCapabilities (ct_SecurityContext c)) cs) \<and>
     xp_SecurityContextKnown i = xp_SecurityContextKnown info \<and> xp_HostNetwork i = xp_HostNetwork info \<and>
     xp_HostPID i = xp_HostPID info \<and> xp_HostIPC i = xp_HostIPC info \<and>
     xp_Namespace i = xp_Namespace info \<and> xp_Name i = xp_Name info"
proof (induction cs arbitrary: info)
  case (Cons c cs)
  show ?case using Cons [of "checkContainer ps c info"] by (auto simp: checkContainer_def Let_def)
qed simp

lemma confined_all:
  "list_all (confined ps) cs \<longleftrightarrow> \<not> list_ex (\<lambda>c. isPrivileged (ct_SecurityContext c)) cs \<and>
     list_all (\<lambda>c. effectiveRunAsNonRoot ps (ct_SecurityContext c)) cs \<and>
     list_all (\<lambda>c. readOnlyRoot (ct_SecurityContext c)) cs \<and>
     \<not> list_ex (\<lambda>c. mayEscalate (ct_SecurityContext c)) cs \<and>
     list_all (\<lambda>c. dropsAllCapabilities (ct_SecurityContext c)) cs"
  by (induction cs) (auto simp: confined_def)

lemma podResult_status:
  "pr_Status (podResult at cluster p) =
     (if \<not> p_SecurityContextKnown p then PolicyUnknown
      else if \<not> p_Privileged p \<and> p_RunAsNonRoot p \<and> p_ReadOnlyRootFilesystem p \<and> \<not> p_AllowsPrivilegeEscalation p \<and>
        p_CapabilitiesDroppedAll p \<and> \<not> p_HostNetwork p \<and> \<not> p_HostPID p \<and> \<not> p_HostIPC p then PolicyPass
      else PolicyFail)"
  by (simp add: podResult_def Let_def podSecurityViolations_def newResultWithSubject_def)

lemma podInfo_names [simp]: "xp_Namespace (podInfo pod) = kp_Namespace pod" "xp_Name (podInfo pod) = kp_Name pod"
  using checkContainers [of "kp_RunAsNonRoot pod" "podContainers pod"] by (simp_all add: podInfo_def Let_def)

text \<open>C26: The security verdict the hub gives a pod is the one its Kubernetes object deserves: collected by the agent,
  normalised by the hub and judged by the policy, a pod passes exactly when every container, also init and
  ephemeral ones, is confined and the pod uses no host namespace; it is unknown only without containers.\<close>

theorem pod_security_end_to_end:
  "map (\<lambda>p. (p_Namespace p, p_Name p, pr_Status (podResult at cluster p)))
     (sn_Pods (normalizeSnapshot cid (clusterState sha version now nodes pods services deployments namespaces events))) =
   map (\<lambda>p. (kp_Namespace p, kp_Name p, podVerdict p)) pods"
proof -
  have "pr_Status (podResult at cluster (hd (sn_Pods (normalizeSnapshot cid
      (clusterState sha version now nodes [pod] services deployments namespaces events))))) = podVerdict pod" for pod
  proof (cases "podContainers pod = []")
    case True
    then show ?thesis
      by (simp add: normalizeSnapshot_def clusterState_def podInfo_def Let_def podVerdict_def podContainers_def podResult_def
          newResultWithSubject_def)
  next
    case False
    let ?info = "podInfo pod"
    obtain info where i: "?info = fold (checkContainer (kp_RunAsNonRoot pod)) (podContainers pod) info"
      and info: "xp_SecurityContextKnown info" "\<not> xp_Privileged info" "xp_RunAsNonRoot info" "xp_ReadOnlyRootFilesystem info"
        "\<not> xp_AllowsPrivilegeEscalation info" "xp_CapabilitiesDroppedAll info" "xp_HostNetwork info = kp_HostNetwork pod"
        "xp_HostPID info = kp_HostPID pod" "xp_HostIPC info = kp_HostIPC pod"
      using False by (simp add: podInfo_def Let_def)
    note c = checkContainers [of "kp_RunAsNonRoot pod" "podContainers pod" info, unfolded Let_def, folded i]
    have k: "list_all (confined (kp_RunAsNonRoot pod)) (kp_InitContainers pod @ kp_Containers pod @ kp_EphemeralContainers pod) \<longleftrightarrow>
      list_all (confined (kp_RunAsNonRoot pod)) (podContainers pod)"
      by (simp add: podContainers_def confined_def list_all_iff ball_Un)
    have "podContainers pod \<noteq> [] \<longleftrightarrow> kp_InitContainers pod @ kp_Containers pod @ kp_EphemeralContainers pod \<noteq> []"
      by (simp add: podContainers_def)
    with False k have v: "podVerdict pod = (if list_all (confined (kp_RunAsNonRoot pod)) (podContainers pod) \<and>
        \<not> kp_HostNetwork pod \<and> \<not> kp_HostPID pod \<and> \<not> kp_HostIPC pod then PolicyPass else PolicyFail)"
      by (simp only: podVerdict_def Let_def if_False)
    show ?thesis
      using c info unfolding v confined_all
      by (simp add: normalizeSnapshot_def clusterState_def podResult_status)
  qed
  then show ?thesis by (simp add: normalizeSnapshot_def clusterState_def comp_def)
qed

section \<open>Events\<close>

text \<open>At most 100 events are reported, and none that is older than one left out.\<close>

theorem collected_events_newest:
  assumes "Collect sha version now client = Inr state" and "cl_Events client = Inr events"
  shows "\<exists>kept dropped. mset (kept @ dropped) = mset events \<and> sq_Events state = map eventInfo kept \<and>
    length kept = min maxEvents (length events) \<and>
    (\<forall>e \<in> set kept. \<forall>f \<in> set dropped. eventTimestamp f \<le> eventTimestamp e)"
proof (intro exI conjI)
  let ?s = "sort_key (\<lambda>e. - eventTimestamp e) events"
  show "mset (take maxEvents ?s @ drop maxEvents ?s) = mset events" by (simp only: append_take_drop_id mset_sort)
  show "sq_Events state = map eventInfo (take maxEvents ?s)"
    using assms(2) by (rule_tac Collect_ok [OF assms(1)]) (simp add: clusterState_def)
  show "length (take maxEvents ?s) = min maxEvents (length events)" by simp
  have "sorted (map (\<lambda>e. - eventTimestamp e) (take maxEvents ?s @ drop maxEvents ?s))"
    unfolding append_take_drop_id by (rule sorted_sort_key)
  then show "\<forall>e \<in> set (take maxEvents ?s). \<forall>f \<in> set (drop maxEvents ?s). eventTimestamp f \<le> eventTimestamp e"
    by (auto simp only: map_append sorted_append set_map ball_simps neg_le_iff_le)
qed

theorem collected_events_newest_witness:
  "\<exists>state. Collect (\<lambda>s. s) ''v1'' 5 sampleClient = Inr state \<and> length (sq_Events state) = 0"
proof -
  obtain state where s: "Collect (\<lambda>s. s) ''v1'' 5 sampleClient = Inr state"
    by (simp add: Collect_def sampleClient_def)
  have "cl_Events sampleClient = Inr []" by (simp add: sampleClient_def)
  from collected_events_newest [OF s this] s show ?thesis by auto
qed

end
