(* ===== verification/AgentFacts.thy ===== *)
theory AgentFacts
  imports AgentHub CollectorFacts
begin

text \<open>
  What a loaded configuration guarantees to the code that uses it, and the retry delays of the agent.
\<close>

section \<open>Configuration\<close>

text \<open>C37: A hub that starts has a sound configuration: every interval, retention, session and retry duration is
  positive, deliveries are attempted at least once, a webhook has a secret, the server uses exactly these values
  (none of the fallbacks for unset fields applies), and session cookies are secure unless the environment says \<open>true\<close>
  to the contrary.\<close>

theorem hub_config_sound:
  assumes "loadHubConfig ps env = Inr cfg" and "srv = configureServer cfg client srv0"
  shows "heartbeatInterval srv = hc_HeartbeatInterval cfg \<and> 0 < heartbeatInterval srv \<and>
    eventRetention srv = hc_EventRetention cfg \<and> 0 < eventRetention srv \<and> 0 < srv_SessionDuration srv \<and>
    m_maxAttempts (srv_alerts srv) = hc_AlertMaxAttempts cfg \<and> 1 \<le> m_maxAttempts (srv_alerts srv) \<and>
    m_retryBase (srv_alerts srv) = hc_AlertRetryBase cfg \<and> 0 < m_retryBase (srv_alerts srv) \<and>
    0 < m_pollInterval (srv_alerts srv) \<and>
    (m_webhookURL (srv_alerts srv) = '''' \<or> m_secret (srv_alerts srv) \<noteq> '''') \<and>
    srv_SessionCookieSecure srv = (env ''KFLEET_SESSION_COOKIE_INSECURE'' \<noteq> ''true'')"
proof -
  have pos: "0 < 30 * Second" "0 < 5 * Second" "0 < Second" "0 < 90 * 24 * Hour" "0 < 24 * Hour"
    by (simp_all add: go_time)
  note ok = assms(1) [unfolded loadHubConfig_def andThen_ok]
  then have "0 < hc_HeartbeatInterval cfg" "0 < hc_EventRetention cfg" "0 < hc_SessionDuration cfg"
    "0 < hc_AlertRetryBase cfg" "0 < hc_AlertPollInterval cfg" "1 \<le> hc_AlertMaxAttempts cfg"
    "hc_AlertWebhookURL cfg = '''' \<or> hc_AlertWebhookSecret cfg \<noteq> ''''"
    "hc_SessionCookieSecure cfg = (env ''KFLEET_SESSION_COOKIE_INSECURE'' \<noteq> ''true'')"
    using pos by (auto dest: positiveDurationEnv_ok alertMaxAttempts_ok webhookCheck_ok)
  then show ?thesis
    by (simp add: assms(2) configureServer_def heartbeatInterval_def eventRetention_def NewManager_def)
qed

definition plainParsers :: Parsers where
  "plainParsers = \<lparr>ps_URL = (\<lambda>_. None), ps_Duration = (\<lambda>_. Inl ''invalid duration''), ps_Labels = (\<lambda>_. Inl ''invalid''),
     ps_PEM = (\<lambda>_. False)\<rparr>"

theorem hub_config_sound_witness:
  "\<exists>cfg. loadHubConfig plainParsers (\<lambda>_. '''') = Inr cfg \<and>
     heartbeatInterval (configureServer cfg (\<lambda>_. Inl ''down'') sampleServer) = 30 * Second"
proof -
  obtain cfg where c: "loadHubConfig plainParsers (\<lambda>_. '''') = Inr cfg" "hc_HeartbeatInterval cfg = 30 * Second"
    by (simp add: loadHubConfig_def positiveDurationEnv_def alertMaxAttempts_def webhookCheck_def boolEnv_def Let_def)
  from hub_config_sound [OF c(1) refl, of "\<lambda>_. Inl ''down''" sampleServer] c show ?thesis by auto
qed

section \<open>Retry delays\<close>

fun nextDelays :: "nat \<Rightarrow> (duration \<Rightarrow> duration) \<Rightarrow> Backoff \<Rightarrow> duration list" where
  "nextDelays 0 jitter b = []"
| "nextDelays (Suc n) jitter b = (case backoffNext jitter b of (d, b') \<Rightarrow> d # nextDelays n jitter b')"

lemma backoff_step:
  assumes "0 < k"
  shows "backoffNext jitter (NewBackoff\<lparr>bo_current := min (Second * 2 ^ k div 2) Minute\<rparr>) =
    (jitter (min (Second * 2 ^ k) Minute), NewBackoff\<lparr>bo_current := min (Second * 2 ^ k) Minute\<rparr>)"
proof -
  obtain j where j: "k = Suc j" using assms by (cases k) auto
  have p: "(0::int) < 2 ^ j" by simp
  then show ?thesis
    by (simp add: j backoffNext_def NewBackoff_def Let_def go_time min_def)
qed

lemma nextDelays_from:
  "nextDelays n jitter (NewBackoff\<lparr>bo_current := min (Second * 2 ^ k) Minute\<rparr>) =
     map (\<lambda>i. jitter (min (Second * 2 ^ i) Minute)) [Suc k ..< Suc k + n]"
proof (induction n arbitrary: k)
  case (Suc n)
  from backoff_step [of "Suc k" jitter] Suc [of "Suc k"] show ?case
    by (simp add: upt_conv_Cons del: upt_Suc)
qed simp

text \<open>The delays between the agent's registration attempts are exponential with a ceiling: after a reset the \<open>i\<close>-th
  wait is (up to the jitter) \<open>2^i\<close> seconds, at most one minute, for any number of attempts.\<close>

theorem backoff_delays:
  "nextDelays n jitter (backoffReset (b\<lparr>bo_Base := Second, bo_Max := Minute, bo_factor := 2\<rparr>)) =
     map (\<lambda>i. jitter (min (Second * 2 ^ i) Minute)) [0..<n]"
proof (cases n)
  case (Suc m)
  have b: "backoffNext jitter (backoffReset (b\<lparr>bo_Base := Second, bo_Max := Minute, bo_factor := 2\<rparr>)) =
      (jitter (min (Second * 2 ^ 0) Minute), NewBackoff\<lparr>bo_current := min (Second * 2 ^ 0) Minute\<rparr>)"
    by (cases b) (simp add: backoffNext_def backoffReset_def NewBackoff_def go_time)
  from nextDelays_from [of m jitter 0] show ?thesis unfolding Suc by (simp add: b upt_conv_Cons del: upt_Suc)
qed simp


definition edgeDeps :: "(hub, body) Deps" where
  "edgeDeps = \<lparr>dp_http = hubTransport sampleServer ''http://hub'', dp_codec = hubCodec, dp_clientset = (\<lambda>_. sampleClient),
     dp_sha256 = (\<lambda>s. s), dp_version = ''v1'', dp_jitter = (\<lambda>d. d)\<rparr>"

definition edgeConfig :: AgentConfig where
  "edgeConfig = \<lparr>acf_HubURL = ''http://hub'', acf_ClusterName = ''edge'', acf_HubToken = ''join'', acf_HubCA = None,
     acf_TenantID = ''default'', acf_ReportInterval = 30 * Second, acf_Kubeconfig = '''', acf_HealthAddress = '':8081'',
     acf_LogLevel = ''info'', acf_ClusterLabels = Map.empty\<rparr>"


end
