(* ===== verification/AgentLogs.thy ===== *)
theory AgentLogs
  imports PodLogs AgentClient
begin

text \<open>
  \<open>internal/agent/logs\<close>: the streamer, which reads a pod's log line by line over \<open>bufio.Reader.ReadLine\<close>, and the
  client, which answers the hub's requests over one WebSocket with one goroutine per stream, a writer and a reader.
\<close>

section \<open>Reading lines\<close>

definition maxLineBytes :: nat where
  "maxLineBytes = 16 * 1024"

definition readBufferSize :: nat where
  "readBufferSize = 32 * 1024"

text \<open>\<open>bufio.Reader.ReadLine\<close> on what is left of the log: the chunk, whether more of its line follows, and the
  rest; \<open>None\<close> when nothing is left. A carriage return at the end of a full buffer is put back.\<close>

definition dropCR :: "string \<Rightarrow> string" where
  "dropCR line = (if line \<noteq> '''' \<and> last line = CR then butlast line else line)"

definition ReadLine :: "string \<Rightarrow> (string \<times> bool \<times> string) option" where
  "ReadLine s =
     (let line = takeWhile (\<lambda>c. c \<noteq> LF) s in
      if s = '''' then None
      else if LF \<in> set s \<and> length line < readBufferSize then Some (dropCR line, False, drop (Suc (length line)) s)
      else if readBufferSize \<le> length s
      then let chunk = dropCR (take readBufferSize s) in Some (chunk, True, drop (length chunk) s)
      else Some (s, False, ''''))"

text \<open>\<open>appendLine\<close> is the body of the loop of \<open>readLine\<close>: what the builder holds after one more chunk.\<close>

definition appendLine :: "string \<Rightarrow> string \<Rightarrow> string" where
  "appendLine built chunk =
     (if length chunk > 0 \<and> length built < maxLineBytes
      then let remaining = maxLineBytes - length built in built @ (if length chunk > remaining then take remaining chunk else chunk)
      else built)"

lemma dropCR_length: "length (dropCR line) \<le> length line" "length line \<le> Suc (length (dropCR line))"
  by (auto simp: dropCR_def)

lemma dropCR_full: "readBufferSize \<le> length s \<Longrightarrow> Suc maxLineBytes \<le> length (dropCR (take readBufferSize s))"
  using dropCR_length(2) [of "take readBufferSize s"] by (simp add: readBufferSize_def maxLineBytes_def)

lemma ReadLine_shorter: "ReadLine s = Some (chunk, isPre, rest) \<Longrightarrow> length rest < length s"
  using dropCR_full [of s] by (auto simp: ReadLine_def Let_def readBufferSize_def split: if_splits)

text \<open>The line, whether the reader has failed, and the rest.\<close>

function readLine :: "string \<Rightarrow> string \<Rightarrow> string \<times> bool \<times> string" where
  "readLine built s =
     (case ReadLine s of None \<Rightarrow> (built, True, '''')
      | Some (chunk, isPrefix, rest) \<Rightarrow>
          if isPrefix then readLine (appendLine built chunk) rest else (appendLine built chunk, False, rest))"
  by pat_completeness auto
termination by (relation "measure (\<lambda>(b, s). length s)") (auto dest: ReadLine_shorter)

declare readLine.simps [simp del]

lemma readLine_shorter: "readLine built s = (line, False, rest) \<Longrightarrow> length rest < length s"
proof (induction built s rule: readLine.induct)
  case (1 built s)
  show ?case
  proof (cases "ReadLine s")
    case None
    with 1(2) show ?thesis by (subst (asm) readLine.simps) simp
  next
    case (Some x)
    obtain chunk isPre r where x: "x = (chunk, isPre, r)" by (cases x)
    with Some ReadLine_shorter have r: "length r < length s" by simp
    show ?thesis
    proof (cases isPre)
      case True
      with 1(2) Some x have "readLine (appendLine built chunk) r = (line, False, rest)"
        by (subst (asm) readLine.simps) simp
      then have "length rest < length r" using 1(1) [of x chunk "(isPre, r)" isPre r] Some x True by simp
      with r show ?thesis by simp
    next
      case False
      with 1(2) Some x have "r = rest" by (subst (asm) readLine.simps) simp
      with r show ?thesis by simp
    qed
  qed
qed

section \<open>The streamer\<close>

record LogRequest =
  lq_Namespace :: string
  lq_Pod :: string
  lq_Container :: string
  lq_Follow :: bool
  lq_TailLines :: int
  lq_Previous :: bool
  lq_SinceSeconds :: int

record PodLogOptions =
  po_Container :: string
  po_Follow :: bool
  po_Previous :: bool
  po_TailLines :: "int option"
  po_SinceSeconds :: "int option"

definition logOptions :: "LogRequest \<Rightarrow> PodLogOptions" where
  "logOptions request =
     \<lparr>po_Container = lq_Container request, po_Follow = lq_Follow request, po_Previous = lq_Previous request,
      po_TailLines = (if lq_TailLines request > 0 then Some (lq_TailLines request) else None),
      po_SinceSeconds = (if lq_SinceSeconds request > 0 then Some (lq_SinceSeconds request) else None)\<rparr>"

text \<open>An open log: its bytes, and the error that ends it (\<open>None\<close> for the end of the file).\<close>

record LogReader =
  ld_Content :: string
  ld_Error :: "string option"

type_synonym 'w opener = "string \<Rightarrow> string \<Rightarrow> PodLogOptions \<Rightarrow> string + LogReader"

text \<open>The loop of \<open>Stream\<close>. \<open>emit\<close> changes the state of the world; \<open>ctxErr\<close> is the context's error in it.\<close>

function streamLines :: "('w \<Rightarrow> string option) \<Rightarrow> (string \<Rightarrow> ('w, string, unit) sm) \<Rightarrow> string option \<Rightarrow> string \<Rightarrow> ('w, string, unit) sm" where
  "streamLines ctxErr emit readErr s w =
     (case readLine '''' s of (line, failed, rest) \<Rightarrow>
        (case (if \<not> failed \<or> line \<noteq> '''' then emit line w else (Inr (), w)) of
           (Inl emitErr, w1) \<Rightarrow> (Inl emitErr, w1)
         | (Inr _, w1) \<Rightarrow>
             if failed then
               (case ctxErr w1 of Some err \<Rightarrow> (Inl err, w1)
                | None \<Rightarrow> (case readErr of None \<Rightarrow> (Inr (), w1) | Some err \<Rightarrow> (Inl (''read pod logs: '' @ err), w1)))
             else (case ctxErr w1 of Some err \<Rightarrow> (Inl err, w1) | None \<Rightarrow> streamLines ctxErr emit readErr rest w1)))"
  by pat_completeness auto
termination by (relation "measure (\<lambda>(c, e, r, s, w). length s)") (auto dest!: sym [THEN readLine_shorter] split: if_splits)

declare streamLines.simps [simp del]

definition Stream ::
  "'w opener \<Rightarrow> ('w \<Rightarrow> string option) \<Rightarrow> LogRequest \<Rightarrow> (string \<Rightarrow> ('w, string, unit) sm) \<Rightarrow> ('w, string, unit) sm" where
  "Stream opener ctxErr request emit =
     (if TrimSpace (lq_Namespace request) = '''' \<or> TrimSpace (lq_Pod request) = ''''
      then throw ''namespace and pod are required''
      else case opener (lq_Namespace request) (lq_Pod request) (logOptions request) of
        Inl err \<Rightarrow> throw (''open pod logs: '' @ err)
      | Inr reader \<Rightarrow> streamLines ctxErr emit (ld_Error reader) (ld_Content reader))"

section \<open>What a stream emits\<close>

text \<open>The lines of a log as its reader's client sees them: separated by line feeds, one carriage return before a line
  feed belongs to it, and text after the last line feed is a line.\<close>

function logLines :: "string \<Rightarrow> string list" where
  "logLines s =
     (let line = takeWhile (\<lambda>c. c \<noteq> LF) s in
      if s = '''' then []
      else if LF \<in> set s then dropCR line # logLines (drop (Suc (length line)) s)
      else [line])"
  by pat_completeness auto
termination by (relation "measure length") auto

declare logLines.simps [simp del]

lemma logLines_Nil [simp]: "logLines '''' = []"
  by (simp add: logLines.simps)

lemma appendLine_full [simp]: "maxLineBytes \<le> length built \<Longrightarrow> appendLine built chunk = built"
  by (simp add: appendLine_def)

lemma appendLine_Nil [simp]: "appendLine '''' chunk = take maxLineBytes chunk"
  by (auto simp: appendLine_def maxLineBytes_def)

lemma line_length: "LF \<in> set s \<Longrightarrow> length (takeWhile (\<lambda>c. c \<noteq> LF) s) < length s"
  by (induction s) auto

text \<open>The part of a line beyond a full buffer: the chunk is of this line, and so is the rest.\<close>

lemma ReadLine_prefix:
  assumes "ReadLine s = Some (chunk, True, rest)"
  shows "Suc maxLineBytes \<le> length chunk" "take maxLineBytes chunk = take maxLineBytes (takeWhile (\<lambda>c. c \<noteq> LF) s)"
    "rest = drop (length chunk) s" "length chunk \<le> length (takeWhile (\<lambda>c. c \<noteq> LF) s)"
    "take maxLineBytes (dropCR (takeWhile (\<lambda>c. c \<noteq> LF) s)) = take maxLineBytes (takeWhile (\<lambda>c. c \<noteq> LF) s)"
proof -
  let ?line = "takeWhile (\<lambda>c. c \<noteq> LF) s"
  have s: "readBufferSize \<le> length s" "chunk = dropCR (take readBufferSize s)" "rest = drop (length chunk) s"
      "\<not> (LF \<in> set s \<and> length ?line < readBufferSize)"
    using assms by (auto simp: ReadLine_def Let_def split: if_splits)
  have long: "readBufferSize \<le> length ?line"
  proof (cases "LF \<in> set s")
    case False
    then have l: "?line = s" by (auto simp: takeWhile_eq_all_conv)
    show ?thesis unfolding l by (rule s(1))
  qed (use s(4) in simp)
  have "take readBufferSize s = take readBufferSize ?line"
    using long by (metis takeWhile_eq_take length_takeWhile_le take_take min.absorb1)
  moreover have drop: "take maxLineBytes (dropCR l) = take maxLineBytes l" if "Suc maxLineBytes \<le> length l" for l
    using that by (auto simp: dropCR_def butlast_conv_take min_def)
  ultimately show "take maxLineBytes chunk = take maxLineBytes ?line"
    using s(1,2) long drop [of "take readBufferSize s"] by (simp add: readBufferSize_def maxLineBytes_def)
  show "Suc maxLineBytes \<le> length chunk" using dropCR_full [OF s(1)] s(2) by simp
  show "rest = drop (length chunk) s" by (fact s(3))
  have "length chunk \<le> readBufferSize" using dropCR_length(1) [of "take readBufferSize s"] s(2) by simp
  with long show "length chunk \<le> length ?line" by simp
  show "take maxLineBytes (dropCR ?line) = take maxLineBytes ?line"
    using drop [of ?line] long by (simp add: readBufferSize_def maxLineBytes_def)
qed

lemma takeWhile_drop:
  "n \<le> length (takeWhile P s) \<Longrightarrow> takeWhile P (drop n s) = drop n (takeWhile P s)"
proof (induction s arbitrary: n)
  case (Cons a s)
  then show ?case by (cases n) (auto split: if_splits)
qed simp

lemma ReadLine_rest:
  assumes "ReadLine s = Some (chunk, True, rest)"
  shows "LF \<in> set rest \<longleftrightarrow> LF \<in> set s"
    and "drop (Suc (length (takeWhile (\<lambda>c. c \<noteq> LF) rest))) rest = drop (Suc (length (takeWhile (\<lambda>c. c \<noteq> LF) s))) s"
proof -
  let ?P = "\<lambda>c. c \<noteq> LF"
  note R = ReadLine_prefix [OF assms]
  have tw: "takeWhile ?P rest = drop (length chunk) (takeWhile ?P s)" using R(3,4) takeWhile_drop by blast
  have "takeWhile ?P s = takeWhile ?P (take (length chunk) s @ rest)" using R(3) by simp
  have "take (length chunk) s = take (length chunk) (takeWhile ?P s)"
    using R(4) by (metis length_takeWhile_le takeWhile_eq_take take_take min.absorb1)
  then have "LF \<notin> set (take (length chunk) s)" by (metis in_set_takeD set_takeWhileD)
  then show "LF \<in> set rest \<longleftrightarrow> LF \<in> set s"
    using R(3) by (metis UnE append_take_drop_id in_set_dropD set_append)
  show "drop (Suc (length (takeWhile ?P rest))) rest = drop (Suc (length (takeWhile ?P s))) s"
    unfolding tw using R(3,4) by simp
qed

lemma ReadLine_final:
  "ReadLine s = Some (chunk, False, rest) \<Longrightarrow>
     (if LF \<in> set s then chunk = dropCR (takeWhile (\<lambda>c. c \<noteq> LF) s) \<and> rest = drop (Suc (length (takeWhile (\<lambda>c. c \<noteq> LF) s))) s
      else chunk = s \<and> rest = '''')"
  using line_length [of s] by (auto simp: ReadLine_def Let_def split: if_splits)

lemma ReadLine_None: "ReadLine s = None \<longleftrightarrow> s = ''''"
  by (auto simp: ReadLine_def Let_def)

lemma readLine_full:
  assumes "maxLineBytes \<le> length built"
  shows "\<exists>failed. readLine built s = (built, failed,
      if LF \<in> set s then drop (Suc (length (takeWhile (\<lambda>c. c \<noteq> LF) s))) s else '''') \<and> (LF \<in> set s \<longrightarrow> \<not> failed)"
  using assms
proof (induction built s rule: readLine.induct)
  case (1 built s)
  show ?case
  proof (cases "ReadLine s")
    case None
    then have "s = ''''" by (rule ReadLine_None [THEN iffD1])
    then show ?thesis by (subst readLine.simps) (auto simp: ReadLine_def)
  next
    case (Some x)
    obtain chunk isPre rest where x: "x = (chunk, isPre, rest)" by (cases x)
    show ?thesis
    proof (cases isPre)
      case True
      have "readLine built s = readLine (appendLine built chunk) rest"
        using Some x True by (subst readLine.simps) simp
      with 1(1) [of x chunk "(isPre, rest)" isPre rest] 1(2) Some x True ReadLine_rest [of s chunk rest]
      show ?thesis by (auto split: if_splits)
    next
      case False
      then show ?thesis using Some x ReadLine_final [of s chunk rest] 1(2) by (subst readLine.simps) auto
    qed
  qed
qed

lemma readLine_line:
  "readLine '''' '''' = ('''', True, '''')"
  "LF \<in> set s \<Longrightarrow> readLine '''' s = (take maxLineBytes (dropCR (takeWhile (\<lambda>c. c \<noteq> LF) s)), False,
     drop (Suc (length (takeWhile (\<lambda>c. c \<noteq> LF) s))) s)"
  "LF \<notin> set s \<Longrightarrow> s \<noteq> '''' \<Longrightarrow> \<exists>failed. readLine '''' s = (take maxLineBytes s, failed, '''')"
proof -
  let ?line = "takeWhile (\<lambda>c. c \<noteq> LF) s"
  let ?rest = "if LF \<in> set s then drop (Suc (length ?line)) s else ''''"
  show "readLine '''' '''' = ('''', True, '''')" by (simp add: readLine.simps ReadLine_def)
  have all: "\<exists>failed. readLine '''' s = (take maxLineBytes (if LF \<in> set s then dropCR ?line else s), failed, ?rest) \<and>
      (LF \<in> set s \<longrightarrow> \<not> failed)" if "s \<noteq> ''''"
  proof -
    obtain chunk isPre rest where r: "ReadLine s = Some (chunk, isPre, rest)"
      using \<open>s \<noteq> ''''\<close> ReadLine_None by (metis option.exhaust prod_cases3)
    show ?thesis
    proof (cases isPre)
      case True
      with r have r1: "ReadLine s = Some (chunk, True, rest)" by simp
      note R = ReadLine_prefix [OF r1]
      have l: "take maxLineBytes (if LF \<in> set s then dropCR ?line else s) = take maxLineBytes chunk"
      proof (cases "LF \<in> set s")
        case False
        then have "?line = s" by (auto simp: takeWhile_eq_all_conv)
        with R(2) False show ?thesis by (simp only: if_False)
      qed (use R(2,5) in \<open>simp only: if_True\<close>)
      have "readLine '''' s = readLine (take maxLineBytes chunk) rest" using r True by (subst readLine.simps) simp
      with readLine_full [of "take maxLineBytes chunk" rest] R(1) ReadLine_rest [OF r1]
      show ?thesis unfolding l by (auto split: if_splits)
    next
      case False
      with r ReadLine_final [of s chunk rest] show ?thesis by (subst readLine.simps) auto
    qed
  qed
  show "LF \<in> set s \<Longrightarrow> readLine '''' s = (take maxLineBytes (dropCR ?line), False, drop (Suc (length ?line)) s)"
    using all by (cases "s = ''''") auto
  show "LF \<notin> set s \<Longrightarrow> s \<noteq> '''' \<Longrightarrow> \<exists>failed. readLine '''' s = (take maxLineBytes s, failed, '''')"
    using all by auto
qed

text \<open>A client that keeps what it is given, over one that may fail and change the world.\<close>

definition recorded :: "(string \<Rightarrow> ('w, string, unit) sm) \<Rightarrow> string \<Rightarrow> ('w \<times> string list, string, unit) sm" where
  "recorded emit line = (\<lambda>(w, out). case emit line w of (r, w') \<Rightarrow> (r, w', out @ [line]))"

lemma recorded_apply: "recorded emit line (w, out) = (case emit line w of (r, w') \<Rightarrow> (r, w', out @ [line]))"
  by (simp add: recorded_def)

text \<open>One round of the loop, by what \<open>readLine\<close> finds.\<close>

lemma streamLines_end:
  "streamLines ctxErr emit readErr '''' w =
     (case ctxErr w of Some err \<Rightarrow> Inl err
      | None \<Rightarrow> (case readErr of None \<Rightarrow> Inr () | Some err \<Rightarrow> Inl (''read pod logs: '' @ err)), w)"
  by (subst streamLines.simps) (simp add: readLine_line split: option.splits)

lemma streamLines_line:
  "LF \<in> set s \<Longrightarrow> streamLines ctxErr emit readErr s w =
     (case emit (take maxLineBytes (dropCR (takeWhile (\<lambda>c. c \<noteq> LF) s))) w of
        (Inl err, w1) \<Rightarrow> (Inl err, w1)
      | (Inr _, w1) \<Rightarrow> (case ctxErr w1 of Some err \<Rightarrow> (Inl err, w1)
          | None \<Rightarrow> streamLines ctxErr emit readErr (drop (Suc (length (takeWhile (\<lambda>c. c \<noteq> LF) s))) s) w1))"
  by (subst streamLines.simps) (simp add: readLine_line(2) split: prod.split sum.split)

lemma streamLines_last:
  assumes "LF \<notin> set s" and "s \<noteq> ''''"
  shows "streamLines ctxErr emit readErr s w =
     (case emit (take maxLineBytes s) w of
        (Inl err, w1) \<Rightarrow> (Inl err, w1)
      | (Inr _, w1) \<Rightarrow> streamLines ctxErr emit readErr '''' w1)"
proof -
  obtain f where f: "readLine '''' s = (take maxLineBytes s, f, '''')" using readLine_line(3) [OF assms] by blast
  have "take maxLineBytes s \<noteq> ''''" using assms(2) by (simp add: maxLineBytes_def)
  with f show ?thesis
    unfolding streamLines_end by (subst streamLines.simps) (simp add: streamLines_end split: prod.split sum.split option.split)
qed

lemma streamLines_emits:
  assumes "streamLines (\<lambda>w. ctxErr (fst w)) (recorded emit) readErr s (w, out) = (r, (w', out'))"
  shows "\<exists>ls. out' = out @ ls \<and> prefix ls (map (take maxLineBytes) (logLines s)) \<and>
    (r = Inr () \<longrightarrow> ls = map (take maxLineBytes) (logLines s) \<and> readErr = None)"
  using assms
proof (induction s arbitrary: w out rule: logLines.induct)
  case (1 s)
  let ?line = "takeWhile (\<lambda>c. c \<noteq> LF) s" and ?rest = "drop (Suc (length (takeWhile (\<lambda>c. c \<noteq> LF) s))) s"
  note run = 1(2)
  consider "s = ''''" | "LF \<in> set s" | "s \<noteq> ''''" "LF \<notin> set s" by blast
  then show ?case
  proof cases
    case 1
    with run show ?thesis by (auto simp: streamLines_end split: option.splits)
  next
    case 2
    have ls: "logLines s = dropCR ?line # logLines ?rest"
      using 2 by (subst logLines.simps) (auto simp: Let_def)
    obtain e w1 where e: "emit (take maxLineBytes (dropCR ?line)) w = (e, w1)" by fastforce
    show ?thesis
    proof (cases "e = Inr () \<and> ctxErr w1 = None")
      case True
      with run e 2 have "streamLines (\<lambda>w. ctxErr (fst w)) (recorded emit) readErr ?rest
          (w1, out @ [take maxLineBytes (dropCR ?line)]) = (r, w', out')"
        by (simp add: streamLines_line recorded_apply)
      with 1(1) [OF refl _ 2] 2 obtain ks where "out' = out @ take maxLineBytes (dropCR ?line) # ks"
        "prefix ks (map (take maxLineBytes) (logLines ?rest))"
        "r = Inr () \<longrightarrow> ks = map (take maxLineBytes) (logLines ?rest) \<and> readErr = None" by fastforce
      then show ?thesis by (intro exI [of _ "take maxLineBytes (dropCR ?line) # ks"]) (simp add: ls)
    next
      case False
      with run e 2 have "out' = out @ [take maxLineBytes (dropCR ?line)]" "r \<noteq> Inr ()"
        by (auto simp: streamLines_line recorded_apply split: sum.splits option.splits)
      then show ?thesis by (simp add: ls)
    qed
  next
    case 3
    have ls: "logLines s = [s]" using 3 by (subst logLines.simps) (auto simp: takeWhile_eq_all_conv)
    obtain e w1 where e: "emit (take maxLineBytes s) w = (e, w1)" by fastforce
    with run 3 show ?thesis
      by (auto simp: ls streamLines_last streamLines_end recorded_apply split: sum.splits option.splits)
  qed
qed

lemma streamLines_completes:
  assumes "\<And>l w. fst (emit l w) = Inr ()" and "\<And>w. ctxErr w = None"
  shows "fst (streamLines ctxErr emit readErr s w) =
    (case readErr of None \<Rightarrow> Inr () | Some err \<Rightarrow> Inl (''read pod logs: '' @ err))"
proof (induction s arbitrary: w rule: logLines.induct)
  case (1 s)
  have e: "\<exists>w1. emit l w = (Inr (), w1)" for l w using assms(1) [of l w] by (cases "emit l w") auto
  consider "s = ''''" | "LF \<in> set s" | "s \<noteq> ''''" "LF \<notin> set s" by blast
  then show ?case
  proof cases
    case 1
    then show ?thesis by (simp add: streamLines_end assms(2) split: option.split)
  next
    case 2
    obtain w1 where "emit (take maxLineBytes (dropCR (takeWhile (\<lambda>c. c \<noteq> LF) s))) w = (Inr (), w1)" using e by blast
    moreover have "s \<noteq> ''''" using 2 by auto
    ultimately show ?thesis using 1 [OF refl _ 2] 2 by (simp add: streamLines_line assms(2))
  next
    case 3
    obtain w1 where "emit (take maxLineBytes s) w = (Inr (), w1)" using e by blast
    with 3 show ?thesis by (simp add: streamLines_last streamLines_end assms(2) split: option.split)
  qed
qed

lemma recorded_ok: "(\<And>l w. fst (emit l w) = Inr ()) \<Longrightarrow> fst (recorded emit l w) = Inr ()"
  by (cases w; cases "emit l (fst w)") (simp add: recorded_apply, metis fst_conv)

lemma logLines_noLF: "l \<in> set (logLines s) \<Longrightarrow> LF \<notin> set l"
proof (induction s rule: logLines.induct)
  case (1 s)
  have d: "set (dropCR k) \<subseteq> set k" for k by (auto simp: dropCR_def dest: in_set_butlastD)
  have t: "LF \<notin> set (takeWhile (\<lambda>c. c \<noteq> LF) s)" by (auto dest: set_takeWhileD)
  show ?case
  proof (cases "LF \<in> set s")
    case True
    then have "logLines s = dropCR (takeWhile (\<lambda>c. c \<noteq> LF) s) # logLines (drop (Suc (length (takeWhile (\<lambda>c. c \<noteq> LF) s))) s)"
      by (subst logLines.simps) (auto simp: Let_def)
    with 1(2) consider "l = dropCR (takeWhile (\<lambda>c. c \<noteq> LF) s)"
      | "l \<in> set (logLines (drop (Suc (length (takeWhile (\<lambda>c. c \<noteq> LF) s))) s))" by auto
    then show ?thesis
    proof cases
      case 1
      with d t show ?thesis by blast
    next
      case 2
      have "s \<noteq> ''''" using True by auto
      from 1(1) [OF refl this True 2] show ?thesis .
    qed
  next
    case False
    with 1(2) have "l = takeWhile (\<lambda>c. c \<noteq> LF) s"
      by (subst (asm) logLines.simps) (auto simp: Let_def split: if_splits)
    with t show ?thesis by blast
  qed
qed

text \<open>What the streamer emits of a pod's log, whatever the client does with a line and whenever the context ends:
  the first of the log's lines in order, each cut to \<open>maxLineBytes\<close> bytes and without a line feed. All of them, when it
  returns without an error; and when no emission fails and nobody cancels, it emits all of them and returns, with the
  reader's error if that is what ended the log.\<close>

theorem stream_lines:
  assumes "opener (lq_Namespace request) (lq_Pod request) (logOptions request) = Inr reader"
    and "Stream opener (\<lambda>w. ctxErr (fst w)) request (recorded emit) (w, []) = (r, (w', out))"
    and "all = map (take maxLineBytes) (logLines (ld_Content reader))"
  shows "prefix out all \<and> list_all (\<lambda>l. length l \<le> maxLineBytes \<and> LF \<notin> set l) out \<and>
    (r = Inr () \<longrightarrow> out = all \<and> ld_Error reader = None) \<and>
    ((\<forall>l v. fst (emit l v) = Inr ()) \<and> (\<forall>v. ctxErr v = None) \<and>
       TrimSpace (lq_Namespace request) \<noteq> '''' \<and> TrimSpace (lq_Pod request) \<noteq> '''' \<longrightarrow>
     r = (case ld_Error reader of None \<Rightarrow> Inr () | Some err \<Rightarrow> Inl (''read pod logs: '' @ err)))"
proof -
  have small: "length l \<le> maxLineBytes \<and> LF \<notin> set l" if "l \<in> set all" for l
    using that logLines_noLF by (auto simp: assms(3) dest: in_set_takeD)
  show ?thesis
  proof (cases "TrimSpace (lq_Namespace request) = '''' \<or> TrimSpace (lq_Pod request) = ''''")
    case True
    with assms(2) have "out = []" "r \<noteq> Inr ()" by (auto simp: Stream_def throw_def)
    with True show ?thesis by auto
  next
    case False
    with assms(1,2) have run: "streamLines (\<lambda>w. ctxErr (fst w)) (recorded emit) (ld_Error reader) (ld_Content reader) (w, []) =
        (r, (w', out))" by (simp add: Stream_def)
    from streamLines_emits [OF this] have p: "prefix out all" "r = Inr () \<Longrightarrow> out = all \<and> ld_Error reader = None"
      by (auto simp: assms(3))
    then have "list_all (\<lambda>l. length l \<le> maxLineBytes \<and> LF \<notin> set l) out"
      using small by (auto simp: list_all_iff prefix_def)
    moreover have "r = (case ld_Error reader of None \<Rightarrow> Inr () | Some err \<Rightarrow> Inl (''read pod logs: '' @ err))"
      if "\<forall>l v. fst (emit l v) = Inr ()" "\<forall>v. ctxErr v = None"
      using streamLines_completes [of "recorded emit" "\<lambda>w. ctxErr (fst w)" "ld_Error reader" "ld_Content reader" "(w, [])"]
        that recorded_ok [of emit] run by simp
    ultimately show ?thesis using p by blast
  qed
qed

definition tailRequest :: LogRequest where
  "tailRequest = \<lparr>lq_Namespace = ''web'', lq_Pod = ''p'', lq_Container = '''', lq_Follow = False, lq_TailLines = 200,
     lq_Previous = False, lq_SinceSeconds = 0\<rparr>"

definition tailLog :: LogReader where
  "tailLog = \<lparr>ld_Content = ''one'' @ [CR, LF] @ ''two'', ld_Error = None\<rparr>"

theorem stream_lines_witness:
  "snd (snd (Stream (\<lambda>ns pod opts. Inr tailLog) (\<lambda>w. None) tailRequest (recorded (\<lambda>l w. (Inr (), w))) ((), []))) = [''one'', ''two'']"
proof -
  have n: "TrimSpace ''web'' = ''web''" "TrimSpace ''p'' = ''p''" by code_simp+
  have l: "logLines (''one'' @ [CR, LF] @ ''two'') = [''one'', ''two'']"
    by (simp add: logLines.simps dropCR_def Let_def)
  obtain r w' out where run: "Stream (\<lambda>ns pod opts. Inr tailLog) (\<lambda>w. None) tailRequest (recorded (\<lambda>l w. (Inr (), w))) ((), []) =
      (r, (w', out))" by (metis prod_cases3)
  from stream_lines [where ctxErr = "\<lambda>_. None" and emit = "\<lambda>l w. (Inr (), w)" and opener = "\<lambda>ns pod opts. Inr tailLog", OF refl run refl]
  have "out = [''one'', ''two'']" by (simp add: tailRequest_def n tailLog_def l [simplified] maxLineBytes_def)
  then show ?thesis unfolding run by simp
qed

end
