(* ===== verification/AgentChannel.thy ===== *)
theory AgentChannel
  imports AgentLogs
begin

text \<open>
  The client of \<open>internal/agent/logs\<close>: the reverse channel to the hub. One connection has a reader, which starts and
  stops streams, one worker per stream, and a writer; they meet in the stream table, the bounded queue of outbound
  frames and the contexts. A step of the channel is one of them getting on; a state is what they share.
\<close>

section \<open>The endpoint and the connection\<close>

definition sendQueueSize :: nat where
  "sendQueueSize = 256"

definition minReconnectDelay :: duration where
  "minReconnectDelay = Second"

definition maxReconnectDelay :: duration where
  "maxReconnectDelay = 30 * Second"

definition logChannelEndpoint :: "string \<Rightarrow> string \<Rightarrow> string" where
  "logChannelEndpoint hubURL clusterName =
     (let endpoint = TrimRightC (CHR ''/'') (TrimSpace hubURL) in
      (if HasPrefix endpoint ''https://'' then ''wss://'' @ TrimPrefix endpoint ''https://''
       else if HasPrefix endpoint ''http://'' then ''ws://'' @ TrimPrefix endpoint ''http://''
       else endpoint) @ ''/api/v1/agents/'' @ PathEscape clusterName @ ''/logs'')"

record LogClient =
  lgc_endpoint :: string
  lgc_token :: string
  lgc_tenantID :: string

definition NewLogClient :: "string \<Rightarrow> string \<Rightarrow> string \<Rightarrow> string \<Rightarrow> LogClient" where
  "NewLogClient hubURL clusterName token tenantID =
     \<lparr>lgc_endpoint = logChannelEndpoint hubURL clusterName, lgc_token = token, lgc_tenantID = tenantID\<rparr>"

text \<open>A dial: the request the handshake makes, and what comes of it. A refused handshake has a plain response, whose
  body becomes part of the error; a connection is served until it fails.\<close>

definition dialRequest :: "LogClient \<Rightarrow> AgentRequest" where
  "dialRequest c =
     \<lparr>aq_Method = ''GET'', aq_URL = lgc_endpoint c,
      aq_Header = [(''Authorization'', ''Bearer '' @ lgc_token c)] @
        (if lgc_tenantID c \<noteq> '''' then [(tenantHeader, lgc_tenantID c)] else []),
      aq_Payload = NoPayload\<rparr>"

definition connectChannel ::
  "(AgentRequest \<Rightarrow> (string \<times> 'b Reply option) + 'c) \<Rightarrow> 'b Codec \<Rightarrow> ('c \<Rightarrow> string option) \<Rightarrow> LogClient \<Rightarrow> string option" where
  "connectChannel dial codec serve c =
     (case dial (dialRequest c) of
        Inl (err, response) \<Rightarrow>
          let detail = (case response of None \<Rightarrow> '''' | Some r \<Rightarrow> Detail codec r)
          in Some (if detail \<noteq> '''' then err @ '': '' @ detail else err)
      | Inr conn \<Rightarrow> serve conn)"

text \<open>\<open>Run\<close>: per round, whether the context has ended before connecting, when the connection is over, and while
  waiting. The waits it makes, and whether it has returned (it never does if nobody cancels).\<close>

fun runChannel :: "duration \<Rightarrow> (bool \<times> bool \<times> bool) list \<Rightarrow> duration list \<times> bool" where
  "runChannel delay [] = ([], False)"
| "runChannel delay ((before, after, waiting) # rounds) =
     (if before then ([], True) else if after then ([], True)
      else if waiting then ([delay], True)
      else let delay' = delay * 2;
               delay' = (if delay' > maxReconnectDelay then maxReconnectDelay else delay');
               (waits, returned) = runChannel delay' rounds
           in (delay # waits, returned))"

section \<open>What the goroutines of a connection share\<close>

datatype stage = Reading "string list" | Checking "string list" | Ending | Returned | Gone

text \<open>A worker reads the next of these lines, has emitted a line and looks at its context, has read the whole log
  and owes the end frame, has returned from \<open>runStream\<close>, or has run its deferred calls.\<close>

record worker =
  wk_Message :: LogStreamMessage
  wk_Cancelled :: bool
  wk_Stage :: stage

record channel =
  lc_Inbound :: "LogStreamMessage list"
  lc_Streams :: "string \<Rightarrow> nat option"
  lc_Workers :: "worker list"
  lc_Outbound :: "LogStreamMessage list"
  lc_Written :: "LogStreamMessage list"
  lc_Dropped :: "LogStreamMessage list"
  lc_Closed :: bool

definition newChannel :: "LogStreamMessage list \<Rightarrow> channel" where
  "newChannel inbound =
     \<lparr>lc_Inbound = inbound, lc_Streams = (\<lambda>_. None), lc_Workers = [], lc_Outbound = [], lc_Written = [], lc_Dropped = [], lc_Closed = False\<rparr>"

definition streamRequest :: "LogStreamMessage \<Rightarrow> LogRequest" where
  "streamRequest message =
     \<lparr>lq_Namespace = lm_Namespace message, lq_Pod = lm_Pod message, lq_Container = lm_Container message,
      lq_Follow = lm_Follow message, lq_TailLines = lm_TailLines message, lq_Previous = lm_Previous message,
      lq_SinceSeconds = lm_SinceSeconds message\<rparr>"

text \<open>What \<open>Stream\<close> emits for a request, and the error it ends with, when nobody interrupts it.\<close>

definition podLog :: "unit opener \<Rightarrow> LogRequest \<Rightarrow> string list \<times> string option" where
  "podLog opener request =
     (case Stream opener (\<lambda>_. None) request (recorded (\<lambda>line w. (Inr (), w))) ((), []) of
        (Inr _, (_, out)) \<Rightarrow> (out, None) | (Inl err, (_, out)) \<Rightarrow> (out, Some err))"

definition wireFrame :: "string \<Rightarrow> string \<Rightarrow> LogStreamMessage" where
  "wireFrame ty sid = \<lparr>lm_Type = ty, lm_StreamID = sid, lm_Namespace = '''', lm_Pod = '''', lm_Container = '''',
     lm_Follow = False, lm_TailLines = 0, lm_Previous = False, lm_SinceSeconds = 0, lm_Line = '''', lm_Error = ''''\<rparr>"

definition lineFrame :: "string \<Rightarrow> string \<Rightarrow> LogStreamMessage" where
  "lineFrame sid line = (wireFrame LogStreamData sid)\<lparr>lm_Line := line\<rparr>"

definition endFrame :: "string \<Rightarrow> string option \<Rightarrow> LogStreamMessage" where
  "endFrame sid err = (wireFrame LogStreamEnd sid)\<lparr>lm_Error := (case err of None \<Rightarrow> '''' | Some e \<Rightarrow> e)\<rparr>"

definition wk_ID :: "worker \<Rightarrow> string" where
  "wk_ID w = lm_StreamID (wk_Message w)"

section \<open>What they do\<close>

definition setStage :: "nat \<Rightarrow> stage \<Rightarrow> channel \<Rightarrow> channel" where
  "setStage i st ch = ch\<lparr>lc_Workers := (lc_Workers ch)[i := (lc_Workers ch ! i)\<lparr>wk_Stage := st\<rparr>]\<rparr>"

definition cancelStream :: "nat \<Rightarrow> channel \<Rightarrow> channel" where
  "cancelStream i ch = ch\<lparr>lc_Workers := (lc_Workers ch)[i := (lc_Workers ch ! i)\<lparr>wk_Cancelled := True\<rparr>]\<rparr>"

text \<open>The context of a worker is a child of the connection's: after that is cancelled it is cancelled from the start.\<close>

definition startStream :: "unit opener \<Rightarrow> LogStreamMessage \<Rightarrow> channel \<Rightarrow> channel" where
  "startStream opener message ch =
     (if lm_StreamID message = '''' then ch
      else if lc_Streams ch (lm_StreamID message) \<noteq> None then ch
      else ch\<lparr>lc_Streams := (lc_Streams ch)(lm_StreamID message \<mapsto> length (lc_Workers ch)),
              lc_Workers := lc_Workers ch @ [\<lparr>wk_Message = message, wk_Cancelled = lc_Closed ch,
                wk_Stage = Reading (fst (podLog opener (streamRequest message)))\<rparr>]\<rparr>)"

definition stopStream :: "LogStreamMessage \<Rightarrow> channel \<Rightarrow> channel" where
  "stopStream message ch =
     (case lc_Streams ch (lm_StreamID message) of None \<Rightarrow> ch
      | Some i \<Rightarrow> cancelStream i (ch\<lparr>lc_Streams := (lc_Streams ch)(lm_StreamID message := None)\<rparr>))"

definition readFrame :: "unit opener \<Rightarrow> channel \<Rightarrow> channel" where
  "readFrame opener ch =
     (case lc_Inbound ch of [] \<Rightarrow> ch
      | message # rest \<Rightarrow>
          let ch = ch\<lparr>lc_Inbound := rest\<rparr> in
          if lm_Type message = LogStreamStart then startStream opener message ch
          else if lm_Type message = LogStreamStop then stopStream message ch
          else ch)"

text \<open>Sending blocks while the queue is full.\<close>

definition sendFrame :: "LogStreamMessage \<Rightarrow> channel \<Rightarrow> channel option" where
  "sendFrame message ch =
     (if length (lc_Outbound ch) < sendQueueSize then Some (ch\<lparr>lc_Outbound := lc_Outbound ch @ [message]\<rparr>) else None)"

definition workerDone :: "nat \<Rightarrow> channel \<Rightarrow> channel" where
  "workerDone i ch =
     setStage i Gone (ch\<lparr>lc_Streams := (lc_Streams ch)(wk_ID (lc_Workers ch ! i) := None)\<rparr>)"

definition writeFrame :: "channel \<Rightarrow> channel" where
  "writeFrame ch =
     (case lc_Outbound ch of [] \<Rightarrow> ch
      | message # rest \<Rightarrow> ch\<lparr>lc_Outbound := rest, lc_Written := lc_Written ch @ [message]\<rparr>)"

text \<open>The write of a frame that has been taken from the queue fails: the writer returns, and so does \<open>serve\<close>.\<close>

definition dropFrame :: "channel \<Rightarrow> channel" where
  "dropFrame ch =
     (case lc_Outbound ch of [] \<Rightarrow> ch
      | message # rest \<Rightarrow> ch\<lparr>lc_Outbound := rest, lc_Dropped := lc_Dropped ch @ [message]\<rparr>)"

definition closeChannel :: "channel \<Rightarrow> channel" where
  "closeChannel ch = ch\<lparr>lc_Closed := True, lc_Workers := map (\<lambda>w. w\<lparr>wk_Cancelled := True\<rparr>) (lc_Workers ch)\<rparr>"

text \<open>
  The steps. A cancelled worker may still win the race for a place in the queue (\<open>emit\<close> has no condition on the
  context); it then sees the context in the check that follows. Cancelling also closes the log's reader in the middle
  of a line, which may leave a part of that line, its carriage return included, as a last one. \<open>interrupted\<close> is every
  place where a cancelled worker gives up.
\<close>

inductive channel_step :: "unit opener \<Rightarrow> channel \<Rightarrow> channel \<Rightarrow> bool" for opener where
  read_frame: "lc_Inbound ch \<noteq> [] \<Longrightarrow> channel_step opener ch (readFrame opener ch)"
| emit: "i < length (lc_Workers ch) \<Longrightarrow> wk_Stage (lc_Workers ch ! i) = Reading (line # rest) \<Longrightarrow>
    sendFrame (lineFrame (wk_ID (lc_Workers ch ! i)) line) ch = Some ch' \<Longrightarrow>
    channel_step opener ch (setStage i (Checking rest) ch')"
| emit_part: "i < length (lc_Workers ch) \<Longrightarrow> wk_Stage (lc_Workers ch ! i) = Reading (line # rest) \<Longrightarrow>
    wk_Cancelled (lc_Workers ch ! i) \<Longrightarrow> prefix part (line @ [CR]) \<Longrightarrow> part \<noteq> '''' \<Longrightarrow>
    sendFrame (lineFrame (wk_ID (lc_Workers ch ! i)) part) ch = Some ch' \<Longrightarrow>
    channel_step opener ch (setStage i Returned ch')"
| go_on: "i < length (lc_Workers ch) \<Longrightarrow> wk_Stage (lc_Workers ch ! i) = Checking rest \<Longrightarrow>
    \<not> wk_Cancelled (lc_Workers ch ! i) \<Longrightarrow> channel_step opener ch (setStage i (Reading rest) ch)"
| finished: "i < length (lc_Workers ch) \<Longrightarrow> wk_Stage (lc_Workers ch ! i) = Reading [] \<Longrightarrow>
    \<not> wk_Cancelled (lc_Workers ch ! i) \<Longrightarrow> channel_step opener ch (setStage i Ending ch)"
| send_end: "i < length (lc_Workers ch) \<Longrightarrow> wk_Stage (lc_Workers ch ! i) = Ending \<Longrightarrow>
    sendFrame (endFrame (wk_ID (lc_Workers ch ! i))
      (snd (podLog opener (streamRequest (wk_Message (lc_Workers ch ! i)))))) ch = Some ch' \<Longrightarrow>
    channel_step opener ch (setStage i Returned ch')"
| interrupted: "i < length (lc_Workers ch) \<Longrightarrow> wk_Cancelled (lc_Workers ch ! i) \<Longrightarrow>
    wk_Stage (lc_Workers ch ! i) \<notin> {Returned, Gone} \<Longrightarrow> channel_step opener ch (setStage i Returned ch)"
| cleanup: "i < length (lc_Workers ch) \<Longrightarrow> wk_Stage (lc_Workers ch ! i) = Returned \<Longrightarrow>
    channel_step opener ch (workerDone i ch)"
| writing: "lc_Outbound ch \<noteq> [] \<Longrightarrow> \<not> lc_Closed ch \<Longrightarrow> channel_step opener ch (writeFrame ch)"
| write_failed: "lc_Outbound ch \<noteq> [] \<Longrightarrow> lc_Dropped ch = [] \<Longrightarrow>
    channel_step opener ch (closeChannel (dropFrame ch))"
| closing: "channel_step opener ch (closeChannel ch)"

definition channel_reachable :: "unit opener \<Rightarrow> LogStreamMessage list \<Rightarrow> channel \<Rightarrow> bool" where
  "channel_reachable opener inbound = (channel_step opener)\<^sup>*\<^sup>* (newChannel inbound)"

end
