(* ===== verification/AgentLogFacts.thy ===== *)
theory AgentLogFacts
  imports AgentChannel LogFacts
begin

text \<open>
  The agent's log channel in every interleaving of its reader, workers and writer: what has been sent of each stream.
\<close>

section \<open>The invariant\<close>

definition startIDs :: "LogStreamMessage list \<Rightarrow> string list" where
  "startIDs ms = map lm_StreamID (filter (\<lambda>m. lm_Type m = LogStreamStart) ms)"

definition framesOf :: "string \<Rightarrow> channel \<Rightarrow> LogStreamMessage list" where
  "framesOf sid ch = filter (\<lambda>m. lm_StreamID m = sid) (lc_Written ch @ lc_Dropped ch @ lc_Outbound ch)"

text \<open>The first lines of a log, and maybe a part of the next one.\<close>

definition cutShort :: "string list \<Rightarrow> string list \<Rightarrow> bool" where
  "cutShort lines out \<longleftrightarrow> prefix out lines \<or>
     (\<exists>ls l rest part. lines = ls @ l # rest \<and> out = ls @ [part] \<and> prefix part (l @ [CR]))"

fun sentOK :: "string \<Rightarrow> string list \<times> string option \<Rightarrow> bool \<Rightarrow> stage \<Rightarrow> LogStreamMessage list \<Rightarrow> bool" where
  "sentOK sid (lines, err) cancelled (Reading rest) fs = (\<exists>ls. lines = ls @ rest \<and> fs = map (lineFrame sid) ls)"
| "sentOK sid (lines, err) cancelled (Checking rest) fs = (\<exists>ls. lines = ls @ rest \<and> fs = map (lineFrame sid) ls)"
| "sentOK sid (lines, err) cancelled Ending fs = (fs = map (lineFrame sid) lines)"
| "sentOK sid (lines, err) cancelled _ fs =
     (fs = map (lineFrame sid) lines @ [endFrame sid err] \<or>
      cancelled \<and> (\<exists>out. fs = map (lineFrame sid) out \<and> cutShort lines out))"

definition workerOK :: "unit opener \<Rightarrow> channel \<Rightarrow> worker \<Rightarrow> bool" where
  "workerOK opener ch w \<longleftrightarrow>
     sentOK (wk_ID w) (podLog opener (streamRequest (wk_Message w))) (wk_Cancelled w) (wk_Stage w) (framesOf (wk_ID w) ch)"

definition channelOK :: "unit opener \<Rightarrow> channel \<Rightarrow> bool" where
  "channelOK opener ch \<longleftrightarrow>
     (\<forall>i < length (lc_Workers ch). workerOK opener ch (lc_Workers ch ! i)) \<and>
     distinct (map wk_ID (lc_Workers ch) @ startIDs (lc_Inbound ch)) \<and>
     (\<forall>m \<in> set (lc_Written ch @ lc_Dropped ch @ lc_Outbound ch). lm_StreamID m \<in> set (map wk_ID (lc_Workers ch))) \<and>
     (\<forall>sid i. lc_Streams ch sid = Some i \<longrightarrow> i < length (lc_Workers ch) \<and> wk_ID (lc_Workers ch ! i) = sid \<and>
        wk_Stage (lc_Workers ch ! i) \<noteq> Gone) \<and>
     length (lc_Outbound ch) \<le> sendQueueSize \<and> (lc_Dropped ch \<noteq> [] \<longrightarrow> lc_Closed ch)"

lemma channelOK_new: "distinct (startIDs inbound) \<Longrightarrow> channelOK opener (newChannel inbound)"
  by (simp add: channelOK_def newChannel_def)

lemma frame_ids [simp]: "lm_StreamID (lineFrame sid l) = sid" "lm_StreamID (endFrame sid e) = sid"
  by (simp_all add: lineFrame_def endFrame_def wireFrame_def)

lemma wk_ID_update [simp]: "wk_ID (w\<lparr>wk_Stage := st\<rparr>) = wk_ID w" "wk_ID (w\<lparr>wk_Cancelled := b\<rparr>) = wk_ID w"
  by (simp_all add: wk_ID_def)

lemma channelOK_D:
  assumes "channelOK opener ch"
  shows "\<And>i. i < length (lc_Workers ch) \<Longrightarrow> workerOK opener ch (lc_Workers ch ! i)"
    "distinct (map wk_ID (lc_Workers ch) @ startIDs (lc_Inbound ch))"
    "\<And>m. m \<in> set (lc_Written ch @ lc_Dropped ch @ lc_Outbound ch) \<Longrightarrow> lm_StreamID m \<in> set (map wk_ID (lc_Workers ch))"
    "\<And>sid i. lc_Streams ch sid = Some i \<Longrightarrow> i < length (lc_Workers ch) \<and> wk_ID (lc_Workers ch ! i) = sid \<and>
        wk_Stage (lc_Workers ch ! i) \<noteq> Gone"
    "length (lc_Outbound ch) \<le> sendQueueSize" "lc_Dropped ch \<noteq> [] \<Longrightarrow> lc_Closed ch"
  using assms unfolding channelOK_def by blast+

lemma other_worker:
  assumes "channelOK opener ch" and "i < length (lc_Workers ch)" and "j < length (lc_Workers ch)" and "i \<noteq> j"
  shows "wk_ID (lc_Workers ch ! i) \<noteq> wk_ID (lc_Workers ch ! j)"
proof -
  have "distinct (map wk_ID (lc_Workers ch))" using channelOK_D(2) [OF assms(1)] by simp
  with assms(2-4) show ?thesis by (metis length_map nth_eq_iff_index_eq nth_map)
qed

text \<open>The ways a step changes one worker: its stage, with or without a frame of its own, or its context.\<close>

lemma map_update_id: "i < length ws \<Longrightarrow> wk_ID w = wk_ID (ws ! i) \<Longrightarrow> map wk_ID (ws[i := w]) = map wk_ID ws"
  by (metis list_update_id map_update nth_map length_map)

lemma channelOK_update:
  assumes "channelOK opener ch" and i: "i < length (lc_Workers ch)"
    and w: "wk_ID w = wk_ID (lc_Workers ch ! i)" and ws: "lc_Workers ch' = (lc_Workers ch)[i := w]"
    and fs: "lc_Written ch' @ lc_Dropped ch' @ lc_Outbound ch' = (lc_Written ch @ lc_Dropped ch @ lc_Outbound ch) @ new"
      "\<And>m. m \<in> set new \<Longrightarrow> lm_StreamID m = wk_ID w"
    and ok: "workerOK opener ch' w" and inb: "lc_Inbound ch' = lc_Inbound ch"
    and tab: "\<And>sid k. lc_Streams ch' sid = Some k \<Longrightarrow> lc_Streams ch sid = Some k \<and> (k = i \<longrightarrow> wk_Stage w \<noteq> Gone)"
    and room: "length (lc_Outbound ch') \<le> sendQueueSize" and up: "lc_Dropped ch' = lc_Dropped ch" "lc_Closed ch' = lc_Closed ch"
  shows "channelOK opener ch'"
proof -
  note I = channelOK_D [OF assms(1)]
  have ids: "map wk_ID (lc_Workers ch') = map wk_ID (lc_Workers ch)" using i w by (simp add: ws map_update_id)
  have "workerOK opener ch' (lc_Workers ch' ! j)" if j: "j < length (lc_Workers ch)" for j
  proof (cases "j = i")
    case False
    then have "wk_ID (lc_Workers ch ! j) \<noteq> wk_ID w" using other_worker [OF assms(1) j i] w by simp
    then have "framesOf (wk_ID (lc_Workers ch ! j)) ch' = framesOf (wk_ID (lc_Workers ch ! j)) ch"
      using fs(2) by (simp add: framesOf_def fs(1) del: append_assoc)
    with I(1) [OF j] False show ?thesis by (simp add: ws workerOK_def)
  qed (use ok i in \<open>simp add: ws\<close>)
  moreover have "lm_StreamID m \<in> set (map wk_ID (lc_Workers ch'))" if "m \<in> set (lc_Written ch' @ lc_Dropped ch' @ lc_Outbound ch')" for m
  proof (cases "m \<in> set new")
    case True
    then have "lm_StreamID m = wk_ID (lc_Workers ch ! i)" using fs(2) w by simp
    then show ?thesis unfolding ids using i by (metis in_set_conv_nth length_map nth_map)
  next
    case False
    with that fs(1) have "m \<in> set (lc_Written ch @ lc_Dropped ch @ lc_Outbound ch)" by (metis UnE set_append)
    then show ?thesis unfolding ids by (rule I(3))
  qed
  moreover have "k < length (lc_Workers ch) \<and> wk_ID (lc_Workers ch' ! k) = sid \<and> wk_Stage (lc_Workers ch' ! k) \<noteq> Gone"
    if "lc_Streams ch' sid = Some k" for sid k
    using tab [OF that] I(4) [of sid k] i w by (cases "k = i") (auto simp: ws)
  ultimately show ?thesis
    using I(2,6) room unfolding channelOK_def ids inb up by (auto simp: ws)
qed

section \<open>Every step keeps it\<close>

lemma setStage_simps [simp]:
  "lc_Written (setStage i st ch) = lc_Written ch" "lc_Dropped (setStage i st ch) = lc_Dropped ch" "lc_Outbound (setStage i st ch) = lc_Outbound ch"
  "lc_Inbound (setStage i st ch) = lc_Inbound ch" "lc_Streams (setStage i st ch) = lc_Streams ch"
  "lc_Closed (setStage i st ch) = lc_Closed ch"
  "lc_Workers (setStage i st ch) = (lc_Workers ch)[i := (lc_Workers ch ! i)\<lparr>wk_Stage := st\<rparr>]"
  "framesOf sid (setStage i st ch) = framesOf sid ch"
  by (simp_all add: setStage_def framesOf_def)

lemma sendFrame_ok:
  assumes "sendFrame m ch = Some ch'"
  shows "lc_Written ch' = lc_Written ch \<and> lc_Dropped ch' = lc_Dropped ch \<and> lc_Closed ch' = lc_Closed ch"
    "lc_Outbound ch' = lc_Outbound ch @ [m]" "lc_Inbound ch' = lc_Inbound ch"
    "lc_Streams ch' = lc_Streams ch" "lc_Workers ch' = lc_Workers ch" "length (lc_Outbound ch') \<le> sendQueueSize"
    "framesOf sid ch' = framesOf sid ch @ (if lm_StreamID m = sid then [m] else [])"
  using assms by (auto simp: sendFrame_def framesOf_def split: if_splits)

lemma step_stage:
  assumes "channelOK opener ch" and "i < length (lc_Workers ch)" and "st \<noteq> Gone"
    and "\<And>lines err. podLog opener (streamRequest (wk_Message (lc_Workers ch ! i))) = (lines, err) \<Longrightarrow>
      sentOK (wk_ID (lc_Workers ch ! i)) (lines, err) (wk_Cancelled (lc_Workers ch ! i)) (wk_Stage (lc_Workers ch ! i))
        (framesOf (wk_ID (lc_Workers ch ! i)) ch) \<Longrightarrow>
      sentOK (wk_ID (lc_Workers ch ! i)) (lines, err) (wk_Cancelled (lc_Workers ch ! i)) st
        (framesOf (wk_ID (lc_Workers ch ! i)) ch)"
  shows "channelOK opener (setStage i st ch)"
proof -
  obtain lines err where p: "podLog opener (streamRequest (wk_Message (lc_Workers ch ! i))) = (lines, err)" by fastforce
  have "workerOK opener (setStage i st ch) ((lc_Workers ch ! i)\<lparr>wk_Stage := st\<rparr>)"
    using assms(4) [OF p] channelOK_D(1) [OF assms(1,2)] by (simp add: workerOK_def p)
  then show ?thesis
    by (rule channelOK_update [OF assms(1,2), rotated 4, where new = "[]"])
      (use channelOK_D(5) [OF assms(1)] assms(3) in simp_all)
qed

lemma step_send:
  assumes "channelOK opener ch" and "i < length (lc_Workers ch)" and "st \<noteq> Gone" and s: "sendFrame m ch = Some ch'"
    and m: "lm_StreamID m = wk_ID (lc_Workers ch ! i)"
    and "\<And>lines err. podLog opener (streamRequest (wk_Message (lc_Workers ch ! i))) = (lines, err) \<Longrightarrow>
      sentOK (wk_ID (lc_Workers ch ! i)) (lines, err) (wk_Cancelled (lc_Workers ch ! i)) (wk_Stage (lc_Workers ch ! i))
        (framesOf (wk_ID (lc_Workers ch ! i)) ch) \<Longrightarrow>
      sentOK (wk_ID (lc_Workers ch ! i)) (lines, err) (wk_Cancelled (lc_Workers ch ! i)) st
        (framesOf (wk_ID (lc_Workers ch ! i)) ch @ [m])"
  shows "channelOK opener (setStage i st ch')"
proof -
  note S = sendFrame_ok [OF s]
  obtain lines err where p: "podLog opener (streamRequest (wk_Message (lc_Workers ch ! i))) = (lines, err)" by fastforce
  have "workerOK opener (setStage i st ch') ((lc_Workers ch ! i)\<lparr>wk_Stage := st\<rparr>)"
    using assms(6) [OF p] channelOK_D(1) [OF assms(1,2)] by (simp add: workerOK_def p S m)
  then show ?thesis
    by (rule channelOK_update [OF assms(1,2), rotated 4, where new = "[m]"])
      (use S(6) assms(3) in \<open>simp_all add: S(1-5) m\<close>)
qed

lemma framesOf_workers [simp]:
  "framesOf sid (ch\<lparr>lc_Workers := ws\<rparr>) = framesOf sid ch" "framesOf sid (ch\<lparr>lc_Streams := t\<rparr>) = framesOf sid ch"
  "framesOf sid (ch\<lparr>lc_Inbound := ms\<rparr>) = framesOf sid ch" "framesOf sid (ch\<lparr>lc_Closed := b\<rparr>) = framesOf sid ch"
  by (simp_all add: framesOf_def)

lemma workerOK_frame: "framesOf (wk_ID w) ch = framesOf (wk_ID w) ch' \<Longrightarrow> workerOK opener ch w = workerOK opener ch' w"
  by (simp add: workerOK_def)

lemma sentOK_cancel: "sentOK sid log c st fs \<Longrightarrow> sentOK sid log True st fs"
  by (cases log; cases st) auto

lemma workerOK_cancel: "workerOK opener ch w \<Longrightarrow> workerOK opener ch (w\<lparr>wk_Cancelled := True\<rparr>)"
  by (auto simp: workerOK_def intro: sentOK_cancel)

lemma step_cancel:
  assumes "channelOK opener ch" and "i < length (lc_Workers ch)"
    and "\<And>sid k. t sid = Some k \<Longrightarrow> lc_Streams ch sid = Some k"
  shows "channelOK opener (cancelStream i (ch\<lparr>lc_Streams := t\<rparr>))"
proof (rule channelOK_update [OF assms(1,2), where w = "(lc_Workers ch ! i)\<lparr>wk_Cancelled := True\<rparr>" and new = "[]"])
  show "workerOK opener (cancelStream i (ch\<lparr>lc_Streams := t\<rparr>)) ((lc_Workers ch ! i)\<lparr>wk_Cancelled := True\<rparr>)"
    using workerOK_cancel [OF channelOK_D(1) [OF assms(1,2)]] by (simp add: cancelStream_def workerOK_def)
qed (use assms(3) channelOK_D(4,5) [OF assms(1)] in \<open>auto simp: cancelStream_def\<close>)

lemma step_done:
  assumes "channelOK opener ch" and "i < length (lc_Workers ch)" and "wk_Stage (lc_Workers ch ! i) = Returned"
  shows "channelOK opener (workerDone i ch)"
proof (rule channelOK_update [OF assms(1,2), where w = "(lc_Workers ch ! i)\<lparr>wk_Stage := Gone\<rparr>" and new = "[]"])
  show "workerOK opener (workerDone i ch) ((lc_Workers ch ! i)\<lparr>wk_Stage := Gone\<rparr>)"
    using channelOK_D(1) [OF assms(1,2)] assms(3) 
    by (cases "podLog opener (streamRequest (wk_Message (lc_Workers ch ! i)))") (simp add: workerDone_def workerOK_def)
qed (use channelOK_D(4,5) [OF assms(1)] in \<open>auto simp: workerDone_def split: if_splits\<close>)

lemma step_start:
  assumes I: "channelOK opener ch" and new: "lm_StreamID m \<notin> set (map wk_ID (lc_Workers ch)) \<union> set (startIDs (lc_Inbound ch))"
  shows "channelOK opener (startStream opener m ch)"
proof (cases "lm_StreamID m = '''' \<or> lc_Streams ch (lm_StreamID m) \<noteq> None")
  case True
  with I show ?thesis by (auto simp: startStream_def)
next
  case False
  let ?w = "\<lparr>wk_Message = m, wk_Cancelled = lc_Closed ch, wk_Stage = Reading (fst (podLog opener (streamRequest m)))\<rparr>"
  have w: "wk_ID ?w = lm_StreamID m" by (simp add: wk_ID_def)
  have none: "framesOf (lm_StreamID m) ch = []"
    unfolding framesOf_def filter_empty_conv using new channelOK_D(3) [OF I] by (metis UnCI)
  have "sentOK (lm_StreamID m) (podLog opener (streamRequest m)) (lc_Closed ch) (Reading (fst (podLog opener (streamRequest m)))) []"
    by (cases "podLog opener (streamRequest m)") simp
  then have ok: "workerOK opener ch ?w" unfolding workerOK_def w none by simp
  have run: "startStream opener m ch = ch\<lparr>lc_Streams := (lc_Streams ch)(lm_StreamID m \<mapsto> length (lc_Workers ch)),
      lc_Workers := lc_Workers ch @ [?w]\<rparr>" using False by (simp add: startStream_def)
  show ?thesis
    unfolding run channelOK_def
    using channelOK_D [OF I] ok new by (auto simp: nth_append w less_Suc_eq workerOK_def split: if_splits)
qed

lemma step_read:
  assumes I: "channelOK opener ch" shows "channelOK opener (readFrame opener ch)"
proof (cases "lc_Inbound ch")
  case (Cons m rest)
  let ?ch = "ch\<lparr>lc_Inbound := rest\<rparr>"
  have I': "channelOK opener ?ch"
    using I by (auto simp: channelOK_def Cons startIDs_def workerOK_def split: if_splits)
  show ?thesis
  proof (cases "lm_Type m = LogStreamStart")
    case True
    then have "lm_StreamID m \<notin> set (map wk_ID (lc_Workers ?ch)) \<union> set (startIDs (lc_Inbound ?ch))"
      using channelOK_D(2) [OF I] by (auto simp: Cons startIDs_def)
    from step_start [OF I' this] True show ?thesis by (simp add: readFrame_def Cons)
  next
    case False
    have "channelOK opener (stopStream m ?ch)"
    proof (cases "lc_Streams ?ch (lm_StreamID m)")
      case None
      with I' show ?thesis by (simp add: stopStream_def)
    next
      case (Some i)
      have "channelOK opener (cancelStream i (?ch\<lparr>lc_Streams := (lc_Streams ?ch)(lm_StreamID m := None)\<rparr>))"
        by (rule step_cancel [OF I']) (use channelOK_D(4) [OF I' Some] in \<open>auto split: if_splits\<close>)
      with Some show ?thesis by (simp add: stopStream_def)
    qed
    with False I' show ?thesis by (simp add: readFrame_def Cons Let_def)
  qed
qed (use I in \<open>simp add: readFrame_def\<close>)

lemma step_close: "channelOK opener ch \<Longrightarrow> channelOK opener (closeChannel ch)"
  by (auto simp: channelOK_def closeChannel_def comp_def workerOK_def intro: sentOK_cancel)

text \<open>The writer only runs while nothing has been dropped.\<close>

lemma step_write: "channelOK opener ch \<Longrightarrow> \<not> lc_Closed ch \<Longrightarrow> channelOK opener (writeFrame ch)"
  by (cases "lc_Outbound ch") (auto simp: channelOK_def writeFrame_def workerOK_def framesOf_def)

lemma step_drop:
  assumes "channelOK opener ch" shows "channelOK opener (closeChannel (dropFrame ch))"
proof -
  have "channelOK opener (dropFrame ch)" if "channelOK opener ch" "lc_Closed ch" for ch
    using that by (cases "lc_Outbound ch") (auto simp: channelOK_def dropFrame_def workerOK_def framesOf_def)
  from this [OF step_close [OF assms]] have "channelOK opener (dropFrame (closeChannel ch))" by (simp add: closeChannel_def)
  also have "dropFrame (closeChannel ch) = closeChannel (dropFrame ch)"
    by (simp add: dropFrame_def closeChannel_def split: list.split)
  finally show ?thesis .
qed

lemma cutShort_prefix: "prefix out lines \<Longrightarrow> cutShort lines out"
  by (simp add: cutShort_def)

lemma cutShort_part: "prefix part (l @ [CR]) \<Longrightarrow> cutShort (ls @ l # rest) (ls @ [part])"
  by (auto simp: cutShort_def)

lemma step_ok: "channel_step opener ch ch' \<Longrightarrow> channelOK opener ch \<Longrightarrow> channelOK opener ch'"
proof (induction rule: channel_step.induct)
  case (emit i ch line rest ch')
  show ?case
    by (rule step_send [OF emit.prems emit.hyps(1) _ emit.hyps(3)]) (use emit.hyps(2) in auto)
next
  case (emit_part i ch line rest part ch')
  show ?case
  proof (rule step_send [OF emit_part.prems emit_part.hyps(1) _ emit_part.hyps(6)])
    fix lines err assume "sentOK (wk_ID (lc_Workers ch ! i)) (lines, err) (wk_Cancelled (lc_Workers ch ! i))
        (wk_Stage (lc_Workers ch ! i)) (framesOf (wk_ID (lc_Workers ch ! i)) ch)"
    then obtain ls where "lines = ls @ line # rest" "framesOf (wk_ID (lc_Workers ch ! i)) ch = map (lineFrame (wk_ID (lc_Workers ch ! i))) ls"
      using emit_part.hyps(2) by auto
    then show "sentOK (wk_ID (lc_Workers ch ! i)) (lines, err) (wk_Cancelled (lc_Workers ch ! i)) Returned
        (framesOf (wk_ID (lc_Workers ch ! i)) ch @ [lineFrame (wk_ID (lc_Workers ch ! i)) part])"
      using emit_part.hyps(3) cutShort_part [OF emit_part.hyps(4), of ls rest]
      by (auto intro: exI [of _ "ls @ [part]"])
  qed simp_all
next
  case (go_on i ch rest)
  show ?case by (rule step_stage [OF go_on.prems go_on.hyps(1)]) (use go_on.hyps(2) in auto)
next
  case (finished i ch)
  show ?case by (rule step_stage [OF finished.prems finished.hyps(1)]) (use finished.hyps(2) in auto)
next
  case (send_end i ch ch')
  show ?case
    by (rule step_send [OF send_end.prems send_end.hyps(1) _ send_end.hyps(3)]) (use send_end.hyps(2) in auto)
next
  case (interrupted i ch)
  show ?case
    by (rule step_stage [OF interrupted.prems interrupted.hyps(1)])
      (use interrupted.hyps(2,3) in \<open>auto simp: cutShort_prefix split: stage.splits elim!: sentOK.elims\<close>)
qed (auto intro: step_read step_done step_write step_drop step_close)

lemma reachable_ok:
  assumes "channel_reachable opener inbound ch" and "distinct (startIDs inbound)"
  shows "channelOK opener ch"
  using assms(1) unfolding channel_reachable_def
  by (induction rule: rtranclp_induct) (auto intro: step_ok channelOK_new assms(2))

section \<open>What has been sent of each stream\<close>

text \<open>C12: In every interleaving of the channel's goroutines, with every stream id used once: what has been sent of a
  stream (written, queued, or lost in the write that failed and ended the connection) is its lines in order, nothing before them or in between; a worker that was not cancelled
  and is done has sent all of them and one end frame with the error of the log; a cancelled one has sent the first
  lines and at most a part of the next, or everything and the end frame. The queue stays within its bound, no frame is of
  a stream nobody asked for, and the stream table only has workers that are not finished.\<close>

theorem agent_stream_frames:
  assumes "channel_reachable opener inbound ch" and "distinct (startIDs inbound)"
  shows "length (lc_Outbound ch) \<le> sendQueueSize \<and>
    (\<forall>m \<in> set (lc_Written ch @ lc_Dropped ch @ lc_Outbound ch). \<exists>w \<in> set (lc_Workers ch). wk_ID w = lm_StreamID m) \<and>
    (\<forall>sid i. lc_Streams ch sid = Some i \<longrightarrow> i < length (lc_Workers ch) \<and> wk_Stage (lc_Workers ch ! i) \<noteq> Gone) \<and>
    (\<forall>w \<in> set (lc_Workers ch). \<forall>lines err. podLog opener (streamRequest (wk_Message w)) = (lines, err) \<longrightarrow>
       (let sent = framesOf (wk_ID w) ch; all = map (lineFrame (wk_ID w)) lines @ [endFrame (wk_ID w) err] in
        if wk_Stage w \<in> {Returned, Gone}
        then sent = all \<or> wk_Cancelled w \<and> (\<exists>out. sent = map (lineFrame (wk_ID w)) out \<and> cutShort lines out)
        else \<exists>ls. prefix ls lines \<and> sent = map (lineFrame (wk_ID w)) ls))"
proof -
  note I = channelOK_D [OF reachable_ok [OF assms]]
  have "if wk_Stage w \<in> {Returned, Gone}
      then framesOf (wk_ID w) ch = map (lineFrame (wk_ID w)) lines @ [endFrame (wk_ID w) err] \<or>
        wk_Cancelled w \<and> (\<exists>out. framesOf (wk_ID w) ch = map (lineFrame (wk_ID w)) out \<and> cutShort lines out)
      else \<exists>ls. prefix ls lines \<and> framesOf (wk_ID w) ch = map (lineFrame (wk_ID w)) ls"
    if w: "w \<in> set (lc_Workers ch)" and p: "podLog opener (streamRequest (wk_Message w)) = (lines, err)" for w lines err
  proof -
    from w I(1) have "workerOK opener ch w" by (auto simp: in_set_conv_nth)
    moreover have "\<exists>ls. prefix ls (ks @ x) \<and> map (lineFrame (wk_ID w)) ks = map (lineFrame (wk_ID w)) ls" for ks x
      by (rule exI [of _ ks]) simp
    ultimately show ?thesis using p by (cases "wk_Stage w") (auto simp: workerOK_def)
  qed
  moreover have "\<exists>w \<in> set (lc_Workers ch). wk_ID w = lm_StreamID m" if "m \<in> set (lc_Written ch @ lc_Dropped ch @ lc_Outbound ch)" for m
    using I(3) [OF that] by auto
  ultimately show ?thesis using I(4,5) unfolding Let_def by blast
qed

text \<open>A stream of one line, read, sent and written.\<close>

definition startTail :: LogStreamMessage where
  "startTail = (wireFrame LogStreamStart ''s1'')\<lparr>lm_Namespace := ''web'', lm_Pod := ''p''\<rparr>"

definition oneLine :: "unit opener" where
  "oneLine = (\<lambda>ns pod opts. Inr \<lparr>ld_Content = ''up'' @ [LF], ld_Error = None\<rparr>)"

definition tailWorker :: "stage \<Rightarrow> worker" where
  "tailWorker st = \<lparr>wk_Message = startTail, wk_Cancelled = False, wk_Stage = st\<rparr>"

definition tailChannel :: "stage \<Rightarrow> LogStreamMessage list \<Rightarrow> channel" where
  "tailChannel st out = \<lparr>lc_Inbound = [], lc_Streams = [''s1'' \<mapsto> 0], lc_Workers = [tailWorker st],
     lc_Outbound = out, lc_Written = [], lc_Dropped = [], lc_Closed = False\<rparr>"

lemma podLog_oneLine: "podLog oneLine (streamRequest startTail) = ([''up''], None)"
proof -
  have n: "TrimSpace ''web'' = ''web''" "TrimSpace ''p'' = ''p''" by code_simp+
  show ?thesis
    by (simp add: podLog_def Stream_def streamRequest_def startTail_def wireFrame_def oneLine_def n
        streamLines_line streamLines_end recorded_apply dropCR_def maxLineBytes_def)
qed

lemma tailChannel_steps:
  "channel_step oneLine (newChannel [startTail]) (tailChannel (Reading [''up'']) [])"
  "channel_step oneLine (tailChannel (Reading [''up'']) []) (tailChannel (Checking []) [lineFrame ''s1'' ''up''])"
  "channel_step oneLine (tailChannel (Checking []) out) (tailChannel (Reading []) out)"
  "channel_step oneLine (tailChannel (Reading []) out) (tailChannel Ending out)"
  "channel_step oneLine (tailChannel Ending [lineFrame ''s1'' ''up'']) (tailChannel Returned [lineFrame ''s1'' ''up'', endFrame ''s1'' None])"
proof -
  have id: "wk_ID (tailWorker st) = ''s1''" for st by (simp add: wk_ID_def tailWorker_def startTail_def wireFrame_def)
  have room: "length xs < 5 \<Longrightarrow> sendFrame m (tailChannel st xs) = Some (tailChannel st (xs @ [m]))" for xs m st
    by (simp add: sendFrame_def tailChannel_def sendQueueSize_def)
  have set: "setStage 0 st' (tailChannel st out) = tailChannel st' out" for st st' out
    by (simp add: setStage_def tailChannel_def tailWorker_def)
  have "readFrame oneLine (newChannel [startTail]) = tailChannel (Reading [''up'']) []"
    using podLog_oneLine
    by (simp add: readFrame_def newChannel_def startStream_def tailChannel_def tailWorker_def startTail_def wireFrame_def)
  then show "channel_step oneLine (newChannel [startTail]) (tailChannel (Reading [''up'']) [])"
    using read_frame [of "newChannel [startTail]" oneLine] by (simp add: newChannel_def)
  note one = tailChannel_def tailWorker_def
  show "channel_step oneLine (tailChannel (Reading [''up'']) []) (tailChannel (Checking []) [lineFrame ''s1'' ''up''])"
    using emit [of 0 "tailChannel (Reading [''up'']) []" "''up''" "[]" "tailChannel (Reading [''up'']) [lineFrame ''s1'' ''up'']" oneLine] room [of "[]"]
    unfolding set by (simp add: one id [unfolded one])
  show "channel_step oneLine (tailChannel (Checking []) out) (tailChannel (Reading []) out)"
    using go_on [of 0 "tailChannel (Checking []) out" "[]" oneLine] unfolding set by (simp add: one)
  show "channel_step oneLine (tailChannel (Reading []) out) (tailChannel Ending out)"
    using finished [of 0 "tailChannel (Reading []) out" oneLine] unfolding set by (simp add: one)
  show "channel_step oneLine (tailChannel Ending [lineFrame ''s1'' ''up'']) (tailChannel Returned [lineFrame ''s1'' ''up'', endFrame ''s1'' None])"
    using send_end [of 0 "tailChannel Ending [lineFrame ''s1'' ''up'']" oneLine "tailChannel Ending [lineFrame ''s1'' ''up'', endFrame ''s1'' None]"]
      room [of "[lineFrame ''s1'' ''up'']"] podLog_oneLine
    unfolding set by (simp add: one id [unfolded one])
qed

lemma tailChannel_reachable:
  "channel_reachable oneLine [startTail] (tailChannel Returned [lineFrame ''s1'' ''up'', endFrame ''s1'' None])"
  unfolding channel_reachable_def
  by (rule converse_rtranclp_into_rtranclp, rule tailChannel_steps(1))
    (rule converse_rtranclp_into_rtranclp, rule tailChannel_steps(2),
     rule converse_rtranclp_into_rtranclp, rule tailChannel_steps(3),
     rule converse_rtranclp_into_rtranclp, rule tailChannel_steps(4),
     rule r_into_rtranclp, rule tailChannel_steps(5))

lemma startTail_distinct: "distinct (startIDs [startTail])"
  by (simp add: startIDs_def startTail_def)

theorem agent_stream_frames_witness:
  "framesOf ''s1'' (tailChannel Returned [lineFrame ''s1'' ''up'', endFrame ''s1'' None]) =
     [lineFrame ''s1'' ''up'', endFrame ''s1'' None]"
proof -
  let ?ch = "tailChannel Returned [lineFrame ''s1'' ''up'', endFrame ''s1'' None]"
  have w: "tailWorker Returned \<in> set (lc_Workers ?ch)" "wk_ID (tailWorker Returned) = ''s1''"
    by (simp_all add: tailChannel_def wk_ID_def tailWorker_def startTail_def wireFrame_def)
  from agent_stream_frames [OF tailChannel_reachable startTail_distinct] w(1) podLog_oneLine
  show ?thesis by (auto simp: tailWorker_def Let_def w(2) [unfolded tailWorker_def])
qed

end
