(* ===== verification/LogEndToEnd.thy ===== *)
theory LogEndToEnd
  imports AgentLogFacts
begin

text \<open>
  From the pod to the browser: the frames of an agent's log channel, the hub's relay that sorts them into the queues
  of its streams, and the server-sent events a browser parses.
\<close>

section \<open>The relay sorts frames into queues\<close>

text \<open>The frames read from an agent's connection, in order.\<close>

definition readAgentLogFrames :: "nat \<Rightarrow> LogStreamMessage list \<Rightarrow> LogRelay \<Rightarrow> LogRelay" where
  "readAgentLogFrames c = fold (readAgentLogFrame c)"

lemma serves_map:
  "relayI E r \<Longrightarrow> c < length (lr_conns r) \<Longrightarrow>
     serves r c sid q \<longleftrightarrow> map_of (ac_streams (lr_conns r ! c)) sid = Some q"
  using relayI_D(4) [of E r c] by (auto simp: serves_def conn_ok_def)

lemma trySend_serves: "trySend q m r = (b, r') \<Longrightarrow> serves r' c' sid' q' = serves r c' sid' q'"
  by (auto simp: trySend_def serves_def split: if_splits)

lemma trySend_queue:
  assumes "trySend q m r = (b, r')" and "\<not> q_closed (lr_queues r ! q)" and "q < length (lr_queues r)"
  shows "q' \<noteq> q \<Longrightarrow> lr_queues r' ! q' = lr_queues r ! q'" "length (lr_queues r') = length (lr_queues r)"
    "length (q_buf (lr_queues r ! q)) < logStreamQueueSize \<Longrightarrow>
       b \<and> lr_queues r' ! q = (lr_queues r ! q)\<lparr>q_buf := q_buf (lr_queues r ! q) @ [m]\<rparr>"
  using assms by (auto simp: trySend_def split: if_splits)

lemma dropStream_queue:
  "q' \<noteq> q \<Longrightarrow> lr_queues (dropStream c sid q r) ! q' = lr_queues r ! q'"
  "\<not> q_closed (lr_queues r ! q) \<Longrightarrow> q < length (lr_queues r) \<Longrightarrow>
     lr_queues (dropStream c sid q r) ! q = (lr_queues r ! q)\<lparr>q_closed := True\<rparr>"
  by (simp_all add: dropStream_def closeQueue_def)

text \<open>A frame of another stream leaves a queue and its stream alone, and so does any frame once the queue has no stream.\<close>

lemma deliverFrame_other:
  assumes "relayI {} r" and "c < length (lr_conns r)" and "\<not> serves r c (lm_StreamID m) q"
  shows "lr_queues (deliverFrame c m r) ! q = lr_queues r ! q"
    and "sid \<noteq> lm_StreamID m \<Longrightarrow> serves (deliverFrame c m r) c sid q' = serves r c sid q'"
    and "serves (deliverFrame c m r) c sid q' \<Longrightarrow> serves r c sid q'"
proof -
  have "lr_queues (deliverFrame c m r) ! q = lr_queues r ! q \<and>
      (sid \<noteq> lm_StreamID m \<longrightarrow> serves (deliverFrame c m r) c sid q' = serves r c sid q') \<and>
      (serves (deliverFrame c m r) c sid q' \<longrightarrow> serves r c sid q')"
  proof (cases "map_of (ac_streams (lr_conns r ! c)) (lm_StreamID m)")
    case (Some q0)
    then have u: "serves r c (lm_StreamID m) q0" using serves_map [OF assms(1,2)] by simp
    with assms(3) have ne: "q \<noteq> q0" by blast
    obtain b r' where t: "trySend q0 m r = (b, r')" by fastforce
    note T = trySend_queue [OF t] relayI_D(2) [OF assms(1) u] trySend_serves [OF t]
    show ?thesis using ne T Some t
      by (cases b) (auto simp: deliverFrame_def dropStream_queue(1) serves_dropStream)
  qed (simp add: deliverFrame_def)
  then show "lr_queues (deliverFrame c m r) ! q = lr_queues r ! q"
    "sid \<noteq> lm_StreamID m \<Longrightarrow> serves (deliverFrame c m r) c sid q' = serves r c sid q'"
    "serves (deliverFrame c m r) c sid q' \<Longrightarrow> serves r c sid q'" by blast+
qed

lemma deliverFrame_own:
  assumes "relayI {} r" and "c < length (lr_conns r)" and u: "serves r c (lm_StreamID m) q"
    and room: "length (q_buf (lr_queues r ! q)) < logStreamQueueSize"
  shows "lr_queues (deliverFrame c m r) ! q =
      \<lparr>q_buf = q_buf (lr_queues r ! q) @ [m], q_closed = (lm_Type m = LogStreamEnd)\<rparr>"
    and "serves (deliverFrame c m r) c sid q \<longleftrightarrow> sid = lm_StreamID m \<and> lm_Type m \<noteq> LogStreamEnd"
proof -
  note q = relayI_D(2) [OF assms(1) u]
  obtain b r' where t: "trySend q m r = (b, r')" by fastforce
  note T = trySend_queue [OF t] trySend_serves [OF t]
  have s: "map_of (ac_streams (lr_conns r ! c)) (lm_StreamID m) = Some q" using u serves_map [OF assms(1,2)] by simp
  have one: "serves r c sid q \<longleftrightarrow> sid = lm_StreamID m" using u relayI_D(3) [OF assms(1) u] by blast
  have r': "b" "lr_queues r' ! q = (lr_queues r ! q)\<lparr>q_buf := q_buf (lr_queues r ! q) @ [m]\<rparr>"
    using T(3) q room by auto
  then show "lr_queues (deliverFrame c m r) ! q =
      \<lparr>q_buf = q_buf (lr_queues r ! q) @ [m], q_closed = (lm_Type m = LogStreamEnd)\<rparr>"
    using s t q T(2) by (simp add: deliverFrame_def dropStream_queue(2))
  show "serves (deliverFrame c m r) c sid q \<longleftrightarrow> sid = lm_StreamID m \<and> lm_Type m \<noteq> LogStreamEnd"
    using s t r'(1) one T(4) by (auto simp: deliverFrame_def serves_dropStream)
qed

lemma deliverFrame_length: "length (lr_conns (deliverFrame c m r)) = length (lr_conns r)"
  by (auto simp: deliverFrame_def trySend_def split: option.split prod.split if_splits)

lemma readAgentLogFrame_inv:
  assumes "relayI {} r" and "c < length (lr_conns r)"
  shows "relayI {} (readAgentLogFrame c m r)" "length (lr_conns (readAgentLogFrame c m r)) = length (lr_conns r)"
  using relayI_deliverFrame [OF assms] assms(1) by (simp_all add: readAgentLogFrame_def deliverFrame_length)

lemma readAgentLogFrames_orphan:
  assumes "relayI {} r" and "c < length (lr_conns r)" and "\<And>sid. \<not> serves r c sid q"
  shows "lr_queues (readAgentLogFrames c ms r) ! q = lr_queues r ! q"
  using assms
proof (induction ms arbitrary: r)
  case (Cons m ms)
  have "\<not> serves (deliverFrame c m r) c sid q" for sid
    using deliverFrame_other(3) [OF Cons.prems(1,2) Cons.prems(3), of m sid q] Cons.prems(3) by blast
  then have step: "lr_queues (readAgentLogFrame c m r) ! q = lr_queues r ! q" "\<And>sid. \<not> serves (readAgentLogFrame c m r) c sid q"
    using deliverFrame_other(1) [OF Cons.prems(1,2) Cons.prems(3)] Cons.prems(3) by (simp_all add: readAgentLogFrame_def)
  from Cons.IH [OF readAgentLogFrame_inv(1) [OF Cons.prems(1,2)] _ step(2)] step(1) Cons.prems(2)
    readAgentLogFrame_inv(2) [OF Cons.prems(1,2)]
  show ?case by (simp add: readAgentLogFrames_def)
qed (simp add: readAgentLogFrames_def)

text \<open>The frames of one stream, among those of others, end up in its queue in order.\<close>

lemma readAgentLogFrames_queue:
  assumes "relayI {} r" and "c < length (lr_conns r)" and "serves r c sid q"
    and "filter (\<lambda>m. lm_StreamID m = sid) ms = fs @ [e]" and "\<And>m. m \<in> set fs \<Longrightarrow> lm_Type m = LogStreamData"
    and "lm_Type e = LogStreamEnd" and "length (q_buf (lr_queues r ! q)) + length fs < logStreamQueueSize"
  shows "lr_queues (readAgentLogFrames c ms r) ! q = \<lparr>q_buf = q_buf (lr_queues r ! q) @ fs @ [e], q_closed = True\<rparr>"
  using assms
proof (induction ms arbitrary: r fs)
  case (Cons m ms)
  note inv = readAgentLogFrame_inv [OF Cons.prems(1,2)]
  show ?case
  proof (cases "lm_StreamID m = sid")
    case False
    then have no: "\<not> serves r c (lm_StreamID m) q" using relayI_D(3) [OF Cons.prems(1,3)] by metis
    have step: "lr_queues (readAgentLogFrame c m r) ! q = lr_queues r ! q" "serves (readAgentLogFrame c m r) c sid q"
      using deliverFrame_other(1,2) [OF Cons.prems(1,2) no] False Cons.prems(3) by (auto simp: readAgentLogFrame_def)
    from Cons.IH [OF inv(1) _ step(2) _ Cons.prems(5,6)] step(1) Cons.prems(2,4,7) inv(2) False
    show ?thesis by (simp add: readAgentLogFrames_def)
  next
    case True
    note own = deliverFrame_own [OF Cons.prems(1,2), where m = m and q = q]
    show ?thesis
    proof (cases fs)
      case Nil
      with Cons.prems(4,6) True have m: "m = e" by simp
      have d: "lr_queues (readAgentLogFrame c m r) ! q = \<lparr>q_buf = q_buf (lr_queues r ! q) @ [e], q_closed = True\<rparr>"
        "\<And>s. \<not> serves (readAgentLogFrame c m r) c s q"
        using own Cons.prems(3,6,7) True m by (auto simp: readAgentLogFrame_def)
      from readAgentLogFrames_orphan [OF inv(1) _ d(2)] inv(2) Cons.prems(2) d(1) Nil
      show ?thesis by (simp add: readAgentLogFrames_def)
    next
      case (Cons f fs')
      with Cons.prems(4) True have f: "m = f" "filter (\<lambda>m. lm_StreamID m = sid) ms = fs' @ [e]" by auto
      have ty: "lm_Type m = LogStreamData" using Cons.prems(5) Cons f by simp
      have d: "lr_queues (readAgentLogFrame c m r) ! q = \<lparr>q_buf = q_buf (lr_queues r ! q) @ [m], q_closed = False\<rparr>"
        "serves (readAgentLogFrame c m r) c sid q"
        using own Cons.prems(3,7) True ty by (auto simp: readAgentLogFrame_def)
      from Cons.IH [OF inv(1) _ d(2) f(2) _ Cons.prems(6)] inv(2) Cons.prems(2,5,7) d(1) Cons f(1)
      show ?thesis by (simp add: readAgentLogFrames_def)
    qed
  qed
qed simp

section \<open>What the browser sees\<close>

lemma frame_fields [simp]:
  "lm_Type (lineFrame sid l) = LogStreamData" "lm_Type (endFrame sid err) = LogStreamEnd" "lm_Line (lineFrame sid l) = l"
  "lm_Line (endFrame sid err) = ''''" "lm_Error (endFrame sid err) = (case err of None \<Rightarrow> '''' | Some e \<Rightarrow> e)"
  by (simp_all add: lineFrame_def endFrame_def wireFrame_def)

lemma podLogEvents_lines:
  "podLogEvents encode (map (lineFrame sid) lines @ [endFrame sid err]) =
     map (\<lambda>l. (''message'', replaceCRLF l)) lines @
     [case err of None \<Rightarrow> (''end'', ''{}'')
      | Some e \<Rightarrow> if e = '''' then (''end'', ''{}'') else (sseStreamErrorEvent, sseErrorPayload encode e)]"
  by (induction lines) (simp_all split: option.split)

lemma replaceCRLF_id: "LF \<notin> set s \<Longrightarrow> replaceCRLF s = s"
  by (induction s rule: replaceCRLF.induct) auto

lemma podLog_lines:
  assumes "podLog opener request = (lines, err)" and "l \<in> set lines"
  shows "LF \<notin> set l"
proof -
  obtain reader where "opener (lq_Namespace request) (lq_Pod request) (logOptions request) = Inr reader"
      "TrimSpace (lq_Namespace request) \<noteq> ''''" "TrimSpace (lq_Pod request) \<noteq> ''''"
    using assms by (cases "opener (lq_Namespace request) (lq_Pod request) (logOptions request)")
      (auto simp: podLog_def Stream_def throw_def split: if_splits)
  moreover obtain r out where run: "streamLines (\<lambda>w. (\<lambda>_. None) (fst w)) (recorded (\<lambda>line w. (Inr (), w))) (ld_Error reader)
      (ld_Content reader) ((), []) = (r, ((), out))" by (metis (full_types) old.unit.exhaust prod_cases3)
  ultimately have "lines = out" using assms(1) by (auto simp: podLog_def Stream_def split: sum.splits)
  with streamLines_emits [OF run] have "prefix lines (map (take maxLineBytes) (logLines (ld_Content reader)))" by auto
  then have "l \<in> set (map (take maxLineBytes) (logLines (ld_Content reader)))"
    using assms(2) set_mono_prefix by blast
  then show ?thesis using logLines_noLF by (auto dest: in_set_takeD)
qed


definition oneStream :: LogRelay where
  "oneStream = snd (addStream 0 ''s1'' relayJoined)"

lemma oneStream_ok:
  "relay_reachable oneStream" "serves oneStream 0 ''s1'' 0" "lr_queues oneStream ! 0 = \<lparr>q_buf = [], q_closed = False\<rparr>"
  using relay_reachable_step [OF relayJoined_reachable relay_step.intros(6), of 0 "''s1''"]
  by (simp_all add: oneStream_def relayJoined_eq addStream_def serves_def updConn_def mapPut_def)

lemma tailChannel_gone:
  "channel_reachable oneLine [startTail]
     ((tailChannel Gone [lineFrame ''s1'' ''up'', endFrame ''s1'' None])\<lparr>lc_Streams := (\<lambda>_. None)\<rparr>)"
proof -
  let ?ch = "tailChannel Returned [lineFrame ''s1'' ''up'', endFrame ''s1'' None]"
  have "workerDone 0 ?ch = (tailChannel Gone [lineFrame ''s1'' ''up'', endFrame ''s1'' None])\<lparr>lc_Streams := (\<lambda>_. None)\<rparr>"
    by (auto simp: workerDone_def setStage_def tailChannel_def tailWorker_def wk_ID_def startTail_def wireFrame_def)
  then have "channel_step oneLine ?ch ((tailChannel Gone [lineFrame ''s1'' ''up'', endFrame ''s1'' None])\<lparr>lc_Streams := (\<lambda>_. None)\<rparr>)"
    using cleanup [of 0 ?ch oneLine] by (simp add: tailChannel_def tailWorker_def)
  with tailChannel_reachable show ?thesis
    unfolding channel_reachable_def by (rule rtranclp.rtrancl_into_rtrancl)
qed


end
