(* ===== verification/McpClient.thy ===== *)
theory McpClient
  imports AgentClient PodLogs
begin

text \<open>
  \<open>internal/mcp/hubclient\<close>: the HTTP client through which the MCP server reads the hub: sessions that are established
  on demand and once more when the hub says they have expired, the queries, and the reader of a pod log's event stream.
  The HTTP transport (with its cookie jar) and the JSON and time codecs are parameters.
\<close>

section \<open>Query strings\<close>

definition queryByte :: "char \<Rightarrow> bool" where
  "queryByte c \<longleftrightarrow>
     (let n = (of_char c :: nat) in
      48 \<le> n \<and> n \<le> 57 \<or> 65 \<le> n \<and> n \<le> 90 \<or> 97 \<le> n \<and> n \<le> 122 \<or> c \<in> set ''-_.~'')"

definition QueryEscape :: "string \<Rightarrow> string" where
  "QueryEscape s =
     concat (map (\<lambda>c. if queryByte c then [c] else if c = CHR '' '' then ''+''
       else [CHR ''%'', hexDigit (of_char c div 16), hexDigit (of_char c mod 16)]) s)"

type_synonym Values = "(string \<times> string) list"

definition EncodeValues :: "Values \<Rightarrow> string" where
  "EncodeValues v = Join ''&'' (map (\<lambda>(k, x). QueryEscape k @ ''='' @ QueryEscape x) (sort_key fst v))"

section \<open>The client\<close>

record McpClient =
  mcl_hubURL :: string
  mcl_token :: string
  mcl_username :: string
  mcl_password :: string
  mcl_loggedIn :: bool

record McpRequest =
  mq_Method :: string
  mq_URL :: string
  mq_Header :: "(string \<times> string) list"
  mq_Login :: "(string \<times> string) option"

record ClusterStatusResponse =
  csr_Cluster :: Cluster
  csr_Nodes :: "Node list"

record ListTimelineEventsResponse =
  lt_Events :: "OperationalEvent list"
  lt_NextCursor :: int

text \<open>What the code decodes of a body (\<open>Inl\<close> the decoder's error), the bytes of an event stream with the error that
  ends it, the \<open>message\<close> of a stream error, and the formats of the standard library.\<close>

record 'b McpCodec =
  mc_ErrorField :: "'b \<Rightarrow> string option"
  mc_Clusters :: "'b \<Rightarrow> string + Cluster list"
  mc_Status :: "'b \<Rightarrow> string + ClusterStatusResponse"
  mc_Pods :: "'b \<Rightarrow> string + Pod list"
  mc_Events :: "'b \<Rightarrow> string + Event list"
  mc_Namespaces :: "'b \<Rightarrow> string + string list"
  mc_Timeline :: "'b \<Rightarrow> string + ListTimelineEventsResponse"
  mc_Stream :: "'b \<Rightarrow> string \<times> string option"
  mc_Message :: "string \<Rightarrow> string option"
  mc_FormatTime :: "time \<Rightarrow> string"
  mc_ParseTime :: "string \<Rightarrow> time option"
  mc_Quote :: "string \<Rightarrow> string"

record 'w mcp =
  mcp_Client :: McpClient
  mcp_World :: 'w

type_synonym ('w, 'a) mcpm = "('w mcp, string, 'a) sm"
type_synonym ('w, 'b) mcpTransport = "McpRequest \<Rightarrow> 'w \<Rightarrow> (string + 'b Reply) \<times> 'w"

definition NewHubClient :: "Parsers \<Rightarrow> (string \<Rightarrow> string) \<Rightarrow> string \<Rightarrow> string \<Rightarrow> string + McpClient" where
  "NewHubClient ps quote hubURL token =
     (let hubURL = TrimRightC (CHR ''/'') (TrimSpace hubURL) in
      if hubURL = '''' then Inl ''hub URL is required''
      else case ps_URL ps hubURL of
        None \<Rightarrow> Inl (''invalid hub URL '' @ quote hubURL)
      | Some parsed \<Rightarrow>
          if url_Scheme parsed = '''' \<or> url_Host parsed = '''' then Inl (''invalid hub URL '' @ quote hubURL)
          else Inr \<lparr>mcl_hubURL = hubURL, mcl_token = TrimSpace token, mcl_username = '''', mcl_password = '''',
                    mcl_loggedIn = False\<rparr>)"

definition NewWithCredentials :: "Parsers \<Rightarrow> (string \<Rightarrow> string) \<Rightarrow> string \<Rightarrow> string \<Rightarrow> string \<Rightarrow> string + McpClient" where
  "NewWithCredentials ps quote hubURL username password =
     andThen (NewHubClient ps quote hubURL '''') (\<lambda>client.
     let username = TrimSpace username in
     if username = '''' \<or> password = '''' then Inl ''hub username and password are required''
     else Inr (client\<lparr>mcl_username := username, mcl_password := password\<rparr>))"

section \<open>Requests\<close>

definition mcpDo :: "('w, 'b) mcpTransport \<Rightarrow> string \<Rightarrow> McpRequest \<Rightarrow> ('w, 'b Reply) mcpm" where
  "mcpDo http what request =
     mapErr (\<lambda>err. what @ '': '' @ err) (within mcp_World (\<lambda>w s. s\<lparr>mcp_World := w\<rparr>) (http request))"

definition statusOK :: "'b Reply \<Rightarrow> bool" where
  "statusOK response = (200 \<le> rp_StatusCode response \<and> rp_StatusCode response < 300)"

definition statusError :: "'b McpCodec \<Rightarrow> string \<Rightarrow> 'b Reply \<Rightarrow> string" where
  "statusError codec what response =
     (case mc_ErrorField codec (rp_Body response) of
        Some err \<Rightarrow> if err \<noteq> '''' then what @ rp_Status response @ '': '' @ err else what @ rp_Status response
      | None \<Rightarrow> what @ rp_Status response)"

definition setLoggedIn :: "bool \<Rightarrow> ('w, unit) mcpm" where
  "setLoggedIn b = modify (\<lambda>s. s\<lparr>mcp_Client := (mcp_Client s)\<lparr>mcl_loggedIn := b\<rparr>\<rparr>)"

definition loginRequest :: "McpClient \<Rightarrow> McpRequest" where
  "loginRequest c =
     \<lparr>mq_Method = ''POST'', mq_URL = mcl_hubURL c @ ''/api/v1/auth/login'',
      mq_Header = [(''Accept'', ''application/json''), (''Content-Type'', ''application/json'')],
      mq_Login = Some (mcl_username c, mcl_password c)\<rparr>"

definition ensureAuthenticated :: "('w, 'b) mcpTransport \<Rightarrow> 'b McpCodec \<Rightarrow> ('w, unit) mcpm" where
  "ensureAuthenticated http codec =
     bindm (gets mcp_Client) (\<lambda>c.
     if mcl_loggedIn c then ret ()
     else bindm (mcpDo http ''authenticate with hub'' (loginRequest c)) (\<lambda>response.
     if \<not> statusOK response then throw (statusError codec ''hub login returned '' response)
     else setLoggedIn True))"

definition getRequest :: "McpClient \<Rightarrow> string \<Rightarrow> Values \<Rightarrow> string \<Rightarrow> McpRequest" where
  "getRequest c path vals accept =
     \<lparr>mq_Method = ''GET'', mq_URL = mcl_hubURL c @ path @ (if vals \<noteq> [] then ''?'' @ EncodeValues vals else ''''),
      mq_Header = (''Accept'', accept) #
        (if mcl_token c \<noteq> '''' then [(''Authorization'', ''Bearer '' @ mcl_token c)] else []),
      mq_Login = None\<rparr>"

definition doGet :: "('w, 'b) mcpTransport \<Rightarrow> string \<Rightarrow> Values \<Rightarrow> string \<Rightarrow> ('w, 'b Reply) mcpm" where
  "doGet http path vals accept =
     bindm (gets mcp_Client) (\<lambda>c. mcpDo http ''call hub API'' (getRequest c path vals accept))"

definition openHub :: "('w, 'b) mcpTransport \<Rightarrow> 'b McpCodec \<Rightarrow> string \<Rightarrow> Values \<Rightarrow> string \<Rightarrow> ('w, 'b Reply) mcpm" where
  "openHub http codec path vals accept =
     bindm (gets mcp_Client) (\<lambda>c.
     bindm (if mcl_username c \<noteq> '''' then ensureAuthenticated http codec else ret ()) (\<lambda>_.
     bindm (doGet http path vals accept) (\<lambda>first.
     bindm (if rp_StatusCode first = 401 \<and> mcl_username c \<noteq> ''''
            then bindm (setLoggedIn False) (\<lambda>_.
                 bindm (ensureAuthenticated http codec) (\<lambda>_. doGet http path vals accept))
            else ret first) (\<lambda>response.
     if \<not> statusOK response then throw (statusError codec ''hub API returned '' response)
     else ret response))))"

definition getJSON ::
  "('w, 'b) mcpTransport \<Rightarrow> 'b McpCodec \<Rightarrow> string \<Rightarrow> Values \<Rightarrow> ('b \<Rightarrow> string + 'a) \<Rightarrow> ('w, 'a) mcpm" where
  "getJSON http codec path vals decode =
     bindm (openHub http codec path vals ''application/json'') (\<lambda>response.
     case decode (rp_Body response) of
       Inl err \<Rightarrow> throw (''decode hub response: '' @ err)
     | Inr x \<Rightarrow> ret x)"

definition clusterPath :: "string \<Rightarrow> string \<Rightarrow> string" where
  "clusterPath cid tail = ''/api/v1/clusters/'' @ PathEscape (TrimSpace cid) @ tail"

definition mcpListClusters :: "('w, 'b) mcpTransport \<Rightarrow> 'b McpCodec \<Rightarrow> ('w, Cluster list) mcpm" where
  "mcpListClusters http codec = getJSON http codec ''/api/v1/clusters'' [] (mc_Clusters codec)"

definition mcpGetClusterStatus :: "('w, 'b) mcpTransport \<Rightarrow> 'b McpCodec \<Rightarrow> string \<Rightarrow> ('w, ClusterStatusResponse) mcpm" where
  "mcpGetClusterStatus http codec cid = getJSON http codec (clusterPath cid ''/status'') [] (mc_Status codec)"

definition namespaceQuery :: "string \<Rightarrow> Values" where
  "namespaceQuery ns = (if TrimSpace ns \<noteq> '''' then [(''namespace'', TrimSpace ns)] else [])"

definition mcpGetPods :: "('w, 'b) mcpTransport \<Rightarrow> 'b McpCodec \<Rightarrow> string \<Rightarrow> string \<Rightarrow> ('w, Pod list) mcpm" where
  "mcpGetPods http codec cid ns = getJSON http codec (clusterPath cid ''/pods'') (namespaceQuery ns) (mc_Pods codec)"

definition mcpGetEvents :: "('w, 'b) mcpTransport \<Rightarrow> 'b McpCodec \<Rightarrow> string \<Rightarrow> string \<Rightarrow> ('w, Event list) mcpm" where
  "mcpGetEvents http codec cid ns = getJSON http codec (clusterPath cid ''/events'') (namespaceQuery ns) (mc_Events codec)"

definition mcpListNamespaces :: "('w, 'b) mcpTransport \<Rightarrow> 'b McpCodec \<Rightarrow> string \<Rightarrow> ('w, string list) mcpm" where
  "mcpListNamespaces http codec cid = getJSON http codec (clusterPath cid ''/namespaces'') [] (mc_Namespaces codec)"

record TimelineQuery =
  tq_ClusterID :: string
  tq_Since :: "time option"
  tq_Until :: "time option"
  tq_Before :: int
  tq_Limit :: int

definition timelineQuery :: "'b McpCodec \<Rightarrow> TimelineQuery \<Rightarrow> Values" where
  "timelineQuery codec q =
     (case tq_Since q of Some t \<Rightarrow> [(''since'', mc_FormatTime codec t)] | None \<Rightarrow> []) @
     (case tq_Until q of Some t \<Rightarrow> [(''until'', mc_FormatTime codec t)] | None \<Rightarrow> []) @
     (if tq_Before q > 0 then [(''before'', Itoa (tq_Before q))] else []) @
     (if tq_Limit q > 0 then [(''limit'', Itoa (tq_Limit q))] else [])"

definition mcpGetTimeline :: "('w, 'b) mcpTransport \<Rightarrow> 'b McpCodec \<Rightarrow> TimelineQuery \<Rightarrow> ('w, ListTimelineEventsResponse) mcpm" where
  "mcpGetTimeline http codec q =
     getJSON http codec
       (if TrimSpace (tq_ClusterID q) \<noteq> '''' then clusterPath (TrimSpace (tq_ClusterID q)) ''/timeline'' else ''/api/v1/timeline'')
       (timelineQuery codec q) (mc_Timeline codec)"

section \<open>Pod logs\<close>

record PodLogsQuery =
  pq_ClusterID :: string
  pq_Namespace :: string
  pq_Pod :: string
  pq_Container :: string
  pq_TailLines :: int
  pq_Previous :: bool
  pq_SinceSeconds :: int

definition sseMaxLineBytes :: nat where
  "sseMaxLineBytes = 1048576"

text \<open>\<open>bufio.Scanner\<close> with \<open>ScanLines\<close>: the lines (a carriage return at the end of one is dropped), until one does not
  fit into the buffer.\<close>

definition trimCR :: "string \<Rightarrow> string" where
  "trimCR line = (if line \<noteq> '''' \<and> last line = CR then butlast line else line)"

function scanLines :: "string \<Rightarrow> string list \<times> bool" where
  "scanLines s =
     (let line = takeWhile (\<lambda>c. c \<noteq> LF) s in
      if s = '''' then ([], False)
      else if sseMaxLineBytes \<le> length line then ([], True)
      else case scanLines (drop (Suc (length line)) s) of (rest, long) \<Rightarrow> (trimCR line # rest, long))"
  by pat_completeness auto
termination by (relation "measure length") auto

declare scanLines.simps [simp del]

definition streamFailure :: "'b McpCodec \<Rightarrow> string list \<Rightarrow> string" where
  "streamFailure codec buf =
     (let message = Join [LF] buf in
      ''pod log stream failed: '' @
      (case mc_Message codec message of Some m \<Rightarrow> if m \<noteq> '''' then m else message | None \<Rightarrow> message))"

text \<open>The loop: the lines so far, the name and the data of the event being read.\<close>

fun readEvents ::
  "'b McpCodec \<Rightarrow> string option \<Rightarrow> string list \<Rightarrow> string \<Rightarrow> string list \<Rightarrow> bool \<Rightarrow> string list \<Rightarrow> string + string list" where
  "readEvents codec readErr out event buf hasData [] =
     (case readErr of Some err \<Rightarrow> Inl (''read pod log stream: '' @ err)
      | None \<Rightarrow> Inl ''pod log stream ended before the hub finished it'')"
| "readEvents codec readErr out event buf hasData (field # rest) =
     (if field = '''' then
        (if event = '''' \<or> event = ''message''
         then readEvents codec readErr (if hasData then out @ [Join [LF] buf] else out) '''' [] False rest
         else if event = ''end'' then Inr out
         else if event = ''stream-error'' then Inl (streamFailure codec buf)
         else readEvents codec readErr out '''' [] False rest)
      else if HasPrefix field '':'' then readEvents codec readErr out event buf hasData rest
      else let (name, v) = (case CutC CHR '':'' field of Some p \<Rightarrow> p | None \<Rightarrow> (field, ''''));
               v = TrimPrefix v '' ''
           in if name = ''event'' then readEvents codec readErr out v buf hasData rest
              else if name = ''data'' then readEvents codec readErr out event (buf @ [v]) True rest
              else readEvents codec readErr out event buf hasData rest)"

text \<open>A read error of the body, or a line that is too long, ends the scan.\<close>

definition readLogEvents :: "'b McpCodec \<Rightarrow> string \<times> string option \<Rightarrow> string + string list" where
  "readLogEvents codec body =
     (case scanLines (fst body) of (scanned, long) \<Rightarrow>
        readEvents codec (if long then Some ''bufio.Scanner: token too long'' else snd body) [] '''' [] False scanned)"

definition podLogsValues :: "PodLogsQuery \<Rightarrow> Values" where
  "podLogsValues q =
     [(''follow'', ''false'')] @
     (if TrimSpace (pq_Container q) \<noteq> '''' then [(''container'', TrimSpace (pq_Container q))] else []) @
     (if pq_TailLines q > 0 then [(''tailLines'', Itoa (pq_TailLines q))] else []) @
     (if pq_Previous q then [(''previous'', ''true'')] else []) @
     (if pq_SinceSeconds q > 0 then [(''sinceSeconds'', Itoa (pq_SinceSeconds q))] else [])"

definition podLogsPath :: "PodLogsQuery \<Rightarrow> string" where
  "podLogsPath q =
     clusterPath (pq_ClusterID q)
       (''/pods/'' @ PathEscape (TrimSpace (pq_Namespace q)) @ ''/'' @ PathEscape (TrimSpace (pq_Pod q)) @ ''/logs'')"

definition mcpGetPodLogs :: "('w, 'b) mcpTransport \<Rightarrow> 'b McpCodec \<Rightarrow> PodLogsQuery \<Rightarrow> ('w, string list) mcpm" where
  "mcpGetPodLogs http codec q =
     (if TrimSpace (pq_Namespace q) = '''' \<or> TrimSpace (pq_Pod q) = '''' then throw ''namespace and pod are required''
      else bindm (openHub http codec (podLogsPath q) (podLogsValues q) ''text/event-stream'') (\<lambda>response.
        case readLogEvents codec (mc_Stream codec (rp_Body response)) of
          Inl err \<Rightarrow> throw err
        | Inr lines \<Rightarrow> ret lines))"

end
