(* ===== verification/McpTools.thy ===== *)
theory McpTools
  imports McpClient
begin

text \<open>
  \<open>internal/mcp\<close>: the tools of the MCP server, each a function of the call's arguments over the hub client. The
  arguments as the MCP library reads them, its result encoder and \<open>golang.org/x/mod/semver\<close> are parameters.
\<close>

section \<open>Calls and results\<close>

record CallToolRequest =
  ctr_GetString :: "string \<Rightarrow> string \<Rightarrow> string"
  ctr_RequireString :: "string \<Rightarrow> string option"
  ctr_GetInt :: "string \<Rightarrow> int \<Rightarrow> int"
  ctr_GetBool :: "string \<Rightarrow> bool \<Rightarrow> bool"

record crashloopPod =
  cp_ClusterID :: string
  cp_ClusterName :: string
  cp_Pod :: Pod

record diagnosis =
  dg_Cluster :: Cluster
  dg_Status :: ClusterStatusResponse
  dg_Crashloops :: "crashloopPod list"
  dg_WarningEvents :: "Event list"

record podLogs =
  pl_Cluster :: Cluster
  pl_Namespace :: string
  pl_Pod :: string
  pl_Container :: string
  pl_Previous :: bool
  pl_LineCount :: nat
  pl_Truncated :: bool
  pl_Note :: string
  pl_Logs :: string

datatype toolValue =
    ClustersValue "Cluster list" nat | StatusValue ClusterStatusResponse | CrashloopValue "crashloopPod list" nat
  | EventsValue Cluster "Event list" nat | PodsValue Cluster "Pod list" nat | DiagnosisValue diagnosis
  | TimelineValue "OperationalEvent list" nat int | NamespacesValue Cluster "string list" nat | PodLogsValue podLogs

datatype toolResult = ToolError string | ToolJSON toolValue

record Semver =
  sv_IsValid :: "string \<Rightarrow> bool"
  sv_Compare :: "string \<Rightarrow> string \<Rightarrow> int"

text \<open>What the tools use besides the hub: \<open>te_Encode\<close> is the error of the result encoder.\<close>

record ('w, 'b) ToolEnv =
  te_http :: "('w, 'b) mcpTransport"
  te_codec :: "'b McpCodec"
  te_Encode :: "toolValue \<Rightarrow> string option"
  te_semver :: Semver

text \<open>A tool always answers: an early return is an answer too, and comes as the left value.\<close>

type_synonym ('w, 'a) toolm = "('w mcp, toolResult, 'a) sm"

definition toolError :: "string \<Rightarrow> string \<Rightarrow> toolResult" where
  "toolError action err = ToolError (action @ '': '' @ err)"

definition jsonResult :: "('w, 'b) ToolEnv \<Rightarrow> toolValue \<Rightarrow> ('w, toolResult) toolm" where
  "jsonResult te v =
     (case te_Encode te v of None \<Rightarrow> ret (ToolJSON v) | Some err \<Rightarrow> ret (toolError ''encode tool result'' err))"

definition orToolError :: "string \<Rightarrow> ('w, 'a) mcpm \<Rightarrow> ('w, 'a) toolm" where
  "orToolError action m = mapErr (toolError action) m"

definition answer :: "('w, toolResult) toolm \<Rightarrow> 'w mcp \<Rightarrow> toolResult \<times> 'w mcp" where
  "answer m s = (case m s of (Inl r, s') \<Rightarrow> (r, s') | (Inr r, s') \<Rightarrow> (r, s'))"

section \<open>Clusters and crash loops\<close>

definition highRestartCount :: int where
  "highRestartCount = 5"

definition findCluster :: "Cluster list \<Rightarrow> string \<Rightarrow> Cluster option" where
  "findCluster clusters nameOrID = find (\<lambda>c. c_ID c = nameOrID \<or> EqualFold (c_Name c) nameOrID) clusters"

definition notFound :: "('w, 'b) ToolEnv \<Rightarrow> string \<Rightarrow> toolResult" where
  "notFound te name = ToolError (''cluster '' @ mc_Quote (te_codec te) name @ '' was not found'')"

definition requiredCluster :: "('w, 'b) ToolEnv \<Rightarrow> CallToolRequest \<Rightarrow> ('w, Cluster) toolm" where
  "requiredCluster te request =
     (case ctr_RequireString request ''cluster'' of
        None \<Rightarrow> throw (ToolError ''cluster is required and must be a non-empty string'')
      | Some name \<Rightarrow>
          if TrimSpace name = '''' then throw (ToolError ''cluster is required and must be a non-empty string'')
          else bindm (orToolError ''list clusters'' (mcpListClusters (te_http te) (te_codec te))) (\<lambda>clusters.
            case findCluster clusters name of
              None \<Rightarrow> throw (notFound te name)
            | Some cluster \<Rightarrow> ret cluster))"

definition crashloopPods :: "Cluster \<Rightarrow> Pod list \<Rightarrow> crashloopPod list" where
  "crashloopPods cluster pods =
     map (\<lambda>pod. \<lparr>cp_ClusterID = c_ID cluster, cp_ClusterName = c_Name cluster, cp_Pod = pod\<rparr>)
       (filter (\<lambda>pod. EqualFold (p_Phase pod) ''CrashLoopBackOff'' \<or> highRestartCount \<le> p_RestartCount pod) pods)"

section \<open>The tools\<close>

definition listClusters :: "('w, 'b) ToolEnv \<Rightarrow> ('w, toolResult) toolm" where
  "listClusters te =
     bindm (orToolError ''list clusters'' (mcpListClusters (te_http te) (te_codec te))) (\<lambda>clusters.
     jsonResult te (ClustersValue clusters (length clusters)))"

definition getClusterStatus :: "('w, 'b) ToolEnv \<Rightarrow> CallToolRequest \<Rightarrow> ('w, toolResult) toolm" where
  "getClusterStatus te request =
     bindm (requiredCluster te request) (\<lambda>cluster.
     bindm (orToolError ''get cluster status'' (mcpGetClusterStatus (te_http te) (te_codec te) (c_ID cluster))) (\<lambda>status.
     jsonResult te (StatusValue status)))"

definition findCrashloopPods :: "('w, 'b) ToolEnv \<Rightarrow> CallToolRequest \<Rightarrow> ('w, toolResult) toolm" where
  "findCrashloopPods te request =
     (let clusterName = TrimSpace (ctr_GetString request ''cluster'' '''') in
      bindm (orToolError ''list clusters'' (mcpListClusters (te_http te) (te_codec te))) (\<lambda>all.
      bindm (if clusterName \<noteq> ''''
             then (case findCluster all clusterName of
                     None \<Rightarrow> throw (notFound te clusterName)
                   | Some cluster \<Rightarrow> ret [cluster])
             else ret all) (\<lambda>clusters.
      bindm (collectM clusters (\<lambda>cluster.
        bindm (orToolError (''get pods for cluster '' @ c_Name cluster)
                 (mcpGetPods (te_http te) (te_codec te) (c_ID cluster) '''')) (\<lambda>pods.
        ret (crashloopPods cluster pods)))) (\<lambda>found.
      jsonResult te (CrashloopValue found (length found))))))"

definition getEvents :: "('w, 'b) ToolEnv \<Rightarrow> CallToolRequest \<Rightarrow> ('w, toolResult) toolm" where
  "getEvents te request =
     bindm (requiredCluster te request) (\<lambda>cluster.
     bindm (orToolError ''get events''
       (mcpGetEvents (te_http te) (te_codec te) (c_ID cluster) (ctr_GetString request ''namespace'' ''''))) (\<lambda>events.
     let eventType = ctr_GetString request ''type'' '''';
         events = (if eventType \<noteq> '''' then filter (\<lambda>e. EqualFold (ev_Type e) eventType) events else events)
     in jsonResult te (EventsValue cluster events (length events))))"

definition getPods :: "('w, 'b) ToolEnv \<Rightarrow> CallToolRequest \<Rightarrow> ('w, toolResult) toolm" where
  "getPods te request =
     bindm (requiredCluster te request) (\<lambda>cluster.
     bindm (orToolError ''get pods''
       (mcpGetPods (te_http te) (te_codec te) (c_ID cluster) (ctr_GetString request ''namespace'' ''''))) (\<lambda>pods.
     jsonResult te (PodsValue cluster pods (length pods))))"

definition diagnoseCluster :: "('w, 'b) ToolEnv \<Rightarrow> CallToolRequest \<Rightarrow> ('w, toolResult) toolm" where
  "diagnoseCluster te request =
     bindm (requiredCluster te request) (\<lambda>cluster.
     bindm (orToolError ''get cluster status'' (mcpGetClusterStatus (te_http te) (te_codec te) (c_ID cluster))) (\<lambda>status.
     bindm (orToolError ''get pods'' (mcpGetPods (te_http te) (te_codec te) (c_ID cluster) '''')) (\<lambda>pods.
     bindm (orToolError ''get events'' (mcpGetEvents (te_http te) (te_codec te) (c_ID cluster) '''')) (\<lambda>events.
     jsonResult te (DiagnosisValue
       \<lparr>dg_Cluster = cluster, dg_Status = status, dg_Crashloops = crashloopPods cluster pods,
        dg_WarningEvents = filter (\<lambda>e. EqualFold (ev_Type e) ''Warning'') events\<rparr>)))))"

definition listNamespaces :: "('w, 'b) ToolEnv \<Rightarrow> CallToolRequest \<Rightarrow> ('w, toolResult) toolm" where
  "listNamespaces te request =
     bindm (requiredCluster te request) (\<lambda>cluster.
     bindm (orToolError ''list namespaces'' (mcpListNamespaces (te_http te) (te_codec te) (c_ID cluster))) (\<lambda>namespaces.
     jsonResult te (NamespacesValue cluster namespaces (length namespaces))))"

definition timestampArg :: "('w, 'b) ToolEnv \<Rightarrow> CallToolRequest \<Rightarrow> string \<Rightarrow> ('w, time option) toolm" where
  "timestampArg te request name =
     (let raw = TrimSpace (ctr_GetString request name '''') in
      if raw = '''' then ret None
      else case mc_ParseTime (te_codec te) raw of
        None \<Rightarrow> throw (ToolError (name @ '' must be an RFC3339 timestamp''))
      | Some t \<Rightarrow> ret (Some t))"

definition getTimeline :: "('w, 'b) ToolEnv \<Rightarrow> CallToolRequest \<Rightarrow> ('w, toolResult) toolm" where
  "getTimeline te request =
     (let name = TrimSpace (ctr_GetString request ''cluster'' '''') in
      bindm (if name \<noteq> ''''
             then bindm (orToolError ''list clusters'' (mcpListClusters (te_http te) (te_codec te))) (\<lambda>clusters.
                  case findCluster clusters name of
                    None \<Rightarrow> throw (notFound te name)
                  | Some cluster \<Rightarrow> ret (c_ID cluster))
             else ret '''') (\<lambda>clusterID.
      let before = ctr_GetInt request ''before'' 0; limit = ctr_GetInt request ''limit'' 0 in
      if before < 0 then throw (ToolError ''before must be a positive cursor'')
      else if limit < 0 \<or> limit > 500 then throw (ToolError ''limit must be between 1 and 500'')
      else bindm (timestampArg te request ''since'') (\<lambda>since.
      bindm (timestampArg te request ''until'') (\<lambda>until.
      bindm (orToolError ''get timeline'' (mcpGetTimeline (te_http te) (te_codec te)
        \<lparr>tq_ClusterID = clusterID, tq_Since = since, tq_Until = until, tq_Before = before, tq_Limit = limit\<rparr>)) (\<lambda>page.
      jsonResult te (TimelineValue (lt_Events page) (length (lt_Events page)) (lt_NextCursor page)))))))"

section \<open>Pod logs\<close>

definition defaultPodLogTailLines :: int where "defaultPodLogTailLines = 100"
definition maxPodLogTailLines :: int where "maxPodLogTailLines = 1000"
definition maxPodLogBytes :: nat where "maxPodLogBytes = 262144"

definition minLogOptionsAgentVersion :: string where
  "minLogOptionsAgentVersion = ''v0.2.0''"

definition agentIgnoresLogOptions :: "Semver \<Rightarrow> string \<Rightarrow> bool" where
  "agentIgnoresLogOptions sv agentVersion =
     (let version = TrimSpace agentVersion in
      if version = '''' then False
      else let version = (if HasPrefix version ''v'' then version else ''v'' @ version)
           in sv_IsValid sv version \<and> sv_Compare sv version minLogOptionsAgentVersion < 0)"

text \<open>The loop goes from the last line to the first; \<open>todo\<close> are the lines before \<open>kept\<close>, in reverse.\<close>

fun newestLoop :: "nat \<Rightarrow> nat \<Rightarrow> string list \<Rightarrow> string list \<Rightarrow> string list \<times> bool" where
  "newestLoop budget bytes [] kept = (kept, False)"
| "newestLoop budget bytes (line # todo) kept =
     (let bytes = bytes + length line + 1 in
      if bytes > budget + 1 then (kept, True) else newestLoop budget bytes todo (line # kept))"

definition newestLinesWithin :: "string list \<Rightarrow> nat \<Rightarrow> string list \<times> bool" where
  "newestLinesWithin lines budget = newestLoop budget 0 (rev lines) []"

definition podLogsNote :: "('w, 'b) ToolEnv \<Rightarrow> Cluster \<Rightarrow> bool \<Rightarrow> bool \<Rightarrow> nat \<Rightarrow> nat \<Rightarrow> string" where
  "podLogsNote te cluster previous truncated available kept =
     (if previous \<and> agentIgnoresLogOptions (te_semver te) (c_AgentVersion cluster)
      then ''agent '' @ c_AgentVersion cluster @ '' predates '' @ minLogOptionsAgentVersion @
        '' and ignores previous and sinceSeconds, so these are the current container'' @ [CHR 0x27] @
        ''s logs; upgrade the agent to read the previous instance''
      else if truncated then ''output exceeded '' @ Itoa (int (maxPodLogBytes div 1024)) @ '' KiB; dropped the '' @
        Itoa (int (available - kept)) @ '' oldest lines''
      else if available = 0 \<and> \<not> previous then ''no log output; for a crashlooping container, retry with previous=true''
      else if available = 0 then ''no log output''
      else '''')"

definition getPodLogs :: "('w, 'b) ToolEnv \<Rightarrow> CallToolRequest \<Rightarrow> ('w, toolResult) toolm" where
  "getPodLogs te request =
     (let ns = TrimSpace (ctr_GetString request ''namespace'' '''');
          pod = TrimSpace (ctr_GetString request ''pod'' '''');
          tailLines = ctr_GetInt request ''tailLines'' defaultPodLogTailLines;
          sinceSeconds = ctr_GetInt request ''sinceSeconds'' 0
      in if ns = '''' \<or> pod = '''' then throw (ToolError ''namespace and pod are required and must be non-empty strings'')
         else if tailLines < 1 \<or> tailLines > maxPodLogTailLines
         then throw (ToolError (''tailLines must be between 1 and '' @ Itoa maxPodLogTailLines))
         else if sinceSeconds < 0 then throw (ToolError ''sinceSeconds must be zero or a positive number of seconds'')
         else bindm (requiredCluster te request) (\<lambda>cluster.
           let q = \<lparr>pq_ClusterID = c_ID cluster, pq_Namespace = ns, pq_Pod = pod,
                 pq_Container = TrimSpace (ctr_GetString request ''container'' ''''), pq_TailLines = tailLines,
                 pq_Previous = ctr_GetBool request ''previous'' False, pq_SinceSeconds = sinceSeconds\<rparr>
           in bindm (orToolError ''get pod logs'' (mcpGetPodLogs (te_http te) (te_codec te) q)) (\<lambda>lines.
           case newestLinesWithin lines maxPodLogBytes of (kept, truncated) \<Rightarrow>
             jsonResult te (PodLogsValue
               \<lparr>pl_Cluster = cluster, pl_Namespace = ns, pl_Pod = pod, pl_Container = pq_Container q,
                pl_Previous = pq_Previous q, pl_LineCount = length kept, pl_Truncated = truncated,
                pl_Note = podLogsNote te cluster (pq_Previous q) truncated (length lines) (length kept),
                pl_Logs = Join [LF] kept\<rparr>))))"

section \<open>The server\<close>

definition registerTools :: "('w, 'b) ToolEnv \<Rightarrow> (string \<times> (CallToolRequest \<Rightarrow> ('w, toolResult) toolm)) list" where
  "registerTools te =
     [(''list_clusters'', \<lambda>_. listClusters te),
      (''get_cluster_status'', getClusterStatus te),
      (''find_crashloop_pods'', findCrashloopPods te),
      (''get_events'', getEvents te),
      (''get_pods'', getPods te),
      (''diagnose_cluster'', diagnoseCluster te),
      (''get_recent_events'', getTimeline te),
      (''list_namespaces'', listNamespaces te),
      (''get_pod_logs'', getPodLogs te)]"

definition configureStdio :: "Parsers \<Rightarrow> (string \<Rightarrow> string) \<Rightarrow> env \<Rightarrow> string + McpClient" where
  "configureStdio ps quote env =
     (let hubURL = TrimSpace (env ''KFLEET_HUB_URL''); username = TrimSpace (env ''KFLEET_HUB_USERNAME'');
          password = env ''KFLEET_HUB_PASSWORD''
      in if hubURL = '''' then Inl ''KFLEET_HUB_URL is required''
         else if username = '''' \<or> password = '''' then Inl ''KFLEET_HUB_USERNAME and KFLEET_HUB_PASSWORD are required''
         else case NewWithCredentials ps quote hubURL username password of
           Inl err \<Rightarrow> Inl (''configure hub client: '' @ err)
         | Inr client \<Rightarrow> Inr client)"

end
