(* ===== verification/McpFacts.thy ===== *)
theory McpFacts
  imports McpTools LogEndToEnd
begin

text \<open>
  What the MCP server makes of the hub: the pod logs it reads, the requests it may send for one call, and the part of a
  long log it keeps.
\<close>

section \<open>Reading the hub's event stream\<close>

lemma scanLines_Nil [simp]: "scanLines '''' = ([], False)"
  by (simp add: scanLines.simps)

lemma scanLines_line:
  assumes "LF \<notin> set l" and "length l < sseMaxLineBytes"
  shows "scanLines (l @ LF # rest) = (trimCR l # fst (scanLines rest), snd (scanLines rest))"
proof -
  have "takeWhile (\<lambda>c. c \<noteq> LF) (l @ LF # rest) = l" using assms(1) by (induction l) auto
  then show ?thesis using assms(2) by (subst scanLines.simps) (simp add: Let_def split: prod.split)
qed

lemma trimCR_id [simp]: "CR \<notin> set l \<Longrightarrow> trimCR l = l"
  by (auto simp: trimCR_def dest: last_in_set)

lemma scanLines_data:
  assumes "\<And>p. p \<in> set ps \<Longrightarrow> LF \<notin> set p \<and> CR \<notin> set p \<and> length p + 6 < sseMaxLineBytes"
  shows "scanLines (concat (map (\<lambda>part. ''data: '' @ part @ [LF]) ps) @ LF # rest) =
    (map (\<lambda>p. ''data: '' @ p) ps @ '''' # fst (scanLines rest), snd (scanLines rest))"
  using assms
proof (induction ps)
  case Nil
  show ?case using scanLines_line [of "''''" rest] by (simp add: sseMaxLineBytes_def trimCR_def)
next
  case (Cons p ps)
  have p: "LF \<notin> set p" "CR \<notin> set p" "length p + 6 < sseMaxLineBytes" using Cons.prems [of p] by simp_all
  have "scanLines ((''data: '' @ p) @ LF # (concat (map (\<lambda>part. ''data: '' @ part @ [LF]) ps) @ LF # rest)) =
      (trimCR (''data: '' @ p) # map (\<lambda>p. ''data: '' @ p) ps @ '''' # fst (scanLines rest), snd (scanLines rest))"
    using scanLines_line [of "''data: '' @ p" "concat (map (\<lambda>part. ''data: '' @ part @ [LF]) ps) @ LF # rest"] p
      Cons.IH [OF Cons.prems] by simp
  with Cons.prems show ?case by simp
qed

lemma readEvents_data:
  "readEvents codec readErr out event buf hasData (map (\<lambda>p. ''data: '' @ p) ps @ rest) =
     readEvents codec readErr out event (buf @ ps) (hasData \<or> ps \<noteq> []) rest"
proof (induction ps arbitrary: buf hasData)
  case (Cons p ps)
  have "CutC CHR '':'' (''data: '' @ p) = Some (''data'', CHR '' '' # p)"
    using CutC_append [of "CHR '':''" "''data''" "CHR '' '' # p"] by simp
  with Cons show ?case by (simp add: HasPrefix_def TrimPrefix_def)
qed simp

lemma replaceCRLF_length: "length (replaceCRLF s) \<le> length s"
  by (induction s rule: replaceCRLF.induct) auto

lemma SplitC_length: "p \<in> set (SplitC c s) \<Longrightarrow> length p \<le> length s"
proof (induction s arbitrary: p)
  case (Cons x s)
  obtain y ys where s: "SplitC c s = y # ys" by (cases "SplitC c s") auto
  with Cons.prems consider "p = ''''" | "p = x # y" | "p \<in> set (SplitC c s)" by (auto split: if_splits)
  then show ?case using Cons.IH [of y] Cons.IH [of p] s by cases auto
qed simp

lemma readEvents_line:
  assumes "CR \<notin> set (replaceCRLF line)" and "length line + 6 < sseMaxLineBytes"
  shows "readEvents codec readErr out '''' [] False (fst (scanLines (writeSSEData line @ rest))) =
      readEvents codec readErr (out @ [replaceCRLF line]) '''' [] False (fst (scanLines rest))"
    and "snd (scanLines (writeSSEData line @ rest)) = snd (scanLines rest)"
proof -
  let ?ps = "SplitC LF (replaceCRLF line)"
  have ps: "LF \<notin> set p \<and> CR \<notin> set p \<and> length p + 6 < sseMaxLineBytes" if "p \<in> set ?ps" for p
    using SplitC_parts [OF that] SplitC_length [OF that] replaceCRLF_length [of line] assms by auto
  have scan: "scanLines (writeSSEData line @ rest) =
      (map (\<lambda>p. ''data: '' @ p) ?ps @ '''' # fst (scanLines rest), snd (scanLines rest))"
    using scanLines_data [OF ps] by (simp add: writeSSEData_def)
  have "readEvents codec readErr out '''' [] False (map (\<lambda>p. ''data: '' @ p) ?ps @ '''' # fst (scanLines rest)) =
      readEvents codec readErr (out @ [replaceCRLF line]) '''' [] False (fst (scanLines rest))"
    by (subst readEvents_data) (simp add: Join_SplitC)
  then show "readEvents codec readErr out '''' [] False (fst (scanLines (writeSSEData line @ rest))) =
      readEvents codec readErr (out @ [replaceCRLF line]) '''' [] False (fst (scanLines rest))"
    unfolding scan fst_conv .
  show "snd (scanLines (writeSSEData line @ rest)) = snd (scanLines rest)" unfolding scan by simp
qed

lemma scanLines_event:
  assumes "LF \<notin> set payload" and "CR \<notin> set payload" and "length payload + 6 < sseMaxLineBytes"
    and "LF \<notin> set name" and "CR \<notin> set name" and "length name + 7 < sseMaxLineBytes"
  shows "scanLines (writeSSEEvent name payload) = ([''event: '' @ name, ''data: '' @ payload, ''''], False)"
proof -
  have 1: "scanLines [LF] = ([''''], False)"
    using scanLines_line [of "''''" "''''"] by (simp add: sseMaxLineBytes_def trimCR_def)
  have 2: "scanLines ((''data: '' @ payload) @ LF # [LF]) = ([''data: '' @ payload, ''''], False)"
    using assms(1-3) by (subst scanLines_line) (simp_all add: 1)
  have "scanLines ((''event: '' @ name) @ LF # ((''data: '' @ payload) @ LF # [LF])) =
      ([''event: '' @ name, ''data: '' @ payload, ''''], False)"
    using assms(4-6) by (subst scanLines_line) (simp_all add: 2 [simplified])
  then show ?thesis by (simp add: writeSSEEvent_def)
qed

lemma readEvents_event:
  "readEvents codec readErr out '''' [] False [''event: '' @ name, ''data: '' @ payload, ''''] =
     (if name = ''end'' then Inr out
      else if name = ''stream-error'' then Inl (streamFailure codec [payload])
      else readEvents codec readErr out name [payload] True [''''])"
proof -
  have "CutC CHR '':'' (''event: '' @ name) = Some (''event'', CHR '' '' # name)"
    "CutC CHR '':'' (''data: '' @ payload) = Some (''data'', CHR '' '' # payload)"
    using CutC_append [of "CHR '':''" "''event''" "CHR '' '' # name"] CutC_append [of "CHR '':''" "''data''" "CHR '' '' # payload"]
    by simp_all
  then show ?thesis by (auto simp: HasPrefix_def TrimPrefix_def)
qed

text \<open>What is in the messages of a stream: its lines, or the error it ended with.\<close>

fun podLogOutcome :: "(string \<Rightarrow> string option) \<Rightarrow> 'b McpCodec \<Rightarrow> string list \<Rightarrow> LogStreamMessage list \<Rightarrow> string + string list" where
  "podLogOutcome encode codec out [] =
     Inl (streamFailure codec [sseErrorPayload encode ''the agent log channel closed unexpectedly''])"
| "podLogOutcome encode codec out (m # ms) =
     (if lm_Type m = LogStreamData then podLogOutcome encode codec (out @ [replaceCRLF (lm_Line m)]) ms
      else if lm_Type m = LogStreamEnd then
        (if lm_Error m = '''' then Inr out else Inl (streamFailure codec [sseErrorPayload encode (lm_Error m)]))
      else podLogOutcome encode codec out ms)"

definition payloadOK :: "(string \<Rightarrow> string option) \<Rightarrow> string \<Rightarrow> bool" where
  "payloadOK encode m \<longleftrightarrow>
     (let d = sseErrorPayload encode m in LF \<notin> set d \<and> CR \<notin> set d \<and> length d + 6 < sseMaxLineBytes)"

lemma readEvents_stream:
  assumes "payloadOK encode ''the agent log channel closed unexpectedly''"
    and "\<And>m. m \<in> set ms \<Longrightarrow> lm_Error m \<noteq> '''' \<Longrightarrow> payloadOK encode (lm_Error m)"
    and "\<And>m. m \<in> set ms \<Longrightarrow> CR \<notin> set (replaceCRLF (lm_Line m)) \<and> length (lm_Line m) + 6 < sseMaxLineBytes"
  shows "readEvents codec readErr out '''' [] False (fst (scanLines (fst (streamPodLogs encode ms)))) =
      podLogOutcome encode codec out ms \<and> \<not> snd (scanLines (fst (streamPodLogs encode ms)))"
proof -
  have err: "readEvents codec readErr out '''' [] False (fst (scanLines (writeSSEError encode m))) =
      Inl (streamFailure codec [sseErrorPayload encode m]) \<and> \<not> snd (scanLines (writeSSEError encode m))"
    if "payloadOK encode m" for out m
  proof -
    let ?p = "sseErrorPayload encode m"
    have p: "LF \<notin> set ?p" "CR \<notin> set ?p" "length ?p + 6 < sseMaxLineBytes"
      using that by (simp_all add: payloadOK_def Let_def)
    have "scanLines (writeSSEError encode m) = ([''event: '' @ ''stream-error'', ''data: '' @ ?p, ''''], False)"
      unfolding writeSSEError_def sseStreamErrorEvent_def by (rule scanLines_event) (use p in \<open>simp_all add: sseMaxLineBytes_def\<close>)
    then show ?thesis using readEvents_event [of codec readErr out "''stream-error''" ?p] by simp
  qed
  have fin: "scanLines (writeSSEEvent ''end'' ''{}'') = ([''event: '' @ ''end'', ''data: '' @ ''{}'', ''''], False)"
    by (rule scanLines_event) (simp_all add: sseMaxLineBytes_def)
  show ?thesis
    using assms(2,3)
  proof (induction ms arbitrary: out)
    case Nil
    show ?case using err [OF assms(1)] by simp
  next
    case (Cons m ms)
    from Cons.prems(2) [of m] have m: "CR \<notin> set (replaceCRLF (lm_Line m))" "length (lm_Line m) + 6 < sseMaxLineBytes" by simp_all
    consider "lm_Type m = LogStreamData" | "lm_Type m = LogStreamEnd" "lm_Error m = ''''"
      | "lm_Type m = LogStreamEnd" "lm_Error m \<noteq> ''''" | "lm_Type m \<noteq> LogStreamData" "lm_Type m \<noteq> LogStreamEnd" by blast
    then show ?case
    proof cases
      case 1
      then have "fst (streamPodLogs encode (m # ms)) = writeSSEData (lm_Line m) @ fst (streamPodLogs encode ms)"
        by (simp split: prod.split)
      then have "readEvents codec readErr out '''' [] False (fst (scanLines (fst (streamPodLogs encode (m # ms))))) =
          readEvents codec readErr (out @ [replaceCRLF (lm_Line m)]) '''' [] False (fst (scanLines (fst (streamPodLogs encode ms))))"
        "snd (scanLines (fst (streamPodLogs encode (m # ms)))) = snd (scanLines (fst (streamPodLogs encode ms)))"
        using readEvents_line [OF m, where rest = "fst (streamPodLogs encode ms)"] by metis+
      with 1 Cons.IH [of "out @ [replaceCRLF (lm_Line m)]"] Cons.prems show ?thesis by (simp del: streamPodLogs.simps)
    next
      case 2
      with fin readEvents_event [of codec readErr out "''end''" "''{}''"] show ?thesis by simp
    next
      case 3
      with err Cons.prems(1) [of m] show ?thesis by simp
    next
      case 4
      with Cons show ?thesis by simp
    qed
  qed
qed

lemma podLogOutcome_lines:
  "podLogOutcome encode codec out (map (lineFrame sid) lines @ [endFrame sid err]) =
     (case err of None \<Rightarrow> Inr (out @ map replaceCRLF lines)
      | Some e \<Rightarrow> if e = '''' then Inr (out @ map replaceCRLF lines)
          else Inl (streamFailure codec [sseErrorPayload encode e]))"
  by (induction lines arbitrary: out) (simp_all split: option.split)

lemma podLog_short:
  assumes "podLog opener request = (lines, err)" and "l \<in> set lines"
  shows "length l \<le> maxLineBytes"
proof -
  obtain reader where "opener (lq_Namespace request) (lq_Pod request) (logOptions request) = Inr reader"
      "TrimSpace (lq_Namespace request) \<noteq> ''''" "TrimSpace (lq_Pod request) \<noteq> ''''"
    using assms by (cases "opener (lq_Namespace request) (lq_Pod request) (logOptions request)")
      (auto simp: podLog_def Stream_def throw_def split: if_splits)
  moreover obtain r out where run: "streamLines (\<lambda>w. (\<lambda>_. None) (fst w)) (recorded (\<lambda>line w. (Inr (), w))) (ld_Error reader)
      (ld_Content reader) ((), []) = (r, ((), out))" by (metis (full_types) old.unit.exhaust prod_cases3)
  ultimately have "lines = out" using assms(1) by (auto simp: podLog_def Stream_def split: sum.splits)
  with streamLines_emits [OF run] have "prefix lines (map (take maxLineBytes) (logLines (ld_Content reader)))" by auto
  then have "l \<in> set (map (take maxLineBytes) (logLines (ld_Content reader)))"
    using assms(2) set_mono_prefix by blast
  then show ?thesis by auto
qed

text \<open>C19: The MCP server reads from the hub's event stream exactly the log the agent read from the pod: when a finished
  stream's frames (\<open>browser_sees_log\<close>) have been written as server-sent events, \<open>readLogEvents\<close> returns its lines in order, or
  fails with the message of the error that ended the log. Lines the agent sends are short enough for the scanner; they must
  have no carriage return, and the JSON encoder of the hub and the decoder of the client must fit together.\<close>

theorem mcp_reads_pod_logs:
  assumes "podLog opener request = (lines, err)" and nocr: "\<And>l. l \<in> set lines \<Longrightarrow> CR \<notin> set l"
    and enc: "\<And>m. m = ''the agent log channel closed unexpectedly'' \<or> err = Some m \<Longrightarrow>
      \<exists>d. encode m = Some d \<and> LF \<notin> set d \<and> CR \<notin> set d \<and> length d + 6 < sseMaxLineBytes \<and> mc_Message codec d = Some m"
  shows "readLogEvents codec (fst (streamPodLogs encode (map (lineFrame sid) lines @ [endFrame sid err])), readErr) =
    (case err of None \<Rightarrow> Inr lines
     | Some e \<Rightarrow> if e = '''' then Inr lines else Inl (''pod log stream failed: '' @ e))"
proof -
  let ?ms = "map (lineFrame sid) lines @ [endFrame sid err]"
  have lf: "replaceCRLF l = l" if "l \<in> set lines" for l using podLog_lines [OF assms(1) that] by (rule replaceCRLF_id)
  have ok: "payloadOK encode m" if "m = ''the agent log channel closed unexpectedly'' \<or> err = Some m" for m
    using enc [OF that] by (auto simp: payloadOK_def sseErrorPayload_def)
  have "readEvents codec readErr' out '''' [] False (fst (scanLines (fst (streamPodLogs encode ?ms)))) =
      podLogOutcome encode codec out ?ms \<and> \<not> snd (scanLines (fst (streamPodLogs encode ?ms)))" for readErr' out
  proof (rule readEvents_stream)
    fix m assume "m \<in> set ?ms"
    then show "CR \<notin> set (replaceCRLF (lm_Line m)) \<and> length (lm_Line m) + 6 < sseMaxLineBytes"
      using nocr lf podLog_short [OF assms(1)] by (fastforce simp: sseMaxLineBytes_def maxLineBytes_def)
  next
    show "payloadOK encode ''the agent log channel closed unexpectedly''" by (rule ok) simp
  next
    fix m assume "m \<in> set ?ms" "lm_Error m \<noteq> ''''"
    then have "err = Some (lm_Error m)" by (auto simp: lineFrame_def wireFrame_def split: option.splits)
    then show "payloadOK encode (lm_Error m)" by (intro ok) simp
  qed
  moreover have "map replaceCRLF lines = lines" using lf by (simp add: map_idI)
  moreover have "streamFailure codec [sseErrorPayload encode e] = ''pod log stream failed: '' @ e" if "e \<noteq> ''''" "err = Some e" for e
    using enc [of e] that by (auto simp: streamFailure_def sseErrorPayload_def)
  ultimately have "readEvents codec readErr' [] '''' [] False (fst (scanLines (fst (streamPodLogs encode ?ms)))) =
      (case err of None \<Rightarrow> Inr lines | Some e \<Rightarrow> if e = '''' then Inr lines else Inl (''pod log stream failed: '' @ e))" for readErr'
    by (cases err) (simp_all add: podLogOutcome_lines)
  then show ?thesis
    unfolding readLogEvents_def by (simp only: fst_conv split: prod.split) (metis fst_conv)
qed

definition plainCodec :: "'b McpCodec" where
  "plainCodec = \<lparr>mc_ErrorField = (\<lambda>_. None), mc_Clusters = (\<lambda>_. Inr []), mc_Status = (\<lambda>_. Inl ''EOF''),
     mc_Pods = (\<lambda>_. Inr []), mc_Events = (\<lambda>_. Inr []), mc_Namespaces = (\<lambda>_. Inr []), mc_Timeline = (\<lambda>_. Inl ''EOF''),
     mc_Stream = (\<lambda>_. ('''', None)), mc_Message = Some, mc_FormatTime = (\<lambda>_. ''''), mc_ParseTime = (\<lambda>_. None),
     mc_Quote = (\<lambda>s. s)\<rparr>"

theorem mcp_reads_pod_logs_witness:
  "readLogEvents (plainCodec :: unit McpCodec) (fst (streamPodLogs Some [lineFrame ''s1'' ''up'', endFrame ''s1'' None]), None) =
     Inr [''up'']"
proof -
  have "readLogEvents (plainCodec :: unit McpCodec)
      (fst (streamPodLogs Some (map (lineFrame ''s1'') [''up''] @ [endFrame ''s1'' None])), None) = Inr [''up'']"
    by (subst mcp_reads_pod_logs [OF podLog_oneLine]) (auto simp: plainCodec_def sseMaxLineBytes_def)
  then show ?thesis by simp
qed

section \<open>The newest lines\<close>

definition joinedSize :: "string list \<Rightarrow> nat" where
  "joinedSize ls = sum_list (map (\<lambda>l. length l + 1) ls)"

lemma joinedSize_Join: "length (Join [LF] ls) = joinedSize ls - 1"
  by (induction "[LF]" ls rule: Join.induct) (auto simp: joinedSize_def)

lemma newestLoop_spec:
  assumes "bytes = joinedSize kept" and "bytes \<le> budget + 1" and "newestLoop budget bytes todo kept = (out, truncated)"
  shows "\<exists>dropped. rev todo @ kept = dropped @ out \<and> joinedSize out \<le> budget + 1 \<and> truncated = (dropped \<noteq> []) \<and>
    (dropped \<noteq> [] \<longrightarrow> budget + 1 < joinedSize (last dropped # out))"
  using assms
proof (induction todo arbitrary: bytes kept)
  case (Cons line todo)
  show ?case
  proof (cases "bytes + length line + 1 > budget + 1")
    case True
    with Cons.prems have "out = kept" "truncated" by auto
    with True Cons.prems(1,2) show ?thesis
      by (intro exI [of _ "rev todo @ [line]"]) (simp add: joinedSize_def)
  next
    case False
    with Cons.prems Cons.IH [of "bytes + length line + 1" "line # kept"] show ?thesis
      by (auto simp: joinedSize_def)
  qed
qed auto

text \<open>Of a log that is too long for one answer the newest lines are kept, as many as fit: the kept lines are the end of
  the log and their text is within the budget, lines are dropped exactly when that is reported, and one more line would not
  have fitted.\<close>

theorem newest_lines_within:
  assumes "newestLinesWithin lines budget = (kept, truncated)"
  shows "\<exists>dropped. lines = dropped @ kept \<and> length (Join [LF] kept) \<le> budget \<and> truncated = (dropped \<noteq> []) \<and>
    (dropped \<noteq> [] \<longrightarrow> budget < length (Join [LF] (last dropped # kept)))"
proof -
  from newestLoop_spec [of 0 "[]" budget "rev lines" kept truncated] assms
  obtain dropped where d: "lines = dropped @ kept" "joinedSize kept \<le> budget + 1" "truncated = (dropped \<noteq> [])"
    "dropped \<noteq> [] \<longrightarrow> budget + 1 < joinedSize (last dropped # kept)"
    by (auto simp: newestLinesWithin_def joinedSize_def)
  then show ?thesis by (intro exI [of _ dropped]) (auto simp: joinedSize_Join)
qed

theorem newest_lines_within_witness:
  "newestLinesWithin [''old'', ''newer'', ''new''] 10 = ([''newer'', ''new''], True) \<and> length (Join [LF] [''newer'', ''new'']) \<le> 10"
proof -
  have run: "newestLinesWithin [''old'', ''newer'', ''new''] 10 = ([''newer'', ''new''], True)"
    by (simp add: newestLinesWithin_def Let_def)
  with newest_lines_within [OF run] show ?thesis by auto
qed

section \<open>Sessions\<close>

text \<open>A transport that keeps the requests it is given.\<close>

definition logged :: "('w, 'b) mcpTransport \<Rightarrow> ('w \<times> McpRequest list, 'b) mcpTransport" where
  "logged http q = (\<lambda>(w, tr). case http q w of (r, w') \<Rightarrow> (r, (w', tr @ [q])))"

definition traceOf :: "('w \<times> McpRequest list) mcp \<Rightarrow> McpRequest list" where
  "traceOf s = snd (mcp_World s)"

lemma mcpDo_logged:
  "mcpDo (logged http) what q s = (r, s') \<Longrightarrow> traceOf s' = traceOf s @ [q] \<and> mcp_Client s' = mcp_Client s"
  by (auto simp: mcpDo_def mapErr_def within_def logged_def traceOf_def split: prod.splits sum.splits)

lemma requests_loggedIn [simp]:
  "loginRequest (c\<lparr>mcl_loggedIn := b\<rparr>) = loginRequest c" "getRequest (c\<lparr>mcl_loggedIn := b\<rparr>) = getRequest c"
  by (simp_all add: loginRequest_def getRequest_def fun_eq_iff)

lemma doGet_logged:
  "doGet (logged http) path vals accept s = (r, s') \<Longrightarrow>
     traceOf s' = traceOf s @ [getRequest (mcp_Client s) path vals accept] \<and> mcp_Client s' = mcp_Client s"
  by (auto simp: doGet_def bindm_def gets_def dest: mcpDo_logged)

lemma setLoggedIn_run: "setLoggedIn b s = (r, s') \<Longrightarrow>
    r = Inr () \<and> traceOf s' = traceOf s \<and> mcp_Client s' = (mcp_Client s)\<lparr>mcl_loggedIn := b\<rparr>"
  by (auto simp: setLoggedIn_def modify_def traceOf_def)

lemma ensureAuthenticated_logged:
  assumes "ensureAuthenticated (logged http) codec s = (r, s')"
  shows "traceOf s' = traceOf s @ (if mcl_loggedIn (mcp_Client s) then [] else [loginRequest (mcp_Client s)]) \<and>
    (\<exists>b. mcp_Client s' = (mcp_Client s)\<lparr>mcl_loggedIn := b\<rparr>)"
proof (cases "mcl_loggedIn (mcp_Client s)")
  case True
  with assms show ?thesis by (auto simp: ensureAuthenticated_def bindm_def gets_def ret_def intro: exI [of _ True])
next
  case False
  obtain x s1 where d: "mcpDo (logged http) ''authenticate with hub'' (loginRequest (mcp_Client s)) s = (x, s1)" by fastforce
  note D = mcpDo_logged [OF d]
  have same: "mcp_Client s = (mcp_Client s)\<lparr>mcl_loggedIn := False\<rparr>" using False by simp
  show ?thesis
  proof (cases x)
    case (Inl e)
    with assms False d D same show ?thesis by (auto simp: ensureAuthenticated_def bindm_def gets_def intro: exI [of _ False])
  next
    case (Inr response)
    show ?thesis
    proof (cases "statusOK response")
      case True
      with assms False d Inr have "setLoggedIn True s1 = (r, s')" by (simp add: ensureAuthenticated_def bindm_def gets_def)
      with setLoggedIn_run [OF this] D False show ?thesis by auto
    next
      case no: False
      with assms False d Inr D same show ?thesis
        by (auto simp: ensureAuthenticated_def bindm_def gets_def throw_def intro: exI [of _ False])
    qed
  qed
qed

text \<open>What follows a GET that was answered with 401.\<close>

lemma retry_logged:
  assumes "bindm (setLoggedIn False) (\<lambda>_. bindm (ensureAuthenticated (logged http) codec)
      (\<lambda>_. doGet (logged http) path vals accept)) s = (x, s')"
    and "mcp_Client s = c\<lparr>mcl_loggedIn := b\<rparr>" and "L = loginRequest c" and "G = getRequest c path vals accept"
  shows "\<exists>tr. traceOf s' = traceOf s @ tr \<and> tr \<in> {[L], [L, G]} \<and> (\<forall>y. x = Inr y \<longrightarrow> tr = [L, G]) \<and>
    (\<exists>b. mcp_Client s' = c\<lparr>mcl_loggedIn := b\<rparr>)"
proof -
  obtain s1 where s1: "setLoggedIn False s = (Inr (), s1)" using setLoggedIn_run by (metis prod.exhaust)
  note S = setLoggedIn_run [OF s1]
  obtain e s2 where e: "ensureAuthenticated (logged http) codec s1 = (e, s2)" by fastforce
  have "loginRequest (mcp_Client s1) = L" using S assms(2,3) by simp
  then have E: "traceOf s2 = traceOf s @ [L]" "\<exists>b. mcp_Client s2 = c\<lparr>mcl_loggedIn := b\<rparr>"
    using ensureAuthenticated_logged [OF e] S assms(2) by auto
  show ?thesis
  proof (cases e)
    case (Inl err)
    with assms(1) s1 e have "s' = s2" "x = Inl err" by (simp_all add: bindm_def)
    with E show ?thesis by (intro exI [of _ "[L]"]) simp
  next
    case (Inr u)
    with assms(1) s1 e have g: "doGet (logged http) path vals accept s2 = (x, s')" by (simp add: bindm_def)
    have "getRequest (mcp_Client s2) path vals accept = G" using E(2) by (auto simp: assms(4))
    with E doGet_logged [OF g] show ?thesis by (intro exI [of _ "[L, G]"]) simp
  qed
qed

text \<open>C20: A query costs the hub little and works only with a session: whatever the hub answers, one call sends at most two
  GETs and two logins, in the order that an expired session needs; without a session it logs in first, without credentials
  it never does; and it returns a response only when that is a success and the answer to its last GET.\<close>

theorem mcp_session_bounded:
  assumes "openHub (logged http) codec path vals accept s = (r, s')"
    and "c = mcp_Client s" and "L = loginRequest c" and "G = getRequest c path vals accept"
  shows "\<exists>tr. traceOf s' = traceOf s @ tr \<and>
    tr \<in> set (map (\<lambda>mid. (if mcl_username c = '''' \<or> mcl_loggedIn c then [] else [L]) @ mid)
           (if mcl_username c = '''' then [[G]] else [[], [G], [G, L], [G, L, G]])) \<and>
    (\<forall>response. r = Inr response \<longrightarrow> statusOK response \<and> tr \<noteq> [] \<and> last tr = G) \<and>
    (\<exists>b. mcp_Client s' = c\<lparr>mcl_loggedIn := b\<rparr>)"
proof -
  let ?auth = "if mcl_username c \<noteq> '''' then ensureAuthenticated (logged http) codec else ret ()"
  let ?pre = "if mcl_username c = '''' \<or> mcl_loggedIn c then [] else [L]"
  have same: "\<exists>b. c = c\<lparr>mcl_loggedIn := b\<rparr>" by (rule exI [of _ "mcl_loggedIn c"]) simp
  obtain a s1 where a: "?auth s = (a, s1)" by fastforce
  have A: "traceOf s1 = traceOf s @ ?pre \<and> (\<exists>b. mcp_Client s1 = c\<lparr>mcl_loggedIn := b\<rparr>) \<and> (mcl_username c = '''' \<longrightarrow> a = Inr ())"
  proof (cases "mcl_username c = ''''")
    case True
    with a same show ?thesis by (auto simp: ret_def assms(2))
  next
    case False
    with a have "ensureAuthenticated (logged http) codec s = (a, s1)" by simp
    from ensureAuthenticated_logged [OF this] False show ?thesis by (simp add: assms(2,3))
  qed
  show ?thesis
  proof (cases a)
    case (Inl e)
    then have "mcl_username c \<noteq> ''''" using A by auto
    moreover from assms(1) a Inl have "s' = s1" "r = Inl e" by (auto simp: openHub_def bindm_def gets_def assms(2))
    ultimately show ?thesis using A by (intro exI [of _ ?pre]) auto
  next
    case (Inr u)
    obtain g s2 where g: "doGet (logged http) path vals accept s1 = (g, s2)" by fastforce
    have G: "getRequest (mcp_Client s1) path vals accept = G" using A by (auto simp: assms(4))
    note D = doGet_logged [OF g, unfolded G]
    show ?thesis
    proof (cases "\<exists>first. g = Inr first \<and> rp_StatusCode first = 401 \<and> mcl_username c \<noteq> ''''")
      case False
      then have "s' = s2 \<and> (\<forall>response. r = Inr response \<longrightarrow> statusOK response)"
        using assms(1) a Inr g by (cases g) (auto simp: openHub_def bindm_def gets_def ret_def throw_def assms(2) split: if_splits)
      with A D show ?thesis by (intro exI [of _ "?pre @ [G]"]) auto
    next
      case True
      then obtain first where f: "g = Inr first" "rp_StatusCode first = 401" "mcl_username c \<noteq> ''''" by blast
      obtain x s3 where x: "bindm (setLoggedIn False) (\<lambda>_. bindm (ensureAuthenticated (logged http) codec)
          (\<lambda>_. doGet (logged http) path vals accept)) s2 = (x, s3)" by fastforce
      have c: "gets mcp_Client s = (Inr c, s)" by (simp add: gets_def assms(2))
      have "openHub (logged http) codec path vals accept s =
          bindm (bindm (setLoggedIn False) (\<lambda>_. bindm (ensureAuthenticated (logged http) codec)
            (\<lambda>_. doGet (logged http) path vals accept)))
          (\<lambda>response. if \<not> statusOK response then throw (statusError codec ''hub API returned '' response) else ret response) s2"
        unfolding openHub_def bindm_Inr [where m = ?auth, OF a [unfolded Inr]]
          bindm_Inr [where m = "gets mcp_Client", OF c]
          bindm_Inr [where m = "doGet (logged http) path vals accept", OF g [unfolded f(1)]]
        using f(2,3) by simp
      then have "s' = s3 \<and> (\<forall>response. r = Inr response \<longrightarrow> statusOK response \<and> x = Inr response)"
        using assms(1) x by (cases x) (auto simp: bindm_def [of "bindm _ _"] throw_def ret_def split: if_splits)
      moreover from A D obtain b where "mcp_Client s2 = c\<lparr>mcl_loggedIn := b\<rparr>" by auto
      then obtain tr where "traceOf s3 = traceOf s2 @ tr" "tr \<in> {[L], [L, G]}" "\<forall>y. x = Inr y \<longrightarrow> tr = [L, G]"
          "\<exists>b. mcp_Client s3 = c\<lparr>mcl_loggedIn := b\<rparr>" using retry_logged [OF x _ assms(3,4)] by blast
      ultimately show ?thesis using A D f(3) by (intro exI [of _ "?pre @ [G] @ tr"]) auto
    qed
  qed
qed

text \<open>A hub whose session has expired: the first GET is refused, everything after it succeeds.\<close>

definition expiring :: "(nat, unit) mcpTransport" where
  "expiring q n = (Inr \<lparr>rp_StatusCode = (if n = 0 then 401 else 200), rp_Status = '''', rp_Body = ()\<rparr>, Suc n)"

definition expiredMcp :: "(nat \<times> McpRequest list) mcp" where
  "expiredMcp = \<lparr>mcp_Client = \<lparr>mcl_hubURL = ''http://hub'', mcl_token = '''', mcl_username = ''mcp'', mcl_password = ''p'',
     mcl_loggedIn = True\<rparr>, mcp_World = (0, [])\<rparr>"

theorem mcp_session_bounded_witness:
  "length (traceOf (snd (openHub (logged expiring) plainCodec ''/api/v1/clusters'' [] ''application/json'' expiredMcp))) \<le> 3"
proof -
  from mcp_session_bounded [OF prod.collapse [symmetric] refl refl refl, of expiring plainCodec "''/api/v1/clusters''" "[]"
      "''application/json''" expiredMcp]
  show ?thesis by (auto simp: expiredMcp_def traceOf_def)
qed

section \<open>What the hub is asked for\<close>

definition valueOf :: "Values \<Rightarrow> string \<Rightarrow> string" where
  "valueOf v k = (case map_of v k of Some x \<Rightarrow> x | None \<Rightarrow> '''')"

text \<open>The log the MCP server asks for is the log the hub asks the agent for: the hub reads from the query and the path
  the same namespace, pod, container, number of lines, instance and age, and never follows.\<close>

theorem mcp_log_request:
  assumes "podLogsRequest r h = (Inr (cluster, request), h')" and "rq_Query r = valueOf (podLogsValues q)"
    and "rq_PathValue r ''namespace'' = pq_Namespace q" and "rq_PathValue r ''pod'' = pq_Pod q"
    and "1 \<le> pq_TailLines q" and "pq_TailLines q \<le> maxPodLogTailLines" and "0 \<le> pq_SinceSeconds q" and "pq_SinceSeconds q \<le> maxInt64"
  shows "request = \<lparr>ls_Namespace = TrimSpace (pq_Namespace q), ls_Pod = TrimSpace (pq_Pod q),
    ls_Container = TrimSpace (pq_Container q), ls_Follow = False, ls_TailLines = pq_TailLines q,
    ls_Previous = pq_Previous q, ls_SinceSeconds = pq_SinceSeconds q\<rparr>"
proof -
  have t: "TrimSpace ''false'' = ''false''" "TrimSpace ''true'' = ''true''" by code_simp+
  have v: "valueOf (podLogsValues q) ''follow'' = ''false''"
    "valueOf (podLogsValues q) ''container'' = TrimSpace (pq_Container q)"
    "valueOf (podLogsValues q) ''tailLines'' = Itoa (pq_TailLines q)"
    "valueOf (podLogsValues q) ''previous'' = (if pq_Previous q then ''true'' else '''')"
    "valueOf (podLogsValues q) ''sinceSeconds'' = (if pq_SinceSeconds q > 0 then Itoa (pq_SinceSeconds q) else '''')"
    using assms(5) by (simp_all add: valueOf_def podLogsValues_def)
  have tail: "parseTailLines (Itoa (pq_TailLines q)) = pq_TailLines q"
    using assms(5,6) by (simp add: parseTailLines_def TrimSpace_Itoa ParseInt_Itoa maxPodLogTailLines_def maxLogTailLines_def)
  have since: "parseSinceSeconds (if pq_SinceSeconds q > 0 then Itoa (pq_SinceSeconds q) else '''') = pq_SinceSeconds q"
    using assms(7,8) by (auto simp: ParseInt_def [of 64 "''''"] parseSinceSeconds_def TrimSpace_Itoa ParseInt_Itoa maxInt64_def)
  have "parseFollow ''false'' = False" "parsePrevious (if pq_Previous q then ''true'' else '''') = pq_Previous q"
    by (simp_all add: parseFollow_def parsePrevious_def t ParseBool_def)
  with assms(1) tail since show ?thesis
    by (auto simp: podLogsRequest_def bindm_ok Let_def ret_def WriteError_def throw_def assms(2-4) v split: if_splits)
qed

end
