(* ===== verification/Demo.thy ===== *)
theory Demo
  imports StoreFacts StoreAlerts StoreEvents
begin

text \<open>
  \<open>internal/demo\<close>: the synthetic data set of the public demo, written into a fresh in-memory store before the hub serves
  it read-only.
\<close>

section \<open>The data\<close>

record fixture =
  fx_cluster :: Cluster
  fx_snapshot :: ClusterSnapshot

definition ClusterAlphaID :: string where "ClusterAlphaID = ''demo-cluster-alpha''"
definition ClusterBravoID :: string where "ClusterBravoID = ''demo-cluster-bravo''"
definition ClusterCharlieID :: string where "ClusterCharlieID = ''demo-cluster-charlie''"

definition demoPod :: "string \<Rightarrow> string \<Rightarrow> string \<Rightarrow> time \<Rightarrow> bool \<Rightarrow> int \<Rightarrow> Pod" where
  "demoPod ns name node started ready restarts =
     \<lparr>p_Name = name, p_Namespace = ns, p_Phase = (if \<not> ready then ''Pending'' else ''Running''), p_NodeName = node,
      p_RestartCount = restarts, p_Ready = ready, p_StartTime = started, p_SecurityContextKnown = True,
      p_Privileged = False, p_RunAsNonRoot = True, p_ReadOnlyRootFilesystem = True,
      p_AllowsPrivilegeEscalation = False, p_CapabilitiesDroppedAll = True, p_HostNetwork = False,
      p_HostPID = False, p_HostIPC = False\<rparr>"

definition demoService :: "string \<Rightarrow> string \<Rightarrow> string \<Rightarrow> int \<Rightarrow> Service" where
  "demoService name ns clusterIP port =
     \<lparr>sv_Name = name, sv_Namespace = ns, sv_Type = ''ClusterIP'', sv_ClusterIP = clusterIP, sv_ExternalIPs = [],
      sv_Ports = [\<lparr>sp_Name = ''http'', sp_Port = port, sp_TargetPort = port, sp_Protocol = ''TCP''\<rparr>], sv_Age = ''demo''\<rparr>"

definition demoDeployment :: "string \<Rightarrow> string \<Rightarrow> int \<Rightarrow> int \<Rightarrow> string \<Rightarrow> Deployment" where
  "demoDeployment name ns desired ready age =
     \<lparr>d_Name = name, d_Namespace = ns, d_ReadyReplicas = ready, d_DesiredReplicas = desired, d_UpdatedReplicas = ready,
      d_AvailableReplicas = ready, d_Age = age, d_ConfigHash = ''synthetic-demo-config'',
      d_Images = [''registry.invalid/demo/'' @ name @ '':v1'']\<rparr>"

definition demoEvent :: "string \<Rightarrow> string \<Rightarrow> string \<Rightarrow> string \<Rightarrow> string \<Rightarrow> time \<Rightarrow> Event" where
  "demoEvent clusterID ns reason message eventType timestamp =
     \<lparr>ev_ClusterID = clusterID, ev_Namespace = ns, ev_Reason = reason, ev_Message = message, ev_Type = eventType,
      ev_Count = 1, ev_LastTimestamp = timestamp\<rparr>"

definition demoNode :: "string \<Rightarrow> string \<Rightarrow> string list \<Rightarrow> string \<Rightarrow> string \<Rightarrow> string \<Rightarrow> bool \<Rightarrow> Node" where
  "demoNode name status roles version cpu memory ready =
     \<lparr>n_Name = name, n_Status = status, n_Roles = roles, n_Version = version, n_CPUCapacity = cpu,
      n_MemoryCapacity = memory, n_Ready = ready\<rparr>"

definition demoCluster ::
  "string \<Rightarrow> string \<Rightarrow> ClusterHealth \<Rightarrow> string \<Rightarrow> string \<Rightarrow> time \<Rightarrow> time \<Rightarrow> string \<Rightarrow> Cluster" where
  "demoCluster cid name health version agentVersion registered heartbeat region =
     \<lparr>c_ID = cid, c_TenantID = '''', c_Name = name, c_Health = health, c_Version = version, c_AgentVersion = agentVersion,
      c_NodeCount = 0, c_PodCount = 0, c_RegisteredAt = registered, c_LastHeartbeat = heartbeat,
      c_Labels = [''data'' \<mapsto> ''synthetic'', ''environment'' \<mapsto> ''demo'', ''region'' \<mapsto> region]\<rparr>"

text \<open>\<open>now.Truncate(time.Second)\<close>\<close>

definition truncateSecond :: "time \<Rightarrow> time" where
  "truncateSecond t = t - t mod Second"

definition fixtureAlpha :: "time \<Rightarrow> fixture" where
  "fixtureAlpha now =
     \<lparr>fx_cluster = demoCluster ClusterAlphaID ''demo-us-central'' HealthHealthy ''v1.31.4'' ''demo-1.0.0''
        (time_Add now (- (45 * 24 * Hour))) (time_Add now (- (18 * Second))) ''sample-central'',
      fx_snapshot = \<lparr>sn_Nodes =
          [demoNode ''demo-alpha-control-1'' ''Ready'' [''control-plane''] ''v1.31.4'' ''4'' ''16Gi'' True,
           demoNode ''demo-alpha-worker-1'' ''Ready'' [''worker''] ''v1.31.4'' ''8'' ''32Gi'' True,
           demoNode ''demo-alpha-worker-2'' ''Ready'' [''worker''] ''v1.31.4'' ''8'' ''32Gi'' True],
        sn_Pods =
          [demoPod ''storefront'' ''catalog-api-7b9d-demo'' ''demo-alpha-worker-1'' (time_Add now (- (9 * Hour))) True 0,
           demoPod ''storefront'' ''checkout-api-5c84-demo'' ''demo-alpha-worker-2'' (time_Add now (- (7 * Hour))) True 0,
           demoPod ''observability'' ''metrics-agent-demo'' ''demo-alpha-worker-1'' (time_Add now (- (28 * Hour))) True 1,
           demoPod ''kube-system'' ''dns-demo-a'' ''demo-alpha-control-1'' (time_Add now (- (38 * Hour))) True 0],
        sn_Services =
          [demoService ''catalog-api'' ''storefront'' ''10.240.0.20'' 8080,
           demoService ''checkout-api'' ''storefront'' ''10.240.0.21'' 8080],
        sn_Deployments =
          [demoDeployment ''catalog-api'' ''storefront'' 3 3 ''9h'',
           demoDeployment ''checkout-api'' ''storefront'' 2 2 ''7h''],
        sn_Namespaces = [],
        sn_Events = [demoEvent ClusterAlphaID ''storefront'' ''ScalingReplicaSet''
          ''Synthetic rollout completed for the catalog sample.'' ''Normal'' (time_Add now (- (34 * Minute)))]\<rparr>\<rparr>"

definition fixtureBravo :: "time \<Rightarrow> fixture" where
  "fixtureBravo now =
     \<lparr>fx_cluster = demoCluster ClusterBravoID ''demo-eu-west'' HealthDegraded ''v1.30.8'' ''demo-1.0.0''
        (time_Add now (- (30 * 24 * Hour))) (time_Add now (- (42 * Second))) ''sample-west'',
      fx_snapshot = \<lparr>sn_Nodes =
          [demoNode ''demo-bravo-control-1'' ''Ready'' [''control-plane''] ''v1.30.8'' ''4'' ''16Gi'' True,
           demoNode ''demo-bravo-worker-1'' ''NotReady'' [''worker''] ''v1.30.8'' ''8'' ''32Gi'' False],
        sn_Pods =
          [demoPod ''payments'' ''ledger-api-6f75-demo'' ''demo-bravo-worker-1'' (time_Add now (- (3 * Hour))) False 4,
           demoPod ''payments'' ''queue-worker-798c-demo'' ''demo-bravo-control-1'' (time_Add now (- (16 * Hour))) True 0,
           demoPod ''kube-system'' ''dns-demo-b'' ''demo-bravo-control-1'' (time_Add now (- (24 * Hour))) True 0],
        sn_Services = [demoService ''ledger-api'' ''payments'' ''10.241.0.30'' 8080],
        sn_Deployments =
          [demoDeployment ''ledger-api'' ''payments'' 3 2 ''3h'',
           demoDeployment ''queue-worker'' ''payments'' 2 2 ''16h''],
        sn_Namespaces = [],
        sn_Events = [demoEvent ClusterBravoID ''payments'' ''Unhealthy''
          ''Synthetic readiness check failure for demonstration only.'' ''Warning'' (time_Add now (- (6 * Minute)))]\<rparr>\<rparr>"

definition fixtureCharlie :: "time \<Rightarrow> fixture" where
  "fixtureCharlie now =
     \<lparr>fx_cluster = demoCluster ClusterCharlieID ''demo-edge-lab'' HealthUnreachable ''v1.29.12'' ''demo-0.9.4''
        (time_Add now (- (14 * 24 * Hour))) (time_Add now (- (22 * Minute))) ''sample-edge'',
      fx_snapshot = \<lparr>sn_Nodes =
          [demoNode ''demo-charlie-node-1'' ''Unknown'' [''control-plane'', ''worker''] ''v1.29.12'' ''4'' ''8Gi'' False],
        sn_Pods = [demoPod ''edge-sample'' ''telemetry-demo'' ''demo-charlie-node-1'' (time_Add now (- (13 * Hour))) False 2],
        sn_Services = [demoService ''telemetry'' ''edge-sample'' ''10.242.0.40'' 4318],
        sn_Deployments = [demoDeployment ''telemetry'' ''edge-sample'' 1 0 ''13h''],
        sn_Namespaces = [],
        sn_Events = [demoEvent ClusterCharlieID ''edge-sample'' ''NodeStatusUnknown''
          ''Synthetic heartbeat gap illustrates an unreachable cluster.'' ''Warning'' (time_Add now (- (22 * Minute)))]\<rparr>\<rparr>"

definition fixtures :: "time \<Rightarrow> fixture list" where
  "fixtures now =
     (let now = truncateSecond now in [fixtureAlpha now, fixtureBravo now, fixtureCharlie now])"

section \<open>Writing it\<close>

text \<open>The error's text, with the cluster it is about, and its cause.\<close>

type_synonym demo_error = "string \<times> string \<times> store_error option"
type_synonym 'a demom = "(db, demo_error, 'a) sm"

definition alertRuleFor :: "ClusterHealth \<Rightarrow> (string \<times> string \<times> AlertSeverity) option" where
  "alertRuleFor health =
     (if health = HealthDegraded then Some (''fleet-health-degraded'', ''Cluster health degraded'', AlertSeverityWarning)
      else if health = HealthUnreachable
      then Some (''fleet-health-unreachable'', ''Cluster unreachable'', AlertSeverityCritical)
      else None)"

definition demoAlert :: "Cluster \<Rightarrow> string \<times> string \<times> AlertSeverity \<Rightarrow> time \<Rightarrow> Alert" where
  "demoAlert cluster rule now = (case rule of (ruleID, ruleName, severity) \<Rightarrow>
     \<lparr>al_ID = ''demo-alert-'' @ c_ID cluster, al_TenantID = DefaultTenantID, al_RuleID = ruleID, al_RuleName = ruleName,
      al_ClusterID = c_ID cluster, al_ClusterName = c_Name cluster,
      al_DedupeKey = ruleID @ '':'' @ c_ID cluster @ '':'' @ c_Health cluster, al_Health = c_Health cluster,
      al_Severity = severity, al_Summary = c_Name cluster @ '' is '' @ c_Health cluster @ '' (synthetic demo)'',
      al_Status = AlertStatusFiring, al_TriggeredAt = time_Add now (- (30 * Minute)),
      al_UpdatedAt = time_Add now (- (30 * Minute)), al_AcknowledgedAt = None, al_AcknowledgedBy = '''',
      al_ResolvedAt = None, al_DeliveryStatus = AlertDeliveryDisabled, al_DeliveryAttempts = 0,
      al_NextDeliveryAt = None, al_LastDeliveryError = '''', al_DeliveredAt = None, al_DeadLetteredAt = None\<rparr>)"

definition demoRegistered :: "Cluster \<Rightarrow> OperationalEvent" where
  "demoRegistered cluster =
     \<lparr>oe_ID = 0, oe_TenantID = DefaultTenantID, oe_ClusterID = c_ID cluster, oe_Kind = EventClusterRegistered,
      oe_Message = ''Synthetic demo cluster registered'',
      oe_Details = [''data'' \<mapsto> ''synthetic'', ''environment'' \<mapsto> ''demo''],
      oe_OccurredAt = c_RegisteredAt cluster, oe_DedupeKey = ''demo-registration''\<rparr>"

definition seedOperationalFeatures :: "fixture list \<Rightarrow> time \<Rightarrow> unit demom" where
  "seedOperationalFeatures items now =
     forEach items (\<lambda>item. let cluster = fx_cluster item in
       bindm (mapErr (\<lambda>e. (''seed synthetic timeline'', c_ID cluster, Some e)) (AppendEvent (demoRegistered cluster))) (\<lambda>inserted.
       if \<not> inserted then throw (''seed synthetic timeline: event was not inserted'', c_ID cluster, None)
       else case alertRuleFor (c_Health cluster) of
         None \<Rightarrow> ret ()
       | Some rule \<Rightarrow>
           bindm (mapErr (\<lambda>e. (''seed synthetic alert'', c_ID cluster, Some e))
             (CreateAlertIfDue (demoAlert cluster rule now) 0)) (\<lambda>created.
           if \<not> created then throw (''seed synthetic alert: alert was not created'', c_ID cluster, None) else ret ())))"

definition Seed :: "time \<Rightarrow> unit demom" where
  "Seed now =
     (let items = fixtures now in
      bindm (forEach items (\<lambda>item. let cluster = fx_cluster item in
        bindm (mapErr (\<lambda>e. (''create synthetic cluster'', c_ID cluster, Some e)) (CreateCluster cluster)) (\<lambda>_.
        mapErr (\<lambda>e. (''seed synthetic snapshot'', c_ID cluster, Some e))
          (ReplaceSnapshot (c_ID cluster) (fx_snapshot item) (c_Version cluster) (c_AgentVersion cluster)
             (c_Health cluster) (c_LastHeartbeat cluster))))) (\<lambda>_.
      seedOperationalFeatures items now))"

text \<open>\<open>Open\<close>: a new database, which the store has given its default alert rules.\<close>

definition demoOpen :: "time \<Rightarrow> time \<Rightarrow> unit demom" where
  "demoOpen opened now =
     bindm (mapErr (\<lambda>e. (''open'', '''', Some e)) (seedDefaultAlertRules opened)) (\<lambda>_. Seed now)"

section \<open>What it leaves\<close>

definition seededTables :: "fixture \<Rightarrow> tables \<Rightarrow> tables" where
  "seededTables item t = (let cluster = fx_cluster item in
     replacedTables (c_ID cluster) (fx_snapshot item) (c_Version cluster) (c_AgentVersion cluster) (c_Health cluster)
       (c_LastHeartbeat cluster)
       (t\<lparr>t_clusters := t_clusters t @ [cluster\<lparr>c_TenantID := normalizeTenantID (c_TenantID cluster)\<rparr>]\<rparr>))"

definition clusterKey :: "Cluster \<Rightarrow> string \<times> string" where
  "clusterKey c = (normalizeTenantID (c_TenantID c), c_Name c)"

lemma seededTables_clusters:
  "map c_ID (t_clusters (seededTables item t)) = map c_ID (t_clusters t) @ [c_ID (fx_cluster item)]"
  "map (\<lambda>c. (c_TenantID c, c_Name c)) (t_clusters (seededTables item t)) =
     map (\<lambda>c. (c_TenantID c, c_Name c)) (t_clusters t) @ [clusterKey (fx_cluster item)]"
  by (simp_all add: seededTables_def Let_def replacedTables_def map_updWhere setSnapshot_def clusterKey_def)

lemma seededTables_snapshot:
  "storedSnapshot (seededTables item t) = (storedSnapshot t)(c_ID (fx_cluster item) := fx_snapshot item)"
  unfolding seededTables_def Let_def storedSnapshot_replaced by (simp add: storedSnapshot_def fun_eq_iff)

lemma seededTables_others [simp]:
  "t_alert_rules (seededTables item t) = t_alert_rules t" "t_alerts (seededTables item t) = t_alerts t"
  "t_op_events (seededTables item t) = t_op_events t" "t_users (seededTables item t) = t_users t"
  "t_sessions (seededTables item t) = t_sessions t" "t_op_seq (seededTables item t) = t_op_seq t"
  "t_settings (seededTables item t) = t_settings t" "t_audit (seededTables item t) = t_audit t"
  "t_agents t = [] \<Longrightarrow> t_agents (seededTables item t) = []"
  by (simp_all add: seededTables_def Let_def replacedTables_def updWhere_def)

definition seedCluster :: "fixture \<Rightarrow> unit demom" where
  "seedCluster item = (let cluster = fx_cluster item in
     bindm (mapErr (\<lambda>e. (''create synthetic cluster'', c_ID cluster, Some e)) (CreateCluster cluster)) (\<lambda>_.
     mapErr (\<lambda>e. (''seed synthetic snapshot'', c_ID cluster, Some e))
       (ReplaceSnapshot (c_ID cluster) (fx_snapshot item) (c_Version cluster) (c_AgentVersion cluster)
          (c_Health cluster) (c_LastHeartbeat cluster))))"

lemma Seed_eq: "Seed now = bindm (forEach (fixtures now) seedCluster) (\<lambda>_. seedOperationalFeatures (fixtures now) now)"
  by (simp add: Seed_def Let_def seedCluster_def [abs_def])

lemma seedCluster_run:
  assumes "db_faults d = []" and "c_ID (fx_cluster item) \<notin> set (map c_ID (t_clusters (db_tables d)))"
    and "clusterKey (fx_cluster item) \<notin> set (map (\<lambda>c. (c_TenantID c, c_Name c)) (t_clusters (db_tables d)))"
    and "distinctSnapshot (fx_snapshot item)"
  shows "seedCluster item d = (Inr (), d\<lparr>db_tables := seededTables item (db_tables d)\<rparr>)"
proof -
  let ?row = "(fx_cluster item)\<lparr>c_TenantID := normalizeTenantID (c_TenantID (fx_cluster item))\<rparr>"
  have "CreateCluster (fx_cluster item) d =
      (Inr (), d\<lparr>db_tables := (db_tables d)\<lparr>t_clusters := t_clusters (db_tables d) @ [?row]\<rparr>\<rparr>)"
    using assms(1-3) by (simp add: CreateCluster_def Let_def bindm_def ret_def db_simps clusterKey_def)
  then show ?thesis
    using assms(1,4) by (simp add: seedCluster_def Let_def bindm_def mapErr_def ReplaceSnapshot_nf seededTables_def)
qed

lemma seedClusters_run:
  assumes "db_faults d = []" and "distinct (map c_ID (t_clusters (db_tables d)) @ map (c_ID \<circ> fx_cluster) items)"
    and "distinct (map (\<lambda>c. (c_TenantID c, c_Name c)) (t_clusters (db_tables d)) @ map (clusterKey \<circ> fx_cluster) items)"
    and "\<forall>item \<in> set items. distinctSnapshot (fx_snapshot item)"
  shows "forEach items seedCluster d = (Inr (), d\<lparr>db_tables := fold seededTables items (db_tables d)\<rparr>)"
  using assms
proof (induction items arbitrary: d)
  case Nil
  then show ?case by (simp add: ret_def)
next
  case (Cons item items)
  let ?d = "d\<lparr>db_tables := seededTables item (db_tables d)\<rparr>"
  have "seedCluster item d = (Inr (), ?d)" using Cons.prems by (intro seedCluster_run) (auto simp: image_iff)
  moreover have "forEach items seedCluster ?d = (Inr (), ?d\<lparr>db_tables := fold seededTables items (db_tables ?d)\<rparr>)"
    using Cons.prems by (intro Cons.IH) (simp_all add: seededTables_clusters del: map_append distinct_append)
  ultimately show ?case by (simp add: bindm_def)
qed

text \<open>The fixtures name nothing twice.\<close>

lemmas fixture_defs = fixtures_def fixtureAlpha_def fixtureBravo_def fixtureCharlie_def demoCluster_def demoNode_def
  demoPod_def demoService_def demoDeployment_def demoEvent_def Let_def ClusterAlphaID_def ClusterBravoID_def ClusterCharlieID_def

lemma fixtures_distinct:
  "map (c_ID \<circ> fx_cluster) (fixtures now) = [''demo-cluster-alpha'', ''demo-cluster-bravo'', ''demo-cluster-charlie'']"
  "distinct (map (clusterKey \<circ> fx_cluster) (fixtures now))"
  "\<forall>item \<in> set (fixtures now). distinctSnapshot (fx_snapshot item)"
  by (simp_all add: fixture_defs clusterKey_def distinctSnapshot_def)

lemma seeded_snapshots:
  assumes "distinct (map (c_ID \<circ> fx_cluster) items)" and "item \<in> set items"
  shows "storedSnapshot (fold seededTables items t) (c_ID (fx_cluster item)) = fx_snapshot item"
  using assms
proof (induction items rule: rev_induct)
  case (snoc x xs)
  then show ?case by (cases "item = x") (auto simp: seededTables_snapshot image_iff)
qed simp

text \<open>Each registration is appended, each unhealthy cluster's alert raised.\<close>

definition demoAlerts :: "time \<Rightarrow> Cluster \<Rightarrow> Alert list" where
  "demoAlerts now cluster = (case alertRuleFor (c_Health cluster) of
     None \<Rightarrow> [] | Some rule \<Rightarrow> [demoAlert cluster rule now])"

definition featuredTables :: "time \<Rightarrow> Cluster \<Rightarrow> tables \<Rightarrow> tables" where
  "featuredTables now cluster t =
     t\<lparr>t_op_events := t_op_events t @ [(demoRegistered cluster)\<lparr>oe_ID := t_op_seq t + 1\<rparr>],
       t_op_seq := t_op_seq t + 1, t_alerts := t_alerts t @ demoAlerts now cluster\<rparr>"

definition seedFeature :: "time \<Rightarrow> Cluster \<Rightarrow> unit demom" where
  "seedFeature now cluster =
     bindm (mapErr (\<lambda>e. (''seed synthetic timeline'', c_ID cluster, Some e)) (AppendEvent (demoRegistered cluster))) (\<lambda>inserted.
     if \<not> inserted then throw (''seed synthetic timeline: event was not inserted'', c_ID cluster, None)
     else case alertRuleFor (c_Health cluster) of
       None \<Rightarrow> ret ()
     | Some rule \<Rightarrow>
         bindm (mapErr (\<lambda>e. (''seed synthetic alert'', c_ID cluster, Some e))
           (CreateAlertIfDue (demoAlert cluster rule now) 0)) (\<lambda>created.
         if \<not> created then throw (''seed synthetic alert: alert was not created'', c_ID cluster, None) else ret ()))"

lemma seedOperationalFeatures_eq:
  "seedOperationalFeatures items now = forEach items (\<lambda>item. seedFeature now (fx_cluster item))"
  by (simp add: seedOperationalFeatures_def seedFeature_def Let_def)

lemma lastTriggered_upto:
  assumes "\<forall>a \<in> set (t_alerts t). al_TriggeredAt a \<le> n"
  shows "case lastTriggered k t of None \<Rightarrow> True | Some l \<Rightarrow> l \<le> n"
proof (cases "sort_desc al_TriggeredAt (filter (\<lambda>a. alertKey a = k) (t_alerts t))")
  case (Cons a as)
  then have "a \<in> set (t_alerts t)" by (metis filter_is_subset list.set_intros(1) set_sort_desc subsetD)
  with assms Cons show ?thesis by (simp add: lastTriggered_def)
qed (simp add: lastTriggered_def)

lemma seedFeature_run:
  assumes "db_faults d = []" and "c_ID cluster \<notin> set (map oe_ClusterID (t_op_events (db_tables d)))"
    and "''demo-alert-'' @ c_ID cluster \<notin> set (map al_ID (t_alerts (db_tables d)))"
    and "\<forall>a \<in> set (t_alerts (db_tables d)). al_TriggeredAt a \<le> time_Add now (- (30 * Minute))"
    and "{''fleet-health-degraded'', ''fleet-health-unreachable''} \<subseteq> set (map ar_ID (t_alert_rules (db_tables d)))"
  shows "seedFeature now cluster d = (Inr (), d\<lparr>db_tables := featuredTables now cluster (db_tables d)\<rparr>)"
proof -
  let ?d = "d\<lparr>db_tables := (db_tables d)\<lparr>t_op_events := t_op_events (db_tables d) @
      [(demoRegistered cluster)\<lparr>oe_ID := t_op_seq (db_tables d) + 1\<rparr>], t_op_seq := t_op_seq (db_tables d) + 1\<rparr>\<rparr>"
  have ev: "AppendEvent (demoRegistered cluster) d = (Inr True, ?d)"
    using assms(1,2) by (auto simp: AppendEvent_def demoRegistered_def bindm_def ret_def db_simps)
  have al: "CreateAlertIfDue (demoAlert cluster rule now) 0 ?d =
      (Inr True, ?d\<lparr>db_tables := (db_tables ?d)\<lparr>t_alerts := t_alerts (db_tables ?d) @ [demoAlert cluster rule now]\<rparr>\<rparr>)"
    if rule: "alertRuleFor (c_Health cluster) = Some rule" for rule
  proof -
    obtain rid rname sev where r: "rule = (rid, rname, sev)" using prod_cases3 by blast
    have "rid \<in> set (map ar_ID (t_alert_rules (db_tables d)))"
      using rule assms(5) by (auto simp: alertRuleFor_def r split: if_splits)
    moreover have "alertRow (demoAlert cluster rule now) = demoAlert cluster rule now"
      by (simp add: alertRow_def demoAlert_def r)
    moreover note lastTriggered_upto [of "db_tables ?d" "time_Add now (- (30 * Minute))"
        "(normalizeTenantID (al_TenantID (demoAlert cluster rule now)), al_DedupeKey (demoAlert cluster rule now))"]
    ultimately show ?thesis unfolding CreateAlertIfDue_def using assms(1,3,4)
      by (subst tx_nf [where r = "Inr True"]) (auto simp: bindm_def ret_def db_simps demoAlert_def r go_time split: option.splits)
  qed
  show ?thesis
    by (cases "alertRuleFor (c_Health cluster)")
      (simp_all add: seedFeature_def bindm_def mapErr_def ret_def ev al featuredTables_def demoAlerts_def)
qed

lemma demoAlerts_id: "map al_ID (demoAlerts now c) \<in> {[], [''demo-alert-'' @ c_ID c]}"
  by (auto simp: demoAlerts_def demoAlert_def split: option.splits)

lemma demoAlerts_time: "\<forall>a \<in> set (demoAlerts now c). al_TriggeredAt a \<le> time_Add now (- (30 * Minute))"
  by (auto simp: demoAlerts_def demoAlert_def split: option.splits)

lemma featuredTables_simps [simp]:
  "t_clusters (featuredTables now c t) = t_clusters t" "t_agents (featuredTables now c t) = t_agents t"
  "t_users (featuredTables now c t) = t_users t" "t_sessions (featuredTables now c t) = t_sessions t"
  "t_alert_rules (featuredTables now c t) = t_alert_rules t" "storedSnapshot (featuredTables now c t) = storedSnapshot t"
  "t_alerts (featuredTables now c t) = t_alerts t @ demoAlerts now c"
  "map oe_ClusterID (t_op_events (featuredTables now c t)) = map oe_ClusterID (t_op_events t) @ [c_ID c]"
  by (simp_all add: featuredTables_def demoRegistered_def storedSnapshot_def [abs_def])

lemma distinct_optional: "distinct (xs @ y # zs) \<Longrightarrow> ys \<in> {[], [y]} \<Longrightarrow> distinct (xs @ ys @ zs)"
  by auto

lemma seedFeatures_run:
  assumes "db_faults d = []" and "distinct (map oe_ClusterID (t_op_events (db_tables d)) @ map c_ID cs)"
    and "distinct (map al_ID (t_alerts (db_tables d)) @ map (\<lambda>c. ''demo-alert-'' @ c_ID c) cs)"
    and "\<forall>a \<in> set (t_alerts (db_tables d)). al_TriggeredAt a \<le> time_Add now (- (30 * Minute))"
    and "{''fleet-health-degraded'', ''fleet-health-unreachable''} \<subseteq> set (map ar_ID (t_alert_rules (db_tables d)))"
  shows "forEach cs (seedFeature now) d = (Inr (), d\<lparr>db_tables := fold (featuredTables now) cs (db_tables d)\<rparr>)"
  using assms
proof (induction cs arbitrary: d)
  case Nil
  then show ?case by (simp add: ret_def)
next
  case (Cons c cs)
  let ?d = "d\<lparr>db_tables := featuredTables now c (db_tables d)\<rparr>"
  have "seedFeature now c d = (Inr (), ?d)" using Cons.prems by (intro seedFeature_run) (auto simp: image_iff)
  moreover have "distinct (map al_ID (t_alerts (db_tables ?d)) @ map (\<lambda>c. ''demo-alert-'' @ c_ID c) cs)"
    using distinct_optional [of _ "''demo-alert-'' @ c_ID c", OF _ demoAlerts_id] Cons.prems(3) by (simp del: append_Cons distinct_append)
  then have "forEach cs (seedFeature now) ?d = (Inr (), ?d\<lparr>db_tables := fold (featuredTables now) cs (db_tables ?d)\<rparr>)"
    using Cons.prems demoAlerts_time [of now c] by (intro Cons.IH) (auto simp del: map_append distinct_append) 
  ultimately show ?case by (simp add: bindm_def)
qed

lemma featured_fold:
  "t_clusters (fold (featuredTables now) cs t) = t_clusters t \<and> t_agents (fold (featuredTables now) cs t) = t_agents t \<and>
   t_users (fold (featuredTables now) cs t) = t_users t \<and> t_sessions (fold (featuredTables now) cs t) = t_sessions t \<and>
   storedSnapshot (fold (featuredTables now) cs t) = storedSnapshot t \<and>
   t_alerts (fold (featuredTables now) cs t) = t_alerts t @ concat (map (demoAlerts now) cs) \<and>
   map oe_ClusterID (t_op_events (fold (featuredTables now) cs t)) = map oe_ClusterID (t_op_events t) @ map c_ID cs"
  by (induction cs arbitrary: t) simp_all

lemma seeded_fold:
  "map c_ID (t_clusters (fold seededTables items t)) = map c_ID (t_clusters t) @ map (c_ID \<circ> fx_cluster) items"
  "t_users (fold seededTables items t) = t_users t" "t_sessions (fold seededTables items t) = t_sessions t"
  "t_alert_rules (fold seededTables items t) = t_alert_rules t" "t_alerts (fold seededTables items t) = t_alerts t"
  "t_op_events (fold seededTables items t) = t_op_events t"
  "t_agents t = [] \<Longrightarrow> t_agents (fold seededTables items t) = []"
  by (induction items arbitrary: t) (simp_all add: seededTables_clusters)

text \<open>The store's schema and constraints hold whatever fails on the way.\<close>

lemma demoOpen_wf: "keepsT db_wf (demoOpen opened now)"
proof -
  have "keepsT db_wf (seedCluster item)" for item
    unfolding seedCluster_def Let_def by (intro valid_intro keeps_mapErr)
  moreover have "keepsT db_wf (seedFeature clock cluster)" for clock cluster
    unfolding seedFeature_def by (intro valid_intro keeps_mapErr)
  ultimately show ?thesis
    unfolding demoOpen_def Seed_eq seedOperationalFeatures_eq by (intro valid_intro keeps_mapErr) blast+
qed

text \<open>C21: The public demo starts, and holds only what is synthetic: on its fresh database seeding succeeds and leaves exactly
  the three sample clusters, each with its whole sample inventory, an alert for the degraded and one for the unreachable
  cluster and a registration in each timeline, with no user, no session and no agent credential to sign in with; and
  even when statements fail it leaves a database that satisfies its schema.\<close>

theorem demo_seeds_fresh_store:
  "\<exists>t. demoOpen opened now \<lparr>db_tables = empty_tables, db_faults = []\<rparr> = (Inr (), \<lparr>db_tables = t, db_faults = []\<rparr>) \<and>
     map c_ID (t_clusters t) = [ClusterAlphaID, ClusterBravoID, ClusterCharlieID] \<and>
     map (\<lambda>item. storedSnapshot t (c_ID (fx_cluster item))) (fixtures now) = map fx_snapshot (fixtures now) \<and>
     map (\<lambda>a. (al_ClusterID a, al_RuleID a, al_Status a)) (t_alerts t) =
       [(ClusterBravoID, ''fleet-health-degraded'', AlertStatusFiring),
        (ClusterCharlieID, ''fleet-health-unreachable'', AlertStatusFiring)] \<and>
     map oe_ClusterID (t_op_events t) = [ClusterAlphaID, ClusterBravoID, ClusterCharlieID] \<and>
     t_users t = [] \<and> t_sessions t = [] \<and> t_agents t = [] \<and>
     db_wf (db_tables (snd (demoOpen opened now \<lparr>db_tables = empty_tables, db_faults = faults\<rparr>)))"
proof -
  let ?t0 = "empty_tables\<lparr>t_alert_rules := defaultAlertRules opened\<rparr>"
  let ?d0 = "\<lparr>db_tables = ?t0, db_faults = []\<rparr>"
  let ?t1 = "fold seededTables (fixtures now) ?t0"
  let ?t2 = "fold (featuredTables now) (map fx_cluster (fixtures now)) ?t1"
  note ids = ClusterAlphaID_def ClusterBravoID_def ClusterCharlieID_def
  have rules: "mapErr (\<lambda>e. (''open'', '''', Some e)) (seedDefaultAlertRules opened)
      \<lparr>db_tables = empty_tables, db_faults = []\<rparr> = (Inr (), ?d0)"
    by (simp add: mapErr_def seedDefaultAlertRules_def defaultAlertRules_def bindm_def ret_def db_simps empty_tables_def)
  have clusters: "forEach (fixtures now) seedCluster ?d0 = (Inr (), ?d0\<lparr>db_tables := ?t1\<rparr>)"
    using seedClusters_run [of ?d0 "fixtures now"] fixtures_distinct [of now] by (simp add: empty_tables_def)
  have features: "forEach (map fx_cluster (fixtures now)) (seedFeature now) (?d0\<lparr>db_tables := ?t1\<rparr>) =
      (Inr (), ?d0\<lparr>db_tables := ?t2\<rparr>)"
    using seedFeatures_run [of "?d0\<lparr>db_tables := ?t1\<rparr>" "map fx_cluster (fixtures now)" now] fixtures_distinct(1) [of now]
    by (simp add: seeded_fold empty_tables_def defaultAlertRules_def fixture_defs)
  have "demoOpen opened now \<lparr>db_tables = empty_tables, db_faults = []\<rparr> = (Inr (), ?d0\<lparr>db_tables := ?t2\<rparr>)"
    unfolding demoOpen_def bindm_Inr [where m = "mapErr _ _", OF rules] Seed_eq
      bindm_Inr [where m = "forEach _ seedCluster", OF clusters] seedOperationalFeatures_eq
    using features by (simp only: forEach_map)
  moreover have "map (\<lambda>item. storedSnapshot ?t2 (c_ID (fx_cluster item))) (fixtures now) = map fx_snapshot (fixtures now)"
    using fixtures_distinct(1) [of now] by (auto simp: featured_fold seeded_snapshots)
  moreover have "map (\<lambda>a. (al_ClusterID a, al_RuleID a, al_Status a)) (t_alerts ?t2) =
       [(ClusterBravoID, ''fleet-health-degraded'', AlertStatusFiring),
        (ClusterCharlieID, ''fleet-health-unreachable'', AlertStatusFiring)]"
    by (simp add: featured_fold seeded_fold empty_tables_def fixture_defs demoAlerts_def alertRuleFor_def demoAlert_def)
  moreover have "t_users ?t2 = [] \<and> t_sessions ?t2 = [] \<and> t_agents ?t2 = []"
    by (simp add: featured_fold seeded_fold empty_tables_def)
  moreover have "db_wf (db_tables (snd (demoOpen opened now \<lparr>db_tables = empty_tables, db_faults = faults\<rparr>)))"
    by (rule keeps_snd [OF demoOpen_wf]) (simp add: db_wf_empty)
  ultimately show ?thesis
    using fixtures_distinct(1) [of now]
    by (intro exI [of _ ?t2]) (simp add: featured_fold seeded_fold empty_tables_def ids comp_def)
qed

end
