(* ===== verification/GoFlag.thy ===== *)
theory GoFlag
  imports GoLib
begin

text \<open>
  The part of Go's \<open>flag\<close> package the command line uses: a flag set of integer and string flags and its parser, with the
  base-0 integers of \<open>strconv\<close> that an integer flag accepts.
\<close>

section \<open>Integers with a base prefix\<close>

definition digitValue :: "char \<Rightarrow> nat option" where
  "digitValue c = (let n = (of_char c :: nat); l = (of_char (lower_byte c) :: nat) in
     if 48 \<le> n \<and> n \<le> 57 then Some (n - 48) else if 97 \<le> l \<and> l \<le> 122 then Some (l - 97 + 10) else None)"

text \<open>The digits of a number; underscores are skipped.\<close>

fun parseBase :: "nat \<Rightarrow> nat \<Rightarrow> string \<Rightarrow> nat option" where
  "parseBase base n [] = Some n"
| "parseBase base n (c # cs) =
     (if c = CHR ''_'' then parseBase base n cs
      else case digitValue c of
        None \<Rightarrow> None
      | Some d \<Rightarrow> if d \<ge> base then None else parseBase base (base * n + d) cs)"

text \<open>\<open>underscoreOK\<close>: an underscore only between digits, or between the base prefix and a digit.\<close>

fun underscoresFrom :: "bool \<Rightarrow> char \<Rightarrow> string \<Rightarrow> bool" where
  "underscoresFrom hex saw [] = (saw \<noteq> CHR ''_'')"
| "underscoresFrom hex saw (c # cs) =
     (if is_digit c \<or> (hex \<and> lower_byte c \<in> set ''abcdef'') then underscoresFrom hex (CHR ''0'') cs
      else if c = CHR ''_'' then saw = CHR ''0'' \<and> underscoresFrom hex (CHR ''_'') cs
      else saw \<noteq> CHR ''_'' \<and> underscoresFrom hex (CHR ''!'') cs)"

definition basePrefix :: "string \<Rightarrow> (nat \<times> string) option" where
  "basePrefix s = (if length s \<ge> 2 \<and> hd s = CHR ''0''
     then (case lower_byte (s ! 1) of
             c \<Rightarrow> if c = CHR ''b'' then Some (2, drop 2 s) else if c = CHR ''o'' then Some (8, drop 2 s)
                  else if c = CHR ''x'' then Some (16, drop 2 s) else None)
     else None)"

definition underscoreOK :: "string \<Rightarrow> bool" where
  "underscoreOK s = (case basePrefix s of
     Some (base, rest) \<Rightarrow> underscoresFrom (base = 16) (CHR ''0'') rest
   | None \<Rightarrow> underscoresFrom False (CHR ''^'') s)"

definition ParseUint0 :: "string \<Rightarrow> nat option" where
  "ParseUint0 s =
     (if s = '''' then None
      else let (base, rest) = (if length s \<ge> 3 \<and> basePrefix s \<noteq> None then the (basePrefix s)
                               else if hd s = CHR ''0'' then (8, tl s) else (10, s))
           in case parseBase base 0 rest of
                None \<Rightarrow> None
              | Some n \<Rightarrow> if CHR ''_'' \<in> set rest \<and> \<not> underscoreOK s then None else Some n)"

text \<open>\<open>strconv.ParseInt(s, 0, 64)\<close>\<close>

definition ParseInt0 :: "string \<Rightarrow> int option" where
  "ParseInt0 s =
     (let neg = (s \<noteq> [] \<and> hd s = CHR ''-'');
          ds = (if s \<noteq> [] \<and> (hd s = CHR ''-'' \<or> hd s = CHR ''+'') then tl s else s)
      in case ParseUint0 ds of
           None \<Rightarrow> None
         | Some n \<Rightarrow> let v = (if neg then - int n else int n) in if minInt64 \<le> v \<and> v \<le> maxInt64 then Some v else None)"

lemma ParseInt0_samples:
  "ParseInt0 ''8080'' = Some 8080" "ParseInt0 ''0x1_F'' = Some 31" "ParseInt0 ''010'' = Some 8" "ParseInt0 ''0'' = Some 0"
  "ParseInt0 ''1__0'' = None" "ParseInt0 ''-5'' = Some (- 5)" "ParseInt0 ''08'' = None" "ParseInt0 ''3x'' = None" "ParseInt0 '''' = None"
  by code_simp+

section \<open>Flag sets\<close>

datatype flag_value = FlagInt int | FlagString string

type_synonym flagset = "(string \<times> flag_value) list"

datatype flag_error = FlagSyntax string | FlagHelp | FlagNotDefined string | FlagNeedsArgument string
  | FlagInvalid string string

definition setFlag :: "string \<Rightarrow> flag_value \<Rightarrow> flagset \<Rightarrow> flagset" where
  "setFlag name v fs = map (\<lambda>(k, x). if k = name then (k, v) else (k, x)) fs"

text \<open>\<open>Value.Set\<close>\<close>

definition assignFlag :: "string \<Rightarrow> string \<Rightarrow> flagset \<Rightarrow> flag_error + flagset" where
  "assignFlag name value fs = (case map_of fs name of
     None \<Rightarrow> Inl (FlagNotDefined name)
   | Some (FlagString _) \<Rightarrow> Inr (setFlag name (FlagString value) fs)
   | Some (FlagInt _) \<Rightarrow> (case ParseInt0 value of
       None \<Rightarrow> Inl (FlagInvalid value name) | Some i \<Rightarrow> Inr (setFlag name (FlagInt i) fs)))"

text \<open>The name of a flag argument and its value, if it has one; the equals sign is not the first byte.\<close>

definition splitFlag :: "string \<Rightarrow> string \<times> string option" where
  "splitFlag name = (case CutC (CHR ''='') (drop 1 name) of
     None \<Rightarrow> (name, None) | Some (before, after) \<Rightarrow> (take 1 name @ before, Some after))"

text \<open>\<open>FlagSet.Parse\<close>: the flags set, and the remaining arguments.\<close>

fun parseFlags :: "flagset \<Rightarrow> string list \<Rightarrow> flag_error + flagset \<times> string list" where
  "parseFlags fs [] = Inr (fs, [])"
| "parseFlags fs (s # args) =
     (if length s < 2 \<or> hd s \<noteq> CHR ''-'' then Inr (fs, s # args)
      else if s = ''--'' then Inr (fs, args)
      else let name = drop (if s ! 1 = CHR ''-'' then 2 else 1) s in
           if name = '''' \<or> hd name = CHR ''-'' \<or> hd name = CHR ''='' then Inl (FlagSyntax s)
           else let (name, value) = splitFlag name in
                if map_of fs name = None
                then if name = ''help'' \<or> name = ''h'' then Inl FlagHelp else Inl (FlagNotDefined name)
                else (case value of
                  Some v \<Rightarrow> (case assignFlag name v fs of Inl e \<Rightarrow> Inl e | Inr fs \<Rightarrow> parseFlags fs args)
                | None \<Rightarrow> (case args of
                    [] \<Rightarrow> Inl (FlagNeedsArgument name)
                  | v # args \<Rightarrow> (case assignFlag name v fs of Inl e \<Rightarrow> Inl e | Inr fs \<Rightarrow> parseFlags fs args))))"

definition intFlag :: "flagset \<Rightarrow> string \<Rightarrow> int" where
  "intFlag fs name = (case map_of fs name of Some (FlagInt i) \<Rightarrow> i | _ \<Rightarrow> 0)"

definition stringFlag :: "flagset \<Rightarrow> string \<Rightarrow> string" where
  "stringFlag fs name = (case map_of fs name of Some (FlagString s) \<Rightarrow> s | _ \<Rightarrow> '''')"

lemma parseFlags_samples:
  "parseFlags [(''clusters'', FlagInt 3), (''version'', FlagString '''')] [''--clusters'', ''5'', ''-version=1.2'', ''x''] =
     Inr ([(''clusters'', FlagInt 5), (''version'', FlagString ''1.2'')], [''x''])"
  "parseFlags [(''clusters'', FlagInt 3)] [''--clusters'', ''many''] = Inl (FlagInvalid ''many'' ''clusters'')"
  "parseFlags [(''clusters'', FlagInt 3)] [''-h''] = Inl FlagHelp"
  by code_simp+

end
