(* ===== verification/Cli.thy ===== *)
theory Cli
  imports GoFlag ErrState
begin

text \<open>
  \<open>cmd/kfleet\<close>: the command line that runs a local fleet of kind clusters. Everything it does to the machine is a call of
  \<open>host\<close>, a function of the call and of a world that the model does not look into; the state keeps that world, the calls made with
  their answers, and the lines printed. JSON (the state file, the Helm values, the cluster list), the environment, the
  operating system's name and the build version are parameters.
\<close>

section \<open>The machine\<close>

definition hubChart :: string where "hubChart = ''oci://ghcr.io/1solomonwakhungu/charts/kfleet-hub''"
definition agentChart :: string where "agentChart = ''oci://ghcr.io/1solomonwakhungu/charts/kfleet-agent''"

record qstate =
  qs_Clusters :: int
  qs_Port :: int
  qs_PortForwardID :: int
  qs_Username :: string
  qs_Password :: string
  qs_Token :: string

text \<open>The Helm values the command writes: \<open>HubValues token username email password\<close>, \<open>AgentValues url token name\<close>.\<close>

datatype helm_values = HubValues string string string string | AgentValues string string string

datatype cli_call = LookPath string | ExecRun string "string list" | ExecOutput string "string list"
  | ExecStart string "string list" | PsCommand int | SignalTerm int
  | ReadFile string | MkdirAll string | WriteFile string string | RemoveFile string
  | CreateTemp | ChmodTemp string | WriteTemp string string | CloseTemp string
  | RandomBytes nat | HttpGet string | HttpLogin string string string | WaitFor duration | OpenURL string "string list"

datatype os_error = OsError (isNotExist: bool) (errorText: string)

record answer =
  an_Error :: "os_error option"
  an_Text :: string
  an_Number :: int

record 'w cli =
  cl_World :: 'w
  cl_Trace :: "(cli_call \<times> answer) list"
  cl_Out :: "string list"

type_synonym 'w host = "cli_call \<Rightarrow> 'w \<Rightarrow> answer \<times> 'w"

datatype cli_error = FlagError flag_error | UnknownCommand string | CliError string

type_synonym ('w, 'a) clim = "('w cli, cli_error, 'a) sm"

record app =
  ap_env :: "string \<Rightarrow> string"
  ap_GOOS :: string
  ap_version :: string
  ap_statePath :: string
  ap_encodeState :: "qstate \<Rightarrow> string"
  ap_decodeState :: "string \<Rightarrow> string + qstate"
  ap_encodeValues :: "helm_values \<Rightarrow> string"
  ap_decodeClusters :: "string \<Rightarrow> nat option"
  ap_hex :: "string \<Rightarrow> string"

definition hostCall :: "'w host \<Rightarrow> cli_call \<Rightarrow> ('w, answer) clim" where
  "hostCall host c = (\<lambda>s. case host c (cl_World s) of
     (a, w) \<Rightarrow> (Inr a, s\<lparr>cl_World := w, cl_Trace := cl_Trace s @ [(c, a)]\<rparr>))"

definition Println :: "string \<Rightarrow> ('w, unit) clim" where
  "Println line = modify (\<lambda>s. s\<lparr>cl_Out := cl_Out s @ [line]\<rparr>)"

definition orFail :: "(string \<Rightarrow> string) \<Rightarrow> answer \<Rightarrow> ('w, answer) clim" where
  "orFail msg a = (case an_Error a of Some e \<Rightarrow> throw (CliError (msg (errorText e))) | None \<Rightarrow> ret a)"

section \<open>The command runner\<close>

definition runnerRun :: "'w host \<Rightarrow> string \<Rightarrow> string list \<Rightarrow> ('w, unit) clim" where
  "runnerRun host name args =
     bindm (hostCall host (ExecRun name args)) (\<lambda>a.
     bindm (orFail (\<lambda>e. name @ '' failed: '' @ e) a) (\<lambda>_. ret ()))"

definition runnerOutput :: "'w host \<Rightarrow> string \<Rightarrow> string list \<Rightarrow> ('w, string) clim" where
  "runnerOutput host name args =
     bindm (hostCall host (ExecOutput name args)) (\<lambda>a.
     bindm (orFail (\<lambda>e. name @ '' failed: '' @ e @ '': '' @ TrimSpace (an_Text a)) a) (\<lambda>a. ret (an_Text a)))"

definition runnerStart :: "'w host \<Rightarrow> string \<Rightarrow> string list \<Rightarrow> ('w, int) clim" where
  "runnerStart host name args =
     bindm (hostCall host (ExecStart name args)) (\<lambda>a.
     bindm (orFail (\<lambda>e. ''start '' @ name @ '': '' @ e) a) (\<lambda>a. ret (an_Number a)))"

section \<open>Helpers\<close>

definition envString :: "app \<Rightarrow> string \<Rightarrow> string \<Rightarrow> string" where
  "envString app name fallback = (if ap_env app name \<noteq> '''' then ap_env app name else fallback)"

definition envInt :: "app \<Rightarrow> string \<Rightarrow> int \<Rightarrow> int" where
  "envInt app name fallback =
     (if ap_env app name = '''' then fallback
      else case ParseInt 64 (ap_env app name) of None \<Rightarrow> fallback | Some parsed \<Rightarrow> parsed)"

definition version_String :: "app \<Rightarrow> string" where
  "version_String app = (if ap_version app = '''' then ''dev'' else ap_version app)"

definition defaultReleaseVersion :: "app \<Rightarrow> string" where
  "defaultReleaseVersion app =
     (if ap_env app ''KFLEET_VERSION'' \<noteq> '''' then ap_env app ''KFLEET_VERSION'' else version_String app)"

definition randomHex :: "app \<Rightarrow> 'w host \<Rightarrow> nat \<Rightarrow> ('w, string) clim" where
  "randomHex app host n =
     bindm (hostCall host (RandomBytes n)) (\<lambda>a. bindm (orFail id a) (\<lambda>a. ret (ap_hex app (an_Text a))))"

text \<open>The cleanup of a failed step of a temporary file, before its error is returned.\<close>

definition orRemove :: "'w host \<Rightarrow> cli_call list \<Rightarrow> (string \<Rightarrow> string) \<Rightarrow> answer \<Rightarrow> ('w, unit) clim" where
  "orRemove host cleanup msg a =
     (case an_Error a of
        None \<Rightarrow> ret ()
      | Some e \<Rightarrow> bindm (forEach cleanup (\<lambda>c. bindm (hostCall host c) (\<lambda>_. ret ()))) (\<lambda>_. throw (CliError (msg (errorText e)))))"

definition temporaryValues :: "app \<Rightarrow> 'w host \<Rightarrow> helm_values \<Rightarrow> ('w, string) clim" where
  "temporaryValues app host vals =
     bindm (hostCall host CreateTemp) (\<lambda>a.
     bindm (orFail (\<lambda>e. ''create temporary Helm values: '' @ e) a) (\<lambda>a. let path = an_Text a in
     bindm (hostCall host (ChmodTemp path)) (\<lambda>a.
     bindm (orRemove host [CloseTemp path, RemoveFile path] (\<lambda>e. ''protect temporary Helm values: '' @ e) a) (\<lambda>_.
     bindm (hostCall host (WriteTemp path (ap_encodeValues app vals))) (\<lambda>a.
     bindm (orRemove host [CloseTemp path, RemoveFile path] (\<lambda>e. ''write temporary Helm values: '' @ e) a) (\<lambda>_.
     bindm (hostCall host (CloseTemp path)) (\<lambda>a.
     bindm (orRemove host [RemoveFile path] (\<lambda>e. ''close temporary Helm values: '' @ e) a) (\<lambda>_.
     ret path))))))))"

fun Contains :: "string \<Rightarrow> string \<Rightarrow> bool" where
  "Contains [] sub = (sub = [])"
| "Contains (c # s) sub = (prefix sub (c # s) \<or> Contains s sub)"

definition isPortForward :: "answer \<Rightarrow> bool" where
  "isPortForward a \<longleftrightarrow> an_Error a = None \<and> Contains (an_Text a) ''kubectl'' \<and> Contains (an_Text a) ''port-forward'' \<and>
     Contains (an_Text a) ''svc/kfleet-hub''"

definition stopProcess :: "'w host \<Rightarrow> int \<Rightarrow> ('w, unit) clim" where
  "stopProcess host pid =
     (if pid \<le> 0 then ret ()
      else bindm (hostCall host (PsCommand pid)) (\<lambda>output.
           if \<not> isPortForward output then ret ()
           else bindm (hostCall host (SignalTerm pid)) (\<lambda>_. ret ())))"

definition legacyPidFile :: string where "legacyPidFile = ''/tmp/kfleet-pf.pid''"

definition stopLegacyPortForward :: "'w host \<Rightarrow> ('w, unit) clim" where
  "stopLegacyPortForward host =
     bindm (hostCall host (ReadFile legacyPidFile)) (\<lambda>a.
     bindm (case (an_Error a, ParseInt 64 (TrimSpace (an_Text a))) of
              (None, Some pid) \<Rightarrow> stopProcess host pid | _ \<Rightarrow> ret ()) (\<lambda>_.
     bindm (hostCall host (RemoveFile legacyPidFile)) (\<lambda>_. ret ())))"

text \<open>The file as it was read, or the state decoded from it; \<open>os.ErrNotExist\<close> stays recognisable.\<close>

definition readState :: "app \<Rightarrow> 'w host \<Rightarrow> ('w, os_error + qstate) clim" where
  "readState app host =
     bindm (hostCall host (ReadFile (ap_statePath app))) (\<lambda>a. ret (case an_Error a of
       Some e \<Rightarrow> Inl e
     | None \<Rightarrow> (case ap_decodeState app (an_Text a) of
         Inl e \<Rightarrow> Inl (OsError False (''read quickstart state: '' @ e)) | Inr result \<Rightarrow> Inr result)))"

definition zeroState :: qstate where
  "zeroState = \<lparr>qs_Clusters = 0, qs_Port = 0, qs_PortForwardID = 0, qs_Username = '''', qs_Password = '''', qs_Token = ''''\<rparr>"

text \<open>\<open>previous, _ := a.readState()\<close>\<close>

definition previousState :: "os_error + qstate \<Rightarrow> qstate" where
  "previousState r = (case r of Inl _ \<Rightarrow> zeroState | Inr st \<Rightarrow> st)"

text \<open>\<open>filepath.Dir\<close> of an absolute path in clean form.\<close>

definition dirOf :: "string \<Rightarrow> string" where
  "dirOf path = (let d = rev (drop 1 (dropWhile (\<lambda>c. c \<noteq> CHR ''/'') (rev path))) in if d = '''' then ''/'' else d)"

definition writeState :: "app \<Rightarrow> 'w host \<Rightarrow> qstate \<Rightarrow> ('w, unit) clim" where
  "writeState app host st =
     bindm (hostCall host (MkdirAll (dirOf (ap_statePath app)))) (\<lambda>a.
     bindm (orFail (\<lambda>e. ''create state directory: '' @ e) a) (\<lambda>_.
     bindm (hostCall host (WriteFile (ap_statePath app) (ap_encodeState app st @ [CHR 0x0A]))) (\<lambda>a.
     bindm (orFail (\<lambda>e. ''write quickstart state: '' @ e) a) (\<lambda>_. ret ()))))"

definition localURL :: "int \<Rightarrow> string" where
  "localURL port = ''http://localhost:'' @ Itoa port"

section \<open>Waiting\<close>

text \<open>The loop of \<open>waitForHub\<close>, with the attempts that are left.\<close>

fun pollReady :: "'w host \<Rightarrow> int \<Rightarrow> nat \<Rightarrow> ('w, unit) clim" where
  "pollReady host port 0 = throw (CliError ''hub did not become ready within 30 seconds'')"
| "pollReady host port (Suc n) =
     bindm (hostCall host (HttpGet (localURL port @ ''/readyz''))) (\<lambda>response.
     if an_Error response = None \<and> an_Number response = 200 then ret ()
     else bindm (hostCall host (WaitFor Second)) (\<lambda>a. bindm (orFail id a) (\<lambda>_. pollReady host port n)))"

definition waitForHub :: "'w host \<Rightarrow> int \<Rightarrow> ('w, unit) clim" where
  "waitForHub host port = pollReady host port 30"

definition enoughClusters :: "app \<Rightarrow> int \<Rightarrow> answer \<Rightarrow> bool" where
  "enoughClusters app expected response \<longleftrightarrow> an_Error response = None \<and> an_Number response = 200 \<and>
     (case ap_decodeClusters app (an_Text response) of None \<Rightarrow> False | Some n \<Rightarrow> int n \<ge> expected)"

fun pollAgents :: "app \<Rightarrow> 'w host \<Rightarrow> int \<Rightarrow> int \<Rightarrow> nat \<Rightarrow> ('w, unit) clim" where
  "pollAgents app host port expected 0 =
     throw (CliError (Itoa expected @ '' agents did not register within 2 minutes''))"
| "pollAgents app host port expected (Suc n) =
     bindm (hostCall host (HttpGet (localURL port @ ''/api/v1/clusters''))) (\<lambda>response.
     if enoughClusters app expected response then ret ()
     else bindm (hostCall host (WaitFor (2 * Second))) (\<lambda>a. bindm (orFail id a) (\<lambda>_. pollAgents app host port expected n)))"

definition waitForAgents :: "app \<Rightarrow> 'w host \<Rightarrow> int \<Rightarrow> string \<Rightarrow> string \<Rightarrow> int \<Rightarrow> ('w, unit) clim" where
  "waitForAgents app host port username password expected =
     bindm (hostCall host (HttpLogin (localURL port @ ''/api/v1/auth/login'') username password)) (\<lambda>a.
     bindm (orFail (\<lambda>e. ''log in to the hub: '' @ e) a) (\<lambda>loginResponse.
     if an_Number loginResponse \<noteq> 200 then throw (CliError (''log in to the hub: HTTP '' @ Itoa (an_Number loginResponse)))
     else bindm (Println ''Waiting for agents to register...'') (\<lambda>_. pollAgents app host port expected 60)))"

section \<open>quickstart\<close>

text \<open>The flags, validated: clusters, port, chart version and user name.\<close>

definition quickstartFlags :: "app \<Rightarrow> string list \<Rightarrow> cli_error + int \<times> int \<times> string \<times> string" where
  "quickstartFlags app args =
     (case parseFlags [(''clusters'', FlagInt (envInt app ''KFLEET_CLUSTERS'' 3)), (''port'', FlagInt (envInt app ''KFLEET_HUB_PORT'' 8080)),
        (''version'', FlagString (defaultReleaseVersion app)),
        (''username'', FlagString (envString app ''KFLEET_ADMIN_USERNAME'' ''admin''))] args of
        Inl e \<Rightarrow> Inl (FlagError e)
      | Inr (flags, rest) \<Rightarrow>
          if rest \<noteq> [] then Inl (CliError (''unexpected arguments: '' @ Join '' '' rest))
          else if intFlag flags ''clusters'' < 1 then Inl (CliError ''clusters must be at least 1'')
          else if intFlag flags ''port'' < 1 \<or> intFlag flags ''port'' > 65535 then Inl (CliError ''port must be between 1 and 65535'')
          else let chartVersion = TrimPrefix (stringFlag flags ''version'') ''v'' in
               if chartVersion = '''' \<or> chartVersion = ''dev''
               then Inl (CliError ''a release version is required; use --version or install a released build'')
               else Inr (intFlag flags ''clusters'', intFlag flags ''port'', chartVersion, stringFlag flags ''username''))"

definition checkDependencies :: "'w host \<Rightarrow> ('w, unit) clim" where
  "checkDependencies host =
     bindm (forEach [''docker'', ''kind'', ''kubectl'', ''helm''] (\<lambda>dependency.
       bindm (hostCall host (LookPath dependency)) (\<lambda>a.
       bindm (orFail (\<lambda>_. dependency @ '' is required but was not found in PATH'') a) (\<lambda>_. ret ())))) (\<lambda>_.
     mapErr (\<lambda>_. CliError ''docker is installed but is not running'') (runnerRun host ''docker'' [''info'']))"

text \<open>The registration token, the password and the user name: those of the previous run where it has some.\<close>

definition quickstartCredentials :: "app \<Rightarrow> 'w host \<Rightarrow> qstate \<Rightarrow> string \<Rightarrow> ('w, string \<times> string \<times> string) clim" where
  "quickstartCredentials app host previous username =
     bindm (if qs_Token previous = ''''
            then mapErr (\<lambda>e. case e of CliError t \<Rightarrow> CliError (''generate registration token: '' @ t) | _ \<Rightarrow> e) (randomHex app host 16)
            else ret (qs_Token previous)) (\<lambda>token.
     let password = envString app ''KFLEET_ADMIN_PASSWORD'' (qs_Password previous) in
     bindm (if password = ''''
            then mapErr (\<lambda>e. case e of CliError t \<Rightarrow> CliError (''generate admin password: '' @ t) | _ \<Rightarrow> e) (randomHex app host 16)
            else ret password) (\<lambda>password.
     ret (token, password,
       if qs_Username previous \<noteq> '''' \<and> ap_env app ''KFLEET_ADMIN_USERNAME'' = '''' then qs_Username previous else username)))"

definition clusterName :: "int \<Rightarrow> string" where
  "clusterName i = ''kfleet-'' @ Itoa i"

definition ensureClusters :: "'w host \<Rightarrow> int \<Rightarrow> ('w, unit) clim" where
  "ensureClusters host clusters =
     bindm (runnerOutput host ''kind'' [''get'', ''clusters'']) (\<lambda>existingOutput.
     let existing = CHR 0x0A # existingOutput @ [CHR 0x0A] in
     forEach [1..clusters] (\<lambda>i. let name = clusterName i in
       if Contains existing (CHR 0x0A # name @ [CHR 0x0A]) then Println (name @ '' already exists.'')
       else runnerRun host ''kind'' [''create'', ''cluster'', ''--name'', name]))"

definition helmHub :: "string \<Rightarrow> string \<Rightarrow> string list" where
  "helmHub chartVersion hubValues =
     [''upgrade'', ''--install'', ''kfleet-hub'', hubChart, ''--version'', chartVersion,
      ''--kube-context'', ''kind-kfleet-1'', ''--values'', hubValues,
      ''--set'', ''image.repository=ghcr.io/1solomonwakhungu/kfleet/hub'', ''--set'', ''image.tag=v'' @ chartVersion,
      ''--set'', ''service.type=ClusterIP'', ''--set'', ''persistence.enabled=true'', ''--wait'', ''--timeout'', ''120s'']"

definition helmAgent :: "string \<Rightarrow> string \<Rightarrow> string \<Rightarrow> string list" where
  "helmAgent chartVersion name agentValues =
     [''upgrade'', ''--install'', ''kfleet-agent'', agentChart, ''--version'', chartVersion,
      ''--kube-context'', ''kind-'' @ name, ''--values'', agentValues,
      ''--set'', ''image.repository=ghcr.io/1solomonwakhungu/kfleet/agent'', ''--set'', ''image.tag=v'' @ chartVersion,
      ''--wait'', ''--timeout'', ''120s'']"

text \<open>The port-forward's arguments and the URL by which an agent in a kind cluster reaches the hub.\<close>

definition hubAddress :: "app \<Rightarrow> 'w host \<Rightarrow> int \<Rightarrow> ('w, string list \<times> string) clim" where
  "hubAddress app host port =
     (let portForwardArgs = [''--context'', ''kind-kfleet-1'', ''port-forward'', ''svc/kfleet-hub'', Itoa port @ '':8080''] in
      if ap_GOOS app = ''linux''
      then bindm (mapErr (\<lambda>e. case e of CliError t \<Rightarrow> CliError (''find the kind network gateway: '' @ t) | _ \<Rightarrow> e)
             (runnerOutput host ''docker'' [''network'', ''inspect'', ''kind'', ''--format'', ''{{(index .IPAM.Config 0).Gateway}}''])) (\<lambda>gateway.
           let gatewayAddress = TrimSpace gateway in
           if gatewayAddress = '''' then throw (CliError ''the kind network has no gateway address'')
           else ret (portForwardArgs @ [''--address'', gatewayAddress @ '',localhost''],
                     ''http://'' @ gatewayAddress @ '':'' @ Itoa port))
      else ret (portForwardArgs, ''http://host.docker.internal:'' @ Itoa port))"

definition installAgent :: "app \<Rightarrow> 'w host \<Rightarrow> string \<Rightarrow> string \<Rightarrow> string \<Rightarrow> int \<Rightarrow> ('w, unit) clim" where
  "installAgent app host chartVersion hubURL token i =
     (let name = clusterName i in
      bindm (Println (''Installing the agent on '' @ name @ ''...'')) (\<lambda>_.
      bindm (temporaryValues app host (AgentValues hubURL token name)) (\<lambda>agentValues.
      bindm (attempt (runnerRun host ''helm'' (helmAgent chartVersion name agentValues))) (\<lambda>r.
      bindm (hostCall host (RemoveFile agentValues)) (\<lambda>_.
      case r of Inl err \<Rightarrow> throw err | Inr _ \<Rightarrow> ret ())))))"

text \<open>A deferred call: it runs after the body, whichever way that returns.\<close>

definition deferred :: "('e + 'a \<Rightarrow> ('s, 'f, unit) sm) \<Rightarrow> ('s, 'e, 'a) sm \<Rightarrow> ('s, 'e, 'a) sm" where
  "deferred cleanup m = (\<lambda>s. case m s of (r, s1) \<Rightarrow> (r, snd (cleanup r s1)))"

text \<open>From the port-forward on: it is kept exactly when the whole command succeeds.\<close>

definition connectFleet ::
  "app \<Rightarrow> 'w host \<Rightarrow> string \<Rightarrow> string list \<Rightarrow> string \<Rightarrow> int \<Rightarrow> int \<Rightarrow> string \<Rightarrow> string \<Rightarrow> string \<Rightarrow> ('w, unit) clim" where
  "connectFleet app host chartVersion portForwardArgs hubURL clusters port username password token =
     bindm (runnerStart host ''kubectl'' portForwardArgs) (\<lambda>pid.
     deferred (\<lambda>r. case r of Inl _ \<Rightarrow> stopProcess host pid | Inr _ \<Rightarrow> ret ())
       (bindm (attempt (writeState app host \<lparr>qs_Clusters = clusters, qs_Port = port, qs_PortForwardID = pid,
            qs_Username = username, qs_Password = password, qs_Token = token\<rparr>)) (\<lambda>written.
        bindm (case written of Inl err \<Rightarrow> bindm (stopProcess host pid) (\<lambda>_. throw err) | Inr _ \<Rightarrow> ret ()) (\<lambda>_.
        bindm (waitForHub host port) (\<lambda>_.
        bindm (forEach [1..clusters] (installAgent app host chartVersion hubURL token)) (\<lambda>_.
        waitForAgents app host port username password clusters))))))"

definition quickstart :: "app \<Rightarrow> 'w host \<Rightarrow> string list \<Rightarrow> ('w, unit) clim" where
  "quickstart app host args =
     (case quickstartFlags app args of
        Inl e \<Rightarrow> throw e
      | Inr (clusters, port, chartVersion, username) \<Rightarrow>
          bindm (checkDependencies host) (\<lambda>_.
          bindm (readState app host) (\<lambda>r. let previous = previousState r in
          bindm (quickstartCredentials app host previous username) (\<lambda>(token, password, username).
          bindm (temporaryValues app host (HubValues token username (username @ ''@kfleet.local'') password)) (\<lambda>hubValues.
          deferred (\<lambda>_. bindm (hostCall host (RemoveFile hubValues)) (\<lambda>_. ret ()))
            (bindm (Println (''Creating '' @ Itoa clusters @ '' kind clusters...'')) (\<lambda>_.
             bindm (ensureClusters host clusters) (\<lambda>_.
             bindm (Println ''Installing the hub...'') (\<lambda>_.
             bindm (runnerRun host ''helm'' (helmHub chartVersion hubValues)) (\<lambda>_.
             bindm (stopProcess host (qs_PortForwardID previous)) (\<lambda>_.
             bindm (hubAddress app host port) (\<lambda>(portForwardArgs, hubURL).
             bindm (connectFleet app host chartVersion portForwardArgs hubURL clusters port username password token) (\<lambda>_.
             forEach ['''', ''kfleet is ready at '' @ localURL port, ''Username: '' @ username, ''Password: '' @ password,
               ''Cleanup: kfleet cleanup''] Println)))))))))))))"

section \<open>The other commands\<close>

definition cleanup :: "app \<Rightarrow> 'w host \<Rightarrow> string list \<Rightarrow> ('w, unit) clim" where
  "cleanup app host args =
     (case parseFlags [(''clusters'', FlagInt (envInt app ''KFLEET_CLUSTERS'' 0))] args of
        Inl e \<Rightarrow> throw (FlagError e)
      | Inr (flags, rest) \<Rightarrow>
          if rest \<noteq> [] then throw (CliError (''unexpected arguments: '' @ Join '' '' rest))
          else bindm (readState app host) (\<lambda>r.
            let current = previousState r;
                clusters = intFlag flags ''clusters'';
                clusters = (if clusters = 0 then qs_Clusters current else clusters);
                clusters = (if clusters = 0 then 3 else clusters) in
            bindm (Println ''Cleaning up kfleet...'') (\<lambda>_.
            bindm (stopProcess host (qs_PortForwardID current)) (\<lambda>_.
            bindm (stopLegacyPortForward host) (\<lambda>_.
            bindm (forEach [1..clusters] (\<lambda>i. let name = clusterName i in
              bindm (hostCall host (ExecOutput ''helm'' [''uninstall'', ''kfleet-agent'', ''--kube-context'', ''kind-'' @ name])) (\<lambda>_.
              bindm (hostCall host (ExecOutput ''helm'' [''uninstall'', ''kfleet-hub'', ''--kube-context'', ''kind-'' @ name])) (\<lambda>_.
              bindm (hostCall host (ExecOutput ''kind'' [''delete'', ''cluster'', ''--name'', name])) (\<lambda>_. ret ()))))) (\<lambda>_.
            bindm (hostCall host (RemoveFile (ap_statePath app))) (\<lambda>_.
            bindm (hostCall host (RemoveFile ''/tmp/kfleet-quickstart-cookie.txt'')) (\<lambda>_.
            Println ''Cleanup complete.''))))))))"

definition cliStatus :: "app \<Rightarrow> 'w host \<Rightarrow> string list \<Rightarrow> ('w, unit) clim" where
  "cliStatus app host args =
     (if args \<noteq> [] then throw (CliError ''status accepts no arguments'')
      else bindm (readState app host) (\<lambda>r. case r of
        Inl e \<Rightarrow> if isNotExist e then Println ''No kfleet quickstart is recorded. Run 'kfleet quickstart'.''
                 else throw (CliError (errorText e))
      | Inr current \<Rightarrow>
          bindm (hostCall host (HttpGet (localURL (qs_Port current) @ ''/readyz''))) (\<lambda>response.
          if an_Error response \<noteq> None then Println (''kfleet is not reachable at '' @ localURL (qs_Port current))
          else if an_Number response \<noteq> 200
          then Println (''kfleet returned HTTP '' @ Itoa (an_Number response) @ '' at '' @ localURL (qs_Port current))
          else Println (''kfleet is ready at '' @ localURL (qs_Port current) @ '' with '' @ Itoa (qs_Clusters current) @ '' clusters.''))))"

definition openBrowser :: "app \<Rightarrow> 'w host \<Rightarrow> string \<Rightarrow> ('w, unit) clim" where
  "openBrowser app host url =
     (let start = (\<lambda>name. bindm (hostCall host (OpenURL name [url])) (\<lambda>a.
        bindm (orFail (\<lambda>e. ''open browser: '' @ e) a) (\<lambda>_. ret ()))) in
      if ap_GOOS app = ''darwin'' then start ''open''
      else if ap_GOOS app = ''linux'' then start ''xdg-open''
      else throw (CliError (''opening a browser is not supported on '' @ ap_GOOS app @ ''; open '' @ url @ '' manually'')))"

definition openUI :: "app \<Rightarrow> 'w host \<Rightarrow> string list \<Rightarrow> ('w, unit) clim" where
  "openUI app host args =
     (if args \<noteq> [] then throw (CliError ''open accepts no arguments'')
      else bindm (readState app host) (\<lambda>r. case r of
        Inl e \<Rightarrow> throw (CliError (if isNotExist e then ''no kfleet quickstart is recorded; run 'kfleet quickstart'' @ [CHR 0x27] else errorText e))
      | Inr current \<Rightarrow> openBrowser app host (localURL (qs_Port current))))"

definition usage :: "('w, unit) clim" where
  "usage = forEach [''kfleet manages a local multi-cluster demo.'', '''', ''Usage:'',
     ''  kfleet quickstart [--clusters 3] [--port 8080] [--version VERSION]'', ''  kfleet status'', ''  kfleet open'',
     ''  kfleet cleanup [--clusters 3]'', ''  kfleet version''] Println"

definition appRun :: "app \<Rightarrow> 'w host \<Rightarrow> string list \<Rightarrow> ('w, unit) clim" where
  "appRun app host args = (case args of
     [] \<Rightarrow> usage
   | command # rest \<Rightarrow>
       if command = ''quickstart'' then quickstart app host rest
       else if command = ''cleanup'' then cleanup app host rest
       else if command = ''status'' then cliStatus app host rest
       else if command = ''open'' then openUI app host rest
       else if command \<in> set [''version'', ''--version'', ''-v''] then Println (''kfleet '' @ version_String app)
       else if command \<in> set [''help'', ''--help'', ''-h''] then usage
       else throw (UnknownCommand command))"

definition defaultStatePath :: "string \<Rightarrow> string" where
  "defaultStatePath configDir = configDir @ ''/kfleet/quickstart.json''"

end
