(* ===== verification/CliFacts.thy ===== *)
theory CliFacts
  imports Cli
begin

text \<open>
  What the command line leaves on the machine. The locales \<open>call_kept\<close>, \<open>stop_kept\<close>, \<open>create_kept\<close> and \<open>start_kept\<close> derive
  that every operation keeps a property of the calls made so far from the calls it is kept by; \<open>resource\<close> follows what a
  sequence of calls has acquired and not released, for the temporary files that hold credentials and for the port-forward.
\<close>

type_synonym trace = "(cli_call \<times> answer) list"

section \<open>Properties of the calls\<close>

abbreviation called :: "cli_call \<Rightarrow> answer \<Rightarrow> 'w \<Rightarrow> 'w cli \<Rightarrow> 'w cli" where
  "called c a w s \<equiv> s\<lparr>cl_World := w, cl_Trace := cl_Trace s @ [(c, a)]\<rparr>"

lemma keeps_hostCall: "(\<And>s a w. I s \<Longrightarrow> I (called c a w s)) \<Longrightarrow> keeps I (hostCall host c)"
  by (simp add: keeps_def hostCall_def split: prod.split)

lemma keeps_orFail [valid_intro]: "keeps I (orFail msg a)"
  by (simp add: keeps_def orFail_def throw_def ret_def split: option.split)

lemma keeps_deferred: "keeps I m \<Longrightarrow> (\<And>r. keeps I (after r)) \<Longrightarrow> keeps I (deferred after m)"
  by (simp add: keeps_def deferred_def split: prod.split) (metis snd_conv)

locale call_kept =
  fixes I :: "'w cli \<Rightarrow> bool"
  assumes call: "(\<And>name args. c \<noteq> ExecStart name args) \<Longrightarrow> c \<noteq> CreateTemp \<Longrightarrow> (\<And>pid. c \<noteq> SignalTerm pid) \<Longrightarrow> I s \<Longrightarrow> I (called c a w s)"
    and out: "I s \<Longrightarrow> I (s\<lparr>cl_Out := lines\<rparr>)"
begin

lemma keeps_call [valid_intro]:
  "(\<And>name args. c \<noteq> ExecStart name args) \<Longrightarrow> c \<noteq> CreateTemp \<Longrightarrow> (\<And>pid. c \<noteq> SignalTerm pid) \<Longrightarrow> keeps I (hostCall host c)"
  by (rule keeps_hostCall) (rule call)

lemma keeps_Println [valid_intro]: "keeps I (Println line)"
  unfolding Println_def by (rule keeps_modify) (rule out)

lemma keeps_runner [valid_intro]:
  "keeps I (runnerRun host name args)" "keeps I (runnerOutput host name args)" "keeps I (randomHex app host n)"
  "keeps I (readState app host)" "keeps I (writeState app host st)"
  unfolding runnerRun_def runnerOutput_def randomHex_def readState_def writeState_def
  by (intro valid_intro; simp)+

lemma keeps_polls [valid_intro]:
  "keeps I (pollReady host port n)" "keeps I (pollAgents app host port expected n)"
proof -
  show "keeps I (pollReady host port n)"
    by (induction n) (simp_all only: pollReady.simps, (intro valid_intro; simp)+)
  show "keeps I (pollAgents app host port expected n)"
    by (induction n) (simp_all only: pollAgents.simps, (intro valid_intro; simp)+)
qed

lemma keeps_steps [valid_intro]:
  "keeps I (checkDependencies host)" "keeps I (quickstartCredentials app host previous username)"
  "keeps I (ensureClusters host clusters)" "keeps I (hubAddress app host port)" "keeps I (waitForHub host port)"
  "keeps I (waitForAgents app host port username password clusters)" "keeps I (openBrowser app host url)"
  unfolding checkDependencies_def quickstartCredentials_def ensureClusters_def hubAddress_def waitForHub_def waitForAgents_def
    openBrowser_def Let_def
  by (intro valid_intro; simp)+

lemma keeps_readers [valid_intro]: "keeps I (cliStatus app host rest)" "keeps I (openUI app host rest)" "keeps I usage"
  unfolding cliStatus_def openUI_def usage_def by (intro valid_intro; simp)+

end

locale stop_kept = call_kept +
  assumes stop [valid_intro]: "keeps I (stopProcess host pid)"
begin

lemma keeps_cleanup [valid_intro]: "keeps I (stopLegacyPortForward host)" "keeps I (cleanup app host rest)"
proof -
  show legacy: "keeps I (stopLegacyPortForward host)"
    unfolding stopLegacyPortForward_def by (intro valid_intro; simp)
  show "keeps I (cleanup app host rest)"
    unfolding cleanup_def by (intro valid_intro legacy; simp)
qed

end

locale create_kept = stop_kept +
  assumes create: "I s \<Longrightarrow> I (called CreateTemp a w s)"
begin

lemma keeps_orRemove:
  "list_all (\<lambda>c. case c of CloseTemp _ \<Rightarrow> True | RemoveFile _ \<Rightarrow> True | _ \<Rightarrow> False) cs \<Longrightarrow> keeps I (orRemove host cs msg a)"
  unfolding orRemove_def by (intro valid_intro) (auto simp: list_all_iff)

lemma keeps_install [valid_intro]:
  "keeps I (temporaryValues app host vals)" "keeps I (installAgent app host chartVersion hubURL token i)"
proof -
  have c: "keeps I (hostCall host CreateTemp)" by (rule keeps_hostCall) (rule create)
  show temp: "keeps I (temporaryValues app host vals)" for vals
    unfolding temporaryValues_def by (rule keeps_bind [OF c]) (intro valid_intro keeps_orRemove; simp)
  show "keeps I (installAgent app host chartVersion hubURL token i)"
    unfolding installAgent_def by (intro valid_intro temp; simp)
qed

end

locale start_kept = create_kept +
  assumes start: "I s \<Longrightarrow> I (called (ExecStart name args) a w s)"
begin

lemma keeps_quickstart [valid_intro]:
  "keeps I (runnerStart host name args)"
  "keeps I (connectFleet app host chartVersion args hubURL clusters port username password token)"
  "keeps I (quickstart app host rest)"
proof -
  show run: "keeps I (runnerStart host name args)" for name args
  proof -
    have "keeps I (hostCall host (ExecStart name args))" by (rule keeps_hostCall) (rule start)
    then show ?thesis unfolding runnerStart_def by (rule keeps_bind) (intro valid_intro)
  qed
  show fleet: "keeps I (connectFleet app host chartVersion args hubURL clusters port username password token)"
    for chartVersion args hubURL clusters port username password token
    unfolding connectFleet_def by (intro valid_intro keeps_deferred run)
  show "keeps I (quickstart app host rest)"
    unfolding quickstart_def by (intro valid_intro keeps_deferred fleet; simp)
qed

lemma keeps_appRun: "keeps I (appRun app host args)"
  unfolding appRun_def by (cases args) (simp_all only: list.case, (intro valid_intro)+)

end

section \<open>Signals\<close>

text \<open>A signal is sent only to a process that was just seen to be the hub's port-forward.\<close>

definition signalOK :: "trace \<Rightarrow> nat \<Rightarrow> bool" where
  "signalOK tr i = (case fst (tr ! i) of
     SignalTerm pid \<Rightarrow> 0 < i \<and> fst (tr ! (i - 1)) = PsCommand pid \<and> isPortForward (snd (tr ! (i - 1)))
   | _ \<Rightarrow> True)"

definition signalsOK :: "trace \<Rightarrow> bool" where
  "signalsOK tr = list_all (signalOK tr) [0..<length tr]"

lemma signalsOK_snoc: "signalsOK tr \<Longrightarrow> signalOK (tr @ [x]) (length tr) \<Longrightarrow> signalsOK (tr @ [x])"
  by (auto simp: signalsOK_def signalOK_def list_all_iff nth_append split: cli_call.splits)

lemma signals_call: "(\<And>pid. c \<noteq> SignalTerm pid) \<Longrightarrow> signalsOK tr \<Longrightarrow> signalsOK (tr @ [(c, a)])"
  by (auto intro!: signalsOK_snoc simp: signalOK_def split: cli_call.splits)

lemma signals_stopProcess: "keeps (\<lambda>s. signalsOK (cl_Trace s)) (stopProcess host pid)"
proof -
  have "signalsOK (tr @ [(PsCommand pid, a), (SignalTerm pid, b)])" if "signalsOK tr" "isPortForward a" for tr a b
  proof -
    have "signalsOK (tr @ [(PsCommand pid, a)])" using that(1) by (rule signalsOK_snoc) (simp add: signalOK_def nth_append)
    then show ?thesis using signalsOK_snoc [of "tr @ [(PsCommand pid, a)]" "(SignalTerm pid, b)"] that(2)
      by (simp add: signalOK_def nth_append)
  qed
  moreover have "signalsOK (tr @ [(PsCommand pid, a)])" if "signalsOK tr" for tr a
    using that by (rule signalsOK_snoc) (simp add: signalOK_def nth_append)
  ultimately show ?thesis
    by (simp add: keeps_def stopProcess_def bindm_def ret_def hostCall_def split: prod.split)
qed

interpretation signals: start_kept "\<lambda>s. signalsOK (cl_Trace s)"
proof unfold_locales
  show "keeps (\<lambda>s. signalsOK (cl_Trace s)) (stopProcess host pid)" for host :: "'w host" and pid by (rule signals_stopProcess)
qed (simp_all add: signals_call)

text \<open>C17: The command line never kills a foreign process: whatever command is run, with whatever state file, and whatever the
  machine answers, every signal goes to a process that the call just before it showed to be the hub's
  \<open>kubectl port-forward\<close> - a process id left over from an earlier boot is not enough.\<close>

theorem signals_only_port_forward:
  assumes "appRun app host args s = (r, s')" and "cl_Trace s = []"
  shows "\<forall>i. i < length (cl_Trace s') \<longrightarrow> (case fst (cl_Trace s' ! i) of
     SignalTerm pid \<Rightarrow> 0 < i \<and> fst (cl_Trace s' ! (i - 1)) = PsCommand pid \<and>
       (let a = snd (cl_Trace s' ! (i - 1)) in an_Error a = None \<and> Contains (an_Text a) ''kubectl'' \<and>
          Contains (an_Text a) ''port-forward'' \<and> Contains (an_Text a) ''svc/kfleet-hub'')
   | _ \<Rightarrow> True)"
proof -
  from keepsD [OF signals.keeps_appRun _ assms(1)] assms(2) have "signalsOK (cl_Trace s')" by (simp add: signalsOK_def)
  then show ?thesis by (simp add: signalsOK_def signalOK_def list_all_iff isPortForward_def Let_def split: cli_call.splits)
qed

section \<open>Resources of a trace\<close>

fun heldAfter :: "(cli_call \<times> answer \<Rightarrow> 'r option) \<Rightarrow> (cli_call \<Rightarrow> 'r option) \<Rightarrow> 'r set \<Rightarrow> trace \<Rightarrow> 'r set" where
  "heldAfter acquires releases held [] = held"
| "heldAfter acquires releases held (x # tr) = heldAfter acquires releases
     (case releases (fst x) of
        Some r \<Rightarrow> held - {r}
      | None \<Rightarrow> (case acquires x of Some r \<Rightarrow> insert r held | None \<Rightarrow> held)) tr"

lemma heldAfter_append:
  "heldAfter acquires releases held (tr @ tr') = heldAfter acquires releases (heldAfter acquires releases held tr) tr'"
  by (induction tr arbitrary: held) simp_all

definition heldIn :: "(cli_call \<times> answer \<Rightarrow> 'r option) \<Rightarrow> (cli_call \<Rightarrow> 'r option) \<Rightarrow> 'w cli \<Rightarrow> 'r set" where
  "heldIn acquires releases s = heldAfter acquires releases {} (cl_Trace s)"

locale resource =
  fixes acquires :: "cli_call \<times> answer \<Rightarrow> 'r option" and releases :: "cli_call \<Rightarrow> 'r option"
  assumes acquire_only: "acquires (c, a) = Some r \<Longrightarrow> releases c = None"
begin

abbreviation held :: "'w cli \<Rightarrow> 'r set" where
  "held \<equiv> heldIn acquires releases"

lemma held_call: "held (s\<lparr>cl_World := w, cl_Trace := cl_Trace s @ [(c, a)]\<rparr>) =
    (case releases c of Some r \<Rightarrow> held s - {r} | None \<Rightarrow> (case acquires (c, a) of Some r \<Rightarrow> insert r (held s) | None \<Rightarrow> held s))"
  by (simp add: heldIn_def heldAfter_append split: option.split)

lemma keeps_neutral: "(\<And>a. acquires (c, a) = None) \<Longrightarrow> keeps (\<lambda>s. held s \<subseteq> F) (hostCall host c)"
  by (rule keeps_hostCall) (auto simp: held_call split: option.split)

lemma release_call: "releases c = Some r \<Longrightarrow> held s \<subseteq> insert r F \<Longrightarrow> held (snd (hostCall host c s)) \<subseteq> F"
  by (auto simp: hostCall_def held_call split: prod.splits)

lemma acquire_call:
  "hostCall host c s = (r, s') \<Longrightarrow> held s \<subseteq> F \<Longrightarrow>
     \<exists>a. r = Inr a \<and> held s' \<subseteq> (case acquires (c, a) of Some x \<Rightarrow> insert x F | None \<Rightarrow> F)"
  using acquire_only by (fastforce simp: hostCall_def held_call split: prod.splits option.splits)

end

section \<open>Temporary files and the port-forward\<close>

definition tempCreated :: "cli_call \<times> answer \<Rightarrow> string option" where
  "tempCreated = (\<lambda>(c, a). case c of CreateTemp \<Rightarrow> (if an_Error a = None then Some (an_Text a) else None) | _ \<Rightarrow> None)"

definition fileRemoved :: "cli_call \<Rightarrow> string option" where
  "fileRemoved c = (case c of RemoveFile path \<Rightarrow> Some path | _ \<Rightarrow> None)"

definition processStarted :: "cli_call \<times> answer \<Rightarrow> int option" where
  "processStarted = (\<lambda>(c, a). case c of
     ExecStart _ _ \<Rightarrow> (if an_Error a = None \<and> 0 < an_Number a then Some (an_Number a) else None) | _ \<Rightarrow> None)"

definition processChecked :: "cli_call \<Rightarrow> int option" where
  "processChecked c = (case c of PsCommand pid \<Rightarrow> Some pid | _ \<Rightarrow> None)"

lemma temp_simps [simp]:
  "tempCreated (CreateTemp, a) = (if an_Error a = None then Some (an_Text a) else None)"
  "c \<noteq> CreateTemp \<Longrightarrow> tempCreated (c, a) = None"
  "fileRemoved (RemoveFile path) = Some path" "(\<And>p. c \<noteq> RemoveFile p) \<Longrightarrow> fileRemoved c = None"
  by (auto simp: tempCreated_def fileRemoved_def split: cli_call.splits)

lemma process_simps [simp]:
  "processStarted (ExecStart name args, a) = (if an_Error a = None \<and> 0 < an_Number a then Some (an_Number a) else None)"
  "(\<And>name args. c \<noteq> ExecStart name args) \<Longrightarrow> processStarted (c, a) = None"
  "processChecked (PsCommand pid) = Some pid" "(\<And>p. c \<noteq> PsCommand p) \<Longrightarrow> processChecked c = None"
  by (auto simp: processStarted_def processChecked_def split: cli_call.splits)

locale cli_resource = resource +
  assumes acquirers: "(\<And>name args. c \<noteq> ExecStart name args) \<Longrightarrow> c \<noteq> CreateTemp \<Longrightarrow> acquires (c, a) = None"
begin

lemma held_stop: "keeps (\<lambda>s. held s \<subseteq> F) (stopProcess host pid)"
  unfolding stopProcess_def by (intro valid_intro keeps_neutral acquirers; simp)

end

sublocale cli_resource \<subseteq> kept: stop_kept "\<lambda>s. held s \<subseteq> F" for F
proof unfold_locales
  show "keeps (\<lambda>s. held s \<subseteq> F) (stopProcess host pid)" for host :: "'w host" and pid by (rule held_stop)
  show "held (s\<lparr>cl_Out := lines\<rparr>) \<subseteq> F" if "held s \<subseteq> F" for s :: "'w cli" and lines using that by (simp add: heldIn_def)
qed (auto simp: held_call acquirers split: option.split)

interpretation temp: cli_resource tempCreated fileRemoved
  by unfold_locales (auto simp: tempCreated_def fileRemoved_def split: cli_call.splits)

interpretation forward: cli_resource processStarted processChecked
  by unfold_locales (auto simp: processStarted_def processChecked_def split: cli_call.splits)

text \<open>A call itself never fails.\<close>

lemma valid_call: "valid P (hostCall host c) Q E \<Longrightarrow> valid P (hostCall host c) Q E'"
  by (auto simp: valid_def hostCall_def split: prod.splits)

text \<open>A file of values is removed on every failure of the step that writes it.\<close>

lemma orRemove_temp:
  "cs = [RemoveFile path] \<or> cs = [CloseTemp path, RemoveFile path] \<Longrightarrow>
     valid (\<lambda>s. temp.held s \<subseteq> insert path F) (orRemove host cs msg a) (\<lambda>_ s. temp.held s \<subseteq> insert path F) (\<lambda>_ s. temp.held s \<subseteq> F)"
  by (rule validI)
    (auto simp: orRemove_def bindm_def hostCall_def throw_def ret_def heldIn_def heldAfter_append
      split: option.splits prod.splits; blast)+

lemma temporaryValues_temp:
  "valid (\<lambda>s. temp.held s \<subseteq> F) (temporaryValues app host vals) (\<lambda>path s. temp.held s \<subseteq> insert path F) (\<lambda>_ s. temp.held s \<subseteq> F)"
proof -
  let ?P = "\<lambda>s. temp.held s \<subseteq> F"
  have open_ok: "valid ?P (hostCall host CreateTemp)
      (\<lambda>a s. temp.held s \<subseteq> (if an_Error a = None then insert (an_Text a) F else F)) (\<lambda>_. ?P)"
    by (rule validI) (auto simp: hostCall_def temp.held_call split: prod.splits option.splits)
  have keep: "valid (\<lambda>s. temp.held s \<subseteq> insert path F) (hostCall host c) (\<lambda>_ s. temp.held s \<subseteq> insert path F) (\<lambda>_. ?P)"
    if "\<And>name args. c \<noteq> ExecStart name args" "c \<noteq> CreateTemp" "\<And>pid. c \<noteq> SignalTerm pid" for c path
    using temp.kept.keeps_call [OF that, of "insert path F" host, unfolded keeps_valid]
    by (rule valid_call)
  have orf: "valid (\<lambda>s. temp.held s \<subseteq> (if an_Error a = None then insert (an_Text a) F else F)) (orFail msg a)
      (\<lambda>b s. b = a \<and> temp.held s \<subseteq> insert (an_Text a) F) (\<lambda>_. ?P)" for msg a
    by (rule validI) (auto simp: orFail_def throw_def ret_def split: option.splits)
  show ?thesis
    unfolding temporaryValues_def Let_def
    by (rule valid_bind [OF open_ok], rule valid_bind [OF orf], rule valid_pre,
        rule valid_bind [OF keep], simp, simp, simp, rule valid_bind [OF orRemove_temp], simp,
        rule valid_bind [OF keep], simp, simp, simp, rule valid_bind [OF orRemove_temp], simp,
        rule valid_bind [OF keep], simp, simp, simp, rule valid_bind [OF orRemove_temp], simp, rule valid_ret, simp_all)
qed


section \<open>quickstart cleans up\<close>

lemma valid_keeps: "keeps I m \<Longrightarrow> valid I m (\<lambda>_. I) (\<lambda>_. I)"
  by (simp add: keeps_valid)

lemma keepsI: "valid I m (\<lambda>_. I) (\<lambda>_. I) \<Longrightarrow> keeps I m"
  by (simp add: keeps_valid)

text \<open>The values of an agent live only while its chart is installed, those of the hub until the command returns.\<close>

lemma temp_removed:
  "valid (\<lambda>s. temp.held s \<subseteq> insert path F) (hostCall host (RemoveFile path)) (\<lambda>_ s. temp.held s \<subseteq> F) E"
  by (rule validI) (auto simp: hostCall_def temp.held_call split: prod.splits)

lemma temp_installAgent: "keeps (\<lambda>s. temp.held s \<subseteq> F) (installAgent app host chartVersion hubURL token i)"
proof -
  have run: "valid (\<lambda>s. temp.held s \<subseteq> insert path F) (attempt (runnerRun host ''helm'' args))
      (\<lambda>_ s. temp.held s \<subseteq> insert path F) (\<lambda>_ s. temp.held s \<subseteq> F)" for path args
    using temp.kept.keeps_runner(1) [of "insert path F" host "''helm''" args]
    by (auto simp: valid_def attempt_def keeps_def split: prod.split) (metis snd_conv subsetD insertE)
  show ?thesis
    unfolding installAgent_def Let_def
    by (rule keepsI, rule valid_bind [OF valid_keeps [OF temp.kept.keeps_Println]], rule valid_bind [OF temporaryValues_temp],
        rule valid_bind [OF run], rule valid_bind [OF temp_removed])
      (auto intro: valid_ret valid_throw split: sum.split)
qed

lemma temp_connectFleet:
  "keeps (\<lambda>s. temp.held s \<subseteq> F) (connectFleet app host chartVersion args hubURL clusters port username password token)"
proof -
  have "keeps (\<lambda>s. temp.held s \<subseteq> F) (hostCall host (ExecStart name args))" for name args
    by (rule temp.keeps_neutral) simp
  then have "keeps (\<lambda>s. temp.held s \<subseteq> F) (runnerStart host name args)" for name args
    unfolding runnerStart_def by (rule keeps_bind) (intro valid_intro)
  then show ?thesis
    unfolding connectFleet_def
    by (rule keeps_bind) (intro valid_intro keeps_deferred temp.kept.stop temp.kept.keeps_runner temp.kept.keeps_steps temp_installAgent)
qed

lemma temp_deferred:
  assumes "keeps (\<lambda>s. temp.held s \<subseteq> insert path F) m"
  shows "valid (\<lambda>s. temp.held s \<subseteq> insert path F)
    (deferred (\<lambda>_. bindm (hostCall host (RemoveFile path)) (\<lambda>_. ret ())) m) (\<lambda>_ s. temp.held s \<subseteq> F) (\<lambda>_ s. temp.held s \<subseteq> F)"
proof -
  have "temp.held (snd (deferred (\<lambda>_. bindm (hostCall host (RemoveFile path)) (\<lambda>_. ret ())) m s)) \<subseteq> F"
    if "temp.held s \<subseteq> insert path F" for s
  proof -
    obtain r s1 where m: "m s = (r, s1)" by fastforce
    from keepsD [OF assms that m] show ?thesis
      by (auto simp: deferred_def m bindm_def hostCall_def ret_def temp.held_call split: prod.splits)
  qed
  then show ?thesis by (simp add: valid_def split: prod.split sum.split) (metis snd_conv)
qed

lemma temp_quickstart: "keeps (\<lambda>s. temp.held s \<subseteq> F) (quickstart app host args)"
  unfolding quickstart_def
  by (intro keeps_case_sum keeps_throw keeps_case_prod)
    (rule keepsI, rule valid_bind [OF valid_keeps [OF temp.kept.keeps_steps(1)]],
      rule valid_bind [OF valid_keeps [OF temp.kept.keeps_runner(4)]], unfold Let_def,
      rule valid_bind [OF valid_keeps [OF temp.kept.keeps_steps(2)]], unfold case_prod_beta, rule valid_bind [OF temporaryValues_temp],
      rule temp_deferred, (intro valid_intro temp.kept.keeps_Println temp.kept.keeps_steps temp.kept.keeps_runner temp.kept.stop
        temp_connectFleet)+)

text \<open>The port-forward is stopped on every failure after its start.\<close>

interpretation forward_kept: create_kept "\<lambda>s. forward.held s \<subseteq> F" for F
  by unfold_locales (simp add: forward.held_call)

interpretation recorded: start_kept "\<lambda>s. x \<in> set (cl_Trace s)" for x
  by unfold_locales (simp_all add: keeps_def stopProcess_def bindm_def hostCall_def ret_def split: prod.split)

lemma forward_started:
  "valid (\<lambda>s. forward.held s \<subseteq> F) (runnerStart host name args)
     (\<lambda>pid s. forward.held s \<subseteq> (if 0 < pid then insert pid F else F)) (\<lambda>_ s. forward.held s \<subseteq> F)"
  by (rule validI)
    (auto simp: runnerStart_def bindm_def hostCall_def orFail_def throw_def ret_def forward.held_call
      split: prod.splits option.splits if_splits; blast)+

lemma forward_stopped:
  "forward.held s \<subseteq> (if 0 < pid then insert pid F else F) \<Longrightarrow> forward.held (snd (stopProcess host pid s)) \<subseteq> F"
  by (auto simp: stopProcess_def bindm_def hostCall_def ret_def heldIn_def heldAfter_append split: prod.splits if_splits; blast)

text \<open>The state file a later command finds.\<close>

definition savedIn :: "app \<Rightarrow> 'w cli \<Rightarrow> qstate \<Rightarrow> bool" where
  "savedIn app s st \<longleftrightarrow> list_ex (\<lambda>(c, a). c = WriteFile (ap_statePath app) (ap_encodeState app st @ [CHR 0x0A]) \<and> an_Error a = None) (cl_Trace s)"

lemma savedIn_kept: "(\<And>x. keeps (\<lambda>s. x \<in> set (cl_Trace s)) m) \<Longrightarrow> keeps (\<lambda>s. savedIn app s st) m"
  by (auto simp: keeps_def savedIn_def list_ex_iff)

lemma writeState_saves: "writeState app host st s = (Inr u, s') \<Longrightarrow> savedIn app s' st"
  by (auto simp: writeState_def bindm_def hostCall_def orFail_def throw_def ret_def savedIn_def split: prod.splits option.splits)

lemma attempt_then:
  assumes "bindm (attempt m) (\<lambda>r. bindm (case r of Inl e \<Rightarrow> bindm c (\<lambda>_. throw e) | Inr _ \<Rightarrow> ret ()) k) s = (Inr z, s')"
  shows "\<exists>u s1. m s = (Inr u, s1) \<and> k () s1 = (Inr z, s')"
  using assms by (auto simp: bindm_ok attempt_def split: prod.splits sum.splits)

lemma connectFleet_forward:
  assumes run: "connectFleet app host chartVersion args hubURL clusters port username password token s = (r, s')"
    and F: "forward.held s \<subseteq> F"
  shows "case r of Inl _ \<Rightarrow> forward.held s' \<subseteq> F
    | Inr _ \<Rightarrow> \<exists>pid. forward.held s' \<subseteq> insert pid F \<and> savedIn app s' \<lparr>qs_Clusters = clusters, qs_Port = port,
        qs_PortForwardID = pid, qs_Username = username, qs_Password = password, qs_Token = token\<rparr>"
proof -
  obtain p s1 where p: "runnerStart host ''kubectl'' args s = (p, s1)" by fastforce
  show ?thesis
  proof (cases p)
    case (Inl e)
    with validD_err [OF forward_started F p [unfolded Inl]] run p show ?thesis by (auto simp: connectFleet_def bindm_def)
  next
    case (Inr pid)
    let ?st = "\<lparr>qs_Clusters = clusters, qs_Port = port, qs_PortForwardID = pid, qs_Username = username,
        qs_Password = password, qs_Token = token\<rparr>" and ?G = "if 0 < pid then insert pid F else F"
    let ?rest = "bindm (waitForHub host port) (\<lambda>_. bindm (forEach [1..clusters] (installAgent app host chartVersion hubURL token))
        (\<lambda>_. waitForAgents app host port username password clusters))"
    let ?body = "bindm (attempt (writeState app host ?st)) (\<lambda>written.
        bindm (case written of Inl err \<Rightarrow> bindm (stopProcess host pid) (\<lambda>_. throw err) | Inr _ \<Rightarrow> ret ()) (\<lambda>_. ?rest))"
    have G: "forward.held s1 \<subseteq> ?G" by (rule validD_ok [OF forward_started F p [unfolded Inr]])
    obtain x s2 where body: "?body s1 = (x, s2)" by fastforce
    have "keeps (\<lambda>s. forward.held s \<subseteq> ?G) ?body"
      by (intro valid_intro forward.kept.keeps_steps forward_kept.keeps_install forward.kept.keeps_runner forward.kept.stop)
    from keepsD [OF this G body] have G2: "forward.held s2 \<subseteq> ?G" .
    obtain y s3 where w: "writeState app host ?st s1 = (y, s3)" by fastforce
    have saved: "savedIn app s2 ?st" if ok: "x = Inr z" for z
    proof -
      from attempt_then [OF body [unfolded ok]] w obtain u where y: "y = Inr u" and rest: "?rest s3 = (x, s2)"
        by (auto simp: ok)
      have "keeps (\<lambda>s. savedIn app s ?st) ?rest"
        by (rule savedIn_kept) (intro valid_intro recorded.keeps_steps recorded.keeps_install)
      from keepsD [OF this writeState_saves [OF w [unfolded y]] rest] show ?thesis .
    qed
    have "connectFleet app host chartVersion args hubURL clusters port username password token s =
        deferred (\<lambda>r. case r of Inl _ \<Rightarrow> stopProcess host pid | Inr _ \<Rightarrow> ret ()) ?body s1"
      unfolding connectFleet_def bindm_Inr [where m = "runnerStart _ _ _", OF p [unfolded Inr]] ..
    with run body have r: "r = x" "s' = (case x of Inl _ \<Rightarrow> snd (stopProcess host pid s2) | Inr _ \<Rightarrow> s2)"
      by (simp_all add: deferred_def ret_def split: sum.splits)
    show ?thesis
    proof (cases x)
      case (Inl e)
      with r forward_stopped [OF G2] show ?thesis by simp
    next
      case (Inr z)
      have "?G \<subseteq> insert pid F" by auto
      with G2 saved [OF Inr] r Inr show ?thesis by auto
    qed
  qed
qed

lemma valid_deferred:
  assumes "valid P m Q E" and "\<And>x. keeps (Q x) after" and "\<And>e. keeps (E e) after"
  shows "valid P (deferred (\<lambda>_. after) m) Q E"
proof (rule validI)
  fix s e s' assume "P s" and "deferred (\<lambda>_. after) m s = (Inl e, s')"
  then show "E e s'" using validD_err [OF assms(1)] assms(3) by (auto simp: deferred_def keeps_def split: prod.splits)
next
  fix s x s' assume "P s" and "deferred (\<lambda>_. after) m s = (Inr x, s')"
  then show "Q x s'" using validD_ok [OF assms(1)] assms(2) by (auto simp: deferred_def keeps_def split: prod.splits)
qed

text \<open>A successful start: what runs is the port-forward of the state file.\<close>

definition startedAs :: "app \<Rightarrow> int \<Rightarrow> int \<Rightarrow> int set \<Rightarrow> 'w cli \<Rightarrow> bool" where
  "startedAs app clusters port F s \<longleftrightarrow> (\<exists>st. qs_Clusters st = clusters \<and> qs_Port st = port \<and>
     forward.held s \<subseteq> insert (qs_PortForwardID st) F \<and> savedIn app s st)"

lemma startedAs_kept:
  "(\<And>G. keeps (\<lambda>s. forward.held s \<subseteq> G) m) \<Longrightarrow> (\<And>x. keeps (\<lambda>s. x \<in> set (cl_Trace s)) m) \<Longrightarrow>
     keeps (\<lambda>s. startedAs app clusters port F s) m"
proof -
  assume held: "\<And>G. keeps (\<lambda>s. forward.held s \<subseteq> G) m" and tr: "\<And>x. keeps (\<lambda>s. x \<in> set (cl_Trace s)) m"
  have "startedAs app clusters port F (snd (m s))" if "startedAs app clusters port F s" for s
  proof -
    from that obtain st where st: "qs_Clusters st = clusters" "qs_Port st = port"
      "forward.held s \<subseteq> insert (qs_PortForwardID st) F" "savedIn app s st" unfolding startedAs_def by blast
    show ?thesis unfolding startedAs_def
      using st(1,2) keeps_snd [OF held st(3)] keeps_snd [OF savedIn_kept [OF tr] st(4)] by blast
  qed
  then show ?thesis by (simp add: keeps_def)
qed

lemma printed: "forEach lines Println s \<noteq> (Inl e, s')"
  by (induction lines arbitrary: s) (auto simp: ret_def bindm_def Println_def modify_def)

lemma quickstart_forward:
  assumes "quickstartFlags app args = Inr (clusters, port, chartVersion, username)"
  shows "valid (\<lambda>s. forward.held s \<subseteq> F) (quickstart app host args) (\<lambda>_. startedAs app clusters port F) (\<lambda>_ s. forward.held s \<subseteq> F)"
proof -
  let ?P = "\<lambda>s. forward.held s \<subseteq> F"
  have fleet: "valid ?P (connectFleet app host chartVersion as url clusters port user password token)
      (\<lambda>_. startedAs app clusters port F) (\<lambda>_. ?P)" for as url user password token
    by (rule validI; drule (1) connectFleet_forward) (force simp: startedAs_def)+
  have tail: "valid (startedAs app clusters port F) (forEach lines Println) (\<lambda>_. startedAs app clusters port F) (\<lambda>_. ?P)" for lines
  proof -
    have k: "keeps (startedAs app clusters port F) (forEach lines Println)"
      by (rule startedAs_kept) (intro valid_intro forward.kept.keeps_Println recorded.keeps_Println)+
    show ?thesis by (rule validI) (simp add: printed, rule keepsD [OF k])
  qed
  have body: "valid ?P (bindm (Println l1) (\<lambda>_. bindm (ensureClusters host clusters) (\<lambda>_. bindm (Println l2) (\<lambda>_.
      bindm (runnerRun host ''helm'' hargs) (\<lambda>_. bindm (stopProcess host old) (\<lambda>_. bindm (hubAddress app host port) (\<lambda>(as, url).
      bindm (connectFleet app host chartVersion as url clusters port user password token) (\<lambda>_. forEach lines Println))))))))
      (\<lambda>_. startedAs app clusters port F) (\<lambda>_. ?P)" for l1 l2 hargs old user password token lines
    unfolding case_prod_beta
    by (rule valid_bind [OF valid_keeps [OF forward.kept.keeps_Println]], rule valid_bind [OF valid_keeps [OF forward.kept.keeps_steps(3)]],
        rule valid_bind [OF valid_keeps [OF forward.kept.keeps_Println]], rule valid_bind [OF valid_keeps [OF forward.kept.keeps_runner(1)]],
        rule valid_bind [OF valid_keeps [OF forward.kept.stop]], rule valid_bind [OF valid_keeps [OF forward.kept.keeps_steps(4)]],
        rule valid_bind [OF fleet], rule tail)
  have removed: "keeps (\<lambda>s. forward.held s \<subseteq> G) (bindm (hostCall host (RemoveFile path)) (\<lambda>_. ret ()))"
    "keeps (startedAs app clusters port F) (bindm (hostCall host (RemoveFile path)) (\<lambda>_. ret ()))" for G path
    by (intro valid_intro forward.kept.keeps_call; simp) (intro startedAs_kept valid_intro forward.kept.keeps_call recorded.keeps_call; simp)
  show ?thesis
    unfolding quickstart_def assms sum.case prod.case Let_def
    by (rule valid_bind [OF valid_keeps [OF forward.kept.keeps_steps(1)]], rule valid_bind [OF valid_keeps [OF forward.kept.keeps_runner(4)]],
        rule valid_bind [OF valid_keeps [OF forward.kept.keeps_steps(2)]], unfold case_prod_beta,
        rule valid_bind [OF valid_keeps [OF forward_kept.keeps_install(1)]],
        rule valid_deferred [OF body [unfolded case_prod_beta] removed(2) removed(1)])
qed


section \<open>cleanup\<close>

definition kindDelete :: "cli_call \<Rightarrow> bool" where
  "kindDelete c = (case c of ExecOutput name (arg # _) \<Rightarrow> name = ''kind'' \<and> arg = ''delete'' | _ \<Rightarrow> False)"

definition calls :: "'w cli \<Rightarrow> cli_call list" where
  "calls s = map fst (cl_Trace s)"

text \<open>An operation that never fails and whose calls satisfy a condition.\<close>

definition makes :: "('w, 'a) clim \<Rightarrow> (cli_call list \<Rightarrow> bool) \<Rightarrow> bool" where
  "makes m P \<longleftrightarrow> (\<forall>s. \<exists>x s' cs. m s = (Inr x, s') \<and> calls s' = calls s @ cs \<and> P cs)"

lemma makesD: "makes m P \<Longrightarrow> \<exists>x s' cs. m s = (Inr x, s') \<and> calls s' = calls s @ cs \<and> P cs"
  by (simp add: makes_def)

lemma makes_seq:
  assumes "makes m P" and "\<And>x. makes (f x) Q"
  shows "makes (bindm m f) (\<lambda>cs. \<exists>xs ys. cs = xs @ ys \<and> P xs \<and> Q ys)"
proof -
  have "\<exists>y s' cs. bindm m f s = (Inr y, s') \<and> calls s' = calls s @ cs \<and> (\<exists>xs ys. cs = xs @ ys \<and> P xs \<and> Q ys)" for s
  proof -
    from makesD [OF assms(1)] obtain x s1 xs where m: "m s = (Inr x, s1)" "calls s1 = calls s @ xs" "P xs" by blast
    from makesD [OF assms(2)] obtain y s2 ys where "f x s1 = (Inr y, s2)" "calls s2 = calls s1 @ ys" "Q ys" by blast
    with m show ?thesis by (auto simp: bindm_def)
  qed
  then show ?thesis by (simp add: makes_def)
qed

lemma makes_weaken: "makes m P \<Longrightarrow> (\<And>cs. P cs \<Longrightarrow> Q cs) \<Longrightarrow> makes m Q"
  unfolding makes_def by meson

lemma makes_call: "makes (hostCall host c) (\<lambda>cs. cs = [c])"
  by (simp add: makes_def hostCall_def calls_def split: prod.split)

lemma makes_ret: "makes (ret x) (\<lambda>cs. cs = [])"
  by (simp add: makes_def ret_def)

lemma makes_Println: "makes (Println line) (\<lambda>cs. cs = [])"
  by (simp add: makes_def Println_def modify_def calls_def)

lemma makes_stopProcess:
  "makes (stopProcess host pid) (\<lambda>cs. filter kindDelete cs = [] \<and> (0 < pid \<longrightarrow> PsCommand pid \<in> set cs))"
  by (simp add: makes_def stopProcess_def bindm_def hostCall_def ret_def calls_def kindDelete_def split: prod.split)

lemma makes_legacy: "makes (stopLegacyPortForward host) (\<lambda>cs. filter kindDelete cs = [])"
proof -
  have stop: "makes (stopProcess host pid) (\<lambda>cs. filter kindDelete cs = [])" for pid
    by (rule makes_weaken [OF makes_stopProcess]) simp
  have none: "makes (ret ()) (\<lambda>cs. filter kindDelete cs = [])" by (rule makes_weaken [OF makes_ret]) simp
  have "makes (case (an_Error a, ParseInt 64 (TrimSpace (an_Text a))) of (None, Some pid) \<Rightarrow> stopProcess host pid | _ \<Rightarrow> ret ())
      (\<lambda>cs. filter kindDelete cs = [])" for a
    by (auto split: option.split intro: stop none)
  then show ?thesis
    unfolding stopLegacyPortForward_def
    by (intro makes_weaken [OF makes_seq [OF makes_call makes_seq [OF _ makes_seq [OF makes_call makes_ret]]]])
      (assumption, auto simp: kindDelete_def)
qed

definition deletions :: "int \<Rightarrow> cli_call list" where
  "deletions n = map (\<lambda>i. ExecOutput ''kind'' [''delete'', ''cluster'', ''--name'', clusterName i]) [1..n]"

lemma makes_forEach:
  assumes "\<And>x. makes (f x) (\<lambda>cs. filter kindDelete cs = [g x])"
  shows "makes (forEach xs f) (\<lambda>cs. filter kindDelete cs = map g xs)"
proof (induction xs)
  case Nil
  show ?case by (simp, rule makes_weaken [OF makes_ret]) simp
next
  case (Cons x xs)
  show ?case unfolding forEach.simps by (rule makes_weaken [OF makes_seq [OF assms Cons]]) auto
qed


section \<open>Examples\<close>

definition sampleState :: qstate where
  "sampleState = \<lparr>qs_Clusters = 1, qs_Port = 8080, qs_PortForwardID = 42, qs_Username = ''admin'', qs_Password = ''p'', qs_Token = ''t''\<rparr>"

definition sampleApp :: app where
  "sampleApp = \<lparr>ap_env = (\<lambda>_. ''''), ap_GOOS = ''darwin'', ap_version = ''v1.2.3'', ap_statePath = ''/c/kfleet/quickstart.json'',
     ap_encodeState = (\<lambda>_. ''''), ap_decodeState = (\<lambda>_. Inr sampleState), ap_encodeValues = (\<lambda>_. ''values''),
     ap_decodeClusters = (\<lambda>_. Some 1), ap_hex = id\<rparr>"

text \<open>A machine on which everything works and process 42 is the port-forward.\<close>

definition workingHost :: "unit host" where
  "workingHost c w = (\<lparr>an_Error = None,
     an_Text = (case c of PsCommand _ \<Rightarrow> ''kubectl port-forward svc/kfleet-hub'' | CreateTemp \<Rightarrow> ''/tmp/v'' | ReadFile _ \<Rightarrow> [CHR 0x0A] | _ \<Rightarrow> ''''),
     an_Number = (case c of ExecStart _ _ \<Rightarrow> 42 | _ \<Rightarrow> 200)\<rparr>, w)"

definition startCli :: "unit cli" where
  "startCli = \<lparr>cl_World = (), cl_Trace = [], cl_Out = []\<rparr>"

lemmas cli_sample_defs = sampleApp_def sampleState_def workingHost_def startCli_def bindm_def hostCall_def ret_def orFail_def
  Println_def modify_def attempt_def mapErr_def deferred_def

lemma TrimSpace_empty: "TrimSpace '''' = ''''" "TrimSpace [CHR 0x0A] = ''''"
  by code_simp+

lemma previousState_Inr: "previousState (Inr st) = st"
  by (simp add: previousState_def)

lemmas cleanup_sample_defs = cli_sample_defs appRun_def cleanup_def envInt_def intFlag_def readState_def previousState_Inr Let_def
  stopProcess_def isPortForward_def stopLegacyPortForward_def TrimSpace_empty ParseInt_def [of 64 "''''"]

lemma cleanup_sample:
  "map fst (take 3 (cl_Trace (snd (appRun sampleApp workingHost [''cleanup''] startCli)))) =
     [ReadFile ''/c/kfleet/quickstart.json'', PsCommand 42, SignalTerm 42]"
  by (simp add: cleanup_sample_defs)

theorem signals_only_port_forward_witness:
  "let tr = cl_Trace (snd (appRun sampleApp workingHost [''cleanup''] startCli)) in
     fst (tr ! 2) = SignalTerm 42 \<and> Contains (an_Text (snd (tr ! 1))) ''svc/kfleet-hub''"
proof -
  let ?tr = "cl_Trace (snd (appRun sampleApp workingHost [''cleanup''] startCli))"
  have len: "3 \<le> length ?tr" using arg_cong [OF cleanup_sample, of length] by simp
  then have "fst (?tr ! 2) = SignalTerm 42" using arg_cong [OF cleanup_sample, of "\<lambda>xs. xs ! 2"] by simp
  moreover from signals_only_port_forward [where app = sampleApp and host = workingHost and args = "[''cleanup'']" and s = startCli,
      OF prod.collapse [symmetric]] len this
  have "Contains (an_Text (snd (?tr ! 1))) ''svc/kfleet-hub''" by (force simp: startCli_def Let_def dest: spec [of _ 2])
  ultimately show ?thesis by (simp add: Let_def)
qed



end
