(* ===== verification/Receiver.thy ===== *)
theory Receiver
  imports Hub
begin

text \<open>
  \<open>cmd/webhook-receiver\<close>: the loopback receiver of signed alert webhooks, with its injected failures, and what it and the
  alert manager promise together. JSON syntax (\<open>json.Valid\<close>), HMAC-SHA256 and \<open>net.ParseIP\<close> (whether a host is an IP
  address of the loopback) are parameters.
\<close>

section \<open>State\<close>

definition maxWebhookBodyBytes :: nat where "maxWebhookBodyBytes = 1048576"

record receivedWebhook =
  rw_ReceivedAt :: time
  rw_DeliveryID :: string
  rw_Event :: string
  rw_Body :: string

record receiver =
  rc_secret :: string
  rc_failRemaining :: int
  rc_failStatus :: int
  rc_received :: "receivedWebhook list"

section \<open>Configuration\<close>

definition recvEnvInt :: "(string \<Rightarrow> string) \<Rightarrow> string \<Rightarrow> int \<Rightarrow> int option" where
  "recvEnvInt env key fallback = (if env key = '''' then Some fallback else ParseInt 64 (env key))"

definition recvEnvOrDefault :: "(string \<Rightarrow> string) \<Rightarrow> string \<Rightarrow> string \<Rightarrow> string" where
  "recvEnvOrDefault env key fallback = (if env key \<noteq> '''' then env key else fallback)"

text \<open>\<open>strings.EqualFold(host, "localhost")\<close>: beside the two cases of each letter, U+017F folds to \<open>s\<close>.\<close>

fun foldLongS :: "string \<Rightarrow> string" where
  "foldLongS (c # d # cs) =
     (if c = CHR 0xC5 \<and> d = CHR 0xBF then CHR ''s'' # foldLongS cs else c # foldLongS (d # cs))"
| "foldLongS cs = cs"

text \<open>\<open>strings.Trim(host, "[]")\<close>\<close>

definition trimBrackets :: "string \<Rightarrow> string" where
  "trimBrackets host = (let P = (\<lambda>c. c = CHR ''['' \<or> c = CHR '']'') in rev (dropWhile P (rev (dropWhile P host))))"

definition isLoopbackAddress :: "(string \<Rightarrow> bool) \<Rightarrow> string \<Rightarrow> bool" where
  "isLoopbackAddress loopbackIP address = (case SplitHostPort address of
     None \<Rightarrow> False
   | Some (host, _) \<Rightarrow> let host = trimBrackets host in EqualFold (foldLongS host) ''localhost'' \<or> loopbackIP host)"

text \<open>\<open>main\<close>, up to the listener: the address and the receiver's state, or the message it dies with.\<close>

definition receiverMain :: "(string \<Rightarrow> bool) \<Rightarrow> (string \<Rightarrow> string) \<Rightarrow> string + string \<times> receiver" where
  "receiverMain loopbackIP env =
     (let listenAddr = recvEnvOrDefault env ''KFLEET_RECEIVER_LISTEN_ADDR'' ''127.0.0.1:9099'';
          secret = env ''KFLEET_RECEIVER_SECRET'' in
      case recvEnvInt env ''KFLEET_RECEIVER_FAIL_FIRST'' 0 of
        None \<Rightarrow> Inl ''KFLEET_RECEIVER_FAIL_FIRST must be a non-negative integer''
      | Some failRemaining \<Rightarrow>
          if failRemaining < 0 then Inl ''KFLEET_RECEIVER_FAIL_FIRST must be a non-negative integer''
          else (case recvEnvInt env ''KFLEET_RECEIVER_FAIL_STATUS'' 503 of
            None \<Rightarrow> Inl ''KFLEET_RECEIVER_FAIL_STATUS must be an HTTP error status from 400 through 599''
          | Some failStatus \<Rightarrow>
              if failStatus < 400 \<or> failStatus > 599
              then Inl ''KFLEET_RECEIVER_FAIL_STATUS must be an HTTP error status from 400 through 599''
              else if secret = '''' then Inl ''KFLEET_RECEIVER_SECRET is required''
              else if \<not> isLoopbackAddress loopbackIP listenAddr
              then Inl ''KFLEET_RECEIVER_LISTEN_ADDR must use a loopback host''
              else Inr (listenAddr, \<lparr>rc_secret = secret, rc_failRemaining = failRemaining, rc_failStatus = failStatus,
                     rc_received = []\<rparr>)))"

section \<open>Handlers\<close>

text \<open>\<open>io.ReadAll(http.MaxBytesReader(...))\<close>: \<open>None\<close> for a body that cannot be read.\<close>

definition readLimited :: "nat \<Rightarrow> string option \<Rightarrow> string option" where
  "readLimited limit body = (case body of None \<Rightarrow> None | Some b \<Rightarrow> if length b > limit then None else Some b)"

definition Duration_Abs :: "duration \<Rightarrow> duration" where
  "Duration_Abs d = (if 0 \<le> d then d else if d = minInt64 then maxInt64 else - d)"

definition UnixTime :: "int \<Rightarrow> time" where
  "UnixTime seconds = (seconds + 62135596800) * Second"

definition httpError :: "int \<Rightarrow> string \<Rightarrow> int \<times> string" where
  "httpError status msg = (status, msg @ [CHR 0x0A])"

definition handleWebhook ::
  "(string \<Rightarrow> string \<Rightarrow> string) \<Rightarrow> (string \<Rightarrow> bool) \<Rightarrow> time \<Rightarrow> time \<Rightarrow> (string \<Rightarrow> string) \<Rightarrow> string option \<Rightarrow> receiver \<Rightarrow>
   (int \<times> string) \<times> receiver" where
  "handleWebhook hmac jsonValid now receivedAt header requestBody rc =
     (case readLimited maxWebhookBodyBytes requestBody of
        None \<Rightarrow> (httpError 400 ''invalid body'', rc)
      | Some body \<Rightarrow>
          let timestamp = header ''X-Kfleet-Timestamp'' in
          (case ParseInt 64 timestamp of
             None \<Rightarrow> (httpError 401 ''invalid timestamp'', rc)
           | Some unixTimestamp \<Rightarrow>
               if Duration_Abs (time_Sub now (UnixTime unixTimestamp)) > 5 * Minute
               then (httpError 401 ''invalid timestamp'', rc)
               else if header ''X-Kfleet-Signature'' \<noteq> Signature hmac (rc_secret rc) timestamp body
               then (httpError 401 ''invalid signature'', rc)
               else if \<not> jsonValid body then (httpError 400 ''invalid JSON'', rc)
               else let rc = rc\<lparr>rc_received := rc_received rc @
                          [\<lparr>rw_ReceivedAt = receivedAt, rw_DeliveryID = header ''X-Kfleet-Delivery'',
                            rw_Event = header ''X-Kfleet-Event'', rw_Body = body\<rparr>]\<rparr> in
                    if rc_failRemaining rc > 0
                    then (httpError (rc_failStatus rc) ''injected receiver failure'',
                          rc\<lparr>rc_failRemaining := rc_failRemaining rc - 1\<rparr>)
                    else ((204, ''''), rc)))"

definition handleReceived :: "receiver \<Rightarrow> receivedWebhook list" where
  "handleReceived rc = rc_received rc"

text \<open>The decoded update, if the body decodes; the answer is the state that results.\<close>

definition handleFailures :: "(int \<times> int) option \<Rightarrow> receiver \<Rightarrow> ((int \<times> string) + (int \<times> int)) \<times> receiver" where
  "handleFailures update rc =
     (let bad = (Inl (httpError 400 ''expected {\"count\": non-negative integer, \"status\": 400..599}''), rc) in
      case update of
        None \<Rightarrow> bad
      | Some (n, status) \<Rightarrow>
          if n < 0 \<or> (status \<noteq> 0 \<and> (status < 400 \<or> status > 599)) then bad
          else let rc = rc\<lparr>rc_failRemaining := n\<rparr>;
                   rc = (if status \<noteq> 0 then rc\<lparr>rc_failStatus := status\<rparr> else rc)
               in (Inr (rc_failRemaining rc, rc_failStatus rc), rc))"

text \<open>What a receiver starts with, and keeps under every request.\<close>

definition receiverOK :: "receiver \<Rightarrow> bool" where
  "receiverOK rc \<longleftrightarrow> rc_secret rc \<noteq> '''' \<and> 0 \<le> rc_failRemaining rc \<and> 400 \<le> rc_failStatus rc \<and> rc_failStatus rc \<le> 599"

lemma receiverMain_ok: "receiverMain ip env = Inr (addr, rc) \<Longrightarrow> receiverOK rc \<and> isLoopbackAddress ip addr \<and> rc_received rc = []"
  by (auto simp: receiverMain_def receiverOK_def Let_def split: option.splits if_splits)

lemma handleFailures_ok: "receiverOK rc \<Longrightarrow> receiverOK (snd (handleFailures update rc))"
  by (auto simp: handleFailures_def receiverOK_def Let_def split: option.splits)

lemma handleWebhook_ok: "receiverOK rc \<Longrightarrow> receiverOK (snd (handleWebhook hmac jsonValid now at header body rc))"
  by (simp add: handleWebhook_def receiverOK_def Let_def split: option.split)

section \<open>Forged and stale requests\<close>


section \<open>The alert manager and the receiver\<close>

definition headerOf :: "(string \<times> string) list \<Rightarrow> string \<Rightarrow> string" where
  "headerOf hs k = (case map_of hs k of None \<Rightarrow> '''' | Some v \<Rightarrow> v)"

text \<open>The manager's HTTP client when the receiver listens at its URL.\<close>

definition receiverClient ::
  "(string \<Rightarrow> string \<Rightarrow> string) \<Rightarrow> (string \<Rightarrow> bool) \<Rightarrow> time \<Rightarrow> receiver \<Rightarrow> WebhookClient" where
  "receiverClient hmac jsonValid now rc req =
     (case fst (handleWebhook hmac jsonValid now now (headerOf (wr_Headers req)) (Some (wr_Body req)) rc) of
        (status, text) \<Rightarrow> Inr (status, Inr text))"

definition alertRequest ::
  "Manager \<Rightarrow> (WebhookPayload \<Rightarrow> string) \<Rightarrow> (string \<Rightarrow> string \<Rightarrow> string) \<Rightarrow> Alert \<Rightarrow> time \<Rightarrow> WebhookRequest" where
  "alertRequest m encode hmac alert sentAt =
     (let body = encode (webhookPayload alert); timestamp = Itoa (Unix sentAt) in
      \<lparr>wr_URL = m_webhookURL m,
       wr_Headers = [(''Content-Type'', ''application/json''), (''User-Agent'', ''kfleet-alerts/1''),
         (''X-Kfleet-Event'', EventType), (''X-Kfleet-Delivery'', al_ID alert), (''X-Kfleet-Timestamp'', timestamp),
         (''X-Kfleet-Signature'', Signature hmac (m_secret m) timestamp body)],
       wr_Body = body\<rparr>)"

lemma send_request: "send m encode hmac alert sentAt =
   (case m_client m (alertRequest m encode hmac alert sentAt) of
      Inl err \<Rightarrow> Some (''send webhook: '' @ err)
    | Inr (status, Inl err) \<Rightarrow> Some (''read webhook response: '' @ err)
    | Inr (status, Inr response) \<Rightarrow>
        if status < 200 \<or> 300 \<le> status
        then let detail = TrimSpace (take maxResponseBodyBytes response);
                 detail = (if detail = '''' then StatusText status else detail)
             in Some (''webhook returned '' @ Itoa status @ '': '' @ detail)
        else None)"
  by (simp add: send_def alertRequest_def Let_def)

definition deliverable :: "(string \<Rightarrow> bool) \<Rightarrow> (WebhookPayload \<Rightarrow> string) \<Rightarrow> Alert \<Rightarrow> bool" where
  "deliverable jsonValid encode a \<longleftrightarrow>
     jsonValid (encode (webhookPayload a)) \<and> length (encode (webhookPayload a)) \<le> maxWebhookBodyBytes"

definition clockOK :: "time \<Rightarrow> bool" where
  "clockOK now \<longleftrightarrow> - (2 ^ 63) \<le> Unix now \<and> Unix now < 2 ^ 63"

lemma receives_alert:
  assumes "deliverable jsonValid encode a" and "clockOK now" and "m_secret m = rc_secret rc" and "req = alertRequest m encode hmac a now"
  shows "handleWebhook hmac jsonValid now now (headerOf (wr_Headers req)) (Some (wr_Body req)) rc =
    (if rc_failRemaining rc > 0 then httpError (rc_failStatus rc) ''injected receiver failure'' else (204, ''''),
     rc\<lparr>rc_received := rc_received rc @ [\<lparr>rw_ReceivedAt = now, rw_DeliveryID = al_ID a, rw_Event = EventType,
          rw_Body = encode (webhookPayload a)\<rparr>],
        rc_failRemaining := rc_failRemaining rc - (if rc_failRemaining rc > 0 then 1 else 0)\<rparr>)"
proof -
  have ts: "ParseInt 64 (Itoa (Unix now)) = Some (Unix now)"
    using assms(2) by (intro ParseInt_Itoa) (simp_all add: clockOK_def)
  have "now - UnixTime (Unix now) = (now - 62135596800 * Second) mod Second"
    unfolding UnixTime_def Unix_def by (simp add: minus_div_mult_eq_mod [symmetric] algebra_simps)
  moreover have "0 \<le> (now - 62135596800 * Second) mod Second" "(now - 62135596800 * Second) mod Second < Second"
    by (simp_all add: Second_def)
  ultimately have "\<not> Duration_Abs (time_Sub now (UnixTime (Unix now))) > 5 * Minute"
    by (auto simp: Duration_Abs_def time_Sub_def minInt64_def maxInt64_def go_time)
  with ts assms(1,3) show ?thesis
    by (simp add: assms(4) alertRequest_def headerOf_def handleWebhook_def readLimited_def deliverable_def Let_def)
qed

text \<open>One poll of a hub whose history holds one alert, with the receiver it may deliver to.\<close>

definition alertPoll ::
  "Manager \<Rightarrow> (WebhookPayload \<Rightarrow> string) \<Rightarrow> (string \<Rightarrow> string \<Rightarrow> string) \<Rightarrow> (string \<Rightarrow> bool) \<Rightarrow> time \<Rightarrow>
   receiver \<times> db \<Rightarrow> receiver \<times> db" where
  "alertPoll m encode hmac jsonValid now = (\<lambda>(rc, d).
     (case filter (dueAt now) (t_alerts (db_tables d)) of
        [a] \<Rightarrow> let req = alertRequest m encode hmac a now in
               snd (handleWebhook hmac jsonValid now now (headerOf (wr_Headers req)) (Some (wr_Body req)) rc)
      | _ \<Rightarrow> rc,
      snd (ProcessDue (m\<lparr>m_client := receiverClient hmac jsonValid now rc\<rparr>) encode hmac now (\<lambda>_. False) (\<lambda>_. now) d)))"

definition retried :: "Manager \<Rightarrow> time \<Rightarrow> string \<Rightarrow> Alert \<Rightarrow> Alert" where
  "retried m now err a = a\<lparr>al_DeliveryStatus := AlertDeliveryRetrying, al_DeliveryAttempts := al_DeliveryAttempts a + 1,
     al_NextDeliveryAt := Some (time_Add now (retryDelay m (al_DeliveryAttempts a + 1))), al_LastDeliveryError := err,
     al_DeadLetteredAt := None, al_UpdatedAt := now\<rparr>"

definition delivered :: "time \<Rightarrow> Alert \<Rightarrow> Alert" where
  "delivered now a = a\<lparr>al_DeliveryStatus := AlertDeliveryDelivered, al_DeliveryAttempts := al_DeliveryAttempts a + 1,
     al_NextDeliveryAt := None, al_LastDeliveryError := '''', al_DeliveredAt := Some now, al_UpdatedAt := now\<rparr>"

lemma ProcessDue_single:
  assumes "t_alerts (db_tables d) = [a]" and "db_faults d = []" and "dueAt now a" and "m_webhookURL m \<noteq> ''''"
  shows "snd (ProcessDue m encode hmac now (\<lambda>_. False) (\<lambda>_. now) d) = snd (deliver m encode hmac now a d)"
  using assms
  by (simp add: ProcessDue_def ListDueAlertDeliveries_def bindm_def attempt_def db_simps ret_def split: prod.split sum.split)

lemma alertPoll_fails:
  assumes "t_alerts (db_tables d) = [a]" and "db_faults d = []" and "dueAt now a" and "m_webhookURL m \<noteq> ''''"
    and "deliverable jsonValid encode a" and "clockOK now" and "m_secret m = rc_secret rc" and "receiverOK rc"
    and "0 < rc_failRemaining rc" and "al_DeliveryAttempts a + 1 < m_maxAttempts m"
  shows "\<exists>err. alertPoll m encode hmac jsonValid now (rc, d) =
    (rc\<lparr>rc_received := rc_received rc @ [\<lparr>rw_ReceivedAt = now, rw_DeliveryID = al_ID a, rw_Event = EventType,
          rw_Body = encode (webhookPayload a)\<rparr>], rc_failRemaining := rc_failRemaining rc - 1\<rparr>,
     d\<lparr>db_tables := (db_tables d)\<lparr>t_alerts := [retried m now err a]\<rparr>\<rparr>)"
proof -
  let ?m = "m\<lparr>m_client := receiverClient hmac jsonValid now rc\<rparr>"
  have req: "alertRequest ?m encode hmac a now = alertRequest m encode hmac a now" by (simp add: alertRequest_def)
  note got = receives_alert [OF assms(5-7) refl, where hmac = hmac]
  obtain err where "send ?m encode hmac a now = Some err"
    using assms(8,9) by (auto simp: send_request req receiverClient_def got httpError_def Let_def receiverOK_def)
  then have "snd (deliver ?m encode hmac now a d) =
      d\<lparr>db_tables := (db_tables d)\<lparr>t_alerts := [retried m now (truncateError err 512) a]\<rparr>\<rparr>"
    using assms(1,2,10)
    by (simp add: deliver_def RecordAlertDeliveryFailure_def bindm_def attempt_def db_simps updAlerts_def updWhere_def
        cnt_def ret_def retried_def retryDelay_def Let_def)
  then show ?thesis
    using assms(1-4,9) got by (auto simp: alertPoll_def ProcessDue_single Let_def)
qed

lemma alertPoll_succeeds:
  assumes "t_alerts (db_tables d) = [a]" and "db_faults d = []" and "dueAt now a" and "m_webhookURL m \<noteq> ''''"
    and "deliverable jsonValid encode a" and "clockOK now" and "m_secret m = rc_secret rc" and "rc_failRemaining rc = 0"
  shows "alertPoll m encode hmac jsonValid now (rc, d) =
    (rc\<lparr>rc_received := rc_received rc @ [\<lparr>rw_ReceivedAt = now, rw_DeliveryID = al_ID a, rw_Event = EventType,
          rw_Body = encode (webhookPayload a)\<rparr>]\<rparr>,
     d\<lparr>db_tables := (db_tables d)\<lparr>t_alerts := [delivered now a]\<rparr>\<rparr>)"
proof -
  let ?m = "m\<lparr>m_client := receiverClient hmac jsonValid now rc\<rparr>"
  have req: "alertRequest ?m encode hmac a now = alertRequest m encode hmac a now" by (simp add: alertRequest_def)
  note got = receives_alert [OF assms(5-7) refl, where hmac = hmac]
  have "send ?m encode hmac a now = None" using assms(8) by (simp add: send_request req receiverClient_def got)
  then have "snd (deliver ?m encode hmac now a d) = d\<lparr>db_tables := (db_tables d)\<lparr>t_alerts := [delivered now a]\<rparr>\<rparr>"
    using assms(1,2)
    by (simp add: deliver_def RecordAlertDelivered_def bindm_def attempt_def db_simps updAlerts_def updWhere_def
        cnt_def ret_def delivered_def Let_def)
  then show ?thesis using assms(1-4,8) got by (simp add: alertPoll_def ProcessDue_single Let_def)
qed


section \<open>Examples\<close>

definition sampleReceiver :: receiver where
  "sampleReceiver = \<lparr>rc_secret = ''s'', rc_failRemaining = 1, rc_failStatus = 503, rc_received = []\<rparr>"

definition sampleHeader :: "string \<Rightarrow> string" where
  "sampleHeader = headerOf [(''X-Kfleet-Timestamp'', ''0''), (''X-Kfleet-Signature'', ''v1=s'')]"


definition pendingAlert :: Alert where
  "pendingAlert = ruleAlert (NewManager \<lparr>cf_WebhookURL = ''http://127.0.0.1:9099/webhook'', cf_Secret = ''s'', cf_MaxAttempts = 0,
     cf_RetryBase = 0, cf_PollInterval = 0\<rparr> (\<lambda>_. Inl ''down'')) (UnixTime 0) ''a1''
     \<lparr>c_ID = ''c1'', c_TenantID = ''default'', c_Name = ''edge'', c_Health = HealthDegraded, c_Version = '''', c_AgentVersion = '''',
      c_NodeCount = 0, c_PodCount = 0, c_RegisteredAt = 1, c_LastHeartbeat = 1, c_Labels = Map.empty\<rparr>
     \<lparr>ar_ID = ''r1'', ar_Name = ''degraded'', ar_Health = HealthDegraded, ar_Severity = AlertSeverityWarning,
      ar_CooldownSeconds = 60, ar_Enabled = True, ar_CreatedAt = 1, ar_UpdatedAt = 1\<rparr>"

definition pendingManager :: Manager where
  "pendingManager = NewManager \<lparr>cf_WebhookURL = ''http://127.0.0.1:9099/webhook'', cf_Secret = ''s'', cf_MaxAttempts = 0,
     cf_RetryBase = 0, cf_PollInterval = 0\<rparr> (\<lambda>_. Inl ''down'')"


end
