(* ===== verification/WebUI.thy ===== *)
theory WebUI
  imports GoLib
begin

text \<open>
  \<open>internal/hub/web/embed.go\<close>: the handler of the embedded React application. The bundle is a function from the path of a
  file or directory under its root to what is there; of \<open>net/http\<close>'s file server the model keeps its redirects and the
  file it serves (conditional and range requests answer from the same file).
\<close>

section \<open>Paths\<close>

text \<open>\<open>path.Clean\<close>: the elements kept so far are in reverse order.\<close>

fun cleanElems :: "bool \<Rightarrow> string list \<Rightarrow> string list \<Rightarrow> string list" where
  "cleanElems rooted kept [] = rev kept"
| "cleanElems rooted kept (e # es) =
     (if e = '''' \<or> e = ''.'' then cleanElems rooted kept es
      else if e = ''..''
      then (case kept of
              k # ks \<Rightarrow> if k = ''..'' then cleanElems rooted (e # kept) es else cleanElems rooted ks es
            | [] \<Rightarrow> if rooted then cleanElems rooted [] es else cleanElems rooted [e] es)
      else cleanElems rooted (e # kept) es)"

definition path_Clean :: "string \<Rightarrow> string" where
  "path_Clean p =
     (let rooted = HasPrefix p ''/''; es = cleanElems rooted [] (SplitC (CHR ''/'') p) in
      if rooted then CHR ''/'' # Join ''/'' es else if es = [] then ''.'' else Join ''/'' es)"

definition path_Base :: "string \<Rightarrow> string" where
  "path_Base p = (if p = '''' then ''.'' else
     let b = last (SplitC (CHR ''/'') (TrimRightC (CHR ''/'') p)) in if b = '''' then ''/'' else b)"

section \<open>Caching\<close>

definition alnum :: "char \<Rightarrow> bool" where
  "alnum c \<longleftrightarrow> (let n = (of_char c :: nat) in (48 \<le> n \<and> n \<le> 57) \<or> (65 \<le> n \<and> n \<le> 90) \<or> (97 \<le> n \<and> n \<le> 122))"

text \<open>\<open>^[A-Za-z0-9][A-Za-z0-9_.]*-[A-Za-z0-9_-]{8}\.[A-Za-z0-9]+$\<close>, for each position \<open>i\<close> of the hyphen.\<close>

definition contentHashAt :: "string \<Rightarrow> nat \<Rightarrow> bool" where
  "contentHashAt s i \<longleftrightarrow> (let name = take i s; hash = take 8 (drop (i + 1) s); ext = drop (i + 10) s in
     name \<noteq> [] \<and> alnum (hd name) \<and> list_all (\<lambda>c. alnum c \<or> c \<in> set ''_.'') name \<and>
     s ! i = CHR ''-'' \<and> list_all (\<lambda>c. alnum c \<or> c \<in> set ''_-'') hash \<and>
     s ! (i + 9) = CHR ''.'' \<and> ext \<noteq> [] \<and> list_all alnum ext)"

definition contentHashPattern :: "string \<Rightarrow> bool" where
  "contentHashPattern s = list_ex (contentHashAt s) [0..<length s - 10]"

definition immutableCaching :: string where "immutableCaching = ''public, max-age=31536000, immutable''"

definition cacheControl :: "string \<Rightarrow> string" where
  "cacheControl assetPath =
     (if HasPrefix assetPath ''assets/'' \<and> contentHashPattern (path_Base assetPath) then immutableCaching else ''no-cache'')"

section \<open>The handler\<close>

datatype entry = File string | Directory

text \<open>What a response holds: a text, the bytes of the named file, or nothing (a redirect).\<close>

datatype web_body = Message string | Content string string | Moved

record web_response =
  wb_Status :: int
  wb_Headers :: "(string \<times> string) list"
  wb_Body :: web_body

text \<open>\<open>fs.ValidPath\<close>: no empty, dot or dot-dot element; the root is a dot.\<close>

definition ValidPath :: "string \<Rightarrow> bool" where
  "ValidPath name \<longleftrightarrow> name = ''.'' \<or> list_all (\<lambda>e. e \<notin> set ['''', ''.'', ''..'']) (SplitC (CHR ''/'') name)"

definition fsStat :: "(string \<Rightarrow> entry option) \<Rightarrow> string \<Rightarrow> entry option" where
  "fsStat root name = (if ValidPath name then root name else None)"

definition fsReadFile :: "(string \<Rightarrow> entry option) \<Rightarrow> string \<Rightarrow> string option" where
  "fsReadFile root name = (case fsStat root name of Some (File data) \<Rightarrow> Some data | _ \<Rightarrow> None)"

text \<open>
  \<open>http.FileServer\<close> for a path that names a file: \<open>.../index.html\<close> is redirected to its directory and a trailing slash
  dropped by a redirect.
\<close>

definition HasSuffix :: "string \<Rightarrow> string \<Rightarrow> bool" where
  "HasSuffix s x = prefix (rev x) (rev s)"

definition serveFile :: "(string \<times> string) list \<Rightarrow> string \<Rightarrow> string \<Rightarrow> string \<Rightarrow> web_response" where
  "serveFile headers urlPath name data =
     (if HasSuffix urlPath ''/index.html'' then \<lparr>wb_Status = 301, wb_Headers = headers @ [(''Location'', ''./'')], wb_Body = Moved\<rparr>
      else if HasSuffix urlPath ''/''
      then \<lparr>wb_Status = 301, wb_Headers = headers @ [(''Location'', ''../'' @ path_Base urlPath)], wb_Body = Moved\<rparr>
      else \<lparr>wb_Status = 200, wb_Headers = headers, wb_Body = Content name data\<rparr>)"

definition webError :: "(string \<times> string) list \<Rightarrow> int \<Rightarrow> string \<Rightarrow> web_response" where
  "webError headers status text =
     \<lparr>wb_Status = status, wb_Headers = headers @ [(''Content-Type'', ''text/plain; charset=utf-8''),
        (''X-Content-Type-Options'', ''nosniff'')], wb_Body = Message (text @ [CHR 0x0A])\<rparr>"

definition webNotFound :: "(string \<times> string) list \<Rightarrow> web_response" where
  "webNotFound headers = webError headers 404 ''404 page not found''"

definition serveIndex :: "(string \<Rightarrow> entry option) \<Rightarrow> web_response" where
  "serveIndex root = (case fsReadFile root ''index.html'' of
     None \<Rightarrow> webNotFound []
   | Some index \<Rightarrow> \<lparr>wb_Status = 200, wb_Headers = [(''Content-Type'', ''text/html; charset=utf-8''), (''Cache-Control'', ''no-cache'')],
       wb_Body = Content ''index.html'' index\<rparr>)"

definition apiPath :: "string \<Rightarrow> bool" where
  "apiPath p \<longleftrightarrow> HasPrefix p ''/api/'' \<or> p = ''/api'' \<or> HasPrefix p ''/ws/'' \<or> p = ''/ws''"

definition HandlerFor :: "(string \<Rightarrow> entry option) \<Rightarrow> string \<Rightarrow> string \<Rightarrow> web_response" where
  "HandlerFor root method urlPath =
     (if method \<noteq> ''GET'' \<and> method \<noteq> ''HEAD''
      then webError [(''Allow'', ''GET, HEAD'')] 405 (StatusText 405)
      else if apiPath urlPath then webNotFound []
      else let assetPath = TrimPrefix (path_Clean urlPath) ''/'' in
           if assetPath \<noteq> ''.'' \<and> assetPath \<noteq> ''''
           then (case fsStat root assetPath of
                   Some (File data) \<Rightarrow> serveFile [(''Cache-Control'', cacheControl assetPath)] urlPath assetPath data
                 | _ \<Rightarrow> if HasPrefix assetPath ''assets/'' then webNotFound [(''Cache-Control'', ''no-cache'')]
                        else serveIndex root)
           else serveIndex root)"

definition Empty :: "(string \<Rightarrow> entry option) \<Rightarrow> bool" where
  "Empty dist = (fsReadFile dist ''dist/index.html'' = None)"

text \<open>\<open>Handler\<close>: the files under \<open>dist\<close> of the embedded bundle.\<close>

definition subDist :: "(string \<Rightarrow> entry option) \<Rightarrow> string \<Rightarrow> entry option" where
  "subDist dist name = dist (if name = ''.'' then ''dist'' else ''dist/'' @ name)"

definition Handler :: "(string \<Rightarrow> entry option) \<Rightarrow> string \<Rightarrow> string \<Rightarrow> web_response" where
  "Handler dist = HandlerFor (subDist dist)"

lemma contentHash_samples:
  "contentHashPattern ''index-DgAqilCc.css''" "\<not> contentHashPattern ''runtime-helper.js''" "contentHashPattern ''a-b_-c1234.js''"
  "\<not> contentHashPattern ''index.html''"
  "path_Clean ''/a/../../b//c/.'' = ''/b/c''" "path_Clean ''a/../..'' = ''..''" "path_Base ''assets/x.js'' = ''x.js''"
  by code_simp+

section \<open>What is cached and what falls back\<close>

lemma serveIndex_no_cache:
  "wb_Body (serveIndex root) = Content name data \<Longrightarrow>
     name = ''index.html'' \<and> fsReadFile root ''index.html'' = Some data \<and> map_of (wb_Headers (serveIndex root)) ''Cache-Control'' = Some ''no-cache''"
  by (auto simp: serveIndex_def webNotFound_def webError_def split: option.splits if_splits)

text \<open>The web UI never shadows the API and never pins an old release in a browser: requests for \<open>/api\<close> and \<open>/ws\<close> are 404
  whatever the bundle holds; a response carries \<open>immutable\<close> only for a file of the bundle under \<open>assets/\<close> whose name has
  a content hash, and every other answer with content must be revalidated; a missing file under \<open>assets/\<close> is a 404 and not
  the HTML document; and every other GET is answered with the document when the bundle has one.\<close>

theorem web_ui_caching:
  "let response = HandlerFor root method urlPath; asset = TrimPrefix (path_Clean urlPath) ''/'';
       cc = map_of (wb_Headers response) ''Cache-Control'' in
   (if method \<notin> set [''GET'', ''HEAD''] then wb_Status response = 405
    else if apiPath urlPath then wb_Status response = 404 \<and> cc = None
    else case fsStat root asset of
      Some (File data) \<Rightarrow>
        if asset = ''.'' then response = serveIndex root
        else wb_Body response \<in> {Content asset data, Moved} \<and>
          (if HasPrefix asset ''assets/'' \<and> contentHashPattern (path_Base asset)
           then cc = Some ''public, max-age=31536000, immutable'' else cc = Some ''no-cache'')
    | _ \<Rightarrow>
        if HasPrefix asset ''assets/'' then wb_Status response = 404 \<and> cc = Some ''no-cache''
        else (case fsReadFile root ''index.html'' of
                None \<Rightarrow> wb_Status response = 404
              | Some index \<Rightarrow> wb_Status response = 200 \<and> wb_Body response = Content ''index.html'' index \<and> cc = Some ''no-cache''))"
proof -
  have empty: "fsStat root '''' = None" by (simp add: fsStat_def ValidPath_def)
  have prefix: "\<not> HasPrefix '''' ''assets/''" "\<not> HasPrefix ''.'' ''assets/''" by code_simp+
  have served: "wb_Body (serveFile hs urlPath asset data) = Content asset data \<or> wb_Body (serveFile hs urlPath asset data) = Moved"
    "map_of (wb_Headers (serveFile [(''Cache-Control'', cacheControl asset)] urlPath asset data)) ''Cache-Control'' =
      Some (if HasPrefix asset ''assets/'' \<and> contentHashPattern (path_Base asset)
            then ''public, max-age=31536000, immutable'' else ''no-cache'')" for hs asset data
    by (simp_all add: serveFile_def cacheControl_def immutableCaching_def)
  have index: "case fsReadFile root ''index.html'' of None \<Rightarrow> wb_Status (serveIndex root) = 404
    | Some index \<Rightarrow> wb_Status (serveIndex root) = 200 \<and> wb_Body (serveIndex root) = Content ''index.html'' index \<and>
        map_of (wb_Headers (serveIndex root)) ''Cache-Control'' = Some ''no-cache''"
    by (simp add: serveIndex_def webNotFound_def webError_def split: option.split)
  have errors: "wb_Status (webError hs status msg) = status" "wb_Status (webNotFound hs) = 404"
    "map_of (wb_Headers (webNotFound [])) ''Cache-Control'' = None"
    "map_of (wb_Headers (webNotFound [(''Cache-Control'', ''no-cache'')])) ''Cache-Control'' = Some ''no-cache''" for hs status msg
    by (simp_all add: webError_def webNotFound_def)
  let ?asset = "TrimPrefix (path_Clean urlPath) ''/''"
  show ?thesis
  proof (cases "method \<notin> set [''GET'', ''HEAD''] \<or> apiPath urlPath")
    case True
    then show ?thesis by (auto simp: Let_def HandlerFor_def errors)
  next
    case False
    then have ok: "(method \<notin> set [''GET'', ''HEAD'']) = False" "apiPath urlPath = False"
      "(method \<noteq> ''GET'' \<and> method \<noteq> ''HEAD'') = False" by auto
    have h: "HandlerFor root method urlPath =
        (if ?asset \<noteq> ''.'' \<and> ?asset \<noteq> ''''
         then (case fsStat root ?asset of
                 Some (File data) \<Rightarrow> serveFile [(''Cache-Control'', cacheControl ?asset)] urlPath ?asset data
               | _ \<Rightarrow> if HasPrefix ?asset ''assets/'' then webNotFound [(''Cache-Control'', ''no-cache'')] else serveIndex root)
         else serveIndex root)"
      unfolding HandlerFor_def Let_def ok if_False by (rule refl)
    have web: "HandlerFor root method urlPath = serveIndex root" if "?asset = ''.'' \<or> ?asset = ''''"
      unfolding h using that by auto
    consider (dot) "?asset = ''.''" | (none) "?asset = ''''"
      | (data) data where "?asset \<noteq> ''.''" "?asset \<noteq> ''''" "fsStat root ?asset = Some (File data)"
      | (other) "?asset \<noteq> ''.''" "?asset \<noteq> ''''" "fsStat root ?asset = None \<or> fsStat root ?asset = Some Directory"
      by (metis entry.exhaust option.exhaust)
    then show ?thesis
    proof cases
      case dot
      then show ?thesis using web index prefix(2) unfolding Let_def ok if_False
        by (auto simp: ok split: option.splits entry.split)
    next
      case none
      then show ?thesis using web index prefix(1) empty unfolding Let_def ok if_False by (auto split: option.splits)
    next
      case data
      then show ?thesis using served unfolding Let_def ok if_False h by auto
    next
      case other
      then show ?thesis using index errors unfolding Let_def ok if_False h by (auto split: option.splits)
    qed
  qed
qed

end
