(* ===== verification/Frontend.thy ===== *)
theory Frontend
  imports Samples WebUI
begin

text \<open>
  The handler that \<open>server.New\<close> gives to \<open>http.Server\<close>: the outer middleware, the mux with the probes, the metrics, the
  API and the embedded web application, and what every answer of the hub carries in its headers and cookies. The three
  streaming endpoints are entered here and served by \<open>PodLogs\<close> and \<open>WsHub\<close>. The JSON content type of an API reply is
  not recorded.
\<close>

section \<open>Probes, metadata and metrics\<close>

definition Ping :: "unit storem" where
  "Ping = wrapErr ''ping sqlite database'' (query (\<lambda>t. ()))"

record RuntimeInfo =
  ri_Version :: string
  ri_DemoMode :: bool
  ri_ReadOnly :: bool
  ri_SyntheticData :: bool
  ri_DataPolicy :: string

definition runtimeDataPolicy :: "bool \<Rightarrow> string" where
  "runtimeDataPolicy demoMode =
     (if demoMode then ''Synthetic sample data only. No live cluster identities, telemetry, or credentials.''
      else ''Live hub data.'')"

text \<open>What an answer holds; \<open>StreamPage\<close> is a request handed to one of the streaming endpoints.\<close>

datatype page = ApiPage response | MetaPage RuntimeInfo | TextPage int string | WebPage int web_body
  | MovedPage string | StreamPage

text \<open>What the front reads beside the hub: the version, the bundle, the gauges of the relay and the broadcast hub, and the
  file system.\<close>

record frontEnv =
  fe_Version :: string
  fe_dist :: "string \<Rightarrow> entry option"
  fe_ConnectedAgents :: nat
  fe_ClientCount :: int
  fe_ActiveStreams :: nat
  fe_DBPath :: string
  fe_fileSize :: "string \<Rightarrow> int option"

type_synonym front = "(hub, response, page) sm"

definition addHeaders :: "(string \<times> string) list \<Rightarrow> (hub, 'e, unit) sm" where
  "addHeaders kvs = forEach kvs (\<lambda>kv. addHeader (fst kv) (snd kv))"

definition runtimeInfo :: "Server \<Rightarrow> frontEnv \<Rightarrow> RuntimeInfo" where
  "runtimeInfo srv env =
     \<lparr>ri_Version = fe_Version env, ri_DemoMode = srv_DemoMode srv, ri_ReadOnly = srv_DemoMode srv,
      ri_SyntheticData = srv_DemoMode srv, ri_DataPolicy = runtimeDataPolicy (srv_DemoMode srv)\<rparr>"

definition handleReadyz :: front where
  "handleReadyz =
     bindm (attempt (onStore Ping)) (\<lambda>res. case res of
       Inl _ \<Rightarrow> bindm (addHeader ''Content-Type'' ''application/json'') (\<lambda>_.
         ret (TextPage 503 (''{'' @ [CHR 0x22] @ ''status'' @ [CHR 0x22] @ '':'' @ [CHR 0x22] @ ''unavailable'' @ [CHR 0x22] @
           '','' @ [CHR 0x22] @ ''reason'' @ [CHR 0x22] @ '':'' @ [CHR 0x22] @ ''store unavailable'' @ [CHR 0x22] @ ''}'')))
     | Inr _ \<Rightarrow> ret (TextPage 200 ''ready''))"

definition dbSizeBytes :: "Server \<Rightarrow> frontEnv \<Rightarrow> int" where
  "dbSizeBytes srv env =
     (if srv_DemoMode srv then 0 else case fe_fileSize env (fe_DBPath env) of None \<Rightarrow> 0 | Some n \<Rightarrow> n)"

definition gauge :: "string \<Rightarrow> string \<Rightarrow> int \<Rightarrow> metric" where
  "gauge name help v = \<lparr>mt_name = name, mt_help = help, mt_value = v, mt_valid = True\<rparr>"

definition plainError :: "int \<Rightarrow> string \<Rightarrow> front" where
  "plainError status text =
     bindm (addHeader ''Content-Type'' ''text/plain; charset=utf-8'') (\<lambda>_.
     bindm (addHeader ''X-Content-Type-Options'' ''nosniff'') (\<lambda>_. ret (TextPage status (text @ [CHR 0x0A]))))"

definition handleMetrics :: "Server \<Rightarrow> frontEnv \<Rightarrow> front" where
  "handleMetrics srv env =
     (if srv_MetricsDisabled srv then plainError 404 ''404 page not found''
      else bindm storeMetricsGet (\<lambda>(agents, deadLettered).
        let rendered = renderMetrics
          [agents,
           gauge ''kfleet_log_relay_connected'' ''Agents with a live log relay reverse channel.'' (int (fe_ConnectedAgents env)),
           gauge ''kfleet_ws_clients'' ''Connected WebSocket dashboard clients.'' (fe_ClientCount env),
           gauge ''kfleet_log_streams_active'' ''In-flight pod log streams relayed from agents.'' (int (fe_ActiveStreams env)),
           deadLettered,
           gauge ''kfleet_db_size_bytes'' ''Hub SQLite database file size in bytes; 0 in demo mode or when unknown.''
             (dbSizeBytes srv env)] in
        bindm (addHeader ''Content-Type'' ''text/plain; version=0.0.4; charset=utf-8'') (\<lambda>_.
        bindm (addHeader ''Cache-Control'' ''no-store'') (\<lambda>_.
        ret (TextPage 200 (concat (map (\<lambda>line. line @ [CHR 0x0A]) rendered)))))))"

section \<open>The mux\<close>

text \<open>The routes of \<open>registerAPIRoutes\<close> beside \<open>apiRoutes\<close>: the metadata and the two log streams.\<close>

definition streamRoutes :: "(string \<times> string) list" where
  "streamRoutes =
     [(''GET'', ''/api/v1/clusters/{id}/pods/{namespace}/{pod}/logs''), (''GET'', ''/api/v1/agents/{id}/logs'')]"

definition metaRoute :: "string \<times> string" where
  "metaRoute = (''GET'', ''/api/v1/meta'')"

text \<open>
  The fallback replays the request on the shadow mux: the path of a route with another method is 405 with the methods of
  the routes of that path in \<open>Allow\<close>, anything else 404, both in the API's JSON.
\<close>

definition allowedMethods :: "(string \<times> string) list \<Rightarrow> string \<Rightarrow> string list" where
  "allowedMethods patterns path =
     sort (remdups (concat (map (\<lambda>(meth, pattern).
       if matchPath pattern path = None then [] else if meth = ''GET'' then [''GET'', ''HEAD''] else [meth]) patterns)))"

definition shadowError :: "(string \<times> string) list \<Rightarrow> Request \<Rightarrow> front" where
  "shadowError patterns r =
     (let allowed = allowedMethods patterns (rq_Path r) in
      bindm (if allowed = [] then ret () else addHeader ''Allow'' (Join '', '' allowed)) (\<lambda>_.
      bindm (addHeader ''X-Content-Type-Options'' ''nosniff'') (\<lambda>_.
      if allowed = [] then WriteError 404 ''not found'' else WriteError 405 ''method not allowed'')))"

definition serveApiRoutes :: "Server \<Rightarrow> frontEnv \<Rightarrow> Bodies \<Rightarrow> Request \<Rightarrow> front" where
  "serveApiRoutes srv env b r =
     (if serves_request r metaRoute then ret (MetaPage (runtimeInfo srv env))
      else if list_ex (serves_request r) streamRoutes then ret StreamPage
      else case findRoute (apiRoutes srv b) r of
        Some (a, handle, m) \<Rightarrow> bindm (guarded srv a handle (pathValues m r)) (\<lambda>response. ret (ApiPage response))
      | None \<Rightarrow> shadowError (metaRoute # streamRoutes @ map fst (apiRoutes srv b)) r)"

text \<open>The route table serves a request as \<open>Routes\<close> has it: neither the metadata nor a stream takes one of its requests.\<close>

lemma frontPatterns_apart: "apart overlap (metaRoute # streamRoutes @ routePatterns)"
  by code_simp

lemma serveApiRoutes_table:
  assumes "findRoute (apiRoutes srv b) r = Some x"
  shows "serveApiRoutes srv env b r = bindm (serveAPI srv b r) (\<lambda>response. ret (ApiPage response))"
proof -
  obtain a handle m where x: "x = (a, handle, m)" by (cases x)
  from findRoute_serves [OF assms [unfolded x]] obtain p where "(p, a, handle) \<in> set (apiRoutes srv b)" and s: "serves_request r p"
    by blast
  then have p: "p \<in> set routePatterns" unfolding route_patterns [of srv b, symmetric] by force
  have "list_all (\<lambda>p. fst p \<noteq> ''HEAD'') (metaRoute # streamRoutes @ routePatterns)" by code_simp
  then have "overlap q p" if "q \<in> set (metaRoute # streamRoutes)" "serves_request r q" for q
    using that p s unfolding list_all_iff by (intro serves_one_method) auto
  moreover have "\<not> overlap q p" if "q \<in> set (metaRoute # streamRoutes)" for q
    using frontPatterns_apart that p by (auto simp: streamRoutes_def list_all_iff)
  ultimately have "\<not> serves_request r q" if "q \<in> set (metaRoute # streamRoutes)" for q
    using that by blast
  then have "\<not> serves_request r metaRoute" "\<not> list_ex (serves_request r) streamRoutes"
    by (simp_all add: list_ex_iff)
  then show ?thesis using assms x by (simp add: serveApiRoutes_def serveAPI_def)
qed

text \<open>\<open>net/http\<close>'s \<open>cleanPath\<close>: a path it changes is redirected.\<close>

definition cleanPath :: "string \<Rightarrow> string" where
  "cleanPath p =
     (if p = '''' then ''/''
      else let p = (if HasPrefix p ''/'' then p else CHR ''/'' # p); np = path_Clean p in
           if HasSuffix p ''/'' \<and> np \<noteq> ''/'' then np @ ''/'' else np)"

definition serveWeb :: "frontEnv \<Rightarrow> Request \<Rightarrow> front" where
  "serveWeb env r =
     (let w = Handler (fe_dist env) (rq_Method r) (rq_Path r) in
      bindm (addHeaders (wb_Headers w)) (\<lambda>_. ret (WebPage (wb_Status w) (wb_Body w))))"

definition apiSubtree :: "string \<Rightarrow> bool" where
  "apiSubtree path \<longleftrightarrow> path = ''/api'' \<or> HasPrefix path ''/api/''"

definition serveMux :: "Server \<Rightarrow> frontEnv \<Rightarrow> Bodies \<Rightarrow> Request \<Rightarrow> front" where
  "serveMux srv env b r =
     (let serves = (\<lambda>pattern. matchMethod ''GET'' (rq_Method r) \<and> rq_Path r = pattern) in
      if rq_Method r \<noteq> ''CONNECT'' \<and> cleanPath (rq_Path r) \<noteq> rq_Path r then ret (MovedPage (cleanPath (rq_Path r)))
      else if serves ''/healthz'' then ret (TextPage 200 ''ok'')
      else if serves ''/readyz'' then handleReadyz
      else if serves ''/metrics'' then handleMetrics srv env
      else if serves ''/ws/clusters'' then ret StreamPage
      else if apiSubtree (rq_Path r) then serveApiRoutes srv env b r
      else serveWeb env r)"

section \<open>The middleware\<close>

text \<open>\<open>withDemoReadOnly\<close> in front of any handler.\<close>

definition demoReadOnly :: "(Request \<Rightarrow> front) \<Rightarrow> Request \<Rightarrow> front" where
  "demoReadOnly next r =
     (if rq_Method r = ''GET'' \<or> rq_Method r = ''HEAD'' then next r
      else if rq_Method r = ''OPTIONS'' then
        bindm (addHeader ''Allow'' ''GET, HEAD, OPTIONS'') (\<lambda>_. ret (ApiPage \<lparr>rs_Status = 204, rs_Body = NoBody\<rparr>))
      else bindm (addHeader ''Allow'' ''GET, HEAD, OPTIONS'') (\<lambda>_.
           bindm (addHeader ''Cache-Control'' ''no-store'') (\<lambda>_.
           WriteError 405 ''public demo is read-only'')))"

definition securityHeaders :: "(string \<times> string) list" where
  "securityHeaders =
     [(''Content-Security-Policy'', ''default-src '' @ [CHR 0x27] @ ''self'' @ [CHR 0x27] @ ''; base-uri '' @ [CHR 0x27] @ ''none'' @ [CHR 0x27] @
         ''; connect-src '' @ [CHR 0x27] @ ''self'' @ [CHR 0x27] @ ''; font-src '' @ [CHR 0x27] @ ''self'' @ [CHR 0x27] @
         ''; form-action '' @ [CHR 0x27] @ ''none'' @ [CHR 0x27] @ ''; frame-ancestors '' @ [CHR 0x27] @ ''none'' @ [CHR 0x27] @
         ''; img-src '' @ [CHR 0x27] @ ''self'' @ [CHR 0x27] @ '' data:; object-src '' @ [CHR 0x27] @ ''none'' @ [CHR 0x27] @
         ''; script-src '' @ [CHR 0x27] @ ''self'' @ [CHR 0x27] @ ''; style-src '' @ [CHR 0x27] @ ''self'' @ [CHR 0x27] @
         '' '' @ [CHR 0x27] @ ''unsafe-inline'' @ [CHR 0x27]),
      (''Cross-Origin-Opener-Policy'', ''same-origin''),
      (''Cross-Origin-Resource-Policy'', ''same-origin''),
      (''Permissions-Policy'', ''camera=(), geolocation=(), microphone=(), payment=(), usb=()''),
      (''Referrer-Policy'', ''no-referrer''),
      (''Strict-Transport-Security'', ''max-age=31536000; includeSubDomains''),
      (''X-Content-Type-Options'', ''nosniff''),
      (''X-Frame-Options'', ''DENY'')]"

definition neverCached :: "string \<Rightarrow> bool" where
  "neverCached path \<longleftrightarrow> path = ''/healthz'' \<or> path = ''/readyz'' \<or> path = ''/metrics'' \<or> path = ''/api'' \<or> HasPrefix path ''/api/''"

definition withSecurityHeaders :: "(Request \<Rightarrow> front) \<Rightarrow> Request \<Rightarrow> front" where
  "withSecurityHeaders next r =
     bindm (addHeaders securityHeaders) (\<lambda>_.
     bindm (if neverCached (rq_Path r) then addHeader ''Cache-Control'' ''no-store'' else ret ()) (\<lambda>_. next r))"

text \<open>The handler of the server, and the page a request gets; its header lists every \<open>Set\<close>, the last one counts.\<close>

definition hubHandler :: "Server \<Rightarrow> frontEnv \<Rightarrow> Bodies \<Rightarrow> Request \<Rightarrow> front" where
  "hubHandler srv env b r =
     withRequestID (withSecurityHeaders
       (if srv_DemoMode srv then demoReadOnly (serveMux srv env b) else serveMux srv env b)) (r\<lparr>rq_User := None\<rparr>)"

definition servePage :: "Server \<Rightarrow> frontEnv \<Rightarrow> Bodies \<Rightarrow> Request \<Rightarrow> hub \<Rightarrow> page \<times> hub" where
  "servePage srv env b r h =
     (case hubHandler srv env b r h of (Inl response, h') \<Rightarrow> (ApiPage response, h') | (Inr pg, h') \<Rightarrow> (pg, h'))"

definition sentHeader :: "string \<Rightarrow> hub \<Rightarrow> string option" where
  "sentHeader k h = map_of (rev (h_header h)) k"

section \<open>What handlers put in a reply\<close>

definition noStore :: "string \<times> string" where "noStore = (''Cache-Control'', ''no-store'')"

text \<open>The headers that an inner handler may set: never one of the security headers with another value; on a path
  that is never cached no other caching rule, and elsewhere the one of the asset.\<close>

definition harmlessHeader :: "bool \<Rightarrow> string \<Rightarrow> string \<times> string \<Rightarrow> bool" where
  "harmlessHeader uncached asset kv \<longleftrightarrow>
     fst kv \<in> set [''Vary'', ''Allow'', ''Content-Type'', ''Location''] \<or> kv = (''X-Content-Type-Options'', ''nosniff'') \<or>
     kv = noStore \<or> (\<not> uncached \<and> fst kv = ''Cache-Control'' \<and> snd kv \<in> set [''no-cache'', cacheControl asset])"

definition sessionCookie :: "Server \<Rightarrow> SetCookie \<Rightarrow> bool" where
  "sessionCookie srv ck \<longleftrightarrow> ck_Name ck = ''kfleet_session'' \<and> ck_Path ck = ''/'' \<and> ck_HttpOnly ck \<and> ck_SameSiteStrict ck \<and>
     ck_Secure ck = srv_SessionCookieSecure srv"

abbreviation keepsR :: "((string \<times> string) list \<Rightarrow> SetCookie list \<Rightarrow> bool) \<Rightarrow> (hub, 'e, 'a) sm \<Rightarrow> bool" where
  "keepsR R m \<equiv> keeps (\<lambda>h. R (h_header h) (h_cookies h)) m"

named_theorems reply_intro

lemma keepsR_silent [reply_intro]:
  "keepsR R (onStore q)" "keepsR R (within h_db (\<lambda>d h. h\<lparr>h_db := d\<rparr>) w)" "keepsR R (WriteError n msg)" "keepsR R (WriteJSON n j)" "keepsR R timeNow" "keepsR R newUUID"
  "keepsR R randToken" "keepsR R (HashPassword srv p)" "keepsR R (Broadcast u)"
  by (simp_all add: keeps_def onStore_def within_def WriteError_def WriteJSON_def timeNow_def newUUID_def
      randToken_def HashPassword_def Broadcast_def modify_def throw_def ret_def split: prod.splits)

lemma keepsR_recorders [reply_intro]:
  "keepsR R (evaluateAlerts srv c)" "keepsR R (recordEvent e)"
  "keepsR R (recordClusterRegistered srv c)" "keepsR R (recordAgentApproved srv c t)"
  "keepsR R (recordHeartbeatTransition srv c a b t)" "keepsR R (recordAgentDisconnected srv c s t)"
  "keepsR R (recordVersionChanged srv c a b t)" "keepsR R (recordAudit r actor act tt ti oc dt)"
  unfolding evaluateAlerts_def recordClusterRegistered_def recordAgentApproved_def recordHeartbeatTransition_def
    recordAgentDisconnected_def recordVersionChanged_def recordAudit_def recordEvent_def Let_def
  by (intro valid_intro reply_intro)+

lemma harmless [simp]:
  "harmlessHeader u asset (''Vary'', v)" "harmlessHeader u asset (''Location'', v)" "harmlessHeader u asset (''Allow'', v)"
  "harmlessHeader u asset (''Content-Type'', v)" "harmlessHeader u asset (''X-Content-Type-Options'', ''nosniff'')"
  "harmlessHeader u asset (''Cache-Control'', ''no-store'')" "harmlessHeader False asset (''Cache-Control'', ''no-cache'')"
  "harmlessHeader False asset (''Cache-Control'', cacheControl asset)"
  by (simp_all add: harmlessHeader_def noStore_def cacheControl_def)

lemma webError_harmless: "list_all (harmlessHeader u asset) hs \<Longrightarrow> list_all (harmlessHeader u asset) (wb_Headers (webError hs status text))"
  by (simp add: webError_def)

lemma pages_harmless:
  "list_all (harmlessHeader False asset) (wb_Headers (serveIndex root))"
  "list_all (harmlessHeader False asset) (wb_Headers (serveFile [(''Cache-Control'', cacheControl asset)] url name content))"
  by (simp_all add: serveIndex_def serveFile_def webNotFound_def webError_harmless split: option.split)

lemma web_headers_harmless:
  assumes "uncached \<Longrightarrow> method \<notin> set [''GET'', ''HEAD'']"
  shows "list_all (harmlessHeader uncached (TrimPrefix (path_Clean path) ''/'')) (wb_Headers (HandlerFor root method path))"
proof (cases "method \<notin> set [''GET'', ''HEAD'']")
  case True
  then show ?thesis by (simp add: HandlerFor_def webError_harmless)
next
  case False
  with assms have "uncached = False" by blast
  with False show ?thesis
    by (simp add: HandlerFor_def Let_def webNotFound_def webError_harmless pages_harmless split: option.split entry.split)
qed

text \<open>What the reply must keep, whatever harmless header or session cookie is added.\<close>

locale reply_contract =
  fixes srv :: Server and uncached :: bool and asset :: string and R :: "(string \<times> string) list \<Rightarrow> SetCookie list \<Rightarrow> bool"
  assumes R_header: "R hs cs \<Longrightarrow> harmlessHeader uncached asset kv \<Longrightarrow> R (hs @ [kv]) cs"
    and R_cookie: "R hs cs \<Longrightarrow> sessionCookie srv ck \<Longrightarrow> R hs (cs @ [ck])"
begin

lemma addHeader_reply: "harmlessHeader uncached asset (k, v) \<Longrightarrow> keepsR R (addHeader k v)"
  unfolding addHeader_def by (rule keeps_modify) (simp add: R_header)

lemma fixed_headers [reply_intro]:
  "keepsR R (addHeader ''Vary'' v)" "keepsR R (addHeader ''Allow'' v)" "keepsR R (addHeader ''Content-Type'' v)"
  "keepsR R (addHeader ''Cache-Control'' ''no-store'')" "keepsR R (addHeader ''X-Content-Type-Options'' ''nosniff'')"
  by (rule addHeader_reply; simp)+

lemma cookies_reply [reply_intro]: "keepsR R (setSessionCookie srv t e)" "keepsR R (clearSessionCookie srv)"
  unfolding setSessionCookie_def clearSessionCookie_def Let_def
  by (intro valid_intro reply_intro keeps_modify; simp add: R_cookie sessionCookie_def sessionCookieName_def)+

lemma plumbing_reply [reply_intro]:
  "keepsR R (tenantIDFromRequest r)" "keepsR R (storeOr404 sq)" "keepsR R (findClusterByName r n)"
  "keepsR R (checkRegistrationAuth srv tok)" "keepsR R (RegistrationDisabled srv)"
  "keepsR R (validExistingAgentToken srv cid tok)" "keepsR R (issueCredential srv c created)"
  "keepsR R (requireApprovedAgent srv r cid)" "keepsR R (writeSnapshotDecodeError de)"
  "keepsR R (refreshCount now cc cq)" "keepsR R (sanitizeRequestID s)"
  unfolding tenantIDFromRequest_def storeOr404_def findClusterByName_def checkRegistrationAuth_def RegistrationDisabled_def
    validExistingAgentToken_def issueCredential_def requireApprovedAgent_def writeSnapshotDecodeError_def
    refreshCount_def sanitizeRequestID_def Let_def
  by (intro valid_intro reply_intro)+


lemma helpers_reply [reply_intro]:
  "keepsR R (clusterByIDOrName r n)" "keepsR R (authenticateAgentPath srv r)" "keepsR R (registeredCluster srv req r n ten)"
  "keepsR R (resourceCluster r)" "keepsR R (filterPolicyResults r prs)" "keepsR R (writePolicyResults prs)"
  "keepsR R (evaluatePoliciesFor srv ten)" "keepsR R (serveTimeline srv r ten cid)" "keepsR R (timelineCluster r ten)"
  unfolding clusterByIDOrName_def authenticateAgentPath_def registeredCluster_def resourceCluster_def
    filterPolicyResults_def writePolicyResults_def evaluatePoliciesFor_def serveTimeline_def timelineCluster_def Let_def
  by (intro valid_intro reply_intro)+

lemma user_handlers_reply [reply_intro]:
  "keepsR R (handleLogin srv lreq r)" "keepsR R (handleLogout srv r)" "keepsR R (handleMe r)"
  "keepsR R (handleListUsers r)" "keepsR R (handleCreateUser srv creq r)"
  "keepsR R (handleUpdateUser srv ureq r)" "keepsR R (handleUpdateUserPassword srv preq r)"
  "keepsR R (handleDeleteUser r)" "keepsR R (handleListAuditEvents r)"
  "keepsR R (handleRotateRegistrationToken srv r)"
  unfolding handleLogin_def handleLogout_def handleMe_def handleListUsers_def handleCreateUser_def
    handleUpdateUser_def handleUpdateUserPassword_def handleDeleteUser_def handleListAuditEvents_def
    handleRotateRegistrationToken_def Let_def
  by (intro valid_intro reply_intro)+

lemma agent_handlers_reply [reply_intro]:
  "keepsR R (handleAgentRegister srv rreq r)" "keepsR R (handleAgentApprove srv r)" "keepsR R (handleListPendingAgents r)"
  "keepsR R (handleHeartbeat srv hreq r)" "keepsR R (handleAgentLiveness srv r)" "keepsR R (handleAgentDeregister srv r)"
  unfolding handleAgentRegister_def handleAgentApprove_def handleListPendingAgents_def handleHeartbeat_def
    handleAgentLiveness_def handleAgentDeregister_def Let_def
  by (intro valid_intro reply_intro)+

lemma cluster_handlers_reply [reply_intro]:
  "keepsR R (handleListClusters r)" "keepsR R (handleGetCluster r)" "keepsR R (handleRegisterCluster srv rreq r)"
  "keepsR R (handleDeleteCluster r)" "keepsR R (handleClusterStatus r)" "keepsR R (handleClusterSnapshot srv sbody r)"
  "keepsR R (handleClusterPods r)" "keepsR R (handleClusterServices r)" "keepsR R (handleClusterDeployments r)"
  "keepsR R (handleClusterNamespaces r)" "keepsR R (handleClusterEvents r)"
  unfolding handleListClusters_def handleGetCluster_def handleRegisterCluster_def handleDeleteCluster_def
    handleClusterStatus_def handleClusterSnapshot_def handleClusterPods_def handleClusterServices_def
    handleClusterDeployments_def handleClusterNamespaces_def handleClusterEvents_def Let_def
  by (intro valid_intro reply_intro)+

lemma api_handlers_reply [reply_intro]:
  "keepsR R (handleListAlerts r)" "keepsR R (handleAcknowledgeAlert areq r)" "keepsR R (handleListAlertRules r)"
  "keepsR R (handlePutAlertRule preq r)" "keepsR R (handleFleetTimeline srv r)" "keepsR R (handleClusterTimeline srv r)"
  "keepsR R (handleRecordPolicyFinding srv enc freq r)" "keepsR R (handleListPolicies r)" "keepsR R (handlePolicyResults srv r)"
  "keepsR R (handleClusterPolicyResults srv r)"
  unfolding handleListAlerts_def handleAcknowledgeAlert_def handleListAlertRules_def handlePutAlertRule_def
    handleFleetTimeline_def handleClusterTimeline_def handleRecordPolicyFinding_def handleListPolicies_def
    handlePolicyResults_def handleClusterPolicyResults_def Let_def
  by (intro valid_intro reply_intro)+

lemma requireAuth_reply:
  assumes "\<And>r. keepsR R (next r)"
  shows "keepsR R (requireAuth srv next r)"
  unfolding requireAuth_def by (intro valid_intro reply_intro assms)

lemma requireRole_reply:
  assumes "\<And>r. keepsR R (next r)"
  shows "keepsR R (requireRole srv m next r)"
  unfolding requireRole_def by (intro requireAuth_reply valid_intro reply_intro assms)

lemma routes_reply: "(p, a, handle) \<in> set (apiRoutes srv b) \<Longrightarrow> keepsR R (handle r)"
  unfolding apiRoutes_def registerAuthRoutes_def registerUserRoutes_def registerAuditRoutes_def
    registerAdminRoutes_def registerAgentRoutes_def registerClusterRoutes_def registerAlertRoutes_def
    registerEventRoutes_def registerPolicyRoutes_def
  by (simp del: keeps_valid) (elim disjE conjE; hypsubst; intro reply_intro)

lemma guarded_reply:
  assumes "\<And>r. keepsR R (handle r)"
  shows "keepsR R (guarded srv a handle r)"
  by (cases a) (simp_all add: guarded_def requireAuth_reply requireRole_reply assms)

lemma shadowError_reply [reply_intro]: "keepsR R (shadowError patterns r)"
  unfolding shadowError_def Let_def by (intro valid_intro reply_intro)

lemma serveApiRoutes_reply [reply_intro]: "keepsR R (serveApiRoutes srv env b r)"
proof (cases "findRoute (apiRoutes srv b) r")
  case None
  then show ?thesis unfolding serveApiRoutes_def by (simp only: option.case) (intro valid_intro reply_intro)
next
  case (Some x)
  obtain a handle m where x: "x = (a, handle, m)" by (cases x)
  with Some findRoute_in obtain p where "(p, a, handle) \<in> set (apiRoutes srv b)" by blast
  then have "keepsR R (guarded srv a handle r')" for r' by (intro guarded_reply routes_reply)
  then show ?thesis unfolding serveApiRoutes_def Some x by (simp only: option.case prod.case) (intro valid_intro)
qed

lemma probes_reply [reply_intro]:
  "keepsR R handleReadyz" "keepsR R (plainError status text)" "keepsR R (handleMetrics srv env)"
  unfolding handleReadyz_def plainError_def handleMetrics_def storeMetricsGet_def Let_def
  by (intro valid_intro reply_intro keeps_modify; simp)+

lemma serveWeb_reply:
  assumes "uncached \<Longrightarrow> rq_Method r \<notin> set [''GET'', ''HEAD'']" and "asset = TrimPrefix (path_Clean (rq_Path r)) ''/''"
  shows "keepsR R (serveWeb env r)"
proof -
  have "list_all (harmlessHeader uncached asset) (wb_Headers (Handler (fe_dist env) (rq_Method r) (rq_Path r)))"
    unfolding Handler_def assms(2) using assms(1) by (rule web_headers_harmless)
  then show ?thesis unfolding serveWeb_def addHeaders_def Let_def
    by (intro valid_intro) (simp add: addHeader_reply list_all_iff)
qed

lemma serveMux_reply:
  assumes "uncached = neverCached (rq_Path r)" and "asset = TrimPrefix (path_Clean (rq_Path r)) ''/''"
  shows "keepsR R (serveMux srv env b r)"
  unfolding serveMux_def Let_def
  by (intro valid_intro reply_intro serveWeb_reply)
    (use assms in \<open>auto simp: neverCached_def apiSubtree_def matchMethod_def\<close>)

lemma demoReadOnly_reply: "keepsR R (next r) \<Longrightarrow> keepsR R (demoReadOnly next r)"
  unfolding demoReadOnly_def by (intro valid_intro reply_intro)

end

text \<open>The reply so far: a header that was set before, and what the handlers added.\<close>

definition replyWf :: "Server \<Rightarrow> bool \<Rightarrow> string \<Rightarrow> (string \<times> string) list \<Rightarrow> (string \<times> string) list \<Rightarrow> SetCookie list \<Rightarrow> bool" where
  "replyWf srv uncached asset base hs cs \<longleftrightarrow>
     (\<exists>added. hs = base @ added \<and> list_all (harmlessHeader uncached asset) added) \<and> list_all (sessionCookie srv) cs"

interpretation reply: reply_contract srv uncached asset "replyWf srv uncached asset base" for srv uncached asset base
  by unfold_locales (auto simp: replyWf_def)

section \<open>Every reply\<close>

lemma addHeaders_run: "addHeaders kvs h = (Inr (), h\<lparr>h_header := h_header h @ kvs\<rparr>)"
  by (induction kvs arbitrary: h) (simp_all add: addHeaders_def bindm_def addHeader_def modify_def ret_def)

definition requestID :: "Request \<Rightarrow> hub \<Rightarrow> string" where
  "requestID r h = (let rid = HeaderGet r ''X-Request-ID'' in if isValidRequestID rid then rid else h_uuid h (h_tick h))"

definition baseHeader :: "Request \<Rightarrow> hub \<Rightarrow> (string \<times> string) list" where
  "baseHeader r h = (''X-Request-ID'', requestID r h) # securityHeaders @ (if neverCached (rq_Path r) then [noStore] else [])"

lemma hubHandler_enters:
  assumes "h_header h = []"
  shows "\<exists>h1. h_header h1 = baseHeader r h \<and> h_cookies h1 = h_cookies h \<and>
    hubHandler srv env b r h =
      (if srv_DemoMode srv then demoReadOnly (serveMux srv env b) else serveMux srv env b) (r\<lparr>rq_User := None\<rparr>) h1"
proof (rule exI, intro conjI)
  let ?h1 = "(if isValidRequestID (HeaderGet r ''X-Request-ID'') then h else h\<lparr>h_tick := h_tick h + 1\<rparr>)\<lparr>h_header := baseHeader r h\<rparr>"
  show "h_header ?h1 = baseHeader r h" "h_cookies ?h1 = h_cookies h" by simp_all
  show "hubHandler srv env b r h =
      (if srv_DemoMode srv then demoReadOnly (serveMux srv env b) else serveMux srv env b) (r\<lparr>rq_User := None\<rparr>) ?h1"
    using assms
    by (simp add: hubHandler_def withRequestID_def withSecurityHeaders_def sanitizeRequestID_def newUUID_def bindm_def
        addHeaders_run addHeader_def modify_def ret_def baseHeader_def requestID_def noStore_def HeaderGet_def Let_def)
qed

lemma servePage_replyWf:
  assumes "h_header h = []" and "h_cookies h = []" and "servePage srv env b r h = (pg, h')"
  shows "replyWf srv (neverCached (rq_Path r)) (TrimPrefix (path_Clean (rq_Path r)) ''/'') (baseHeader r h) (h_header h') (h_cookies h')"
proof -
  let ?R = "replyWf srv (neverCached (rq_Path r)) (TrimPrefix (path_Clean (rq_Path r)) ''/'') (baseHeader r h)" and ?r = "r\<lparr>rq_User := None\<rparr>"
  let ?inner = "if srv_DemoMode srv then demoReadOnly (serveMux srv env b) else serveMux srv env b"
  obtain h1 where h1: "h_header h1 = baseHeader r h" "h_cookies h1 = []" "hubHandler srv env b r h = ?inner ?r h1"
    using hubHandler_enters [OF assms(1)] assms(2) by metis
  have "keepsR ?R (serveMux srv env b ?r)" by (rule reply.serveMux_reply) simp_all
  then have "keepsR ?R (?inner ?r)" by (simp add: reply.demoReadOnly_reply)
  moreover have "?R (h_header h1) (h_cookies h1)" using h1 by (simp add: replyWf_def)
  ultimately have "?R (h_header (snd (?inner ?r h1))) (h_cookies (snd (?inner ?r h1)))" by (simp add: keeps_def)
  moreover have "h' = snd (?inner ?r h1)"
    using assms(3) h1(3) by (auto simp: servePage_def split: prod.splits sum.splits)
  ultimately show ?thesis by simp
qed

lemma sent_later:
  assumes "map_of (rev base) k = Some v" and "\<And>w. (k, w) \<in> set added \<Longrightarrow> w = v"
  shows "map_of (rev (base @ added)) k = Some v"
  using assms by (auto simp: map_add_def dest: map_of_SomeD split: option.splits)

text \<open>The names that a handler may set; no security header but \<open>nosniff\<close> is among them.\<close>

definition openNames :: "string list" where
  "openNames = [''Vary'', ''Allow'', ''Content-Type'', ''Location'', ''Cache-Control'']"

lemma harmless_name: "harmlessHeader u asset (k, w) \<Longrightarrow> k \<in> set openNames \<or> k = ''X-Content-Type-Options'' \<and> w = ''nosniff''"
  unfolding harmlessHeader_def openNames_def noStore_def list.set fst_conv snd_conv prod.inject insert_iff by argo

lemma securityHeaders_names:
  "distinct (map fst securityHeaders)"
  "list_all (\<lambda>(k, v). k \<notin> set (''X-Request-ID'' # openNames) \<and> (k = ''X-Content-Type-Options'' \<longrightarrow> v = ''nosniff'')) securityHeaders"
  by code_simp+

lemma openNames_others: "''X-Request-ID'' \<notin> set openNames" "''Cache-Control'' \<in> set openNames"
  by code_simp+

lemma baseHeader_names:
  "k \<notin> set (''X-Request-ID'' # openNames) \<Longrightarrow> map_of (rev (baseHeader r h)) k = map_of (rev securityHeaders) k"
proof -
  assume k: "k \<notin> set (''X-Request-ID'' # openNames)"
  then have "k \<noteq> ''X-Request-ID''" by force
  moreover have "k \<noteq> ''Cache-Control''" using k openNames_others(2) by auto
  ultimately show ?thesis by (simp add: baseHeader_def noStore_def map_add_def split: option.split)
qed

lemma sent_security:
  assumes "list_all (harmlessHeader u asset) added" and "(k, v) \<in> set securityHeaders"
  shows "map_of (rev (baseHeader r h @ added)) k = Some v"
proof (rule sent_later)
  have k: "k \<notin> set (''X-Request-ID'' # openNames)" "k = ''X-Content-Type-Options'' \<longrightarrow> v = ''nosniff''"
    using securityHeaders_names(2) assms(2) unfolding list_all_iff by fast+
  have "map_of (rev securityHeaders) k = Some v"
    using assms(2) securityHeaders_names(1) by (simp add: map_of_eq_Some_iff rev_map [symmetric])
  then show "map_of (rev (baseHeader r h)) k = Some v" using baseHeader_names [OF k(1)] by simp
  show "w = v" if "(k, w) \<in> set added" for w
  proof -
    have "harmlessHeader u asset (k, w)" using that assms(1) by (simp add: list_all_iff)
    from harmless_name [OF this] k show ?thesis by auto
  qed
qed

lemma sent_requestID:
  assumes "list_all (harmlessHeader u asset) added"
  shows "map_of (rev (baseHeader r h @ added)) ''X-Request-ID'' = Some (requestID r h)"
proof (rule sent_later)
  have "''X-Request-ID'' \<notin> fst ` set securityHeaders"
    using securityHeaders_names(2) unfolding list_all_iff by auto
  then have "map_of (rev securityHeaders) ''X-Request-ID'' = None" by (simp add: map_of_eq_None_iff)
  then show "map_of (rev (baseHeader r h)) ''X-Request-ID'' = Some (requestID r h)"
    by (simp add: baseHeader_def noStore_def map_add_def)
  show "w = requestID r h" if "(''X-Request-ID'', w) \<in> set added" for w
  proof -
    have "harmlessHeader u asset (''X-Request-ID'', w)" using that assms by (simp add: list_all_iff)
    from harmless_name [OF this] openNames_others(1) show ?thesis by simp
  qed
qed

lemma sent_noStore:
  assumes "list_all (harmlessHeader (neverCached (rq_Path r)) asset) added" and "neverCached (rq_Path r)"
  shows "map_of (rev (baseHeader r h @ added)) ''Cache-Control'' = Some ''no-store''"
proof (rule sent_later)
  show "map_of (rev (baseHeader r h)) ''Cache-Control'' = Some ''no-store''"
    using assms(2) by (simp add: baseHeader_def noStore_def)
  show "w = ''no-store''" if "(''Cache-Control'', w) \<in> set added" for w
    using that assms by (auto simp: list_all_iff harmlessHeader_def noStore_def dest!: bspec)
qed

lemma sent_immutable:
  assumes "list_all (harmlessHeader u asset) added"
    and "map_of (rev (baseHeader r h @ added)) ''Cache-Control'' = Some immutableCaching"
  shows "cacheControl asset = immutableCaching"
proof -
  have "(''Cache-Control'', immutableCaching) \<in> set added"
  proof (rule ccontr)
    assume "(''Cache-Control'', immutableCaching) \<notin> set added"
    then have "map_of (rev added) ''Cache-Control'' \<noteq> Some immutableCaching" using map_of_SomeD by fastforce
    then have "map_of (rev (baseHeader r h)) ''Cache-Control'' = Some immutableCaching"
      using assms(2) by (auto simp: map_add_def split: option.splits)
    then have "(''Cache-Control'', immutableCaching) \<in> set (baseHeader r h)" using map_of_SomeD by fastforce
    moreover have "(''Cache-Control'', immutableCaching) \<notin> set securityHeaders"
      using securityHeaders_names(2) openNames_others(2) unfolding list_all_iff by auto
    ultimately show False by (auto simp: baseHeader_def noStore_def immutableCaching_def split: if_splits)
  qed
  then have "harmlessHeader u asset (''Cache-Control'', immutableCaching)" using assms(1) by (simp add: list_all_iff)
  then show ?thesis by (simp add: harmlessHeader_def noStore_def immutableCaching_def)
qed

section \<open>The property\<close>

lemma api_not_web:
  assumes "apiSubtree (rq_Path r)" and "serveMux srv env b r h = (Inr pg, h')"
  shows "\<not> (\<exists>status content. pg = WebPage status content)"
proof -
  have "\<not> apiSubtree ''/healthz''" "\<not> apiSubtree ''/readyz''" "\<not> apiSubtree ''/metrics''" "\<not> apiSubtree ''/ws/clusters''"
    by code_simp+
  with assms show ?thesis
    by (auto simp: serveMux_def serveApiRoutes_def shadowError_def Let_def bindm_def ret_def WriteError_def throw_def
        split: if_splits option.splits prod.splits sum.splits)
qed

lemma servePage_api:
  assumes "apiSubtree (rq_Path r)" and "h_header h = []" and "servePage srv env b r h = (pg, h')"
  shows "\<not> (\<exists>status content. pg = WebPage status content)"
proof -
  let ?r = "r\<lparr>rq_User := None\<rparr>"
  obtain h1 where h1: "hubHandler srv env b r h =
      (if srv_DemoMode srv then demoReadOnly (serveMux srv env b) else serveMux srv env b) ?r h1"
    using hubHandler_enters [OF assms(2)] by metis
  have "apiSubtree (rq_Path ?r)" using assms(1) by simp
  note mux = api_not_web [OF this, of srv env b h1 pg h']
  have "demoReadOnly (serveMux srv env b) ?r h1 = (Inr pg, h') \<Longrightarrow> ?thesis"
    using mux by (auto simp: demoReadOnly_def bindm_def addHeader_def modify_def ret_def WriteError_def throw_def split: if_splits)
  then show ?thesis
    using assms(3) h1 mux by (auto simp: servePage_def split: prod.splits sum.splits if_splits)
qed


definition sampleEnv :: frontEnv where
  "sampleEnv = \<lparr>fe_Version = ''v1'', fe_dist = (\<lambda>_. None), fe_ConnectedAgents = 1, fe_ClientCount = 0, fe_ActiveStreams = 0,
     fe_DBPath = ''kfleet.db'', fe_fileSize = (\<lambda>_. Some 4096)\<rparr>"


end
