(* ===== verification/Migration.thy ===== *)
theory Migration
  imports ErrState
begin

text \<open>
  \<open>Open\<close> of \<open>internal/store/sqlite.go\<close> up to the seeding of the alert rules (\<open>StoreAlerts\<close>): the pragmas, the schema as the
  statements of the DDL constants, and \<open>ensureColumn\<close> for databases of earlier releases. The state is the connection with
  SQLite's catalog: columns with their declared definitions, table constraints, rows (one value per column, as text),
  indexes and triggers. Any call may fail (\<open>cn_faults\<close>, one entry per call); \<open>Schema\<close> states what the constraints mean.
\<close>

section \<open>The catalog\<close>

record relation =
  rl_columns :: "(string \<times> string) list"
  rl_constraints :: "string list"
  rl_rows :: "string list list"

text \<open>An index has its table and its columns with the descending ones marked; a trigger its event, table and statement.\<close>

record sqlCatalog =
  ct_tables :: "string \<rightharpoonup> relation"
  ct_indexes :: "(string \<times> string \<times> (string \<times> bool) list) list"
  ct_triggers :: "(string \<times> string \<times> string \<times> string) list"

datatype ddl = CreateTable string "(string \<times> string) list" "string list"
  | CreateIndex string string "(string \<times> bool) list"
  | CreateTrigger string string string string

datatype ddl_error = DdlIO | NoSuchTable | NoSuchColumn | DuplicateColumn | NotNullDefault

text \<open>The columns of a table as \<open>PRAGMA table_info\<close> lists them: none for a table that does not exist.\<close>

definition tableInfo :: "sqlCatalog \<Rightarrow> string \<Rightarrow> string list" where
  "tableInfo cat table = (case ct_tables cat table of None \<Rightarrow> [] | Some rel \<Rightarrow> map fst (rl_columns rel))"

text \<open>Each statement is \<open>IF NOT EXISTS\<close>.\<close>

fun runDDL :: "ddl \<Rightarrow> sqlCatalog \<Rightarrow> ddl_error + sqlCatalog" where
  "runDDL (CreateTable name columns constraints) cat =
     Inr (case ct_tables cat name of
       Some _ \<Rightarrow> cat
     | None \<Rightarrow> cat\<lparr>ct_tables := (ct_tables cat)(name \<mapsto>
         \<lparr>rl_columns = columns, rl_constraints = constraints, rl_rows = []\<rparr>)\<rparr>)"
| "runDDL (CreateIndex name table columns) cat =
     (if name \<in> fst ` set (ct_indexes cat) then Inr cat
      else if ct_tables cat table = None then Inl NoSuchTable
      else if \<not> list_all (\<lambda>(c, _). c \<in> set (tableInfo cat table)) columns then Inl NoSuchColumn
      else Inr (cat\<lparr>ct_indexes := ct_indexes cat @ [(name, table, columns)]\<rparr>))"
| "runDDL (CreateTrigger name event table body) cat =
     (if name \<in> fst ` set (ct_triggers cat) then Inr cat
      else if ct_tables cat table = None then Inl NoSuchTable
      else Inr (cat\<lparr>ct_triggers := ct_triggers cat @ [(name, event, table, body)]\<rparr>))"

definition defaultValue :: "string \<Rightarrow> string option" where
  "defaultValue def =
     (case dropWhile (\<lambda>word. word \<noteq> ''DEFAULT'') (SplitC (CHR '' '') def) of _ # v # _ \<Rightarrow> Some v | _ \<Rightarrow> None)"

definition notNull :: "string \<Rightarrow> bool" where
  "notNull def = (''NOT'' \<in> set (SplitC (CHR '' '') def))"

definition fillValue :: "string \<Rightarrow> string" where
  "fillValue def = (case defaultValue def of None \<Rightarrow> ''NULL'' | Some v \<Rightarrow> v)"

text \<open>\<open>ALTER TABLE ... ADD COLUMN\<close>: existing rows get the default.\<close>

definition addColumn :: "string \<Rightarrow> string \<Rightarrow> string \<Rightarrow> sqlCatalog \<Rightarrow> ddl_error + sqlCatalog" where
  "addColumn table column def cat =
     (case ct_tables cat table of
        None \<Rightarrow> Inl NoSuchTable
      | Some rel \<Rightarrow>
          if column \<in> set (map fst (rl_columns rel)) then Inl DuplicateColumn
          else if notNull def \<and> defaultValue def = None then Inl NotNullDefault
          else Inr (cat\<lparr>ct_tables := (ct_tables cat)(table \<mapsto>
            rel\<lparr>rl_columns := rl_columns rel @ [(column, def)],
                rl_rows := map (\<lambda>row. row @ [fillValue def]) (rl_rows rel)\<rparr>)\<rparr>))"

section \<open>The schema\<close>

definition sqlText :: "string \<Rightarrow> string" where
  "sqlText s = [CHR 0x27] @ s @ [CHR 0x27]"

definition clustersDDL :: ddl where
  "clustersDDL =
     CreateTable ''clusters''
     [(''id'', ''TEXT PRIMARY KEY''),
      (''tenant_id'', ''TEXT NOT NULL DEFAULT '' @ sqlText ''default''),
      (''name'', ''TEXT NOT NULL''),
      (''health'', ''TEXT NOT NULL''),
      (''version'', ''TEXT''),
      (''agent_version'', ''TEXT NOT NULL DEFAULT '' @ sqlText ''''),
      (''node_count'', ''INTEGER''),
      (''pod_count'', ''INTEGER''),
      (''registered_at'', ''TIMESTAMP''),
      (''last_heartbeat'', ''TIMESTAMP''),
      (''labels'', ''TEXT'')]
     [''UNIQUE (tenant_id, name)'']"

definition agentsDDL :: ddl where
  "agentsDDL =
     CreateTable ''agents''
     [(''cluster_id'', ''TEXT PRIMARY KEY''),
      (''token_hash'', ''TEXT NOT NULL''),
      (''approved'', ''INTEGER NOT NULL DEFAULT 0 CHECK (approved IN (0, 1))''),
      (''issued_at'', ''TIMESTAMP NOT NULL''),
      (''last_heartbeat'', ''TIMESTAMP'')]
     [''FOREIGN KEY (cluster_id) REFERENCES clusters(id) ON DELETE CASCADE'']"

definition snapshotNodesDDL :: ddl where
  "snapshotNodesDDL =
     CreateTable ''snapshot_nodes''
     [(''cluster_id'', ''TEXT NOT NULL''),
      (''name'', ''TEXT NOT NULL''),
      (''status'', ''TEXT NOT NULL''),
      (''roles'', ''TEXT NOT NULL''),
      (''version'', ''TEXT NOT NULL''),
      (''cpu_capacity'', ''TEXT NOT NULL''),
      (''memory_capacity'', ''TEXT NOT NULL''),
      (''ready'', ''INTEGER NOT NULL CHECK (ready IN (0, 1))'')]
     [''PRIMARY KEY (cluster_id, name)'', ''FOREIGN KEY (cluster_id) REFERENCES clusters(id) ON DELETE CASCADE'']"

definition snapshotPodsDDL :: ddl where
  "snapshotPodsDDL =
     CreateTable ''snapshot_pods''
     [(''cluster_id'', ''TEXT NOT NULL''),
      (''namespace'', ''TEXT NOT NULL''),
      (''name'', ''TEXT NOT NULL''),
      (''phase'', ''TEXT NOT NULL''),
      (''node_name'', ''TEXT NOT NULL''),
      (''restart_count'', ''INTEGER NOT NULL''),
      (''ready'', ''INTEGER NOT NULL CHECK (ready IN (0, 1))''),
      (''start_time'', ''TIMESTAMP NOT NULL''),
      (''security_context_known'', ''INTEGER NOT NULL DEFAULT 0 CHECK (security_context_known IN (0, 1))''),
      (''privileged'', ''INTEGER NOT NULL DEFAULT 0 CHECK (privileged IN (0, 1))''),
      (''run_as_non_root'', ''INTEGER NOT NULL DEFAULT 0 CHECK (run_as_non_root IN (0, 1))''),
      (''read_only_root_filesystem'', ''INTEGER NOT NULL DEFAULT 0 CHECK (read_only_root_filesystem IN (0, 1))''),
      (''allows_privilege_escalation'', ''INTEGER NOT NULL DEFAULT 0 CHECK (allows_privilege_escalation IN (0, 1))''),
      (''capabilities_dropped_all'', ''INTEGER NOT NULL DEFAULT 0 CHECK (capabilities_dropped_all IN (0, 1))''),
      (''host_network'', ''INTEGER NOT NULL DEFAULT 0 CHECK (host_network IN (0, 1))''),
      (''host_pid'', ''INTEGER NOT NULL DEFAULT 0 CHECK (host_pid IN (0, 1))''),
      (''host_ipc'', ''INTEGER NOT NULL DEFAULT 0 CHECK (host_ipc IN (0, 1))'')]
     [''PRIMARY KEY (cluster_id, namespace, name)'', ''FOREIGN KEY (cluster_id) REFERENCES clusters(id) ON DELETE CASCADE'']"

definition snapshotServicesDDL :: ddl where
  "snapshotServicesDDL =
     CreateTable ''snapshot_services''
     [(''cluster_id'', ''TEXT NOT NULL''),
      (''namespace'', ''TEXT NOT NULL''),
      (''name'', ''TEXT NOT NULL''),
      (''type'', ''TEXT NOT NULL''),
      (''cluster_ip'', ''TEXT NOT NULL''),
      (''external_ips'', ''TEXT NOT NULL''),
      (''ports'', ''TEXT NOT NULL''),
      (''age'', ''TEXT NOT NULL'')]
     [''PRIMARY KEY (cluster_id, namespace, name)'', ''FOREIGN KEY (cluster_id) REFERENCES clusters(id) ON DELETE CASCADE'']"

definition snapshotDeploymentsDDL :: ddl where
  "snapshotDeploymentsDDL =
     CreateTable ''snapshot_deployments''
     [(''cluster_id'', ''TEXT NOT NULL''),
      (''namespace'', ''TEXT NOT NULL''),
      (''name'', ''TEXT NOT NULL''),
      (''ready_replicas'', ''INTEGER NOT NULL''),
      (''desired_replicas'', ''INTEGER NOT NULL''),
      (''updated_replicas'', ''INTEGER NOT NULL''),
      (''available_replicas'', ''INTEGER NOT NULL''),
      (''age'', ''TEXT NOT NULL''),
      (''config_hash'', ''TEXT NOT NULL DEFAULT '' @ sqlText ''''),
      (''images'', ''TEXT NOT NULL DEFAULT '' @ sqlText ''[]'')]
     [''PRIMARY KEY (cluster_id, namespace, name)'', ''FOREIGN KEY (cluster_id) REFERENCES clusters(id) ON DELETE CASCADE'']"

definition snapshotNamespacesDDL :: ddl where
  "snapshotNamespacesDDL =
     CreateTable ''snapshot_namespaces''
     [(''cluster_id'', ''TEXT NOT NULL''),
      (''name'', ''TEXT NOT NULL''),
      (''labels'', ''TEXT NOT NULL'')]
     [''PRIMARY KEY (cluster_id, name)'', ''FOREIGN KEY (cluster_id) REFERENCES clusters(id) ON DELETE CASCADE'']"

definition snapshotEventsDDL :: ddl where
  "snapshotEventsDDL =
     CreateTable ''snapshot_events''
     [(''cluster_id'', ''TEXT NOT NULL''),
      (''sequence'', ''INTEGER NOT NULL''),
      (''namespace'', ''TEXT NOT NULL''),
      (''reason'', ''TEXT NOT NULL''),
      (''message'', ''TEXT NOT NULL''),
      (''type'', ''TEXT NOT NULL''),
      (''count'', ''INTEGER NOT NULL''),
      (''last_timestamp'', ''TIMESTAMP NOT NULL'')]
     [''PRIMARY KEY (cluster_id, sequence)'', ''FOREIGN KEY (cluster_id) REFERENCES clusters(id) ON DELETE CASCADE'']"

definition alertRulesDDL :: ddl where
  "alertRulesDDL =
     CreateTable ''alert_rules''
     [(''id'', ''TEXT PRIMARY KEY''),
      (''name'', ''TEXT NOT NULL''),
      (''health'', ''TEXT NOT NULL''),
      (''severity'', ''TEXT NOT NULL''),
      (''cooldown_seconds'', ''INTEGER NOT NULL CHECK (cooldown_seconds >= 0)''),
      (''enabled'', ''INTEGER NOT NULL CHECK (enabled IN (0, 1))''),
      (''created_at'', ''TIMESTAMP NOT NULL''),
      (''updated_at'', ''TIMESTAMP NOT NULL'')]
     []"

definition alertsDDL :: ddl where
  "alertsDDL =
     CreateTable ''alerts''
     [(''id'', ''TEXT PRIMARY KEY''),
      (''tenant_id'', ''TEXT NOT NULL DEFAULT '' @ sqlText ''default''),
      (''rule_id'', ''TEXT NOT NULL''),
      (''rule_name'', ''TEXT NOT NULL''),
      (''cluster_id'', ''TEXT NOT NULL''),
      (''cluster_name'', ''TEXT NOT NULL''),
      (''dedupe_key'', ''TEXT NOT NULL''),
      (''health'', ''TEXT NOT NULL''),
      (''severity'', ''TEXT NOT NULL''),
      (''summary'', ''TEXT NOT NULL''),
      (''status'', ''TEXT NOT NULL''),
      (''triggered_at'', ''TIMESTAMP NOT NULL''),
      (''updated_at'', ''TIMESTAMP NOT NULL''),
      (''acknowledged_at'', ''TIMESTAMP''),
      (''acknowledged_by'', ''TEXT NOT NULL DEFAULT '' @ sqlText ''''),
      (''resolved_at'', ''TIMESTAMP''),
      (''delivery_status'', ''TEXT NOT NULL''),
      (''delivery_attempts'', ''INTEGER NOT NULL DEFAULT 0''),
      (''next_delivery_at'', ''TIMESTAMP''),
      (''last_delivery_error'', ''TEXT NOT NULL DEFAULT '' @ sqlText ''''),
      (''delivered_at'', ''TIMESTAMP''),
      (''dead_lettered_at'', ''TIMESTAMP'')]
     [''FOREIGN KEY (rule_id) REFERENCES alert_rules(id)'']"

definition alertHistoryIndexDDL :: ddl where
  "alertHistoryIndexDDL =
     CreateIndex ''idx_alerts_history'' ''alerts'' [(''triggered_at'', True), (''id'', True)]"

definition alertDeliveryIndexDDL :: ddl where
  "alertDeliveryIndexDDL =
     CreateIndex ''idx_alerts_delivery'' ''alerts'' [(''delivery_status'', False), (''next_delivery_at'', False)]"

definition operationalEventsDDL :: ddl where
  "operationalEventsDDL =
     CreateTable ''operational_events''
     [(''id'', ''INTEGER PRIMARY KEY AUTOINCREMENT''),
      (''tenant_id'', ''TEXT NOT NULL DEFAULT '' @ sqlText ''default''),
      (''cluster_id'', ''TEXT NOT NULL''),
      (''kind'', ''TEXT NOT NULL''),
      (''message'', ''TEXT NOT NULL''),
      (''details'', ''TEXT NOT NULL DEFAULT '' @ sqlText ''{}''),
      (''occurred_at'', ''TIMESTAMP NOT NULL''),
      (''dedupe_key'', ''TEXT'')]
     [''UNIQUE (cluster_id, kind, dedupe_key)'']"

definition operationalEventsClusterIndexDDL :: ddl where
  "operationalEventsClusterIndexDDL =
     CreateIndex ''idx_operational_events_cluster_time'' ''operational_events'' [(''tenant_id'', False), (''cluster_id'', False), (''occurred_at'', False), (''id'', False)]"

definition operationalEventsOccurredIndexDDL :: ddl where
  "operationalEventsOccurredIndexDDL =
     CreateIndex ''idx_operational_events_time'' ''operational_events'' [(''tenant_id'', False), (''occurred_at'', False), (''id'', False)]"

definition operationalEventsOccurredAtIndexDDL :: ddl where
  "operationalEventsOccurredAtIndexDDL =
     CreateIndex ''idx_operational_events_occurred_at'' ''operational_events'' [(''occurred_at'', False)]"

definition usersDDL :: ddl where
  "usersDDL =
     CreateTable ''users''
     [(''id'', ''TEXT PRIMARY KEY''),
      (''username'', ''TEXT UNIQUE NOT NULL''),
      (''email'', ''TEXT UNIQUE NOT NULL''),
      (''password_hash'', ''TEXT NOT NULL''),
      (''role'', ''TEXT NOT NULL CHECK (role IN ('' @ sqlText ''admin'' @ '', '' @ sqlText ''operator'' @ '', '' @ sqlText ''read_only'' @ ''))''),
      (''disabled'', ''INTEGER NOT NULL DEFAULT 0 CHECK (disabled IN (0, 1))''),
      (''created_at'', ''TIMESTAMP NOT NULL''),
      (''updated_at'', ''TIMESTAMP NOT NULL'')]
     []"

definition sessionsDDL :: ddl where
  "sessionsDDL =
     CreateTable ''sessions''
     [(''token_hash'', ''TEXT PRIMARY KEY''),
      (''user_id'', ''TEXT NOT NULL''),
      (''created_at'', ''TIMESTAMP NOT NULL''),
      (''expires_at'', ''TIMESTAMP NOT NULL'')]
     [''FOREIGN KEY (user_id) REFERENCES users(id) ON DELETE CASCADE'']"

definition sessionsUserIndexDDL :: ddl where
  "sessionsUserIndexDDL =
     CreateIndex ''sessions_user_id_idx'' ''sessions'' [(''user_id'', False)]"

definition sessionsExpiryIndexDDL :: ddl where
  "sessionsExpiryIndexDDL =
     CreateIndex ''sessions_expires_at_idx'' ''sessions'' [(''expires_at'', False)]"

definition auditEventsDDL :: ddl where
  "auditEventsDDL =
     CreateTable ''audit_events''
     [(''id'', ''TEXT PRIMARY KEY''),
      (''occurred_at'', ''TIMESTAMP NOT NULL''),
      (''actor_user_id'', ''TEXT NOT NULL DEFAULT '' @ sqlText ''''),
      (''actor_username'', ''TEXT NOT NULL''),
      (''actor_role'', ''TEXT NOT NULL DEFAULT '' @ sqlText ''''),
      (''action'', ''TEXT NOT NULL''),
      (''target_type'', ''TEXT NOT NULL''),
      (''target_id'', ''TEXT NOT NULL DEFAULT '' @ sqlText ''''),
      (''outcome'', ''TEXT NOT NULL''),
      (''details'', ''TEXT NOT NULL DEFAULT '' @ sqlText ''''),
      (''source_ip'', ''TEXT NOT NULL DEFAULT '' @ sqlText '''')]
     []"

definition auditEventsNoUpdateTriggerDDL :: ddl where
  "auditEventsNoUpdateTriggerDDL =
     CreateTrigger ''audit_events_no_update'' ''UPDATE'' ''audit_events''
     (''SELECT RAISE(ABORT, '' @ sqlText ''audit_events is append-only'' @ '');'')"

definition auditEventsNoDeleteTriggerDDL :: ddl where
  "auditEventsNoDeleteTriggerDDL =
     CreateTrigger ''audit_events_no_delete'' ''DELETE'' ''audit_events''
     (''SELECT RAISE(ABORT, '' @ sqlText ''audit_events is append-only'' @ '');'')"

definition auditEventsOccurredAtIndexDDL :: ddl where
  "auditEventsOccurredAtIndexDDL =
     CreateIndex ''audit_events_occurred_at_idx'' ''audit_events'' [(''occurred_at'', True), (''id'', True)]"

definition settingsDDL :: ddl where
  "settingsDDL =
     CreateTable ''settings''
     [(''key'', ''TEXT PRIMARY KEY''),
      (''value'', ''TEXT NOT NULL'')]
     []"

definition alertTenantHistoryIndexDDL :: ddl where
  "alertTenantHistoryIndexDDL =
     CreateIndex ''idx_alerts_tenant_history'' ''alerts'' [(''tenant_id'', False), (''triggered_at'', True), (''id'', True)]"

definition migrations :: "(string \<times> ddl) list" where
  "migrations =
     [(''clusters'', clustersDDL),
      (''agents'', agentsDDL),
      (''snapshot nodes'', snapshotNodesDDL),
      (''snapshot pods'', snapshotPodsDDL),
      (''snapshot services'', snapshotServicesDDL),
      (''snapshot deployments'', snapshotDeploymentsDDL),
      (''snapshot namespaces'', snapshotNamespacesDDL),
      (''snapshot events'', snapshotEventsDDL),
      (''alert rules'', alertRulesDDL),
      (''alerts'', alertsDDL),
      (''alert history index'', alertHistoryIndexDDL),
      (''alert delivery index'', alertDeliveryIndexDDL),
      (''operational events'', operationalEventsDDL),
      (''operational events cluster index'', operationalEventsClusterIndexDDL),
      (''operational events occurred index'', operationalEventsOccurredIndexDDL),
      (''operational events occurred-at index'', operationalEventsOccurredAtIndexDDL),
      (''users'', usersDDL),
      (''sessions'', sessionsDDL),
      (''sessions user index'', sessionsUserIndexDDL),
      (''sessions expiry index'', sessionsExpiryIndexDDL),
      (''audit events'', auditEventsDDL),
      (''audit events no-update trigger'', auditEventsNoUpdateTriggerDDL),
      (''audit events no-delete trigger'', auditEventsNoDeleteTriggerDDL),
      (''audit events occurred-at index'', auditEventsOccurredAtIndexDDL),
      (''settings'', settingsDDL)]"

definition laterColumns :: "(string \<times> string \<times> string) list" where
  "laterColumns =
     [(''clusters'', ''tenant_id'', ''TEXT NOT NULL DEFAULT '' @ sqlText ''default''),
      (''alerts'', ''tenant_id'', ''TEXT NOT NULL DEFAULT '' @ sqlText ''default''),
      (''snapshot_pods'', ''security_context_known'', ''INTEGER NOT NULL DEFAULT 0''),
      (''snapshot_pods'', ''privileged'', ''INTEGER NOT NULL DEFAULT 0''),
      (''snapshot_pods'', ''run_as_non_root'', ''INTEGER NOT NULL DEFAULT 0''),
      (''snapshot_pods'', ''read_only_root_filesystem'', ''INTEGER NOT NULL DEFAULT 0''),
      (''snapshot_pods'', ''allows_privilege_escalation'', ''INTEGER NOT NULL DEFAULT 0''),
      (''snapshot_pods'', ''capabilities_dropped_all'', ''INTEGER NOT NULL DEFAULT 0''),
      (''snapshot_pods'', ''host_network'', ''INTEGER NOT NULL DEFAULT 0''),
      (''snapshot_pods'', ''host_pid'', ''INTEGER NOT NULL DEFAULT 0''),
      (''snapshot_pods'', ''host_ipc'', ''INTEGER NOT NULL DEFAULT 0''),
      (''snapshot_deployments'', ''config_hash'', ''TEXT NOT NULL DEFAULT '' @ sqlText ''''),
      (''snapshot_deployments'', ''images'', ''TEXT NOT NULL DEFAULT '' @ sqlText ''[]'')]"

section \<open>Opening a database\<close>

record conn =
  cn_catalog :: sqlCatalog
  cn_pragmas :: "(string \<times> string) list"
  cn_walMode :: string
  cn_open :: bool
  cn_faults :: "bool list"

type_synonym 'a sqlcall = "(conn, ddl_error, 'a) sm"

definition call :: "(conn \<Rightarrow> ddl_error + ('a \<times> conn)) \<Rightarrow> 'a sqlcall" where
  "call f = (\<lambda>c.
     let c' = c\<lparr>cn_faults := tl (cn_faults c)\<rparr> in
     if cn_faults c \<noteq> [] \<and> hd (cn_faults c) then (Inl DdlIO, c')
     else case f c' of Inl e \<Rightarrow> (Inl e, c') | Inr (x, c'') \<Rightarrow> (Inr x, c''))"

definition pragma :: "string \<Rightarrow> string \<Rightarrow> unit sqlcall" where
  "pragma name val = call (\<lambda>c. Inr ((), c\<lparr>cn_pragmas := cn_pragmas c @ [(name, val)]\<rparr>))"

definition onCatalog :: "(sqlCatalog \<Rightarrow> ddl_error + sqlCatalog) \<Rightarrow> unit sqlcall" where
  "onCatalog f = call (\<lambda>c. case f (cn_catalog c) of Inl e \<Rightarrow> Inl e | Inr cat \<Rightarrow> Inr ((), c\<lparr>cn_catalog := cat\<rparr>))"

text \<open>The second call stands for reading, closing and checking the rows.\<close>

definition ensureColumn :: "string \<Rightarrow> string \<Rightarrow> string \<Rightarrow> unit sqlcall" where
  "ensureColumn table column def =
     bindm (call (\<lambda>c. Inr (tableInfo (cn_catalog c) table, c))) (\<lambda>names.
     bindm (call (\<lambda>c. Inr ((), c))) (\<lambda>_.
     if column \<in> set names then ret () else onCatalog (addColumn table column def)))"

datatype open_error = OpenErr string ddl_error | JournalMode string

text \<open>\<open>_ = db.Close(); return nil, fmt.Errorf(...)\<close>\<close>

definition orClose :: "string \<Rightarrow> 'a sqlcall \<Rightarrow> (conn, open_error, 'a) sm" where
  "orClose msg m = (\<lambda>c. case m c of
     (Inl e, c') \<Rightarrow> (Inl (OpenErr msg e), c'\<lparr>cn_open := False\<rparr>) | (Inr x, c') \<Rightarrow> (Inr x, c'))"

definition strings_Contains :: "string \<Rightarrow> string \<Rightarrow> bool" where
  "strings_Contains s sub = list_ex (\<lambda>i. take (length sub) (drop i s) = sub) [0..<Suc (length s)]"

definition isInMemoryPath :: "string \<Rightarrow> bool" where
  "isInMemoryPath dbPath \<longleftrightarrow>
     dbPath = '':memory:'' \<or> HasPrefix dbPath ''file::memory:'' \<or> strings_Contains dbPath ''mode=memory''"

definition enableWAL :: "(conn, open_error, unit) sm" where
  "enableWAL =
     bindm (orClose ''enable sqlite WAL journal mode'' (call (\<lambda>c. Inr (cn_walMode c, c)))) (\<lambda>journalMode.
     if journalMode \<noteq> ''wal''
     then bindm (modify (\<lambda>c. c\<lparr>cn_open := False\<rparr>)) (\<lambda>_. throw (JournalMode journalMode)) else ret ())"

definition connect :: "string \<Rightarrow> (conn, open_error, unit) sm" where
  "connect dbPath =
     bindm (mapErr (OpenErr ''open sqlite database'') (call (\<lambda>c. Inr ((), c\<lparr>cn_open := True\<rparr>)))) (\<lambda>_.
     bindm (orClose ''connect to sqlite database'' (call (\<lambda>c. Inr ((), c)))) (\<lambda>_.
     bindm (orClose ''enable sqlite foreign keys'' (pragma ''foreign_keys'' ''ON'')) (\<lambda>_.
     bindm (orClose ''set sqlite busy timeout'' (pragma ''busy_timeout'' ''5000'')) (\<lambda>_.
     bindm (if \<not> isInMemoryPath dbPath then enableWAL else ret ()) (\<lambda>_.
     orClose ''set sqlite synchronous mode'' (pragma ''synchronous'' ''NORMAL''))))))"

definition migrateSchema :: "(conn, open_error, unit) sm" where
  "migrateSchema =
     bindm (forEach migrations (\<lambda>(name, sql). orClose (''migrate '' @ name @ '' table'') (onCatalog (runDDL sql)))) (\<lambda>_.
     bindm (orClose ''migrate clusters agent_version column''
       (ensureColumn ''clusters'' ''agent_version'' (''TEXT NOT NULL DEFAULT '' @ sqlText ''''))) (\<lambda>_.
     bindm (forEach laterColumns (\<lambda>(table, name, def).
       orClose (''migrate '' @ table @ '' '' @ name @ '' column'') (ensureColumn table name def))) (\<lambda>_.
     orClose ''migrate alert tenant history index'' (onCatalog (runDDL alertTenantHistoryIndexDDL)))))"

definition openSchema :: "string \<Rightarrow> (conn, open_error, unit) sm" where
  "openSchema dbPath = bindm (connect dbPath) (\<lambda>_. migrateSchema)"

end
