(* ===== verification/MigrationFacts.thy ===== *)
theory MigrationFacts
  imports Migration
begin

text \<open>
  Upgrading a database in place: a locale for lists of steps that can be interrupted and resumed, its interpretation on the
  steps of \<open>openSchema\<close>, and the property that opening upgrades every database of an earlier release without losing a row,
  also after an earlier attempt that failed anywhere.
\<close>

section \<open>Steps that can be interrupted\<close>

fun canAll :: "('s \<Rightarrow> 'c \<Rightarrow> bool) \<Rightarrow> ('s \<Rightarrow> 'c \<Rightarrow> 'c) \<Rightarrow> 's list \<Rightarrow> 'c \<Rightarrow> bool" where
  "canAll can run [] c = True"
| "canAll can run (s # ss) c = (can s c \<and> canAll can run ss (run s c))"

lemma canAll_append: "canAll can run (ss @ ts) c \<longleftrightarrow> canAll can run ss c \<and> canAll can run ts (fold run ss c)"
  by (induction ss arbitrary: c) auto

text \<open>
  What a step has done stays done, and doing it again changes nothing; then a run that stopped anywhere is completed by a
  run from the start, with the result of an uninterrupted one.
\<close>

locale resumable =
  fixes can :: "'s \<Rightarrow> 'c \<Rightarrow> bool" and run :: "'s \<Rightarrow> 'c \<Rightarrow> 'c" and finished :: "'s \<Rightarrow> 'c \<Rightarrow> bool"
  assumes finishes: "can s c \<Longrightarrow> finished s (run s c)"
    and stays: "finished s c \<Longrightarrow> finished s (run t c)"
    and again: "finished s c \<Longrightarrow> run s c = c"
    and can_again: "finished s c \<Longrightarrow> can s c"
begin

lemma finished_fold: "finished s c \<Longrightarrow> finished s (fold run ss c)"
  by (induction ss arbitrary: c) (simp_all add: stays)

lemma fold_finishes: "canAll can run ss c \<Longrightarrow> s \<in> set ss \<Longrightarrow> finished s (fold run ss c)"
  by (induction ss arbitrary: c) (auto intro: finished_fold finishes)

lemma fold_again: "(\<And>s. s \<in> set ss \<Longrightarrow> finished s c) \<Longrightarrow> fold run ss c = c \<and> canAll can run ss c"
  by (induction ss) (simp_all add: again can_again)

lemma resume:
  assumes "canAll can run ss c"
  shows "fold run ss (fold run (take k ss) c) = fold run ss c" and "canAll can run ss (fold run (take k ss) c)"
proof -
  have all: "canAll can run (take k ss @ drop k ss) c" using assms by simp
  have "\<And>s. s \<in> set (take k ss) \<Longrightarrow> finished s (fold run (take k ss) c)"
    using all unfolding canAll_append by (blast intro: fold_finishes)
  note repeated = fold_again [OF this]
  have "canAll can run (take k ss @ drop k ss) (fold run (take k ss) c)"
    using all repeated by (simp only: canAll_append)
  then show "canAll can run ss (fold run (take k ss) c)" by simp
  have "fold run (take k ss @ drop k ss) (fold run (take k ss) c) = fold run (drop k ss) (fold run (take k ss) c)"
    using repeated by (simp only: fold_append comp_apply)
  also have "\<dots> = fold run (take k ss @ drop k ss) c" by (simp only: fold_append comp_apply)
  finally show "fold run ss (fold run (take k ss) c) = fold run ss c" by simp
qed

end

section \<open>The steps of the schema\<close>

datatype migration = Ddl ddl | Ensure string string string

fun runStep :: "migration \<Rightarrow> sqlCatalog \<Rightarrow> ddl_error + sqlCatalog" where
  "runStep (Ddl d) cat = runDDL d cat"
| "runStep (Ensure table column def) cat =
     (if column \<in> set (tableInfo cat table) then Inr cat else addColumn table column def cat)"

definition canStep :: "migration \<Rightarrow> sqlCatalog \<Rightarrow> bool" where
  "canStep s cat = (case runStep s cat of Inl _ \<Rightarrow> False | Inr _ \<Rightarrow> True)"

definition doStep :: "migration \<Rightarrow> sqlCatalog \<Rightarrow> sqlCatalog" where
  "doStep s cat = (case runStep s cat of Inl _ \<Rightarrow> cat | Inr cat' \<Rightarrow> cat')"

fun stepDone :: "migration \<Rightarrow> sqlCatalog \<Rightarrow> bool" where
  "stepDone (Ddl (CreateTable name _ _)) cat = (ct_tables cat name \<noteq> None)"
| "stepDone (Ddl (CreateIndex name _ _)) cat = (name \<in> fst ` set (ct_indexes cat))"
| "stepDone (Ddl (CreateTrigger name _ _ _)) cat = (name \<in> fst ` set (ct_triggers cat))"
| "stepDone (Ensure table column _) cat = (column \<in> set (tableInfo cat table))"

text \<open>Tables, columns, indexes and triggers are only added, and rows keep their values.\<close>

definition extends :: "sqlCatalog \<Rightarrow> sqlCatalog \<Rightarrow> bool" where
  "extends cat cat' \<longleftrightarrow>
     (\<forall>name rel. ct_tables cat name = Some rel \<longrightarrow>
       (\<exists>added. ct_tables cat' name = Some
         \<lparr>rl_columns = rl_columns rel @ added, rl_constraints = rl_constraints rel,
          rl_rows = map (\<lambda>row. row @ map (\<lambda>(_, def). fillValue def) added) (rl_rows rel)\<rparr>)) \<and>
     prefix (ct_indexes cat) (ct_indexes cat') \<and> prefix (ct_triggers cat) (ct_triggers cat')"

lemma extends_refl: "extends cat cat"
  by (auto simp: extends_def intro: exI [of _ "[]"])

lemma extends_trans: "extends a b \<Longrightarrow> extends b c \<Longrightarrow> extends a c"
  unfolding extends_def by (intro conjI) (fastforce intro: prefix_order.trans)+

lemma doStep_extends: "extends cat (doStep s cat)"
proof (cases s)
  case (Ddl d)
  then show ?thesis
    by (cases d) (auto simp: doStep_def extends_def split: option.splits intro: exI [of _ "[]"])
next
  case (Ensure table column def)
  then show ?thesis
    by (auto simp: doStep_def extends_def addColumn_def split: option.splits if_splits
        intro: exI [of _ "[]"] exI [of _ "[(column, def)]"])
qed

lemma fold_extends: "extends cat (fold doStep ss cat)"
  by (induction ss arbitrary: cat) (auto intro: extends_refl extends_trans doStep_extends)

lemma extends_keeps:
  assumes "extends cat cat'"
  shows "ct_tables cat table \<noteq> None \<Longrightarrow> ct_tables cat' table \<noteq> None"
    and "column \<in> set (tableInfo cat table) \<Longrightarrow> column \<in> set (tableInfo cat' table)"
    and "stepDone s cat \<Longrightarrow> stepDone s cat'"
proof -
  show t: "ct_tables cat table \<noteq> None \<Longrightarrow> ct_tables cat' table \<noteq> None" for table
    using assms by (auto simp: extends_def)
  show c: "column \<in> set (tableInfo cat table) \<Longrightarrow> column \<in> set (tableInfo cat' table)" for column table
  proof (cases "ct_tables cat table")
    case (Some rel)
    then obtain added where "ct_tables cat' table = Some \<lparr>rl_columns = rl_columns rel @ added, rl_constraints = rl_constraints rel,
        rl_rows = map (\<lambda>row. row @ map (\<lambda>(_, def). fillValue def) added) (rl_rows rel)\<rparr>"
      using assms unfolding extends_def by blast
    then show "column \<in> set (tableInfo cat table) \<Longrightarrow> column \<in> set (tableInfo cat' table)"
      using Some by (auto simp: tableInfo_def)
  qed (simp add: tableInfo_def)
  have "prefix (ct_indexes cat) (ct_indexes cat')" "prefix (ct_triggers cat) (ct_triggers cat')"
    using assms by (simp_all add: extends_def)
  then show "stepDone s cat \<Longrightarrow> stepDone s cat'"
    using t c by (cases "(s, cat)" rule: stepDone.cases) (auto dest!: set_mono_prefix)
qed

lemma step_finishes: "canStep s cat \<Longrightarrow> stepDone s (doStep s cat)"
  by (cases "(s, cat)" rule: stepDone.cases)
    (auto simp: canStep_def doStep_def addColumn_def tableInfo_def split: option.splits if_splits dest: sym [of "Some _"])

lemma step_again: "stepDone s cat \<Longrightarrow> runStep s cat = Inr cat"
  by (cases "(s, cat)" rule: stepDone.cases) (auto split: option.splits)

interpretation upgrade: resumable canStep doStep stepDone
proof
  show "canStep s c \<Longrightarrow> stepDone s (doStep s c)" for s c by (rule step_finishes)
  show "stepDone s c \<Longrightarrow> stepDone s (doStep t c)" for s c t by (rule extends_keeps(3) [OF doStep_extends])
  show "stepDone s c \<Longrightarrow> doStep s c = c" for s c by (simp add: doStep_def step_again)
  show "stepDone s c \<Longrightarrow> canStep s c" for s c by (simp add: canStep_def step_again)
qed

section \<open>Databases of earlier releases\<close>

definition schemaSteps :: "migration list" where
  "schemaSteps =
     map (\<lambda>(_, d). Ddl d) migrations @
     Ensure ''clusters'' ''agent_version'' (''TEXT NOT NULL DEFAULT '' @ sqlText '''') #
     map (\<lambda>(table, column, def). Ensure table column def) laterColumns @
     [Ddl alertTenantHistoryIndexDDL]"

definition laterNames :: "(string \<times> string) list" where
  "laterNames = (''clusters'', ''agent_version'') # map (\<lambda>(table, column, _). (table, column)) laterColumns"

text \<open>A table of the schema is missing, or has all columns but some that were introduced later.\<close>

fun legacyTable :: "ddl \<Rightarrow> sqlCatalog \<Rightarrow> bool" where
  "legacyTable (CreateTable name columns _) cat =
     (ct_tables cat name = None \<or>
      list_all (\<lambda>(c, _). c \<in> set (tableInfo cat name) \<or> (name, c) \<in> set laterNames) columns)"
| "legacyTable _ cat = True"

definition legacy :: "sqlCatalog \<Rightarrow> bool" where
  "legacy cat = list_all (\<lambda>(_, d). legacyTable d cat) migrations"

fun hasObject :: "ddl \<Rightarrow> sqlCatalog \<Rightarrow> bool" where
  "hasObject (CreateTable name columns _) cat = list_all (\<lambda>(c, _). c \<in> set (tableInfo cat name)) columns"
| "hasObject (CreateIndex name _ _) cat = (name \<in> fst ` set (ct_indexes cat))"
| "hasObject (CreateTrigger name _ _ _) cat = (name \<in> fst ` set (ct_triggers cat))"

text \<open>The schema of this release.\<close>

definition hasSchema :: "sqlCatalog \<Rightarrow> bool" where
  "hasSchema cat = list_all (\<lambda>d. hasObject d cat) (map snd migrations @ [alertTenantHistoryIndexDDL])"

lemma tables_distinct:
  "distinct (concat (map (\<lambda>(_, d). case d of CreateTable name _ _ \<Rightarrow> [name] | _ \<Rightarrow> []) migrations))"
  by code_simp

lemma distinct_concat_key:
  "distinct (concat (map f xs)) \<Longrightarrow> x \<in> set xs \<Longrightarrow> y \<in> set xs \<Longrightarrow> k \<in> set (f x) \<Longrightarrow> k \<in> set (f y) \<Longrightarrow> x = y"
  by (induction xs) auto

lemma same_table:
  assumes "(l, CreateTable name cols k) \<in> set migrations" and "(l', CreateTable name cols' k') \<in> set migrations"
  shows "cols = cols'"
  using distinct_concat_key [OF tables_distinct assms, of name] by simp

lemma legacyTable_step:
  assumes "legacyTable d cat" and "(lbl, d) \<in> set migrations" and "s \<in> set schemaSteps"
  shows "legacyTable d (doStep s cat)"
proof (cases d)
  case (CreateTable name columns constraints)
  show ?thesis
  proof (cases "ct_tables cat name")
    case (Some rel)
    then show ?thesis
      using assms(1) extends_keeps(2) [OF doStep_extends] by (auto simp: CreateTable list_all_iff)
  next
    case None
    show ?thesis
    proof (cases "ct_tables (doStep s cat) name")
      case (Some rel)
      then obtain cols k where s: "s = Ddl (CreateTable name cols k)" and rel: "rel = \<lparr>rl_columns = cols, rl_constraints = k, rl_rows = []\<rparr>"
        using None by (cases "(s, cat)" rule: stepDone.cases)
          (auto simp: doStep_def addColumn_def split: option.splits if_splits)
      then obtain lbl' where "(lbl', CreateTable name cols k) \<in> set migrations"
        using assms(3) by (auto simp: schemaSteps_def alertTenantHistoryIndexDDL_def)
      with assms(2) CreateTable have "cols = columns" by (auto intro: same_table)
      then show ?thesis using Some rel by (force simp: CreateTable tableInfo_def list_all_iff)
    qed (simp add: CreateTable)
  qed
qed simp_all

lemma legacy_step: "legacy cat \<Longrightarrow> s \<in> set schemaSteps \<Longrightarrow> legacy (doStep s cat)"
  unfolding legacy_def list_all_iff by (auto intro: legacyTable_step)

lemma legacy_fold: "legacy cat \<Longrightarrow> set ss \<subseteq> set schemaSteps \<Longrightarrow> legacy (fold doStep ss cat)"
  by (induction ss arbitrary: cat) (simp_all add: legacy_step)

section \<open>The order of the steps\<close>

text \<open>What a step needs to succeed, and what it gives to later ones; the order is checked on the names alone.\<close>

datatype need = NeedTable string | NeedColumn string string

fun holds :: "need \<Rightarrow> sqlCatalog \<Rightarrow> bool" where
  "holds (NeedTable table) cat = (ct_tables cat table \<noteq> None)"
| "holds (NeedColumn table column) cat = (column \<in> set (tableInfo cat table))"

fun needs :: "migration \<Rightarrow> need list" where
  "needs (Ddl (CreateTable _ _ _)) = []"
| "needs (Ddl (CreateIndex _ table columns)) = NeedTable table # map (\<lambda>(c, _). NeedColumn table c) columns"
| "needs (Ddl (CreateTrigger _ _ table _)) = [NeedTable table]"
| "needs (Ensure table _ _) = [NeedTable table]"

fun gives :: "migration \<Rightarrow> need list" where
  "gives (Ddl (CreateTable name columns _)) =
     NeedTable name # map (\<lambda>(c, _). NeedColumn name c) (filter (\<lambda>(c, _). (name, c) \<notin> set laterNames) columns)"
| "gives (Ensure table column _) = [NeedColumn table column]"
| "gives _ = []"

fun hasDefault :: "migration \<Rightarrow> bool" where
  "hasDefault (Ensure _ _ def) = (notNull def \<longrightarrow> defaultValue def \<noteq> None)"
| "hasDefault _ = True"

text \<open>The columns are compared first: they differ sooner.\<close>

fun sameNeed :: "need \<Rightarrow> need \<Rightarrow> bool" where
  "sameNeed (NeedTable t) (NeedTable t') = (t = t')"
| "sameNeed (NeedColumn t c) (NeedColumn t' c') = (if c = c' then t = t' else False)"
| "sameNeed _ _ = False"

fun provided :: "need \<Rightarrow> need list \<Rightarrow> bool" where
  "provided n [] = False"
| "provided n (m # ms) = (if sameNeed n m then True else provided n ms)"

fun ordered :: "need list \<Rightarrow> (need list \<times> need list) list \<Rightarrow> bool" where
  "ordered known [] = True"
| "ordered known ((ns, gs) # steps) = (if list_all (\<lambda>n. provided n known) ns then ordered (gs @ known) steps else False)"

definition wanted :: "need list" where
  "wanted = remdups (concat (map needs schemaSteps))"

definition outline :: "migration list \<Rightarrow> (need list \<times> need list) list" where
  "outline = map (\<lambda>s. (needs s, filter (\<lambda>n. provided n wanted) (gives s)))"

lemma schemaSteps_ordered: "ordered [] (outline schemaSteps)" "list_all hasDefault schemaSteps"
  by code_simp+

lemma provided_in: "provided n ns \<longleftrightarrow> n \<in> set ns"
proof (induction ns)
  case (Cons m ms)
  have "sameNeed n m \<longleftrightarrow> n = m" by (cases n; cases m) auto
  with Cons show ?case by simp
qed simp

lemma holds_step: "holds n cat \<Longrightarrow> holds n (doStep s cat)"
  using extends_keeps [OF doStep_extends] by (cases n) (simp_all del: not_None_eq)

lemma needs_suffice: "list_all (\<lambda>n. holds n cat) (needs s) \<Longrightarrow> hasDefault s \<Longrightarrow> canStep s cat"
  by (cases "(s, cat)" rule: stepDone.cases)
    (auto simp: canStep_def addColumn_def list_all_iff tableInfo_def split: option.splits if_splits)

lemma gives_hold:
  assumes "legacy cat" and "s \<in> set schemaSteps" and "canStep s cat"
  shows "list_all (\<lambda>n. holds n (doStep s cat)) (gives s)"
proof (cases s)
  case (Ensure table column def)
  then show ?thesis using step_finishes [OF assms(3)] by simp
next
  case (Ddl d)
  show ?thesis
  proof (cases d)
    case (CreateTable name columns constraints)
    then obtain lbl where m: "(lbl, d) \<in> set migrations"
      using assms(2) Ddl by (auto simp: schemaSteps_def alertTenantHistoryIndexDDL_def)
    have "legacy (doStep s cat)" using assms(1,2) by (rule legacy_step)
    then have "legacyTable d (doStep s cat)" using m by (auto simp: legacy_def list_all_iff)
    then show ?thesis using step_finishes [OF assms(3)] Ddl CreateTable by (auto simp: list_all_iff)
  qed (simp_all add: Ddl)
qed

lemma ordered_canAll:
  "ordered known (outline ss) \<Longrightarrow> set ss \<subseteq> set schemaSteps \<Longrightarrow> legacy cat \<Longrightarrow> list_all (\<lambda>n. holds n cat) known \<Longrightarrow>
     canAll canStep doStep ss cat"
proof (induction ss arbitrary: known cat)
  case (Cons s ss)
  have s: "s \<in> set schemaSteps" and d: "hasDefault s"
    using Cons.prems(2) schemaSteps_ordered(2) by (auto simp: list_all_iff)
  have n: "list_all (\<lambda>n. provided n known) (needs s)"
    and o: "ordered (filter (\<lambda>n. provided n wanted) (gives s) @ known) (outline ss)"
    using Cons.prems(1) by (simp_all add: outline_def split: if_splits)
  have can: "canStep s cat"
    using n Cons.prems(4) by (intro needs_suffice d) (auto simp: list_all_iff provided_in)
  have "list_all (\<lambda>n. holds n (doStep s cat)) (filter (\<lambda>n. provided n wanted) (gives s) @ known)"
    using gives_hold [OF Cons.prems(3) s can] Cons.prems(4) by (auto simp: list_all_iff intro: holds_step)
  from Cons.IH [OF o _ legacy_step [OF Cons.prems(3) s] this] show ?case using Cons.prems(2) can by simp
qed simp

lemma legacy_canAll: "legacy cat \<Longrightarrow> canAll canStep doStep schemaSteps cat"
  by (rule ordered_canAll [OF schemaSteps_ordered(1)]) simp_all

lemma later_ensured:
  assumes "(name, c) \<in> set laterNames"
  shows "\<exists>d. Ensure name c d \<in> set schemaSteps"
proof -
  have first: "Ensure ''clusters'' ''agent_version'' (''TEXT NOT NULL DEFAULT '' @ sqlText '''') \<in> set schemaSteps"
    unfolding schemaSteps_def by (simp only: set_append list.set Un_iff insert_iff simp_thms)
  have rest: "Ensure t k d \<in> set schemaSteps" if "(t, k, d) \<in> set laterColumns" for t k d
    using imageI [OF that, of "\<lambda>(table, column, def). Ensure table column def"]
    unfolding schemaSteps_def by (simp only: set_append list.set set_map Un_iff insert_iff simp_thms prod.case)
  from assms consider "(name, c) = (''clusters'', ''agent_version'')" | d where "(name, c, d) \<in> set laterColumns"
    unfolding laterNames_def by (simp only: list.set set_map insert_iff) (elim disjE imageE; clarsimp)
  then show ?thesis
  proof cases
    case 1
    then show ?thesis using first by (simp only: prod.inject) blast
  qed (use rest in blast)
qed

lemma legacy_hasSchema:
  assumes "legacy cat"
  shows "hasSchema (fold doStep schemaSteps cat)"
proof -
  let ?cat = "fold doStep schemaSteps cat"
  note fin = upgrade.fold_finishes [OF legacy_canAll [OF assms]]
  have "\<exists>d. Ensure name c d \<in> set schemaSteps" if "(name, c) \<in> set laterNames" for name c
    using that by (rule later_ensured)
  then have later: "c \<in> set (tableInfo ?cat name)" if "(name, c) \<in> set laterNames" for name c
    using that fin by fastforce
  have table: "hasObject d ?cat" if "(lbl, d) \<in> set migrations" and s: "Ddl d \<in> set schemaSteps" for lbl d
  proof (cases d)
    case (CreateTable name columns constraints)
    have "legacy ?cat" using assms by (rule legacy_fold) simp
    then have "legacyTable d ?cat" using that(1) unfolding legacy_def list_all_iff by blast
    then show ?thesis using fin [OF s] later CreateTable by (auto simp: list_all_iff)
  qed (use fin [OF s] in simp_all)
  have "hasObject d ?cat" if "d \<in> snd ` set migrations" for d
  proof -
    from that obtain lbl where m: "(lbl, d) \<in> set migrations" by auto
    have "Ddl d \<in> set schemaSteps"
      using imageI [OF m, of "\<lambda>(_, d). Ddl d"]
      unfolding schemaSteps_def by (simp only: set_append set_map Un_iff prod.case simp_thms)
    with m show ?thesis by (rule table)
  qed
  moreover have "hasObject alertTenantHistoryIndexDDL ?cat"
  proof -
    have "Ddl alertTenantHistoryIndexDDL \<in> set schemaSteps"
      unfolding schemaSteps_def by (simp only: set_append list.set Un_iff insert_iff simp_thms)
    from fin [OF this] show ?thesis unfolding alertTenantHistoryIndexDDL_def by (simp only: stepDone.simps hasObject.simps)
  qed
  ultimately show ?thesis unfolding hasSchema_def list_all_iff by (simp only: set_append set_map list.set) blast
qed

section \<open>What opening runs\<close>

text \<open>
  A part of \<open>Open\<close> that runs these steps: it stops after some of them, with the database closed and an error, or returns
  after all of them; without a failing call and with the journal mode accepted it returns
  when the steps can run.
\<close>

definition performs :: "migration list \<Rightarrow> (conn, open_error, unit) sm \<Rightarrow> bool" where
  "performs ss m \<longleftrightarrow> (\<forall>c res c'. m c = (res, c') \<longrightarrow>
     (\<exists>k. cn_catalog c' = fold doStep (take k ss) (cn_catalog c)) \<and>
     (res = Inr () \<longrightarrow> cn_catalog c' = fold doStep ss (cn_catalog c)) \<and>
     (cn_open c' \<longleftrightarrow> cn_open c \<and> res = Inr ()) \<and>
     cn_walMode c' = cn_walMode c \<and>
     (canAll canStep doStep ss (cn_catalog c) \<and> cn_faults c = [] \<and> cn_walMode c = ''wal'' \<longrightarrow> res = Inr () \<and> cn_faults c' = []))"

lemma performs_bind:
  assumes "performs ss m" and "performs ts n"
  shows "performs (ss @ ts) (bindm m (\<lambda>_. n))"
  unfolding performs_def
proof (intro allI impI)
  fix c res c' assume run: "bindm m (\<lambda>_. n) c = (res, c')"
  obtain r1 c1 where m: "m c = (r1, c1)" by (cases "m c")
  note a = assms(1) [unfolded performs_def, rule_format, OF m]
  show "(\<exists>k. cn_catalog c' = fold doStep (take k (ss @ ts)) (cn_catalog c)) \<and>
     (res = Inr () \<longrightarrow> cn_catalog c' = fold doStep (ss @ ts) (cn_catalog c)) \<and>
     (cn_open c' \<longleftrightarrow> cn_open c \<and> res = Inr ()) \<and>
     cn_walMode c' = cn_walMode c \<and>
     (canAll canStep doStep (ss @ ts) (cn_catalog c) \<and> cn_faults c = [] \<and> cn_walMode c = ''wal'' \<longrightarrow> res = Inr () \<and> cn_faults c' = [])"
  proof (cases r1)
    case (Inl e)
    then have r: "res = Inl e" "c' = c1" using run m by (simp_all add: bindm_def)
    from a obtain k where "cn_catalog c1 = fold doStep (take k ss) (cn_catalog c)" by blast
    also have "take k ss = take (min k (length ss)) (ss @ ts)" by (simp add: min_def)
    finally have "\<exists>k. cn_catalog c1 = fold doStep (take k (ss @ ts)) (cn_catalog c)" by blast
    then show ?thesis using a r Inl by (auto simp: canAll_append simp del: take_append fold_append)
  next
    case (Inr u)
    then have n: "n c1 = (res, c')" using run m by (simp add: bindm_def)
    note b = assms(2) [unfolded performs_def, rule_format, OF n]
    have c1: "cn_catalog c1 = fold doStep ss (cn_catalog c)" using a Inr by simp
    from b obtain k where "cn_catalog c' = fold doStep (take k ts) (cn_catalog c1)" by blast
    then have "cn_catalog c' = fold doStep (take (length ss + k) (ss @ ts)) (cn_catalog c)" using c1 by simp
    then have "\<exists>k. cn_catalog c' = fold doStep (take k (ss @ ts)) (cn_catalog c)" by blast
    then show ?thesis using a b c1 Inr by (auto simp: canAll_append simp del: take_append)
  qed
qed

lemma performs_one:
  assumes "\<And>c res c'. m c = (res, c') \<Longrightarrow>
    (case res of
       Inl _ \<Rightarrow> cn_catalog c' = cn_catalog c \<and> \<not> cn_open c' \<and> cn_walMode c' = cn_walMode c \<and> \<not> (canStep s (cn_catalog c) \<and> cn_faults c = [])
     | Inr _ \<Rightarrow> cn_catalog c' = doStep s (cn_catalog c) \<and> cn_open c' = cn_open c \<and> cn_walMode c' = cn_walMode c \<and>
         (cn_faults c = [] \<longrightarrow> cn_faults c' = []))"
  shows "performs [s] m"
  unfolding performs_def
proof (intro allI impI)
  fix c res c' assume "m c = (res, c')"
  from assms [OF this] show "(\<exists>k. cn_catalog c' = fold doStep (take k [s]) (cn_catalog c)) \<and>
     (res = Inr () \<longrightarrow> cn_catalog c' = fold doStep [s] (cn_catalog c)) \<and>
     (cn_open c' \<longleftrightarrow> cn_open c \<and> res = Inr ()) \<and>
     cn_walMode c' = cn_walMode c \<and>
     (canAll canStep doStep [s] (cn_catalog c) \<and> cn_faults c = [] \<and> cn_walMode c = ''wal'' \<longrightarrow> res = Inr () \<and> cn_faults c' = [])"
    by (cases res) (auto intro: exI [of _ 0] exI [of _ 1])
qed

lemma performs_ddl: "performs [Ddl d] (orClose msg (onCatalog (runDDL d)))"
  by (rule performs_one)
    (auto simp: orClose_def onCatalog_def call_def Let_def canStep_def doStep_def split: sum.splits prod.splits if_splits)

lemma performs_ensure: "performs [Ensure table column def] (orClose msg (ensureColumn table column def))"
proof (rule performs_one, goal_cases)
  case (1 c res c')
  show ?case
  proof (cases "column \<in> set (tableInfo (cn_catalog c) table)")
    case True
    then show ?thesis using 1
      by (auto simp: orClose_def ensureColumn_def call_def bindm_def ret_def Let_def canStep_def doStep_def
          split: sum.splits prod.splits if_splits)
  next
    case False
    then show ?thesis using 1
      by (auto simp: orClose_def ensureColumn_def onCatalog_def call_def bindm_def Let_def canStep_def doStep_def
          split: sum.splits prod.splits if_splits)
  qed
qed

lemma performs_forEach:
  "(\<And>x. x \<in> set xs \<Longrightarrow> performs [g x] (f x)) \<Longrightarrow> performs (map g xs) (forEach xs f)"
proof (induction xs)
  case Nil
  then show ?case by (simp add: performs_def ret_def)
next
  case (Cons x xs)
  then have "performs ([g x] @ map g xs) (bindm (f x) (\<lambda>_. forEach xs f))" by (intro performs_bind) auto
  then show ?case by simp
qed

lemma migrateSchema_performs: "performs schemaSteps migrateSchema"
proof -
  have "performs (map (\<lambda>(_, d). Ddl d) migrations)
      (forEach migrations (\<lambda>(name, sql). orClose (''migrate '' @ name @ '' table'') (onCatalog (runDDL sql))))"
    by (rule performs_forEach) (auto intro: performs_ddl)
  moreover have "performs (map (\<lambda>(table, column, def). Ensure table column def) laterColumns)
      (forEach laterColumns (\<lambda>(table, name, def).
        orClose (''migrate '' @ table @ '' '' @ name @ '' column'') (ensureColumn table name def)))"
    by (rule performs_forEach) (auto intro: performs_ensure)
  ultimately have "performs (map (\<lambda>(_, d). Ddl d) migrations @
      [Ensure ''clusters'' ''agent_version'' (''TEXT NOT NULL DEFAULT '' @ sqlText '''')] @
      map (\<lambda>(table, column, def). Ensure table column def) laterColumns @ [Ddl alertTenantHistoryIndexDDL]) migrateSchema"
    unfolding migrateSchema_def by (intro performs_bind performs_ensure performs_ddl)
  then show ?thesis by (simp only: schemaSteps_def append_Cons append_Nil)
qed

lemma performs_calls:
  "performs [] (orClose msg (pragma name val))" "performs [] (orClose msg (call (\<lambda>c. Inr ((), c))))" "performs [] (ret ())"
  "performs [] enableWAL"
  by (auto simp: performs_def orClose_def pragma_def call_def enableWAL_def bindm_def modify_def throw_def ret_def Let_def
      split: sum.splits prod.splits if_splits)

lemma performs_if: "performs ss m \<Longrightarrow> performs ss n \<Longrightarrow> performs ss (if b then m else n)"
  by simp

lemma bindm_twice:
  "m c = (r, c1) \<Longrightarrow> bindm (bindm m (\<lambda>_. n)) f c = (case r of Inl e \<Rightarrow> (Inl e, c1) | Inr _ \<Rightarrow> bindm n f c1)"
  by (simp add: bindm_def split: sum.split)

lemma open_run:
  assumes "openSchema dbPath c = (res, c')" and "\<not> cn_open c"
  shows "\<exists>k. cn_catalog c' = fold doStep (take k schemaSteps) (cn_catalog c)"
    and "res = Inr () \<Longrightarrow> cn_catalog c' = fold doStep schemaSteps (cn_catalog c)"
    and "cn_open c' \<longleftrightarrow> res = Inr ()"
    and "canAll canStep doStep schemaSteps (cn_catalog c) \<Longrightarrow> cn_faults c = [] \<Longrightarrow> cn_walMode c = ''wal'' \<Longrightarrow> res = Inr ()"
proof -
  let ?first = "mapErr (OpenErr ''open sqlite database'') (call (\<lambda>c. Inr ((), c\<lparr>cn_open := True\<rparr>)))"
  let ?rest = "bindm (orClose ''connect to sqlite database'' (call (\<lambda>c. Inr ((), c)))) (\<lambda>_.
     bindm (orClose ''enable sqlite foreign keys'' (pragma ''foreign_keys'' ''ON'')) (\<lambda>_.
     bindm (orClose ''set sqlite busy timeout'' (pragma ''busy_timeout'' ''5000'')) (\<lambda>_.
     bindm (if \<not> isInMemoryPath dbPath then enableWAL else ret ()) (\<lambda>_.
     orClose ''set sqlite synchronous mode'' (pragma ''synchronous'' ''NORMAL'')))))"
  have "performs ([] @ [] @ [] @ [] @ []) ?rest"
    by (intro performs_bind performs_if performs_calls)
  then have rest: "performs ([] @ schemaSteps) (bindm ?rest (\<lambda>_. migrateSchema))"
    by (intro performs_bind migrateSchema_performs) simp
  obtain r1 c1 where f: "?first c = (r1, c1)" by (cases "?first c")
  have eq: "openSchema dbPath c = (case r1 of Inl e \<Rightarrow> (Inl e, c1) | Inr _ \<Rightarrow> bindm ?rest (\<lambda>_. migrateSchema) c1)"
    using f unfolding openSchema_def connect_def by (rule bindm_twice)
  have c1: "cn_catalog c1 = cn_catalog c" "cn_walMode c1 = cn_walMode c" "cn_faults c = [] \<Longrightarrow> cn_faults c1 = []"
    "cn_faults c = [] \<Longrightarrow> \<exists>u. r1 = Inr u" "cn_open c1 = (\<exists>u. r1 = Inr u)"
    using f assms(2) by (auto simp: mapErr_def call_def Let_def split: prod.splits sum.splits if_splits)
  have "(\<exists>k. cn_catalog c' = fold doStep (take k schemaSteps) (cn_catalog c)) \<and>
     (res = Inr () \<longrightarrow> cn_catalog c' = fold doStep schemaSteps (cn_catalog c)) \<and> (cn_open c' \<longleftrightarrow> res = Inr ()) \<and>
     (canAll canStep doStep schemaSteps (cn_catalog c) \<and> cn_faults c = [] \<and> cn_walMode c = ''wal'' \<longrightarrow> res = Inr ())"
  proof (cases r1)
    case (Inl e)
    then show ?thesis using eq assms c1 by (auto intro: exI [of _ 0])
  next
    case (Inr u)
    then have "bindm ?rest (\<lambda>_. migrateSchema) c1 = (res, c')" using eq assms(1) by simp
    from rest [unfolded performs_def, rule_format, OF this] show ?thesis using c1 Inr by simp
  qed
  then show "\<exists>k. cn_catalog c' = fold doStep (take k schemaSteps) (cn_catalog c)"
    "res = Inr () \<Longrightarrow> cn_catalog c' = fold doStep schemaSteps (cn_catalog c)"
    "cn_open c' \<longleftrightarrow> res = Inr ()"
    "canAll canStep doStep schemaSteps (cn_catalog c) \<Longrightarrow> cn_faults c = [] \<Longrightarrow> cn_walMode c = ''wal'' \<Longrightarrow> res = Inr ()"
    by simp_all
qed

section \<open>The property\<close>

text \<open>C8: Upgrading is safe to interrupt. Take a database of this or an earlier release (tables may be missing, and so may
  the columns that were introduced later) and an attempt to open it in which any calls fail. The attempt returns an open
  database or an error with the database closed. Opening again then succeeds, leaves the schema of this release and keeps
  every table with its constraints and every row with its values, new columns holding their defaults; the result is the
  one of an upgrade that was never interrupted, and opening it once more changes nothing.\<close>

theorem open_resumes:
  assumes "legacy (cn_catalog c)" and "\<not> cn_open c" and "openSchema dbPath c = (res, c1)"
    and "fresh = \<lparr>cn_catalog = cn_catalog c1, cn_pragmas = [], cn_walMode = ''wal'', cn_open = False, cn_faults = []\<rparr>"
    and "openSchema dbPath fresh = (res2, c2)"
  shows "(cn_open c1 \<longleftrightarrow> res = Inr ()) \<and> res2 = Inr () \<and> cn_open c2 \<and> hasSchema (cn_catalog c2) \<and>
    extends (cn_catalog c) (cn_catalog c2) \<and>
    cn_catalog (snd (openSchema dbPath (fresh\<lparr>cn_catalog := cn_catalog c\<rparr>))) = cn_catalog c2 \<and>
    cn_catalog (snd (openSchema dbPath (fresh\<lparr>cn_catalog := cn_catalog c2\<rparr>))) = cn_catalog c2"
proof -
  let ?up = "fold doStep schemaSteps"
  have clean: "fst (openSchema dbPath (fresh\<lparr>cn_catalog := cat\<rparr>)) = Inr () \<and>
      cn_catalog (snd (openSchema dbPath (fresh\<lparr>cn_catalog := cat\<rparr>))) = ?up cat"
    if "canAll canStep doStep schemaSteps cat" for cat
    using open_run(2,4) [where dbPath = dbPath and c = "fresh\<lparr>cn_catalog := cat\<rparr>", OF prod.collapse [symmetric]] that assms(4) by simp
  note can = legacy_canAll [OF assms(1)]
  obtain k where k: "cn_catalog c1 = fold doStep (take k schemaSteps) (cn_catalog c)"
    using open_run(1) [OF assms(3,2)] by blast
  note resume = upgrade.resume [OF can, of k, folded k]
  have fresh: "fresh\<lparr>cn_catalog := cn_catalog c1\<rparr> = fresh" using assms(4) by simp
  have second: "res2 = Inr ()" "cn_catalog c2 = ?up (cn_catalog c)"
    using clean [OF resume(2)] resume(1) assms(5) by (simp_all add: fresh)
  have "cn_open c2" using open_run(3) [OF assms(5)] second(1) assms(4) by simp
  moreover have "canAll canStep doStep schemaSteps (?up (cn_catalog c))" "?up (?up (cn_catalog c)) = ?up (cn_catalog c)"
    using upgrade.resume [OF can, of "length schemaSteps"] by simp_all
  ultimately show ?thesis
    using open_run(3) [OF assms(3,2)] second clean can legacy_hasSchema [OF assms(1)] fold_extends by simp
qed

text \<open>A database of a release without tenants, with one cluster, whose upgrade fails at its thirtieth call.\<close>

definition oldCatalog :: sqlCatalog where
  "oldCatalog = \<lparr>ct_tables = [''clusters'' \<mapsto>
       \<lparr>rl_columns = [(''id'', ''TEXT PRIMARY KEY''), (''name'', ''TEXT NOT NULL''), (''health'', ''TEXT NOT NULL''),
          (''version'', ''TEXT''), (''node_count'', ''INTEGER''), (''pod_count'', ''INTEGER''),
          (''registered_at'', ''TIMESTAMP''), (''last_heartbeat'', ''TIMESTAMP''), (''labels'', ''TEXT'')],
        rl_constraints = [''UNIQUE (name)''],
        rl_rows = [[''c1'', ''prod'', ''healthy'', ''v1'', ''3'', ''9'', ''t1'', ''t2'', ''{}'']]\<rparr>],
     ct_indexes = [], ct_triggers = []\<rparr>"

definition oldConn :: conn where
  "oldConn = \<lparr>cn_catalog = oldCatalog, cn_pragmas = [], cn_walMode = ''wal'', cn_open = False,
     cn_faults = replicate 29 False @ [True]\<rparr>"

theorem open_resumes_witness:
  "hasSchema (cn_catalog (snd (openSchema ''kfleet.db''
     (oldConn\<lparr>cn_catalog := cn_catalog (snd (openSchema ''kfleet.db'' oldConn)), cn_faults := []\<rparr>))))"
proof -
  have "legacy (cn_catalog oldConn)" by code_simp
  moreover have "\<not> cn_open oldConn" by (simp add: oldConn_def)
  moreover have "oldConn\<lparr>cn_catalog := cat, cn_faults := []\<rparr> =
      \<lparr>cn_catalog = cat, cn_pragmas = [], cn_walMode = ''wal'', cn_open = False, cn_faults = []\<rparr>" for cat
    by (simp add: oldConn_def)
  ultimately show ?thesis
    using open_resumes [OF _ _ prod.collapse [symmetric] _ prod.collapse [symmetric]] by blast
qed

end
