(* ===== verification/ClusterPkg.thy ===== *)
theory ClusterPkg
  imports AgentClient
begin

text \<open>
  The packages that no command imports: \<open>pkg/cluster\<close>, the normalised view of a cluster's nodes and pods, and the early
  agent client \<open>internal/registration\<close> with its placeholder \<open>internal/collector\<close>. The Kubernetes client and the HTTP
  transport are parameters, as in \<open>Collector\<close> and \<open>AgentClient\<close>.
\<close>

section \<open>Nodes\<close>

definition conditionReady :: "NodeCondition list \<Rightarrow> bool" where
  "conditionReady conditions =
     (case find (\<lambda>c. nc_Type c = ''Ready'') conditions of None \<Rightarrow> False | Some c \<Rightarrow> nc_Status c = ''True'')"

fun nodeRolesLoop :: "(string \<times> string) list \<Rightarrow> string list \<Rightarrow> string list" where
  "nodeRolesLoop [] roles = roles"
| "nodeRolesLoop ((key, v) # rest) roles =
     (let roles = (if HasPrefix key ''node-role.kubernetes.io/''
                   then let role = TrimPrefix key ''node-role.kubernetes.io/'' in
                        if role \<noteq> '''' then roles @ [role] else roles
                   else roles)
      in nodeRolesLoop rest (if key = ''kubernetes.io/role'' \<and> v \<noteq> '''' then roles @ [v] else roles))"

definition nodeRoles :: "(string \<times> string) list \<Rightarrow> string list" where
  "nodeRoles labels = sort (nodeRolesLoop labels [])"

text \<open>\<open>List\<close> of the client returns the nodes or an error.\<close>

definition clusterListNodes :: "string + K8sNode list \<Rightarrow> string + Node list" where
  "clusterListNodes listed =
     (case listed of Inl err \<Rightarrow> Inl err
      | Inr nodes \<Rightarrow> Inr (map (\<lambda>node. let ready = conditionReady (kn_Conditions node) in
          \<lparr>n_Name = kn_Name node, n_Status = (if ready then ''Ready'' else ''NotReady''),
           n_Roles = nodeRoles (kn_Labels node), n_Version = kn_KubeletVersion node,
           n_CPUCapacity = kn_CPU node, n_MemoryCapacity = kn_Memory node, n_Ready = ready\<rparr>) nodes))"

section \<open>Pods\<close>

text \<open>A pod with its conditions; \<open>types.Pod\<close> is filled as far as the package goes, the other fields are zero.\<close>

definition clusterPod :: "K8sPod \<times> NodeCondition list \<Rightarrow> Pod" where
  "clusterPod = (\<lambda>(pod, conditions).
     \<lparr>p_Name = kp_Name pod, p_Namespace = kp_Namespace pod, p_Phase = kp_Phase pod, p_NodeName = kp_NodeName pod,
      p_RestartCount = fold (\<lambda>s n. wrap32 (n + cs_RestartCount s)) (kp_ContainerStatuses pod) 0,
      p_Ready = conditionReady conditions,
      p_StartTime = (case kp_StartTime pod of None \<Rightarrow> 0 | Some t \<Rightarrow> t),
      p_SecurityContextKnown = False, p_Privileged = False, p_RunAsNonRoot = False, p_ReadOnlyRootFilesystem = False,
      p_AllowsPrivilegeEscalation = False, p_CapabilitiesDroppedAll = False, p_HostNetwork = False, p_HostPID = False,
      p_HostIPC = False\<rparr>)"

text \<open>The list call gets the namespace; the empty one is all namespaces.\<close>

definition clusterListPods ::
  "(string \<Rightarrow> string + (K8sPod \<times> NodeCondition list) list) \<Rightarrow> string \<Rightarrow> string + Pod list" where
  "clusterListPods listPods namespace =
     (case listPods namespace of Inl err \<Rightarrow> Inl err | Inr pods \<Rightarrow> Inr (map clusterPod pods))"

definition clusterServerVersion :: "string option \<Rightarrow> string + string \<Rightarrow> string + string" where
  "clusterServerVersion ctxErr discovery = (case ctxErr of Some err \<Rightarrow> Inl err | None \<Rightarrow> discovery)"

section \<open>The early agent client\<close>

record StubSnapshot =
  sb_NodeCount :: int
  sb_PodCount :: int
  sb_HealthyNodes :: int

definition CollectClusterInfo :: "string option \<Rightarrow> string + StubSnapshot" where
  "CollectClusterInfo ctxErr =
     (case ctxErr of Some err \<Rightarrow> Inl err | None \<Rightarrow> Inr \<lparr>sb_NodeCount = 0, sb_PodCount = 0, sb_HealthyNodes = 0\<rparr>)"

datatype stub_payload = StubRegister string | StubHeartbeat StubSnapshot

record stub_request =
  sr_URL :: string
  sr_Header :: "(string \<times> string) list"
  sr_Payload :: stub_payload

text \<open>The body of a reply is decoded to the token it carries, or not at all.\<close>

record stub_reply =
  sy_StatusCode :: int
  sy_Status :: string
  sy_Token :: "string option"

type_synonym 'w stub_transport = "stub_request \<Rightarrow> 'w \<Rightarrow> (string + stub_reply) \<times> 'w"

datatype stub_error = StubEncode | StubCreate | StubSend string | StubStatus string | StubDecode | StubEmptyToken

definition registrationClient :: "string \<Rightarrow> string" where
  "registrationClient hubURL = TrimRightC (CHR ''/'') hubURL"

text \<open>\<open>encodes\<close> and \<open>validURL\<close> stand for \<open>json.Marshal\<close> and \<open>http.NewRequest\<close>; the flag tells whether a body is read.\<close>

definition postJSON ::
  "(stub_payload \<Rightarrow> bool) \<Rightarrow> (string \<Rightarrow> bool) \<Rightarrow> 'w stub_transport \<Rightarrow> string \<Rightarrow> string \<Rightarrow> string \<Rightarrow> stub_payload \<Rightarrow> bool \<Rightarrow>
     ('w, stub_error, string) sm" where
  "postJSON encodes validURL transport hubURL path token pl wantsBody =
     (if \<not> encodes pl then throw StubEncode
      else if \<not> validURL (hubURL @ path) then throw StubCreate
      else bindm (mapErr StubSend (transport
             \<lparr>sr_URL = hubURL @ path,
              sr_Header = (''Content-Type'', ''application/json'') #
                (if token \<noteq> '''' then [(''Authorization'', ''Bearer '' @ token)] else []),
              sr_Payload = pl\<rparr>)) (\<lambda>resp.
           if sy_StatusCode resp < 200 \<or> sy_StatusCode resp \<ge> 300 then throw (StubStatus (sy_Status resp))
           else if \<not> wantsBody then ret ''''
           else case sy_Token resp of None \<Rightarrow> throw StubDecode | Some t \<Rightarrow> ret t))"

definition stubRegister ::
  "(stub_payload \<Rightarrow> bool) \<Rightarrow> (string \<Rightarrow> bool) \<Rightarrow> 'w stub_transport \<Rightarrow> string \<Rightarrow> string \<Rightarrow> ('w, stub_error, string) sm" where
  "stubRegister encodes validURL transport hubURL name =
     bindm (postJSON encodes validURL transport hubURL ''/api/v1/agents/register'' '''' (StubRegister name) True) (\<lambda>token.
     if token = '''' then throw StubEmptyToken else ret token)"

definition stubHeartbeat ::
  "(stub_payload \<Rightarrow> bool) \<Rightarrow> (string \<Rightarrow> bool) \<Rightarrow> 'w stub_transport \<Rightarrow> string \<Rightarrow> string \<Rightarrow> StubSnapshot \<Rightarrow> ('w, stub_error, string) sm" where
  "stubHeartbeat encodes validURL transport hubURL token snap =
     postJSON encodes validURL transport hubURL ''/api/v1/agents/heartbeat'' token (StubHeartbeat snap) False"

section \<open>Agreement with the agent's collector\<close>

text \<open>Both packages see the same roles, in the same order, and call the same nodes ready.\<close>

lemma nodeRolesLoop_entries: "nodeRolesLoop labels roles = roles @ nodeRoleEntries labels"
proof (induction labels arbitrary: roles)
  case (Cons kv rest)
  have "\<not> HasPrefix ''kubernetes.io/role'' rolePrefix" by code_simp
  then show ?case by (cases kv) (auto simp: Cons.IH rolePrefix_def Let_def)
qed simp

theorem cluster_agrees_with_collector:
  "clusterListNodes (Inr nodes) = Inr (map (\<lambda>node. let x = nodeInfo node; ready = (xn_Status x = ''Ready'') in
     \<lparr>n_Name = xn_Name x, n_Status = (if ready then ''Ready'' else ''NotReady''), n_Roles = xn_Roles x,
      n_Version = xn_K8sVersion x, n_CPUCapacity = xn_CPUCapacity x, n_MemoryCapacity = xn_MemoryCapacity x,
      n_Ready = ready\<rparr>) nodes)"
proof -
  have ready: "conditionReady cs \<longleftrightarrow> nodeStatus cs = ''Ready''" for cs
    by (simp add: conditionReady_def nodeStatus_def split: option.split)
  show ?thesis by (simp add: clusterListNodes_def nodeInfo_def nodeRoles_def nodeRolesLoop_entries ready Let_def)
qed

text \<open>A token is returned only by a success status with a non-empty token; it comes from exactly one request.\<close>

lemma stubRegister_token:
  assumes "stubRegister encodes validURL transport hubURL name w = (Inr token, w')"
  shows "token \<noteq> '''' \<and> (\<exists>rp. transport \<lparr>sr_URL = hubURL @ ''/api/v1/agents/register'',
      sr_Header = [(''Content-Type'', ''application/json'')], sr_Payload = StubRegister name\<rparr> w = (Inr rp, w') \<and>
    200 \<le> sy_StatusCode rp \<and> sy_StatusCode rp < 300 \<and> sy_Token rp = Some token)"
proof -
  from assms have p: "postJSON encodes validURL transport hubURL ''/api/v1/agents/register'' '''' (StubRegister name) True w = (Inr token, w')"
    and t: "token \<noteq> ''''"
    by (auto simp: stubRegister_def bindm_ok split: if_splits)
  show ?thesis using p t
    by (simp add: postJSON_def bindm_ok mapErr_ok split: if_splits) (force split: if_splits option.splits)
qed

end
