(* ===== verification/Spec2Isabelle.thy ===== *)
theory Spec2Isabelle
  imports Gate LogFacts WsFacts StoreFacts Timeline UserFacts AlertFacts PolicyProps AgentFacts LogEndToEnd
    McpFacts Demo CliFacts Receiver Frontend MigrationFacts ClusterPkg
begin

text \<open>
  kfleet: a fleet dashboard for Kubernetes clusters. An agent in every cluster registers with the hub,
  is approved, and then uploads heartbeats and snapshots; the hub stores them in SQLite, raises alerts,
  evaluates policies, serves a JSON API and a browser, and relays pod logs from the agents.

  \<^bold>\<open>Theories and the code they model.\<close>

  \<^item> \<open>GoLib\<close>, \<open>ErrState\<close>: what the code uses of Go (strings, integer division, slices, maps) and the monad of
    operations that read and change a state and may fail.
  \<^item> \<open>Types\<close>: \<open>pkg/types\<close>, \<open>pkg/api\<close>.
  \<^item> \<open>Db\<close>, \<open>Schema\<close>: the tables of \<open>internal/store/sqlite.go\<close> with the constraints of their DDL. A statement
    may fail (the fault oracle of the database state decides); a transaction rolls back.
  \<^item> \<open>Migration\<close>: \<open>Open\<close> of the store, the DDL and the columns added to older databases, over SQLite's catalog; every call
    may fail. \<open>Db\<close> and the other store theories start from its result.
  \<^item> \<open>StoreClusters\<close>, \<open>StoreUsers\<close>, \<open>StoreEvents\<close>, \<open>StoreSnapshot\<close>, \<open>StoreAlerts\<close>, \<open>BatchDelete\<close>: the operations of
    \<open>internal/store\<close>; \<open>StoreInvariant\<close> states what they keep as two locales.
  \<^item> \<open>AlertManager\<close>: \<open>internal/alerts\<close>; \<open>Policy\<close>, \<open>PolicyFacts\<close>: \<open>internal/policy\<close>.
  \<^item> \<open>Hub\<close>, \<open>ServerUsers\<close>, \<open>ServerAgents\<close>, \<open>ServerApi\<close>: the handlers of \<open>internal/server\<close>. A handler is a function
    of the request and the hub state; an early \<open>WriteError; return\<close> is the left value.
  \<^item> \<open>Routes\<close>: the registration of the routes, the middleware, the dispatch, and the step relation \<open>hub_step\<close> of
    the whole hub (a request, a monitor tick, a delivery, a seed, a bootstrap). \<open>Gate\<close>: what the wrappers
    guarantee for every route. \<open>Frontend\<close>: the handler \<open>server.New\<close> installs, with the mux over API, probes, metrics and web UI
    and the outer middleware; its replies carry headers, cookies and a page.
  \<^item> \<open>LogRelay\<close>, \<open>PodLogs\<close>: \<open>logrelay.go\<close>, \<open>handlers_logs.go\<close>. \<open>WsHub\<close>: \<open>hub.go\<close>, \<open>handlers_ws.go\<close>. Goroutines and
    channels are step relations with reachability.
  \<^item> \<open>GoNet\<close>: \<open>url.PathEscape\<close> and its inverse. \<open>Config\<close>: the environment of hub and agent
    (\<open>internal/config\<close>, \<open>internal/agent/config\<close>, \<open>internal/agentconfig\<close>).
  \<^item> \<open>Collector\<close>: \<open>internal/agent/collector\<close>, from Kubernetes objects to the snapshot the agent uploads.
  \<^item> \<open>AgentClient\<close>: \<open>internal/agent/{registrar,reporter,hubcontact,health,huberrors}\<close>, over an HTTP transport that is a
    parameter. \<open>AgentLoop\<close>: \<open>run\<close> of \<open>cmd/agent\<close>. Its select statements read a schedule, a list of what the
    next one sees (a timer, a ticker, the cancelled context); \<open>None\<close> means that the schedule ended first.
  \<^item> \<open>AgentLogs\<close>, \<open>AgentChannel\<close>: \<open>internal/agent/logs\<close>, the streamer and the log channel, a step relation.
  \<^item> \<open>McpClient\<close>, \<open>McpTools\<close>: \<open>internal/mcp\<close>, the session client of the hub's API with its reader of the log stream, and the
    tools; the transport is a parameter and the client's session is state.
  \<^item> \<open>Demo\<close>: \<open>internal/demo\<close>. \<open>WebUI\<close>: \<open>internal/hub/web\<close>. \<open>Receiver\<close>: \<open>cmd/webhook-receiver\<close>. \<open>ClusterPkg\<close>: \<open>pkg/cluster\<close>,
    \<open>internal/registration\<close>, \<open>internal/collector\<close>, which no command imports.
  \<^item> \<open>GoFlag\<close>, \<open>Cli\<close>: \<open>cmd/kfleet\<close>. Whatever a command does to the machine is a call of \<open>host\<close>, and the state keeps the
    calls made with their answers.
  \<^item> \<open>Samples\<close>: the concrete states of the witnesses.

  \<^bold>\<open>What is shown.\<close>

  \<^item> \<open>StoreInvariant\<close> (locales over statements and operations), \<open>Routes\<close> (\<open>fleet_invariant\<close> and
    \<open>recording_invariant\<close> over hub steps) and this theory: the schema, the last administrator, the audit log.
  \<^item> \<open>StoreFacts\<close>, \<open>Timeline\<close>, \<open>UserFacts\<close>, \<open>AlertFacts\<close>, \<open>PolicyProps\<close>: the store, pagination, accounts and sessions,
    alerts, policies. \<open>AgentGate\<close>, \<open>AgentUploads\<close>: what an agent's credential allows.
  \<^item> \<open>LogFacts\<close>, \<open>WsFacts\<close>: the relay and the broadcast hub in every interleaving. \<open>AgentLogFacts\<close>: the same for the
    agent's channel. \<open>LogEndToEnd\<close>: agent, relay and browser composed.
  \<^item> \<open>AgentHub\<close>: the agent's client on top of the hub's router. \<open>CollectorFacts\<close>: from a pod's containers to the policy
    verdict of the hub. \<open>AgentFacts\<close>: configuration, retry delays, shutdown.
  \<^item> \<open>McpFacts\<close>: what an MCP query costs the hub, and that its reader inverts the hub's event stream. \<open>Receiver\<close>: signed
    deliveries, and the alert manager retrying into a failing receiver. \<open>CliFacts\<close>: what \<open>quickstart\<close> leaves behind, that only
    the port-forward is signalled, and that \<open>cleanup\<close> undoes it (locales over the calls of a command). \<open>Demo\<close>, \<open>WebUI\<close>: the
    seeded data and the caching rules.
  \<^item> \<open>Frontend\<close>: what every reply carries, by a contract (a locale) that all handlers keep. \<open>MigrationFacts\<close>: upgrades that can be
    interrupted (a locale for resumable steps, interpreted on the schema).

  \<^bold>\<open>Bounds.\<close> No definition has fuel: the loops are structural or have a measure (the rows that are left,
    the bytes that are left, the schedule); the polls of the command line count the attempts the code allows. Queues have the capacities of the code.

  \<^bold>\<open>Parameters.\<close> bcrypt, SHA-256, \<open>%q\<close> and RFC3339 formatting are fields of \<open>Server\<close>; the clock, the random
  source and the UUIDs are streams of the hub state; the decoded JSON body of a request is an argument. On the agent's
  side the HTTP transport, the JSON codec, the parsers of URLs, durations and PEM data, the jitter of the backoff and
  the Kubernetes API are arguments; so are the machine of the command line, \<open>net.ParseIP\<close> and \<open>json.Valid\<close> of the webhook
  receiver, and the bundle of the web UI.

  \<^bold>\<open>Not modelled.\<close> Logging, the TLS and socket layers, flag parsing and signals of the daemons, the MCP SDK; of SQLite, \<open>net/http\<close> and
  Kubernetes only what the code relies on. Paths with escapes reach the mux decoded.
\<close>

section \<open>The hub as a whole\<close>



text \<open>C2: Once there is an enabled administrator there always is one: no sequence of requests, by any
  users, disables, demotes or deletes the last one.\<close>

theorem hub_admin_survives:
  assumes "hub_steps srv h h'" and "db_wf (hubTables h)" and "hasEnabledAdmin (hubTables h)"
  shows "hasEnabledAdmin (hubTables h')"
  using admin.hub_steps_keep [OF assms(1)] assms(2,3) by simp

theorem hub_admin_survives_witness:
  "hasEnabledAdmin (hubTables (snd (serveHTTP sampleServer sampleBodies (sampleRequest ''DELETE'' ''/api/v1/users/u1'') sampleHub)))"
proof (rule hub_admin_survives)
  show "hub_steps sampleServer sampleHub
      (snd (serveHTTP sampleServer sampleBodies (sampleRequest ''DELETE'' ''/api/v1/users/u1'') sampleHub))"
    by (rule r_into_rtranclp, rule hub_request) (rule prod.collapse [symmetric])
qed (simp_all add: sampleTables_wf sampleTables_admin)

text \<open>C34: The audit log is append-only: what it holds in a state is a prefix of what it holds in every
  later one.\<close>

theorem hub_audit_append_only:
  assumes "hub_steps srv h h'"
  shows "prefix (t_audit (hubTables h)) (t_audit (hubTables h'))"
  using audit_log.hub_steps_keep [OF assms, of "t_audit (hubTables h)"] by simp

theorem hub_audit_append_only_witness:
  "prefix (t_audit (hubTables sampleHub)) (t_audit (hubTables (snd (BootstrapAdmin sampleServer ''a'' ''b'' ''c'' sampleHub))))"
  by (rule hub_audit_append_only, rule r_into_rtranclp, rule hub_bootstrap) (rule prod.collapse [symmetric])

end
